(* ===== verification/RC_Prelude.thy ===== *)
theory RC_Prelude
  imports Main "HOL-Library.Char_ord" "HOL-Library.List_Lexorder" "HOL-Library.Product_Lexorder"
begin

text \<open>
  Shared vocabulary of the development: results of fallible operations (a sum, \<open>Inl\<close> for the
  raised exception), SQL tables as lists of rows with \<open>SELECT\<close>, \<open>UPDATE\<close>, \<open>DELETE\<close> and
  \<open>INSERT\<close>, JSON values and the text columns that hold them, reachable states of a transition
  relation, and the interface locales that several components share (invariants of transition
  systems, life cycles with terminal states).
\<close>

named_theorems result_simps \<open>unfolding rules for operations that return a result\<close>
named_theorems table_simps \<open>look-up and update laws of tables\<close>

section \<open>Results\<close>

text \<open>
  Exceptions the modelled code raises. The persistence errors are those of
  \<open>router_control/persistence/errors.py\<close>; \<open>IntegrityError\<close> is SQLite's constraint violation and
  \<open>JSONDecodeError\<close>, \<open>AttributeError\<close>, \<open>ValueError\<close>, \<open>KeyError\<close> are Python's own.
\<close>

datatype store_error =
    ConflictError string
  | PreconditionFailed string
  | IdempotencyConflict string
  | StaleFenceError string
  | NotFoundError string
  | FenceExpiredError string
  | MutexHolderRequiredError string
  | RecoveryConflictError string
  | EffectTransitionError string
  | UnknownBootError string
  | ArtifactNotRestorableError string
  | IntegrityError string
  | JSONDecodeError
  | AttributeError
  | TypeError
  | KeyError string
  | ValueError string

type_synonym 'a res = "store_error + 'a"

definition rbind :: "'e + 'a \<Rightarrow> ('a \<Rightarrow> 'e + 'b) \<Rightarrow> 'e + 'b" where
  "rbind m f = (case m of Inl e \<Rightarrow> Inl e | Inr x \<Rightarrow> f x)"

lemma rbind_Inl [simp]: "rbind (Inl e) f = Inl e"
  by (simp add: rbind_def)

lemma rbind_Inr [simp]: "rbind (Inr x) f = f x"
  by (simp add: rbind_def)

lemma rbind_eq_Inr [result_simps]:
  "rbind m f = Inr y \<longleftrightarrow> (\<exists>x. m = Inr x \<and> f x = Inr y)"
  by (cases m) auto

lemma rbind_eq_Inl [result_simps]:
  "rbind m f = Inl e \<longleftrightarrow> m = Inl e \<or> (\<exists>x. m = Inr x \<and> f x = Inl e)"
  by (cases m) auto

lemma rbind_assoc: "rbind (rbind m f) g = rbind m (\<lambda>x. rbind (f x) g)"
  by (cases m) auto

lemma map_sum_eq_Inr [result_simps]: "map_sum f g x = Inr y \<longleftrightarrow> (\<exists>a. x = Inr a \<and> y = g a)"
  by (cases x) auto

lemma map_sum_eq_Inl [result_simps]: "map_sum f g x = Inl e \<longleftrightarrow> (\<exists>a. x = Inl a \<and> e = f a)"
  by (cases x) auto

text \<open>A check that raises: the \<open>if bad: raise err\<close> of the source.\<close>

definition raise_if :: "bool \<Rightarrow> 'e \<Rightarrow> 'e + unit" where
  "raise_if bad err = (if bad then Inl err else Inr ())"

lemma raise_if_Inr [result_simps]: "raise_if bad err = Inr u \<longleftrightarrow> \<not> bad"
  by (simp add: raise_if_def)

lemma raise_if_Inl [result_simps]: "raise_if bad err = Inl e \<longleftrightarrow> bad \<and> e = err"
  by (auto simp add: raise_if_def)

lemma rbind_raise_if [simp]: "rbind (raise_if bad err) f = (if bad then Inl err else f ())"
  by (simp add: raise_if_def)

section \<open>Tables\<close>

text \<open>
  A table is the list of its rows in insertion order. \<open>SELECT ... fetchone()\<close> on a condition is
  \<open>find\<close>; an \<open>UPDATE\<close> maps the rows that satisfy its \<open>WHERE\<close> clause and its \<open>rowcount\<close> is their
  number; a \<open>DELETE\<close> filters; an \<open>INSERT\<close> appends, after the uniqueness check.
\<close>

definition sql_update :: "('r \<Rightarrow> bool) \<Rightarrow> ('r \<Rightarrow> 'r) \<Rightarrow> 'r list \<Rightarrow> 'r list" where
  "sql_update P f rows = map (\<lambda>r. if P r then f r else r) rows"

definition sql_rowcount :: "('r \<Rightarrow> bool) \<Rightarrow> 'r list \<Rightarrow> nat" where
  "sql_rowcount P rows = length (filter P rows)"

definition sql_delete :: "('r \<Rightarrow> bool) \<Rightarrow> 'r list \<Rightarrow> 'r list" where
  "sql_delete P rows = filter (\<lambda>r. \<not> P r) rows"

definition row_by :: "('r \<Rightarrow> 'k) \<Rightarrow> 'k \<Rightarrow> 'r list \<Rightarrow> 'r option" where
  "row_by key k rows = find (\<lambda>r. key r = k) rows"

lemma row_by_Nil [simp]: "row_by key k [] = None"
  by (simp add: row_by_def)

lemma row_by_Cons [simp]:
  "row_by key k (r # rows) = (if key r = k then Some r else row_by key k rows)"
  by (simp add: row_by_def)

lemma row_by_append [table_simps]:
  "row_by key k (rows @ rows') =
     (case row_by key k rows of Some r \<Rightarrow> Some r | None \<Rightarrow> row_by key k rows')"
  by (induction rows) auto

lemma find_append_None: "find P xs = None \<Longrightarrow> find P (xs @ ys) = find P ys"
  by (induction xs) (auto split: if_splits)

lemma find_append:
  "find P (xs @ ys) = (case find P xs of Some x \<Rightarrow> Some x | None \<Rightarrow> find P ys)"
  by (induction xs) auto

lemma row_by_Some_key: "row_by key k rows = Some r \<Longrightarrow> key r = k"
  by (induction rows) (auto split: if_splits)

lemma row_by_Some_mem: "row_by key k rows = Some r \<Longrightarrow> r \<in> set rows"
  by (induction rows) (auto split: if_splits)

lemma row_by_None_iff: "row_by key k rows = None \<longleftrightarrow> k \<notin> key ` set rows"
  by (induction rows) auto

lemma row_by_distinct:
  "distinct (map key rows) \<Longrightarrow> r \<in> set rows \<Longrightarrow> row_by key (key r) rows = Some r"
  by (induction rows) (auto simp: image_iff)

lemma row_by_Some_iff:
  "distinct (map key rows) \<Longrightarrow> row_by key k rows = Some r \<longleftrightarrow> r \<in> set rows \<and> key r = k"
  using row_by_distinct row_by_Some_key row_by_Some_mem by metis

lemma set_sql_update [table_simps]:
  "set (sql_update P f rows) = (\<lambda>r. if P r then f r else r) ` set rows"
  by (simp add: sql_update_def)

lemma length_sql_update [simp]: "length (sql_update P f rows) = length rows"
  by (simp add: sql_update_def)

lemma map_key_sql_update:
  "(\<And>r. P r \<Longrightarrow> key (f r) = key r) \<Longrightarrow> map key (sql_update P f rows) = map key rows"
  by (induction rows) (auto simp: sql_update_def)

lemma row_by_sql_update:
  "(\<And>r. P r \<Longrightarrow> key (f r) = key r) \<Longrightarrow>
   row_by key k (sql_update P f rows) =
     map_option (\<lambda>r. if P r then f r else r) (row_by key k rows)"
  by (induction rows) (auto simp: sql_update_def)

lemma sql_update_id: "(\<And>r. r \<in> set rows \<Longrightarrow> \<not> P r) \<Longrightarrow> sql_update P f rows = rows"
  by (induction rows) (auto simp: sql_update_def)

lemma sql_update_Nil [simp]: "sql_update P f [] = []"
  by (simp add: sql_update_def)

lemma sql_update_Cons [simp]:
  "sql_update P f (r # rows) = (if P r then f r else r) # sql_update P f rows"
  by (simp add: sql_update_def)

lemma sql_rowcount_Nil [simp]: "sql_rowcount P [] = 0"
  by (simp add: sql_rowcount_def)

lemma sql_rowcount_Cons [simp]:
  "sql_rowcount P (r # rows) = (if P r then Suc (sql_rowcount P rows) else sql_rowcount P rows)"
  by (simp add: sql_rowcount_def)

lemma sql_rowcount_0: "sql_rowcount P rows = 0 \<longleftrightarrow> (\<forall>r \<in> set rows. \<not> P r)"
  by (simp add: sql_rowcount_def filter_empty_conv)

lemma sql_update_unique:
  assumes "distinct (map key rows)" and "row_by key k rows = Some x" and "P x"
    and keys: "\<And>r. P r \<Longrightarrow> key (f r) = key r"
    and "r \<in> set (sql_update P f rows)" and "key r = k"
  shows "r = f x"
proof -
  have "distinct (map key (sql_update P f rows))"
    using assms(1) keys by (simp add: map_key_sql_update)
  then have "row_by key k (sql_update P f rows) = Some r"
    using assms(5,6) by (simp add: row_by_Some_iff)
  moreover have "row_by key k (sql_update P f rows) = Some (f x)"
    using assms(2,3) keys by (simp add: row_by_sql_update)
  ultimately show ?thesis by simp
qed

text \<open>With a unique key, a \<open>WHERE\<close> clause that fixes the key affects exactly the row found by it.\<close>

lemma rowcount_unique:
  assumes "distinct (map key rows)" and "row_by key k rows = Some r"
  shows "sql_rowcount (\<lambda>x. key x = k \<and> P x) rows = (if P r then 1 else 0)"
  using assms
proof (induction rows)
  case Nil
  then show ?case by simp
next
  case (Cons x rows)
  show ?case
  proof (cases "key x = k")
    case True
    with Cons.prems have "x = r" by simp
    moreover from True Cons.prems have "sql_rowcount (\<lambda>x. key x = k \<and> P x) rows = 0"
      by (auto simp: sql_rowcount_0 image_iff)
    ultimately show ?thesis using True by simp
  next
    case False
    with Cons show ?thesis by simp
  qed
qed

lemma sql_delete_Nil [simp]: "sql_delete P [] = []"
  by (simp add: sql_delete_def)

lemma sql_delete_Cons [simp]:
  "sql_delete P (r # rows) = (if P r then sql_delete P rows else r # sql_delete P rows)"
  by (simp add: sql_delete_def)

lemma set_sql_delete [table_simps]: "set (sql_delete P rows) = {r \<in> set rows. \<not> P r}"
  by (auto simp: sql_delete_def)

lemma distinct_map_sql_delete:
  "distinct (map key rows) \<Longrightarrow> distinct (map key (sql_delete P rows))"
  by (induction rows) (auto simp: sql_delete_def)

lemma row_by_sql_delete:
  "distinct (map key rows) \<Longrightarrow>
   row_by key k (sql_delete P rows) =
     (case row_by key k rows of None \<Rightarrow> None | Some r \<Rightarrow> if P r then None else Some r)"
proof (induction rows)
  case Nil
  then show ?case by simp
next
  case (Cons x rows)
  have "row_by key (key x) rows = None" "row_by key (key x) (sql_delete P rows) = None"
    using Cons.prems by (auto simp: row_by_None_iff table_simps)
  with Cons show ?case by (auto split: option.splits)
qed

text \<open>Greatest value of an integer column, \<open>COALESCE(MAX(c), -1)\<close> of the source.\<close>

definition coalesce_max :: "int \<Rightarrow> int list \<Rightarrow> int" where
  "coalesce_max dflt xs = (if xs = [] then dflt else Max (set xs))"

lemma coalesce_max_upper: "x \<in> set xs \<Longrightarrow> x \<le> coalesce_max d xs"
  by (auto simp: coalesce_max_def)

section \<open>JSON values and text columns\<close>

datatype json =
    JNull
  | JBool bool
  | JInt int
  | JStr string
  | JArr "json list"
  | JObj "(string \<times> json) list"

text \<open>
  A text column holds either the output of \<open>json.dumps\<close> or other text, on which \<open>json.loads\<close>
  raises. A Python dictionary is its association list, the first entry of a key being its value.
\<close>

datatype stored_text = Json json | Raw string

definition json_loads :: "stored_text \<Rightarrow> json res" where
  "json_loads t = (case t of Json j \<Rightarrow> Inr j | Raw _ \<Rightarrow> Inl JSONDecodeError)"

definition truthy_text :: "stored_text option \<Rightarrow> bool" where
  "truthy_text t = (case t of None \<Rightarrow> False | Some (Json _) \<Rightarrow> True | Some (Raw s) \<Rightarrow> s \<noteq> [])"

text \<open>\<open>d.get(key, default)\<close>; anything but a dictionary has no \<open>get\<close>.\<close>

definition json_get :: "json \<Rightarrow> string \<Rightarrow> json \<Rightarrow> json res" where
  "json_get j k dflt = (case j of
     JObj kvs \<Rightarrow> Inr (case map_of kvs k of None \<Rightarrow> dflt | Some v \<Rightarrow> v)
   | _ \<Rightarrow> Inl AttributeError)"

text \<open>Python's truth value and \<open>int(...)\<close> of a decoded value.\<close>

fun json_truthy :: "json \<Rightarrow> bool" where
  "json_truthy JNull = False"
| "json_truthy (JBool b) = b"
| "json_truthy (JInt n) = (n \<noteq> 0)"
| "json_truthy (JStr s) = (s \<noteq> [])"
| "json_truthy (JArr xs) = (xs \<noteq> [])"
| "json_truthy (JObj kvs) = (kvs \<noteq> [])"

definition digit_value :: "char \<Rightarrow> int option" where
  "digit_value c =
     (if 48 \<le> (of_char c :: nat) \<and> (of_char c :: nat) \<le> 57 then Some (of_char c - 48) else None)"

fun digits_value :: "int \<Rightarrow> string \<Rightarrow> int option" where
  "digits_value acc [] = Some acc"
| "digits_value acc (c # cs) =
     (case digit_value c of None \<Rightarrow> None | Some d \<Rightarrow> digits_value (10 * acc + d) cs)"

definition py_int :: "json \<Rightarrow> int res" where
  "py_int j = (case j of
     JInt n \<Rightarrow> Inr n
   | JBool b \<Rightarrow> Inr (if b then 1 else 0)
   | JStr s \<Rightarrow> (if s = [] then Inl (ValueError ''invalid literal for int()'')
       else case digits_value 0 s of
         None \<Rightarrow> Inl (ValueError ''invalid literal for int()'')
       | Some n \<Rightarrow> Inr n)
   | _ \<Rightarrow> Inl TypeError)"

definition dict_set :: "(string \<times> json) list \<Rightarrow> string \<Rightarrow> json \<Rightarrow> (string \<times> json) list" where
  "dict_set kvs k v = (k, v) # filter (\<lambda>kv. fst kv \<noteq> k) kvs"

lemma map_of_dict_set [simp]: "map_of (dict_set kvs k v) = (map_of kvs)(k \<mapsto> v)"
proof
  fix x
  have "map_of (filter (\<lambda>kv. fst kv \<noteq> k) kvs) x = (if x = k then None else map_of kvs x)" for x
    by (induction kvs) auto
  then show "map_of (dict_set kvs k v) x = ((map_of kvs)(k \<mapsto> v)) x"
    by (simp add: dict_set_def)
qed

section \<open>Python strings\<close>

text \<open>
  Characters are code points below 256. \<open>py_isspace\<close> lists the ones \<open>str.isspace\<close> accepts.
\<close>

definition py_isspace :: "char \<Rightarrow> bool" where
  "py_isspace c = (let n = (of_char c :: nat) in
     (9 \<le> n \<and> n \<le> 13) \<or> (28 \<le> n \<and> n \<le> 32) \<or> n = 133 \<or> n = 160)"

definition py_strip :: "string \<Rightarrow> string" where
  "py_strip s = rev (dropWhile py_isspace (rev (dropWhile py_isspace s)))"

text \<open>\<open>not value or not value.strip()\<close>: the blank test of the identifier and digest checks.\<close>

definition blank :: "string \<Rightarrow> bool" where
  "blank s = (s = [] \<or> py_strip s = [])"

lemma dropWhile_rev_Nil: "dropWhile P (rev xs) = [] \<longleftrightarrow> (\<forall>x \<in> set xs. P x)"
  by (simp add: dropWhile_eq_Nil_conv)

lemma dropWhile_all_iff: "(\<forall>x \<in> set (dropWhile P xs). P x) \<longleftrightarrow> (\<forall>x \<in> set xs. P x)"
  by (induction xs) auto

lemma py_strip_Nil_iff: "py_strip s = [] \<longleftrightarrow> (\<forall>c \<in> set s. py_isspace c)"
  by (simp only: py_strip_def rev_is_Nil_conv dropWhile_rev_Nil dropWhile_all_iff)

lemma blank_iff: "blank s \<longleftrightarrow> (\<forall>c \<in> set s. py_isspace c)"
  by (auto simp: blank_def py_strip_Nil_iff)

section \<open>Reachable states and invariants\<close>

inductive reach :: "('s \<Rightarrow> bool) \<Rightarrow> ('s \<Rightarrow> 's \<Rightarrow> bool) \<Rightarrow> 's \<Rightarrow> bool"
  for init :: "'s \<Rightarrow> bool" and step :: "'s \<Rightarrow> 's \<Rightarrow> bool" where
  reach_init: "init s \<Longrightarrow> reach init step s"
| reach_step: "reach init step s \<Longrightarrow> step s t \<Longrightarrow> reach init step t"

text \<open>A transition system with an inductive invariant.\<close>

locale invariant_system =
  fixes init :: "'s \<Rightarrow> bool"
    and step :: "'s \<Rightarrow> 's \<Rightarrow> bool"
    and inv :: "'s \<Rightarrow> bool"
  assumes inv_init: "init s \<Longrightarrow> inv s"
    and inv_step: "step s t \<Longrightarrow> inv s \<Longrightarrow> inv t"
begin

lemma reach_inv: "reach init step s \<Longrightarrow> inv s"
  by (induction rule: reach.induct) (auto intro: inv_init inv_step)

lemma steps_inv: "step\<^sup>*\<^sup>* s t \<Longrightarrow> inv s \<Longrightarrow> inv t"
  by (induction rule: rtranclp_induct) (auto intro: inv_step)

end

text \<open>
  A life cycle: the transitions the code allows between the values of a status column, and the
  values it treats as final.
\<close>

locale life_cycle =
  fixes allowed :: "'a \<Rightarrow> 'a \<Rightarrow> bool"
    and final :: "'a \<Rightarrow> bool"
  assumes final_stuck: "final a \<Longrightarrow> \<not> allowed a b"
begin

lemma final_forever: "allowed\<^sup>*\<^sup>* a b \<Longrightarrow> final a \<Longrightarrow> b = a"
  by (erule converse_rtranclpE) (auto dest: final_stuck)

lemma two_finals: "allowed\<^sup>*\<^sup>* a b \<Longrightarrow> final a \<Longrightarrow> final b \<Longrightarrow> a = b"
  by (auto dest: final_forever)

end

end
