(* ===== verification/Domain_Model.thy ===== *)
theory Domain_Model
  imports RC_Prelude
begin

text \<open>
  The vendor-neutral domain layer, \<open>src/router_control/domain/\<close>: identifiers (\<open>ids.py\<close>),
  enumerations and the effect life cycle (\<open>enums.py\<close>), entities with their constructor checks
  (\<open>entities.py\<close>), the commissioning life cycle (\<open>commissioning.py\<close>) and the fail-closed policy
  checks (\<open>policies.py\<close>). A constructor is a function \<open>make_...\<close> that returns the entity or the
  \<open>ValueError\<close> its \<open>__post_init__\<close> raises.
\<close>

section \<open>Errors and time\<close>

datatype domain_error =
    IdentityMismatch string
  | CapabilityUnknown string
  | CapabilityExpired string
  | CapabilityUnsupported string
  | StaleObservation string
  | UnmanagedConflict string
  | PlanExpired string
  | PlanUnconfirmed string
  | IllegalCommissioningTransition
  | DomainValueError string

text \<open>
  A \<open>datetime\<close>: its instant in microseconds since the epoch and its \<open>tzinfo\<close>, which is absent or
  reports an offset (in microseconds) that may itself be absent.
\<close>

datatype tz_info = Naive | Aware "int option"

record py_datetime =
  dt_instant :: int
  dt_tz :: tz_info

definition ensure_utc :: "py_datetime \<Rightarrow> string \<Rightarrow> domain_error + py_datetime" where
  "ensure_utc v name = (case dt_tz v of
     Naive \<Rightarrow> Inl (DomainValueError (name @ '' must be timezone-aware UTC''))
   | Aware off \<Rightarrow>
       (if off = None \<or> off \<noteq> Some 0
        then Inl (DomainValueError (name @ '' must use UTC timezone''))
        else Inr v))"

definition dt_after :: "py_datetime \<Rightarrow> py_datetime \<Rightarrow> bool" where
  "dt_after a b = (dt_instant a > dt_instant b)"

lemma ensure_utc_Inr:
  "ensure_utc v n = Inr w \<longleftrightarrow> w = v \<and> dt_tz v = Aware (Some 0)"
  by (auto simp: ensure_utc_def split: tz_info.splits)

section \<open>Identifiers\<close>

text \<open>
  The nine identifier classes of \<open>ids.py\<close> wrap one string and share one check; the model keeps
  the string and the check.
\<close>

type_synonym ident = string

definition validate_non_empty :: "string \<Rightarrow> string \<Rightarrow> domain_error + string" where
  "validate_non_empty v name =
     (if blank v then Inl (DomainValueError (name @ '' must be a non-empty string'')) else Inr v)"

definition validate_digest :: "string \<Rightarrow> string \<Rightarrow> domain_error + string" where
  "validate_digest v name =
     (if blank v then Inl (DomainValueError (name @ '' must be a non-empty digest'')) else Inr v)"

lemma validate_digest_Inr: "validate_digest v n = Inr w \<longleftrightarrow> w = v \<and> \<not> blank v"
  by (auto simp: validate_digest_def)

section \<open>Enumerations\<close>

datatype certification_status =
  Cert_Unknown | Cert_ReadOnlyCertified | Cert_WriteCertified | Cert_Unsupported

datatype plan_confirmation_state = Plan_Pending | Plan_Confirmed | Plan_Expired

datatype observation_collection_status = Obs_Pending | Obs_Succeeded | Obs_Failed

datatype managed_resource_lifecycle = Res_Planned | Res_Present | Res_Missing | Res_Retired

datatype execution_target = Lab | Production

datatype ownership_action = Own_Create | Own_Adopt | Own_Update | Own_Retire

datatype effect_state =
    Eff_Prepared
  | Eff_Dispatching
  | Eff_Acknowledged
  | Eff_ObservedApplied
  | Eff_ObservedAbsent
  | Eff_ObservedPartial
  | Eff_Unknown

definition effect_transitions :: "effect_state \<Rightarrow> effect_state list" where
  "effect_transitions s = (case s of
     Eff_Prepared \<Rightarrow> [Eff_Dispatching]
   | Eff_Dispatching \<Rightarrow> [Eff_Acknowledged, Eff_Unknown]
   | Eff_Acknowledged \<Rightarrow>
       [Eff_ObservedApplied, Eff_ObservedAbsent, Eff_ObservedPartial, Eff_Unknown]
   | Eff_ObservedApplied \<Rightarrow> []
   | Eff_ObservedAbsent \<Rightarrow> []
   | Eff_ObservedPartial \<Rightarrow> [Eff_Unknown]
   | Eff_Unknown \<Rightarrow> [Eff_ObservedApplied, Eff_ObservedAbsent, Eff_ObservedPartial])"

definition can_transition_effect :: "effect_state \<Rightarrow> effect_state \<Rightarrow> bool" where
  "can_transition_effect from to = (to \<in> set (effect_transitions from))"

definition effect_final :: "effect_state \<Rightarrow> bool" where
  "effect_final s = (effect_transitions s = [])"

lemma can_transition_effect_simps [simp]:
  "can_transition_effect Eff_Prepared t \<longleftrightarrow> t = Eff_Dispatching"
  "can_transition_effect Eff_Dispatching t \<longleftrightarrow> t = Eff_Acknowledged \<or> t = Eff_Unknown"
  "can_transition_effect Eff_Acknowledged t \<longleftrightarrow>
     t = Eff_ObservedApplied \<or> t = Eff_ObservedAbsent \<or> t = Eff_ObservedPartial \<or> t = Eff_Unknown"
  "\<not> can_transition_effect Eff_ObservedApplied t"
  "\<not> can_transition_effect Eff_ObservedAbsent t"
  "can_transition_effect Eff_ObservedPartial t \<longleftrightarrow> t = Eff_Unknown"
  "can_transition_effect Eff_Unknown t \<longleftrightarrow>
     t = Eff_ObservedApplied \<or> t = Eff_ObservedAbsent \<or> t = Eff_ObservedPartial"
  by (auto simp: can_transition_effect_def effect_transitions_def)

lemma effect_final_iff: "effect_final s \<longleftrightarrow> s = Eff_ObservedApplied \<or> s = Eff_ObservedAbsent"
  by (cases s) (auto simp: effect_final_def effect_transitions_def)

interpretation effect_cycle: life_cycle can_transition_effect effect_final
  by unfold_locales (auto simp: effect_final_iff)

text \<open>
  Every path from \<open>Prepared\<close> to a later state passes through \<open>Dispatching\<close>: an effect that was
  never dispatched is never reported as acknowledged or observed.
\<close>

lemma effect_path_from_dispatching:
  "can_transition_effect\<^sup>*\<^sup>* s t \<Longrightarrow> s \<noteq> Eff_Prepared \<Longrightarrow> t \<noteq> Eff_Prepared"
proof (induction rule: rtranclp_induct)
  case base
  then show ?case by simp
next
  case (step t u)
  then show ?case by (cases t) auto
qed

section \<open>Commissioning life cycle\<close>

datatype commissioning_state =
    Comm_Draft
  | Comm_Observing
  | Comm_Assessing
  | Comm_ReadyReadOnly
  | Comm_Blocked
  | Comm_Failed
  | Comm_Cancelled

definition terminal_states :: "commissioning_state list" where
  "terminal_states = [Comm_Blocked, Comm_Failed, Comm_Cancelled, Comm_ReadyReadOnly]"

definition legal_transitions :: "commissioning_state \<Rightarrow> commissioning_state list" where
  "legal_transitions s = (case s of
     Comm_Draft \<Rightarrow> [Comm_Observing, Comm_Cancelled]
   | Comm_Observing \<Rightarrow> [Comm_Assessing, Comm_Blocked, Comm_Failed, Comm_Cancelled]
   | Comm_Assessing \<Rightarrow> [Comm_ReadyReadOnly, Comm_Blocked, Comm_Failed, Comm_Cancelled]
   | Comm_ReadyReadOnly \<Rightarrow> [Comm_Cancelled]
   | _ \<Rightarrow> [])"

definition assert_legal_transition ::
  "commissioning_state \<Rightarrow> commissioning_state \<Rightarrow> domain_error + unit" where
  "assert_legal_transition current target =
     (if current \<in> set terminal_states \<and> current \<noteq> Comm_ReadyReadOnly
      then Inl IllegalCommissioningTransition
      else if target \<notin> set (legal_transitions current)
      then Inl IllegalCommissioningTransition
      else Inr ())"

definition legal_transition :: "commissioning_state \<Rightarrow> commissioning_state \<Rightarrow> bool" where
  "legal_transition a b = (assert_legal_transition a b = Inr ())"

definition commissioning_final :: "commissioning_state \<Rightarrow> bool" where
  "commissioning_final s = (s \<in> {Comm_Blocked, Comm_Failed, Comm_Cancelled})"

lemma legal_transition_iff:
  "legal_transition a b \<longleftrightarrow> b \<in> set (legal_transitions a)"
  by (cases a) (auto simp: legal_transition_def assert_legal_transition_def terminal_states_def
      legal_transitions_def)

interpretation commissioning_cycle: life_cycle legal_transition commissioning_final
  by unfold_locales
    (auto simp: legal_transition_iff legal_transitions_def commissioning_final_def)

text \<open>A rank that every legal transition raises: commissioning cannot cycle.\<close>

definition commissioning_rank :: "commissioning_state \<Rightarrow> nat" where
  "commissioning_rank s = (case s of
     Comm_Draft \<Rightarrow> 0 | Comm_Observing \<Rightarrow> 1 | Comm_Assessing \<Rightarrow> 2 | Comm_ReadyReadOnly \<Rightarrow> 3
   | Comm_Blocked \<Rightarrow> 4 | Comm_Failed \<Rightarrow> 4 | Comm_Cancelled \<Rightarrow> 4)"

lemma legal_transition_rank:
  "legal_transition a b \<Longrightarrow> commissioning_rank a < commissioning_rank b"
  by (cases a) (auto simp: legal_transition_iff legal_transitions_def commissioning_rank_def)

end
