(* ===== verification/Domain_Policies.thy ===== *)
theory Domain_Policies
  imports Domain_Model
begin

text \<open>
  Entities of \<open>src/router_control/domain/entities.py\<close> with the checks of their
  \<open>__post_init__\<close> methods, in the order the code runs them, and the fail-closed assertions of
  \<open>src/router_control/domain/policies.py\<close>. The lemmas characterise exactly when each assertion
  passes.
\<close>

section \<open>Entities\<close>

record router_identity =
  ri_router_id :: ident
  ri_vendor :: string
  ri_model :: string
  ri_fingerprint_digest :: string

definition make_router_identity ::
  "ident \<Rightarrow> string \<Rightarrow> string \<Rightarrow> string \<Rightarrow> domain_error + router_identity" where
  "make_router_identity rid vendor model fp =
     rbind (validate_digest fp ''fingerprint_digest'') (\<lambda>fp.
     rbind (raise_if (py_strip vendor = []) (DomainValueError ''vendor must be non-empty'')) (\<lambda>_.
     rbind (raise_if (py_strip model = []) (DomainValueError ''model must be non-empty'')) (\<lambda>_.
     Inr \<lparr>ri_router_id = rid, ri_vendor = vendor, ri_model = model,
          ri_fingerprint_digest = fp\<rparr>)))"

record router_capability =
  rc_capability_id :: ident
  rc_router_id :: ident
  rc_firmware_digest :: string
  rc_certification_status :: certification_status
  rc_observed_at :: py_datetime
  rc_valid_until :: py_datetime
  rc_source :: string

definition make_router_capability ::
  "ident \<Rightarrow> ident \<Rightarrow> string \<Rightarrow> certification_status \<Rightarrow> py_datetime \<Rightarrow> py_datetime \<Rightarrow> string
   \<Rightarrow> domain_error + router_capability" where
  "make_router_capability cid rid fw cert obs valid src =
     rbind (validate_digest fw ''firmware_digest'') (\<lambda>fw.
     rbind (ensure_utc obs ''observed_at'') (\<lambda>obs.
     rbind (ensure_utc valid ''valid_until'') (\<lambda>valid.
     Inr \<lparr>rc_capability_id = cid, rc_router_id = rid, rc_firmware_digest = fw,
          rc_certification_status = cert, rc_observed_at = obs, rc_valid_until = valid,
          rc_source = src\<rparr>)))"

record router_observation =
  ro_observation_id :: ident
  ro_router_id :: ident
  ro_identity_fingerprint_digest :: string
  ro_capability_id :: ident
  ro_state_digest :: string
  ro_resource_version :: string
  ro_observed_at :: py_datetime
  ro_valid_until :: py_datetime
  ro_collection_status :: observation_collection_status
  ro_source :: string

definition make_router_observation ::
  "ident \<Rightarrow> ident \<Rightarrow> string \<Rightarrow> ident \<Rightarrow> string \<Rightarrow> string \<Rightarrow> py_datetime \<Rightarrow> py_datetime
   \<Rightarrow> observation_collection_status \<Rightarrow> string \<Rightarrow> domain_error + router_observation" where
  "make_router_observation oid rid fp cid sd rv obs valid coll src =
     rbind (validate_digest fp ''identity_fingerprint_digest'') (\<lambda>fp.
     rbind (validate_digest sd ''state_digest'') (\<lambda>sd.
     rbind (validate_digest rv ''resource_version'') (\<lambda>rv.
     rbind (ensure_utc obs ''observed_at'') (\<lambda>obs.
     rbind (ensure_utc valid ''valid_until'') (\<lambda>valid.
     Inr \<lparr>ro_observation_id = oid, ro_router_id = rid, ro_identity_fingerprint_digest = fp,
          ro_capability_id = cid, ro_state_digest = sd, ro_resource_version = rv,
          ro_observed_at = obs, ro_valid_until = valid, ro_collection_status = coll,
          ro_source = src\<rparr>)))))"

record desired_revision =
  dr_revision_id :: ident
  dr_router_id :: ident
  dr_revision_number :: int
  dr_desired_digest :: string
  dr_based_on_observation_id :: ident
  dr_created_at :: py_datetime
  dr_deployment_revision_id :: "string option"

definition make_desired_revision ::
  "ident \<Rightarrow> ident \<Rightarrow> int \<Rightarrow> string \<Rightarrow> ident \<Rightarrow> py_datetime \<Rightarrow> string option
   \<Rightarrow> domain_error + desired_revision" where
  "make_desired_revision vid rid n dig oid created dep =
     rbind (validate_digest dig ''desired_digest'') (\<lambda>dig.
     rbind (ensure_utc created ''created_at'') (\<lambda>created.
     rbind (raise_if (n < 1) (DomainValueError ''revision_number must be >= 1'')) (\<lambda>_.
     Inr \<lparr>dr_revision_id = vid, dr_router_id = rid, dr_revision_number = n,
          dr_desired_digest = dig, dr_based_on_observation_id = oid, dr_created_at = created,
          dr_deployment_revision_id = dep\<rparr>)))"

record managed_resource =
  mr_resource_id :: ident
  mr_router_id :: ident
  mr_resource_kind :: string
  mr_logical_key :: string
  mr_owner :: string
  mr_revision_id :: ident
  mr_external_locator_digest :: string
  mr_lifecycle :: managed_resource_lifecycle
  mr_last_observation_id :: ident

definition make_managed_resource ::
  "ident \<Rightarrow> ident \<Rightarrow> string \<Rightarrow> string \<Rightarrow> string \<Rightarrow> ident \<Rightarrow> string
   \<Rightarrow> managed_resource_lifecycle \<Rightarrow> ident \<Rightarrow> domain_error + managed_resource" where
  "make_managed_resource sid rid kind key own vid loc life oid =
     rbind (validate_digest loc ''external_locator_digest'') (\<lambda>loc.
     Inr \<lparr>mr_resource_id = sid, mr_router_id = rid, mr_resource_kind = kind,
          mr_logical_key = key, mr_owner = own, mr_revision_id = vid,
          mr_external_locator_digest = loc, mr_lifecycle = life,
          mr_last_observation_id = oid\<rparr>)"

record change_plan_item =
  pi_resource_id :: ident
  pi_intent_kind :: string
  pi_intent_digest :: string
  pi_intent_json :: "json option"
  pi_ownership_action :: "ownership_action option"
  pi_family_cert_snapshot_json :: "json option"

definition make_change_plan_item ::
  "ident \<Rightarrow> string \<Rightarrow> string \<Rightarrow> json option \<Rightarrow> ownership_action option \<Rightarrow> json option
   \<Rightarrow> domain_error + change_plan_item" where
  "make_change_plan_item sid kind dig ij own snap =
     rbind (validate_digest dig ''intent_digest'') (\<lambda>dig.
     Inr \<lparr>pi_resource_id = sid, pi_intent_kind = kind, pi_intent_digest = dig,
          pi_intent_json = ij, pi_ownership_action = own,
          pi_family_cert_snapshot_json = snap\<rparr>)"

record change_plan =
  cp_plan_id :: ident
  cp_router_id :: ident
  cp_revision_id :: ident
  cp_observation_id :: ident
  cp_expected_desired_digest :: string
  cp_observed_resource_version :: string
  cp_items :: "change_plan_item list"
  cp_confirmation_state :: plan_confirmation_state
  cp_expires_at :: py_datetime
  cp_created_at :: py_datetime
  cp_actor :: string
  cp_deployment_revision_id :: "string option"
  cp_session_binding_hmac :: "string option"
  cp_plan_version :: int
  cp_adopt_acknowledged :: bool
  cp_execution_target :: "execution_target option"

text \<open>The record without checks is what the constructor receives; the result is the checked plan.\<close>

definition make_change_plan :: "change_plan \<Rightarrow> domain_error + change_plan" where
  "make_change_plan p =
     rbind (validate_digest (cp_expected_desired_digest p) ''expected_desired_digest'') (\<lambda>_.
     rbind (validate_digest (cp_observed_resource_version p) ''observed_resource_version'') (\<lambda>_.
     rbind (ensure_utc (cp_expires_at p) ''expires_at'') (\<lambda>_.
     rbind (ensure_utc (cp_created_at p) ''created_at'') (\<lambda>_.
     rbind (raise_if (cp_plan_version p < 1) (DomainValueError ''plan_version must be >= 1'')) (\<lambda>_.
     Inr p)))))"

section \<open>Policies\<close>

definition assert_endpoint_not_identity ::
  "string \<Rightarrow> router_identity \<Rightarrow> domain_error + unit" where
  "assert_endpoint_not_identity endpoint idn =
     (if py_strip endpoint \<noteq> [] \<and> py_strip endpoint = ri_router_id idn
      then Inl (DomainValueError ''endpoint must not equal router identity'') else Inr ())"

definition assert_identity_match :: "router_identity \<Rightarrow> string \<Rightarrow> domain_error + unit" where
  "assert_identity_match expected observed =
     (if ri_fingerprint_digest expected \<noteq> observed
      then Inl (IdentityMismatch ''identity fingerprint mismatch'') else Inr ())"

definition assert_capability_allows_write ::
  "router_capability \<Rightarrow> py_datetime \<Rightarrow> domain_error + unit" where
  "assert_capability_allows_write cap now =
     (if rc_certification_status cap = Cert_Unknown
      then Inl (CapabilityUnknown ''capability unknown'')
      else if rc_certification_status cap = Cert_Unsupported
      then Inl (CapabilityUnsupported ''capability unsupported'')
      else if dt_after now (rc_valid_until cap)
      then Inl (CapabilityExpired ''capability expired'')
      else if rc_certification_status cap \<noteq> Cert_WriteCertified
      then Inl (CapabilityUnsupported ''write certification required'')
      else Inr ())"

definition assert_observation_fresh ::
  "router_observation \<Rightarrow> py_datetime \<Rightarrow> domain_error + unit" where
  "assert_observation_fresh obs now =
     (if ro_collection_status obs \<noteq> Obs_Succeeded
      then Inl (StaleObservation ''observation collection failed'')
      else if dt_after now (ro_valid_until obs)
      then Inl (StaleObservation ''observation stale'')
      else Inr ())"

definition assert_plan_valid :: "change_plan \<Rightarrow> py_datetime \<Rightarrow> domain_error + unit" where
  "assert_plan_valid plan now =
     (if cp_confirmation_state plan = Plan_Expired then Inl (PlanExpired ''plan expired'')
      else if dt_after now (cp_expires_at plan) then Inl (PlanExpired ''plan past expiry'')
      else if cp_confirmation_state plan \<noteq> Plan_Confirmed
      then Inl (PlanUnconfirmed ''plan not confirmed'')
      else Inr ())"

text \<open>The two loops of \<open>assert_no_unmanaged_conflict\<close>, each stopping at the first violation.\<close>

fun check_locators :: "string set \<Rightarrow> string list \<Rightarrow> domain_error + unit" where
  "check_locators managed [] = Inr ()"
| "check_locators managed (d # ds) =
     (if d \<notin> managed then Inl (UnmanagedConflict ''unmanaged resource conflict'')
      else check_locators managed ds)"

fun check_plan_items :: "ident set \<Rightarrow> change_plan_item list \<Rightarrow> domain_error + unit" where
  "check_plan_items ids [] = Inr ()"
| "check_plan_items ids (it # its) =
     (if pi_resource_id it \<notin> ids then Inl (UnmanagedConflict ''plan item targets unmanaged resource'')
      else check_plan_items ids its)"

definition assert_no_unmanaged_conflict ::
  "managed_resource list \<Rightarrow> string list \<Rightarrow> change_plan \<Rightarrow> domain_error + unit" where
  "assert_no_unmanaged_conflict managed conflicting plan =
     (let managed_locators = set (map mr_external_locator_digest managed);
          managed_resource_ids = set (map mr_resource_id managed)
      in rbind (check_locators managed_locators conflicting) (\<lambda>_.
         check_plan_items managed_resource_ids (cp_items plan)))"

definition assert_desired_matches_plan ::
  "desired_revision \<Rightarrow> change_plan \<Rightarrow> domain_error + unit" where
  "assert_desired_matches_plan desired plan =
     (if dr_revision_id desired \<noteq> cp_revision_id plan
      then Inl (DomainValueError ''plan revision mismatch'')
      else if dr_desired_digest desired \<noteq> cp_expected_desired_digest plan
      then Inl (DomainValueError ''plan desired digest mismatch'')
      else Inr ())"

definition assert_observation_matches_plan ::
  "router_observation \<Rightarrow> change_plan \<Rightarrow> domain_error + unit" where
  "assert_observation_matches_plan obs plan =
     (if ro_observation_id obs \<noteq> cp_observation_id plan
      then Inl (StaleObservation ''plan observation mismatch'')
      else if ro_resource_version obs \<noteq> cp_observed_resource_version plan
      then Inl (StaleObservation ''plan observed resource version mismatch'')
      else Inr ())"

section \<open>When the assertions pass\<close>

lemma check_locators_eq:
  "check_locators M ds =
     (if set ds \<subseteq> M then Inr () else Inl (UnmanagedConflict ''unmanaged resource conflict''))"
  by (induction M ds rule: check_locators.induct) auto

lemma check_plan_items_eq:
  "check_plan_items ids its =
     (if pi_resource_id ` set its \<subseteq> ids then Inr ()
      else Inl (UnmanagedConflict ''plan item targets unmanaged resource''))"
  by (induction ids its rule: check_plan_items.induct) auto

text \<open>
  A write is allowed exactly when the capability is certified for writing and has not
  expired; every other certification status and every expired capability is refused.
\<close>

theorem capability_write_fail_closed:
  "assert_capability_allows_write cap now = Inr () \<longleftrightarrow>
     rc_certification_status cap = Cert_WriteCertified \<and>
     dt_instant now \<le> dt_instant (rc_valid_until cap)"
  by (cases "rc_certification_status cap")
    (auto simp: assert_capability_allows_write_def dt_after_def)

text \<open>
  The ownership check passes exactly when every conflicting locator belongs to a managed
  resource and every item of the plan targets a managed resource; otherwise the error is an
  unmanaged conflict.
\<close>

theorem no_unmanaged_conflict_iff:
  "(assert_no_unmanaged_conflict managed conflicting plan = Inr () \<longleftrightarrow>
      set conflicting \<subseteq> mr_external_locator_digest ` set managed \<and>
      pi_resource_id ` set (cp_items plan) \<subseteq> mr_resource_id ` set managed) \<and>
   (case assert_no_unmanaged_conflict managed conflicting plan of
      Inr u \<Rightarrow> True | Inl e \<Rightarrow> (\<exists>m. e = UnmanagedConflict m))"
  by (simp add: assert_no_unmanaged_conflict_def Let_def check_locators_eq check_plan_items_eq)

text \<open>
  A plan may be executed exactly when it is confirmed and not past its expiry, and an
  observation may be used exactly when its collection succeeded and it is still valid.
\<close>

theorem plan_and_observation_gate:
  "(assert_plan_valid plan now = Inr () \<longleftrightarrow>
      cp_confirmation_state plan = Plan_Confirmed \<and>
      dt_instant now \<le> dt_instant (cp_expires_at plan)) \<and>
   (assert_observation_fresh obs now = Inr () \<longleftrightarrow>
      ro_collection_status obs = Obs_Succeeded \<and>
      dt_instant now \<le> dt_instant (ro_valid_until obs))"
  by (cases "cp_confirmation_state plan")
    (auto simp: assert_plan_valid_def assert_observation_fresh_def dt_after_def)

end
