(* ===== verification/Store_Schema.thy ===== *)
theory Store_Schema
  imports Domain_Policies
begin

text \<open>
  The tables of \<open>src/router_control/persistence/migrations.py\<close> that the durable job machinery
  uses, as records of rows, and the constraints SQLite enforces on an \<open>INSERT\<close> (primary keys,
  \<open>UNIQUE\<close>, foreign keys, \<open>CHECK\<close>), whose violation is an \<open>IntegrityError\<close>. A failing operation
  has no resulting database: \<open>transaction()\<close> rolls back.

  Time stamps are the whole seconds that \<open>_utc_now_iso\<close> prints; its fixed-width format orders
  like the seconds. One call of a store method reads the SQLite clock, the wall clock and the
  random source of \<open>uuid4\<close> through a \<open>call_env\<close>; the SQLite clock does not move within a call.
\<close>

section \<open>Environment of a call\<close>

record call_env =
  now_epoch :: "int option"
  sqlite_now :: int
  wall_now :: int
  uuid :: "nat \<Rightarrow> string"

definition utc_now_iso :: "call_env \<Rightarrow> int" where
  "utc_now_iso env = wall_now env div 1000000"

definition new_id :: "string \<Rightarrow> string \<Rightarrow> ident" where
  "new_id prefix u = prefix @ ''_'' @ u"

text \<open>\<open>given or new_id(prefix)\<close>: an absent or empty identifier is replaced by a new one.\<close>

definition id_or_new :: "ident option \<Rightarrow> string \<Rightarrow> string \<Rightarrow> ident" where
  "id_or_new given prefix u = (case given of
     Some s \<Rightarrow> if s = [] then new_id prefix u else s
   | None \<Rightarrow> new_id prefix u)"

lemma new_id_eq_iff [simp]: "new_id p u = new_id p v \<longleftrightarrow> u = v"
  by (simp add: new_id_def)

definition lease_validity_epoch :: "call_env \<Rightarrow> int" where
  "lease_validity_epoch env = (case now_epoch env of Some e \<Rightarrow> e | None \<Rightarrow> sqlite_now env)"

section \<open>Rows\<close>

record site_row =
  site_id :: ident
  site_display_name :: string
  site_timezone :: string
  site_created_at :: int
  site_updated_at :: int

record router_row =
  r_router_id :: ident
  r_site_id :: ident
  r_display_name :: string
  r_vendor :: string
  r_model :: string
  r_hardware_revision :: "string option"
  r_identity_fingerprint :: string
  r_identity_claims_json :: "stored_text option"
  r_credential_ref_id :: "ident option"
  r_lifecycle_status :: string
  r_created_at :: int
  r_updated_at :: int

record endpoint_row =
  ep_endpoint_id :: ident
  ep_router_id :: ident
  ep_kind :: string
  ep_host :: string
  ep_port :: int
  ep_priority :: int
  ep_is_enabled :: bool
  ep_source_address :: "string option"
  ep_created_at :: int
  ep_updated_at :: int

datatype job_status =
    Queued
  | Leased
  | Running
  | Succeeded
  | Failed
  | Cancelled
  | Lost
  | RecoveryRequired

text \<open>The names the code stores and prints for the values of \<open>jobs.status\<close>.\<close>

definition job_status_name :: "job_status \<Rightarrow> string" where
  "job_status_name s = (case s of
     Queued \<Rightarrow> ''Queued'' | Leased \<Rightarrow> ''Leased'' | Running \<Rightarrow> ''Running''
   | Succeeded \<Rightarrow> ''Succeeded'' | Failed \<Rightarrow> ''Failed'' | Cancelled \<Rightarrow> ''Cancelled''
   | Lost \<Rightarrow> ''Lost'' | RecoveryRequired \<Rightarrow> ''RecoveryRequired'')"

lemma job_status_name_inject [simp]: "job_status_name a = job_status_name b \<longleftrightarrow> a = b"
  by (cases a; cases b) (simp_all add: job_status_name_def)

definition job_active :: "job_status \<Rightarrow> bool" where
  "job_active s = (s = Leased \<or> s = Running)"

record operation_row =
  o_operation_id :: ident
  o_router_id :: ident
  o_plan_id :: "ident option"
  o_operation_kind :: string
  o_aggregate_status :: string
  o_actor_type :: string
  o_actor_id :: "string option"
  o_idempotency_record_id :: ident
  o_correlation_id :: "string option"
  o_created_at :: int
  o_updated_at :: int
  o_terminal_at :: "int option"

record idempotency_row =
  i_idempotency_record_id :: ident
  i_scope :: string
  i_router_id :: ident
  i_operation_kind :: string
  i_idempotency_key :: string
  i_request_digest :: string
  i_operation_id :: ident
  i_response_ref :: "stored_text option"
  i_status :: string
  i_created_at :: int
  i_expires_at :: int

record job_row =
  j_job_id :: ident
  j_operation_id :: ident
  j_router_id :: ident
  j_attempt :: int
  j_status :: job_status
  j_lease_owner :: "string option"
  j_lease_until_epoch :: "int option"
  j_heartbeat_at :: "int option"
  j_fencing_token :: int
  j_recovery_state :: "string option"
  j_cancel_requested :: bool
  j_terminal_outcome :: "job_status option"
  j_created_at :: int
  j_updated_at :: int
  j_started_at :: "int option"
  j_finished_at :: "int option"

record lock_row =
  lk_router_id :: ident
  lk_active_job_id :: "ident option"
  lk_lock_owner :: "string option"
  lk_lock_until_epoch :: "int option"
  lk_fencing_token :: int
  lk_updated_at :: int

record step_row =
  s_step_id :: ident
  s_job_id :: ident
  s_ordinal :: int
  s_step_kind :: string
  s_status :: string
  s_attempt :: int
  s_checkpoint_json :: "stored_text option"
  s_error_redacted :: "string option"
  s_started_at :: "int option"
  s_finished_at :: "int option"

record audit_row =
  a_audit_event_id :: ident
  a_occurred_at :: int
  a_actor_type :: string
  a_actor_id :: "string option"
  a_correlation_id :: "string option"
  a_router_id :: "ident option"
  a_operation_id :: "ident option"
  a_job_id :: "ident option"
  a_plan_id :: "ident option"
  a_action :: string
  a_outcome :: string
  a_summary_redacted :: "string option"
  a_request_digest :: "string option"

record fence_row =
  f_fence_id :: ident
  f_router_id :: ident
  f_fence_token :: int
  f_lease_owner :: string
  f_mutex_holder_id :: string
  f_lease_until_epoch :: int
  f_active_job_id :: "ident option"
  f_created_at :: int
  f_updated_at :: int

record effect_row =
  e_effect_id :: ident
  e_router_id :: ident
  e_operation_id :: "ident option"
  e_job_id :: "ident option"
  e_effect_key :: string
  e_current_state :: effect_state
  e_created_at :: int
  e_updated_at :: int

record effect_event_row =
  ev_event_id :: ident
  ev_effect_id :: ident
  ev_from_state :: "effect_state option"
  ev_to_state :: effect_state
  ev_actor_type :: string
  ev_actor_id :: "string option"
  ev_summary_redacted :: "string option"
  ev_occurred_at :: int

record continuation_row =
  ct_continuation_id :: ident
  ct_effect_id :: ident
  ct_continuation_key :: string
  ct_state :: string
  ct_created_at :: int
  ct_updated_at :: int

datatype recovery_request_status =
  Req_Pending | Req_Active | Req_Succeeded | Req_Failed | Req_Conflict

record recovery_row =
  rq_request_id :: ident
  rq_recovery_key :: string
  rq_request_digest :: string
  rq_recovery_action :: string
  rq_parent_request_id :: "ident option"
  rq_operation_id :: "ident option"
  rq_job_id :: "ident option"
  rq_router_id :: "ident option"
  rq_status :: recovery_request_status
  rq_response_digest :: "string option"
  rq_created_at :: int
  rq_updated_at :: int
  rq_terminal_at :: "int option"

record boot_row =
  bt_boot_observation_id :: ident
  bt_router_id :: ident
  bt_boot_id :: string
  bt_boot_marker :: "string option"
  bt_boot_known :: bool
  bt_observed_at :: int
  bt_created_at :: int

text \<open>Of \<open>change_plans\<close> the operations below use the primary key only, as a foreign-key target.\<close>

record db =
  sites :: "site_row list"
  routers :: "router_row list"
  router_endpoints :: "endpoint_row list"
  plan_ids :: "ident list"
  operations :: "operation_row list"
  idempotency_records :: "idempotency_row list"
  jobs :: "job_row list"
  router_mutation_locks :: "lock_row list"
  job_steps :: "step_row list"
  audit_events :: "audit_row list"
  router_execution_fences :: "fence_row list"
  external_effects :: "effect_row list"
  external_effect_events :: "effect_event_row list"
  effect_continuations :: "continuation_row list"
  recovery_requests :: "recovery_row list"
  router_boot_observations :: "boot_row list"

definition empty_db :: db where
  "empty_db = \<lparr>sites = [], routers = [], router_endpoints = [], plan_ids = [], operations = [],
     idempotency_records = [], jobs = [], router_mutation_locks = [], job_steps = [],
     audit_events = [], router_execution_fences = [], external_effects = [],
     external_effect_events = [], effect_continuations = [], recovery_requests = [],
     router_boot_observations = []\<rparr>"

section \<open>Look-ups\<close>

definition get_router :: "db \<Rightarrow> ident \<Rightarrow> router_row option" where
  "get_router d rid = row_by r_router_id rid (routers d)"

definition get_operation :: "db \<Rightarrow> ident \<Rightarrow> operation_row option" where
  "get_operation d oid = row_by o_operation_id oid (operations d)"

definition get_job :: "db \<Rightarrow> ident \<Rightarrow> job_row option" where
  "get_job d jid = row_by j_job_id jid (jobs d)"

definition get_lock :: "db \<Rightarrow> ident \<Rightarrow> lock_row option" where
  "get_lock d rid = row_by lk_router_id rid (router_mutation_locks d)"

definition get_router_execution_fence :: "db \<Rightarrow> ident \<Rightarrow> fence_row option" where
  "get_router_execution_fence d rid = row_by f_router_id rid (router_execution_fences d)"

definition list_jobs_for_operation :: "db \<Rightarrow> ident \<Rightarrow> job_row list" where
  "list_jobs_for_operation d oid =
     sort_key j_attempt (filter (\<lambda>j. j_operation_id j = oid) (jobs d))"

definition list_job_steps :: "db \<Rightarrow> ident \<Rightarrow> step_row list" where
  "list_job_steps d jid = sort_key s_ordinal (filter (\<lambda>s. s_job_id s = jid) (job_steps d))"

definition get_idempotency_for_operation :: "db \<Rightarrow> ident \<Rightarrow> idempotency_row option" where
  "get_idempotency_for_operation d oid = row_by i_operation_id oid (idempotency_records d)"

section \<open>Inserts with their constraints\<close>

definition fk :: "('k \<Rightarrow> bool) \<Rightarrow> 'k option \<Rightarrow> bool" where
  "fk exists v = (case v of None \<Rightarrow> True | Some k \<Rightarrow> exists k)"

definition insert_site :: "site_row \<Rightarrow> db \<Rightarrow> db res" where
  "insert_site r d =
     (if row_by site_id (site_id r) (sites d) \<noteq> None
      then Inl (IntegrityError ''UNIQUE sites.site_id'')
      else Inr (d\<lparr>sites := sites d @ [r]\<rparr>))"

definition insert_router :: "router_row \<Rightarrow> db \<Rightarrow> db res" where
  "insert_router r d =
     (if get_router d (r_router_id r) \<noteq> None
      then Inl (IntegrityError ''UNIQUE routers.router_id'')
      else if row_by site_id (r_site_id r) (sites d) = None
      then Inl (IntegrityError ''FOREIGN KEY routers.site_id'')
      else Inr (d\<lparr>routers := routers d @ [r]\<rparr>))"

definition insert_endpoint :: "endpoint_row \<Rightarrow> db \<Rightarrow> db res" where
  "insert_endpoint r d =
     (if row_by ep_endpoint_id (ep_endpoint_id r) (router_endpoints d) \<noteq> None
      then Inl (IntegrityError ''UNIQUE router_endpoints.endpoint_id'')
      else if row_by (\<lambda>e. (ep_router_id e, ep_kind e, ep_host e, ep_port e))
                (ep_router_id r, ep_kind r, ep_host r, ep_port r) (router_endpoints d) \<noteq> None
      then Inl (IntegrityError ''UNIQUE router_endpoints(router_id, kind, host, port)'')
      else if get_router d (ep_router_id r) = None
      then Inl (IntegrityError ''FOREIGN KEY router_endpoints.router_id'')
      else Inr (d\<lparr>router_endpoints := router_endpoints d @ [r]\<rparr>))"

definition insert_lock :: "lock_row \<Rightarrow> db \<Rightarrow> db res" where
  "insert_lock r d =
     (if get_lock d (lk_router_id r) \<noteq> None
      then Inl (IntegrityError ''UNIQUE router_mutation_locks.router_id'')
      else if get_router d (lk_router_id r) = None
      then Inl (IntegrityError ''FOREIGN KEY router_mutation_locks.router_id'')
      else if \<not> fk (\<lambda>k. get_job d k \<noteq> None) (lk_active_job_id r)
      then Inl (IntegrityError ''FOREIGN KEY router_mutation_locks.active_job_id'')
      else Inr (d\<lparr>router_mutation_locks := router_mutation_locks d @ [r]\<rparr>))"

definition insert_operation :: "operation_row \<Rightarrow> db \<Rightarrow> db res" where
  "insert_operation r d =
     (if get_operation d (o_operation_id r) \<noteq> None
      then Inl (IntegrityError ''UNIQUE operations.operation_id'')
      else if row_by o_idempotency_record_id (o_idempotency_record_id r) (operations d) \<noteq> None
      then Inl (IntegrityError ''UNIQUE operations.idempotency_record_id'')
      else if get_router d (o_router_id r) = None
      then Inl (IntegrityError ''FOREIGN KEY operations.router_id'')
      else if \<not> fk (\<lambda>k. k \<in> set (plan_ids d)) (o_plan_id r)
      then Inl (IntegrityError ''FOREIGN KEY operations.plan_id'')
      else Inr (d\<lparr>operations := operations d @ [r]\<rparr>))"

definition idem_key :: "idempotency_row \<Rightarrow> string \<times> ident \<times> string \<times> string" where
  "idem_key r = (i_scope r, i_router_id r, i_operation_kind r, i_idempotency_key r)"

definition insert_idempotency :: "idempotency_row \<Rightarrow> db \<Rightarrow> db res" where
  "insert_idempotency r d =
     (if row_by i_idempotency_record_id (i_idempotency_record_id r) (idempotency_records d) \<noteq> None
      then Inl (IntegrityError ''UNIQUE idempotency_records.idempotency_record_id'')
      else if row_by idem_key (idem_key r) (idempotency_records d) \<noteq> None
      then Inl (IntegrityError ''UNIQUE idempotency_records(scope, router_id, kind, key)'')
      else if get_idempotency_for_operation d (i_operation_id r) \<noteq> None
      then Inl (IntegrityError ''UNIQUE idempotency_records.operation_id'')
      else if get_router d (i_router_id r) = None
      then Inl (IntegrityError ''FOREIGN KEY idempotency_records.router_id'')
      else Inr (d\<lparr>idempotency_records := idempotency_records d @ [r]\<rparr>))"

definition insert_job :: "job_row \<Rightarrow> db \<Rightarrow> db res" where
  "insert_job r d =
     (if get_job d (j_job_id r) \<noteq> None
      then Inl (IntegrityError ''UNIQUE jobs.job_id'')
      else if row_by (\<lambda>j. (j_operation_id j, j_attempt j)) (j_operation_id r, j_attempt r) (jobs d)
              \<noteq> None
      then Inl (IntegrityError ''UNIQUE jobs(operation_id, attempt)'')
      else if j_attempt r < 1
      then Inl (IntegrityError ''CHECK jobs.attempt'')
      else if get_operation d (j_operation_id r) = None
      then Inl (IntegrityError ''FOREIGN KEY jobs.operation_id'')
      else if get_router d (j_router_id r) = None
      then Inl (IntegrityError ''FOREIGN KEY jobs.router_id'')
      else Inr (d\<lparr>jobs := jobs d @ [r]\<rparr>))"

definition insert_step :: "step_row \<Rightarrow> db \<Rightarrow> db res" where
  "insert_step r d =
     (if row_by s_step_id (s_step_id r) (job_steps d) \<noteq> None
      then Inl (IntegrityError ''UNIQUE job_steps.step_id'')
      else if row_by (\<lambda>s. (s_job_id s, s_ordinal s)) (s_job_id r, s_ordinal r) (job_steps d) \<noteq> None
      then Inl (IntegrityError ''UNIQUE job_steps(job_id, ordinal)'')
      else if get_job d (s_job_id r) = None
      then Inl (IntegrityError ''FOREIGN KEY job_steps.job_id'')
      else Inr (d\<lparr>job_steps := job_steps d @ [r]\<rparr>))"

definition insert_audit :: "audit_row \<Rightarrow> db \<Rightarrow> db res" where
  "insert_audit r d =
     (if row_by a_audit_event_id (a_audit_event_id r) (audit_events d) \<noteq> None
      then Inl (IntegrityError ''UNIQUE audit_events.audit_event_id'')
      else if \<not> fk (\<lambda>k. get_router d k \<noteq> None) (a_router_id r)
      then Inl (IntegrityError ''FOREIGN KEY audit_events.router_id'')
      else if \<not> fk (\<lambda>k. get_operation d k \<noteq> None) (a_operation_id r)
      then Inl (IntegrityError ''FOREIGN KEY audit_events.operation_id'')
      else if \<not> fk (\<lambda>k. get_job d k \<noteq> None) (a_job_id r)
      then Inl (IntegrityError ''FOREIGN KEY audit_events.job_id'')
      else if \<not> fk (\<lambda>k. k \<in> set (plan_ids d)) (a_plan_id r)
      then Inl (IntegrityError ''FOREIGN KEY audit_events.plan_id'')
      else Inr (d\<lparr>audit_events := audit_events d @ [r]\<rparr>))"

lemmas insert_defs =
  insert_site_def insert_router_def insert_endpoint_def insert_lock_def insert_operation_def
  insert_idempotency_def insert_job_def insert_step_def insert_audit_def

text \<open>What a successful insert establishes.\<close>

lemma insert_router_Inr:
  "insert_router r d = Inr d' \<Longrightarrow>
   d' = d\<lparr>routers := routers d @ [r]\<rparr> \<and> get_router d (r_router_id r) = None"
  by (auto simp: insert_router_def split: if_splits)

lemma insert_endpoint_Inr:
  "insert_endpoint r d = Inr d' \<Longrightarrow> d' = d\<lparr>router_endpoints := router_endpoints d @ [r]\<rparr>"
  by (auto simp: insert_endpoint_def split: if_splits)

lemma insert_lock_Inr:
  "insert_lock r d = Inr d' \<Longrightarrow>
   d' = d\<lparr>router_mutation_locks := router_mutation_locks d @ [r]\<rparr> \<and>
   get_lock d (lk_router_id r) = None"
  by (auto simp: insert_lock_def split: if_splits)

lemma insert_operation_Inr:
  "insert_operation r d = Inr d' \<Longrightarrow>
   d' = d\<lparr>operations := operations d @ [r]\<rparr> \<and> get_operation d (o_operation_id r) = None \<and>
   get_router d (o_router_id r) \<noteq> None"
  by (auto simp: insert_operation_def split: if_splits)

lemma insert_idempotency_Inr:
  "insert_idempotency r d = Inr d' \<Longrightarrow>
   d' = d\<lparr>idempotency_records := idempotency_records d @ [r]\<rparr> \<and>
   row_by i_idempotency_record_id (i_idempotency_record_id r) (idempotency_records d) = None \<and>
   row_by idem_key (idem_key r) (idempotency_records d) = None \<and>
   get_idempotency_for_operation d (i_operation_id r) = None"
  by (auto simp: insert_idempotency_def split: if_splits)

lemma insert_job_Inr:
  "insert_job r d = Inr d' \<Longrightarrow>
   d' = d\<lparr>jobs := jobs d @ [r]\<rparr> \<and> get_job d (j_job_id r) = None \<and>
   get_operation d (j_operation_id r) \<noteq> None \<and> get_router d (j_router_id r) \<noteq> None \<and>
   1 \<le> j_attempt r \<and>
   (j_operation_id r, j_attempt r) \<notin> (\<lambda>j. (j_operation_id j, j_attempt j)) ` set (jobs d)"
  by (auto simp: insert_job_def row_by_None_iff split: if_splits)

lemma insert_step_Inr:
  "insert_step r d = Inr d' \<Longrightarrow> d' = d\<lparr>job_steps := job_steps d @ [r]\<rparr>"
  by (auto simp: insert_step_def split: if_splits)

lemma insert_audit_Inr:
  "insert_audit r d = Inr d' \<Longrightarrow> d' = d\<lparr>audit_events := audit_events d @ [r]\<rparr>"
  by (auto simp: insert_audit_def split: if_splits)

section \<open>Referential integrity\<close>

text \<open>
  The key columns of the job tables and the constraints the schema puts on them: primary keys
  and unique pairs, foreign keys, and the one-to-one link of operations and idempotency records
  that the application enforces. Updates of other columns cannot affect them.
\<close>

definition job_keys :: "job_row \<Rightarrow> ident \<times> ident \<times> ident \<times> int" where
  "job_keys j = (j_job_id j, j_operation_id j, j_router_id j, j_attempt j)"

definition op_keys :: "operation_row \<Rightarrow> ident \<times> ident \<times> ident \<times> string" where
  "op_keys r = (o_operation_id r, o_router_id r, o_idempotency_record_id r, o_operation_kind r)"

definition rec_keys ::
  "idempotency_row \<Rightarrow> ident \<times> (string \<times> ident \<times> string \<times> string) \<times> ident \<times> string" where
  "rec_keys i = (i_idempotency_record_id i, idem_key i, i_operation_id i, i_request_digest i)"

definition schema_keys :: "db \<Rightarrow>
  (ident \<times> ident \<times> ident \<times> int) list \<times> (ident \<times> ident \<times> ident \<times> string) list \<times>
  (ident \<times> (string \<times> ident \<times> string \<times> string) \<times> ident \<times> string) list \<times> ident list" where
  "schema_keys d = (map job_keys (jobs d), map op_keys (operations d),
     map rec_keys (idempotency_records d), map r_router_id (routers d))"

fun keys_ok :: "(ident \<times> ident \<times> ident \<times> int) list \<times> (ident \<times> ident \<times> ident \<times> string) list \<times>
  (ident \<times> (string \<times> ident \<times> string \<times> string) \<times> ident \<times> string) list \<times> ident list \<Rightarrow> bool" where
  "keys_ok (js, ops, recs, rs) \<longleftrightarrow>
     distinct (map fst js) \<and>
     distinct (map (\<lambda>(j, oid, r, a). (oid, a)) js) \<and>
     distinct (map fst ops) \<and>
     distinct (map fst recs) \<and>
     distinct (map (\<lambda>(i, k, oid, g). k) recs) \<and>
     distinct (map (\<lambda>(i, k, oid, g). oid) recs) \<and>
     (\<forall>(j, oid, r, a) \<in> set js. oid \<in> fst ` set ops \<and> r \<in> set rs \<and> 1 \<le> a) \<and>
     (\<forall>(oid, r, i, kind) \<in> set ops. r \<in> set rs \<and> (i, oid) \<in> set (map (\<lambda>(i, k, oid, g). (i, oid)) recs))"

definition schema_ok :: "db \<Rightarrow> bool" where
  "schema_ok d = keys_ok (schema_keys d)"

lemma schema_ok_empty: "schema_ok empty_db"
  by (simp add: schema_ok_def schema_keys_def empty_db_def)

lemma schema_ok_cong: "schema_keys d' = schema_keys d \<Longrightarrow> schema_ok d \<Longrightarrow> schema_ok d'"
  by (simp add: schema_ok_def)

lemma schema_jobs_distinct: "schema_ok d \<Longrightarrow> distinct (map j_job_id (jobs d))"
  by (simp add: schema_ok_def schema_keys_def job_keys_def comp_def)

lemma schema_attempts_distinct:
  "schema_ok d \<Longrightarrow> distinct (map (\<lambda>j. (j_operation_id j, j_attempt j)) (jobs d))"
  by (simp add: schema_ok_def schema_keys_def job_keys_def comp_def)

lemma schema_operations_distinct: "schema_ok d \<Longrightarrow> distinct (map o_operation_id (operations d))"
  by (simp add: schema_ok_def schema_keys_def op_keys_def comp_def)

lemma schema_records_distinct:
  "schema_ok d \<Longrightarrow> distinct (map i_idempotency_record_id (idempotency_records d))"
  "schema_ok d \<Longrightarrow> distinct (map idem_key (idempotency_records d))"
  by (simp_all add: schema_ok_def schema_keys_def rec_keys_def comp_def)

lemma schema_job_refs:
  assumes "schema_ok d" and "j \<in> set (jobs d)"
  shows "get_operation d (j_operation_id j) \<noteq> None \<and> get_router d (j_router_id j) \<noteq> None \<and>
    1 \<le> j_attempt j"
proof -
  from assms(1) have "\<forall>x \<in> job_keys ` set (jobs d). case x of (jid, oid, r, a) \<Rightarrow>
      oid \<in> fst ` op_keys ` set (operations d) \<and> r \<in> r_router_id ` set (routers d) \<and> 1 \<le> a"
    by (simp add: schema_ok_def schema_keys_def)
  with assms(2) have "j_operation_id j \<in> fst ` op_keys ` set (operations d) \<and>
      j_router_id j \<in> r_router_id ` set (routers d) \<and> 1 \<le> j_attempt j"
    by (fastforce simp: job_keys_def)
  then show ?thesis
    by (simp add: get_operation_def get_router_def row_by_None_iff image_image op_keys_def)
qed

text \<open>Every operation has its idempotency record: no orphan operation is ever left.\<close>

lemma schema_operation_record:
  assumes "schema_ok d" and "oper \<in> set (operations d)"
  shows "\<exists>i \<in> set (idempotency_records d). i_operation_id i = o_operation_id oper \<and>
           i_idempotency_record_id i = o_idempotency_record_id oper"
proof -
  from assms(1) have "\<forall>x \<in> set (operations d). case op_keys x of (oid, r, i, kind) \<Rightarrow>
      r \<in> r_router_id ` set (routers d) \<and>
      (i, oid) \<in> (\<lambda>r. (i_idempotency_record_id r, i_operation_id r)) ` set (idempotency_records d)"
    by (simp add: schema_ok_def schema_keys_def rec_keys_def image_image)
  with assms(2) show ?thesis
    by (fastforce simp: op_keys_def)
qed

section \<open>Lease guards\<close>

text \<open>
  \<open>_enforce_lease_expiry\<close>: expiry is enforced when the caller injects an epoch, and otherwise
  unless the lease is absent or was pinned with a small epoch under a real clock.
\<close>

definition enforce_lease_expiry :: "call_env \<Rightarrow> job_row \<Rightarrow> bool" where
  "enforce_lease_expiry env job = (case now_epoch env of
     Some _ \<Rightarrow> True
   | None \<Rightarrow> (case j_lease_until_epoch job of
       None \<Rightarrow> False
     | Some lease_until \<Rightarrow>
         \<not> (lease_until < 1000000000 \<and> sqlite_now env \<ge> 1000000000)))"

definition assert_job_lease_valid :: "call_env \<Rightarrow> job_row \<Rightarrow> unit res" where
  "assert_job_lease_valid env job =
     (if \<not> enforce_lease_expiry env job then Inr ()
      else case j_lease_until_epoch job of
        None \<Rightarrow> Inr ()
      | Some lease_until \<Rightarrow>
          (if lease_until < lease_validity_epoch env
           then Inl (StaleFenceError ''job lease expired'') else Inr ()))"

definition assert_active_router_fence_for_job ::
  "call_env \<Rightarrow> db \<Rightarrow> job_row \<Rightarrow> string \<Rightarrow> unit res" where
  "assert_active_router_fence_for_job env d job lease_owner =
     (if \<not> enforce_lease_expiry env job then Inr ()
      else case get_router_execution_fence d (j_router_id job) of
        None \<Rightarrow> Inr ()
      | Some row \<Rightarrow>
          (if f_lease_until_epoch row < lease_validity_epoch env
           then Inl (StaleFenceError ''router execution fence expired'')
           else if f_active_job_id row \<noteq> None \<and> f_active_job_id row \<noteq> Some (j_job_id job)
           then Inl (StaleFenceError ''router execution fence active job mismatch'')
           else if f_lease_owner row \<noteq> lease_owner
           then Inl (StaleFenceError ''router execution fence lease owner mismatch'')
           else Inr ()))"

definition assert_fenced_effect_write ::
  "call_env \<Rightarrow> db \<Rightarrow> ident \<Rightarrow> ident \<Rightarrow> string \<Rightarrow> unit res" where
  "assert_fenced_effect_write env d router_id job_id lease_owner =
     (case get_job d job_id of
        None \<Rightarrow> Inl (NotFoundError ''job not found for fenced effect write'')
      | Some job \<Rightarrow>
          (if j_router_id job \<noteq> router_id
           then Inl (StaleFenceError ''effect job router mismatch'')
           else if get_router_execution_fence d router_id = None
           then Inl (StaleFenceError ''router execution fence required for external effect write'')
           else assert_active_router_fence_for_job env d job lease_owner))"

lemma assert_job_lease_valid_stale:
  "assert_job_lease_valid env job = Inl e \<Longrightarrow> \<exists>m. e = StaleFenceError m"
  by (auto simp: assert_job_lease_valid_def split: if_splits option.splits)

lemma assert_active_router_fence_stale:
  "assert_active_router_fence_for_job env d job w = Inl e \<Longrightarrow> \<exists>m. e = StaleFenceError m"
  by (auto simp: assert_active_router_fence_for_job_def split: if_splits option.splits)

text \<open>With an injected epoch the two guards say exactly that lease and fence are current.\<close>

lemma assert_job_lease_valid_epoch:
  "now_epoch env = Some t \<Longrightarrow>
   assert_job_lease_valid env job = Inr () \<longleftrightarrow>
     (\<forall>u. j_lease_until_epoch job = Some u \<longrightarrow> t \<le> u)"
  by (auto simp: assert_job_lease_valid_def enforce_lease_expiry_def lease_validity_epoch_def
      split: option.splits)

lemma assert_active_router_fence_epoch:
  "now_epoch env = Some t \<Longrightarrow>
   assert_active_router_fence_for_job env d job w = Inr () \<longleftrightarrow>
     (\<forall>f. get_router_execution_fence d (j_router_id job) = Some f \<longrightarrow>
        t \<le> f_lease_until_epoch f \<and> f_lease_owner f = w \<and>
        (f_active_job_id f = None \<or> f_active_job_id f = Some (j_job_id job)))"
  by (auto simp: assert_active_router_fence_for_job_def enforce_lease_expiry_def
      lease_validity_epoch_def split: option.splits)

end
