(* ===== verification/Registry_Store.thy ===== *)
theory Registry_Store
  imports Store_Schema
begin

text \<open>
  Sites and routers of \<open>src/router_control/persistence/store.py\<close>: \<open>create_site\<close> and
  \<open>enroll_router\<close>, and the registry invariant they maintain: every router has exactly one row
  in \<open>router_mutation_locks\<close>, which the job queue relies on for mutual exclusion. The example
  environments and databases of the witnesses are built from these operations.
\<close>

definition create_site ::
  "call_env \<Rightarrow> ident option \<Rightarrow> string \<Rightarrow> string \<Rightarrow> db \<Rightarrow> (ident \<times> db) res" where
  "create_site env sid display_name timezone d =
     (let sid' = id_or_new sid ''site'' (uuid env 0);
          ts = utc_now_iso env
      in rbind (insert_site \<lparr>site_id = sid', site_display_name = display_name,
             site_timezone = timezone, site_created_at = ts, site_updated_at = ts\<rparr> d)
         (\<lambda>d'. Inr (sid', d')))"

record enroll_request =
  en_site_id :: ident
  en_display_name :: string
  en_vendor :: string
  en_model :: string
  en_identity_fingerprint :: string
  en_host :: string
  en_port :: int
  en_kind :: string
  en_hardware_revision :: "string option"
  en_router_id :: "ident option"
  en_source_address :: "string option"

definition enroll_router :: "call_env \<Rightarrow> enroll_request \<Rightarrow> db \<Rightarrow> (ident \<times> db) res" where
  "enroll_router env q d =
     (let rid = id_or_new (en_router_id q) ''rtr'' (uuid env 0);
          ts = utc_now_iso env
      in rbind (insert_router \<lparr>r_router_id = rid, r_site_id = en_site_id q,
             r_display_name = en_display_name q, r_vendor = en_vendor q, r_model = en_model q,
             r_hardware_revision = en_hardware_revision q,
             r_identity_fingerprint = en_identity_fingerprint q, r_identity_claims_json = None,
             r_credential_ref_id = None, r_lifecycle_status = ''PendingEnrollment'',
             r_created_at = ts, r_updated_at = ts\<rparr> d)
         (\<lambda>d. rbind (insert_endpoint \<lparr>ep_endpoint_id = new_id ''ep'' (uuid env 1),
             ep_router_id = rid, ep_kind = en_kind q, ep_host = en_host q, ep_port = en_port q,
             ep_priority = 0, ep_is_enabled = True, ep_source_address = en_source_address q,
             ep_created_at = ts, ep_updated_at = ts\<rparr> d)
         (\<lambda>d. rbind (insert_lock \<lparr>lk_router_id = rid, lk_active_job_id = None,
             lk_lock_owner = None, lk_lock_until_epoch = None, lk_fencing_token = 0,
             lk_updated_at = ts\<rparr> d)
         (\<lambda>d. Inr (rid, d)))))"

section \<open>Every router has its mutation lock\<close>

definition registry_ok :: "db \<Rightarrow> bool" where
  "registry_ok d \<longleftrightarrow>
     distinct (map lk_router_id (router_mutation_locks d)) \<and>
     r_router_id ` set (routers d) \<subseteq> lk_router_id ` set (router_mutation_locks d)"

lemma registry_ok_empty: "registry_ok empty_db"
  by (simp add: registry_ok_def empty_db_def)

lemma registry_ok_cong:
  "map lk_router_id (router_mutation_locks d') = map lk_router_id (router_mutation_locks d) \<Longrightarrow>
   routers d' = routers d \<Longrightarrow> registry_ok d' \<longleftrightarrow> registry_ok d"
  unfolding registry_ok_def set_map [symmetric] by simp

lemma registry_lock:
  assumes "registry_ok d" and "get_router d rid \<noteq> None"
  shows "\<exists>l. get_lock d rid = Some l"
proof -
  from assms(2) have "rid \<in> r_router_id ` set (routers d)"
    by (simp add: get_router_def row_by_None_iff)
  with assms(1) have "get_lock d rid \<noteq> None"
    by (auto simp: registry_ok_def get_lock_def row_by_None_iff)
  then show ?thesis by blast
qed

lemma enroll_router_Inr:
  assumes "enroll_router env q d = Inr (rid, d')"
  obtains r e l where
    "d' = d\<lparr>routers := routers d @ [r], router_endpoints := router_endpoints d @ [e],
            router_mutation_locks := router_mutation_locks d @ [l]\<rparr>"
    "get_router d rid = None" "get_lock d rid = None"
    "r_router_id r = rid" "r_lifecycle_status r = ''PendingEnrollment''" "r_credential_ref_id r = None"
    "ep_router_id e = rid" "ep_host e = en_host q" "ep_port e = en_port q" "ep_is_enabled e"
    "lk_router_id l = rid" "lk_active_job_id l = None" "lk_fencing_token l = 0"
  using assms
  by (auto simp: enroll_router_def Let_def result_simps get_lock_def get_router_def
      dest!: insert_router_Inr insert_endpoint_Inr insert_lock_Inr)

text \<open>
  Enrolling a router registers the router, its primary endpoint and an idle mutation lock
  together, and keeps the invariant that every registered router has exactly one lock row.
\<close>

theorem enroll_router_registers:
  assumes "registry_ok d" and "enroll_router env q d = Inr (rid, d')"
  shows "registry_ok d' \<and> get_router d rid = None \<and>
     (\<exists>r. get_router d' rid = Some r \<and> r_lifecycle_status r = ''PendingEnrollment'' \<and>
          r_credential_ref_id r = None) \<and>
     (\<exists>l. get_lock d' rid = Some l \<and> lk_active_job_id l = None \<and> lk_fencing_token l = 0) \<and>
     (\<exists>e \<in> set (router_endpoints d'). ep_router_id e = rid \<and> ep_host e = en_host q \<and>
          ep_port e = en_port q \<and> ep_is_enabled e)"
proof -
  obtain r e l where new:
    "d' = d\<lparr>routers := routers d @ [r], router_endpoints := router_endpoints d @ [e],
            router_mutation_locks := router_mutation_locks d @ [l]\<rparr>"
    "get_router d rid = None" "get_lock d rid = None"
    "r_router_id r = rid" "r_lifecycle_status r = ''PendingEnrollment''" "r_credential_ref_id r = None"
    "ep_router_id e = rid" "ep_host e = en_host q" "ep_port e = en_port q" "ep_is_enabled e"
    "lk_router_id l = rid" "lk_active_job_id l = None" "lk_fencing_token l = 0"
    using assms(2) by (rule enroll_router_Inr)
  have "get_router d' rid = Some r" "get_lock d' rid = Some l"
    using new by (simp_all add: get_router_def get_lock_def row_by_append)
  moreover have "registry_ok d'"
    using new assms(1)
    by (auto simp: registry_ok_def get_lock_def row_by_None_iff)
  ultimately show ?thesis using new by simp
qed

section \<open>Example environments\<close>

text \<open>A call at epoch second \<open>t\<close> whose identifiers are drawn from the stream \<open>u, ux, uxx, ...\<close>.\<close>

definition demo_env :: "int \<Rightarrow> string \<Rightarrow> call_env" where
  "demo_env t u = \<lparr>now_epoch = Some t, sqlite_now = t, wall_now = t * 1000000,
     uuid = (\<lambda>n. u @ replicate n CHR ''x'')\<rparr>"

definition demo_enroll :: "ident \<Rightarrow> enroll_request" where
  "demo_enroll rid = \<lparr>en_site_id = ''s1'', en_display_name = ''booth'', en_vendor = ''Netcraze'',
     en_model = ''NC-1812'', en_identity_fingerprint = ''fp'', en_host = ''10.0.0.1'',
     en_port = 443, en_kind = ''management_https'', en_hardware_revision = None,
     en_router_id = Some rid, en_source_address = None\<rparr>"

definition demo_registry :: db where
  "demo_registry =
     (case rbind (create_site (demo_env 1 ''a'') (Some ''s1'') ''site'' ''UTC'' empty_db)
        (\<lambda>(_, d). rbind (enroll_router (demo_env 2 ''b'') (demo_enroll ''r1'') d)
        (\<lambda>(_, d). Inr d)) of
        Inr d \<Rightarrow> d | Inl _ \<Rightarrow> empty_db)"

lemma demo_env_simps [simp]:
  "now_epoch (demo_env t u) = Some t"
  "sqlite_now (demo_env t u) = t"
  "uuid (demo_env t u) n = u @ replicate n CHR ''x''"
  "utc_now_iso (demo_env t u) = t"
  "lease_validity_epoch (demo_env t u) = t"
  by (simp_all add: demo_env_def utc_now_iso_def lease_validity_epoch_def)

text \<open>The empty database with one site, to which a router can be enrolled.\<close>

definition demo_sites :: db where
  "demo_sites = empty_db\<lparr>sites := [\<lparr>site_id = ''s1'', site_display_name = ''site'',
     site_timezone = ''UTC'', site_created_at = 1, site_updated_at = 1\<rparr>]\<rparr>"

lemma demo_create_site:
  "create_site (demo_env 1 ''a'') (Some ''s1'') ''site'' ''UTC'' empty_db = Inr (''s1'', demo_sites)"
  by (simp add: create_site_def id_or_new_def insert_site_def empty_db_def demo_sites_def Let_def)

lemma demo_enroll_ok:
  "enroll_router (demo_env 2 ''b'') (demo_enroll ''r1'') demo_sites = Inr (''r1'', demo_registry)"
  unfolding demo_registry_def demo_create_site
  by (simp add: demo_sites_def enroll_router_def demo_enroll_def Let_def id_or_new_def insert_defs empty_db_def
      get_router_def get_lock_def fk_def)

lemma demo_registry_eq:
  "demo_registry = empty_db\<lparr>
     sites := sites demo_sites,
     routers := [\<lparr>r_router_id = ''r1'', r_site_id = ''s1'', r_display_name = ''booth'',
       r_vendor = ''Netcraze'', r_model = ''NC-1812'', r_hardware_revision = None,
       r_identity_fingerprint = ''fp'', r_identity_claims_json = None, r_credential_ref_id = None,
       r_lifecycle_status = ''PendingEnrollment'', r_created_at = 2, r_updated_at = 2\<rparr>],
     router_endpoints := [\<lparr>ep_endpoint_id = ''ep_bx'', ep_router_id = ''r1'',
       ep_kind = ''management_https'', ep_host = ''10.0.0.1'', ep_port = 443, ep_priority = 0,
       ep_is_enabled = True, ep_source_address = None, ep_created_at = 2, ep_updated_at = 2\<rparr>],
     router_mutation_locks := [\<lparr>lk_router_id = ''r1'', lk_active_job_id = None,
       lk_lock_owner = None, lk_lock_until_epoch = None, lk_fencing_token = 0, lk_updated_at = 2\<rparr>]\<rparr>"
  unfolding demo_registry_def demo_create_site
  by (simp add: demo_sites_def enroll_router_def demo_enroll_def Let_def id_or_new_def insert_defs empty_db_def
      get_router_def get_lock_def fk_def new_id_def)

lemma registry_ok_demo_sites: "registry_ok demo_sites"
  by (simp add: registry_ok_def demo_sites_def empty_db_def)

theorem enroll_router_registers_witness:
  "registry_ok demo_registry \<and> get_router demo_sites ''r1'' = None \<and>
   (\<exists>r. get_router demo_registry ''r1'' = Some r \<and> r_lifecycle_status r = ''PendingEnrollment'')"
  using enroll_router_registers [OF registry_ok_demo_sites demo_enroll_ok] by blast

end
