(* ===== verification/Fence_Store.thy ===== *)
theory Fence_Store
  imports Registry_Store
begin

text \<open>
  The per-router execution fences of \<open>src/router_control/persistence/store.py\<close>:
  \<open>acquire_router_execution_fence\<close>, \<open>renew_router_execution_fence\<close>,
  \<open>release_router_execution_fence\<close> and \<open>reap_expired_router_execution_fences\<close>. The locale
  \<open>lease_table\<close> states what a client of such a table may rely on; it is interpreted on the
  model of the store. The refinement lemmas show that the SQL code implements a map from
  routers to fences.
\<close>

section \<open>Operations\<close>

text \<open>Python's \<open>str\<close> of a nullable text column.\<close>

definition str_opt :: "string option \<Rightarrow> string" where
  "str_opt v = (case v of None \<Rightarrow> ''None'' | Some s \<Rightarrow> s)"

definition insert_fence :: "fence_row \<Rightarrow> db \<Rightarrow> db res" where
  "insert_fence r d =
     (if row_by f_fence_id (f_fence_id r) (router_execution_fences d) \<noteq> None
      then Inl (IntegrityError ''UNIQUE router_execution_fences.fence_id'')
      else if get_router_execution_fence d (f_router_id r) \<noteq> None
      then Inl (IntegrityError ''UNIQUE router_execution_fences.router_id'')
      else if get_router d (f_router_id r) = None
      then Inl (IntegrityError ''FOREIGN KEY router_execution_fences.router_id'')
      else if \<not> fk (\<lambda>k. get_job d k \<noteq> None) (f_active_job_id r)
      then Inl (IntegrityError ''FOREIGN KEY router_execution_fences.active_job_id'')
      else Inr (d\<lparr>router_execution_fences := router_execution_fences d @ [r]\<rparr>))"

text \<open>An \<open>UPDATE\<close> of fence rows that sets \<open>active_job_id\<close>, with its foreign key.\<close>

definition update_fences ::
  "(fence_row \<Rightarrow> bool) \<Rightarrow> ident option \<Rightarrow> (fence_row \<Rightarrow> fence_row) \<Rightarrow> db \<Rightarrow> db res" where
  "update_fences P active f d =
     (if sql_rowcount P (router_execution_fences d) > 0 \<and> \<not> fk (\<lambda>k. get_job d k \<noteq> None) active
      then Inl (IntegrityError ''FOREIGN KEY router_execution_fences.active_job_id'')
      else Inr (d\<lparr>router_execution_fences := sql_update P f (router_execution_fences d)\<rparr>))"

definition acquire_router_execution_fence ::
  "call_env \<Rightarrow> ident \<Rightarrow> string \<Rightarrow> string \<Rightarrow> int \<Rightarrow> ident option \<Rightarrow> bool \<Rightarrow> db \<Rightarrow> (int \<times> db) res" where
  "acquire_router_execution_fence env router_id lease_owner mutex_holder_id lease_seconds
       active_job_id os_mutex_held d =
     (let validity = lease_validity_epoch env;
          ts = utc_now_iso env;
          lease_until = validity + lease_seconds
      in case get_router_execution_fence d router_id of
        Some row \<Rightarrow>
          (if f_lease_until_epoch row \<ge> validity then
             (if f_lease_owner row \<noteq> lease_owner \<or> f_mutex_holder_id row \<noteq> mutex_holder_id
              then Inl (MutexHolderRequiredError
                     ''active router execution fence held by another owner'')
              else if active_job_id \<noteq> None \<and> str_opt (f_active_job_id row) \<noteq> str_opt active_job_id
              then (let P = (\<lambda>f. f_router_id f = router_id \<and> f_fence_token f = f_fence_token row
                            \<and> f_lease_owner f = lease_owner \<and> f_mutex_holder_id f = mutex_holder_id)
                    in if sql_rowcount P (router_execution_fences d) \<noteq> 1
                       then Inl (StaleFenceError ''router execution fence handoff rejected'')
                       else rbind (update_fences P active_job_id
                              (\<lambda>f. f\<lparr>f_active_job_id := active_job_id,
                                    f_lease_until_epoch := lease_until,
                                    f_updated_at := ts\<rparr>) d)
                            (\<lambda>d'. Inr (f_fence_token row, d')))
              else Inr (f_fence_token row, d))
           else if \<not> os_mutex_held
           then Inl (MutexHolderRequiredError ''expired fence takeover requires os mutex held'')
           else (let fence_token = f_fence_token row + 1
                 in rbind (update_fences (\<lambda>f. f_router_id f = router_id) active_job_id
                      (\<lambda>f. f\<lparr>f_fence_token := fence_token, f_lease_owner := lease_owner,
                            f_mutex_holder_id := mutex_holder_id,
                            f_lease_until_epoch := lease_until,
                            f_active_job_id := active_job_id, f_updated_at := ts\<rparr>) d)
                    (\<lambda>d'. Inr (fence_token, d'))))
      | None \<Rightarrow>
          rbind (insert_fence
            \<lparr>f_fence_id = new_id ''fence'' (uuid env 0), f_router_id = router_id,
             f_fence_token = 1, f_lease_owner = lease_owner,
             f_mutex_holder_id = mutex_holder_id, f_lease_until_epoch = lease_until,
             f_active_job_id = active_job_id, f_created_at = ts, f_updated_at = ts\<rparr> d)
          (\<lambda>d'. Inr (1, d')))"

definition renew_router_execution_fence ::
  "call_env \<Rightarrow> ident \<Rightarrow> string \<Rightarrow> string \<Rightarrow> int \<Rightarrow> int \<Rightarrow> db \<Rightarrow> db res" where
  "renew_router_execution_fence env router_id lease_owner mutex_holder_id fence_token
       lease_seconds d =
     (let validity = lease_validity_epoch env;
          ts = utc_now_iso env;
          lease_until = validity + lease_seconds
      in case get_router_execution_fence d router_id of
        None \<Rightarrow> Inl (NotFoundError ''router execution fence not found'')
      | Some row \<Rightarrow>
          (if f_fence_token row \<noteq> fence_token
           then Inl (StaleFenceError ''stale router execution fence token'')
           else if f_lease_until_epoch row < validity
           then Inl (FenceExpiredError ''router execution fence expired'')
           else if f_lease_owner row \<noteq> lease_owner \<or> f_mutex_holder_id row \<noteq> mutex_holder_id
           then Inl (MutexHolderRequiredError ''mutex holder mismatch'')
           else (let P = (\<lambda>f. f_router_id f = router_id \<and> f_fence_token f = fence_token
                         \<and> f_lease_owner f = lease_owner \<and> f_mutex_holder_id f = mutex_holder_id)
                 in if sql_rowcount P (router_execution_fences d) \<noteq> 1
                    then Inl (StaleFenceError ''router execution fence renew rejected'')
                    else Inr (d\<lparr>router_execution_fences := sql_update P
                           (\<lambda>f. f\<lparr>f_lease_until_epoch := lease_until, f_updated_at := ts\<rparr>)
                           (router_execution_fences d)\<rparr>))))"

definition release_router_execution_fence ::
  "ident \<Rightarrow> string \<Rightarrow> string \<Rightarrow> int \<Rightarrow> db \<Rightarrow> db res" where
  "release_router_execution_fence router_id lease_owner mutex_holder_id fence_token d =
     (let P = (\<lambda>f. f_router_id f = router_id \<and> f_fence_token f = fence_token
               \<and> f_lease_owner f = lease_owner \<and> f_mutex_holder_id f = mutex_holder_id)
      in if sql_rowcount P (router_execution_fences d) \<noteq> 1
         then Inl (StaleFenceError ''router execution fence release rejected'')
         else Inr (d\<lparr>router_execution_fences := sql_delete P (router_execution_fences d)\<rparr>))"

text \<open>
  \<open>SELECT ... LIMIT ?\<close> has no \<open>ORDER BY\<close>; with more expired fences than the limit the model
  takes the first ones of the table.
\<close>

definition reap_expired_router_execution_fences ::
  "call_env \<Rightarrow> nat \<Rightarrow> db \<Rightarrow> ident list \<times> db" where
  "reap_expired_router_execution_fences env limit d =
     (let db_now = lease_validity_epoch env;
          router_ids = map f_router_id (take limit
             (filter (\<lambda>f. f_lease_until_epoch f < db_now) (router_execution_fences d)))
      in (router_ids,
          fold (\<lambda>rid d. d\<lparr>router_execution_fences := sql_delete
                  (\<lambda>f. f_router_id f = rid \<and> f_lease_until_epoch f < db_now)
                  (router_execution_fences d)\<rparr>) router_ids d))"

section \<open>Well-formed fence tables\<close>

definition fences_ok :: "db \<Rightarrow> bool" where
  "fences_ok d \<longleftrightarrow>
     distinct (map f_router_id (router_execution_fences d)) \<and>
     (\<forall>f \<in> set (router_execution_fences d). 1 \<le> f_fence_token f)"

lemma update_fences_ok:
  assumes "fences_ok d" and "update_fences P a g d = Inr d'"
    and "\<And>f. P f \<Longrightarrow> f_router_id (g f) = f_router_id f"
    and "\<And>f. P f \<Longrightarrow> 1 \<le> f_fence_token f \<Longrightarrow> 1 \<le> f_fence_token (g f)"
  shows "fences_ok d'"
  using assms
  by (auto simp: update_fences_def fences_ok_def map_key_sql_update set_sql_update
      split: if_splits)

lemma get_fence_update_fences:
  assumes "update_fences P a g d = Inr d'"
    and "\<And>f. P f \<Longrightarrow> f_router_id (g f) = f_router_id f"
  shows "get_router_execution_fence d' rid =
     map_option (\<lambda>f. if P f then g f else f) (get_router_execution_fence d rid)"
proof -
  from assms(1) have "router_execution_fences d' = sql_update P g (router_execution_fences d)"
    by (auto simp: update_fences_def split: if_splits)
  then show ?thesis
    using assms(2) by (simp add: get_router_execution_fence_def row_by_sql_update)
qed

lemma insert_fence_get:
  "insert_fence r d = Inr d' \<Longrightarrow>
   get_router_execution_fence d' rid =
     (if rid = f_router_id r then Some r else get_router_execution_fence d rid)"
  by (auto simp: insert_fence_def get_router_execution_fence_def row_by_append
      split: if_splits option.splits)

lemma insert_fence_ok: "fences_ok d \<Longrightarrow> 1 \<le> f_fence_token r \<Longrightarrow> insert_fence r d = Inr d' \<Longrightarrow> fences_ok d'"
  by (auto simp: insert_fence_def fences_ok_def get_router_execution_fence_def row_by_None_iff
      split: if_splits)

lemma get_fence_token_pos:
  "fences_ok d \<Longrightarrow> get_router_execution_fence d rid = Some f \<Longrightarrow> 1 \<le> f_fence_token f"
  by (auto simp: fences_ok_def get_router_execution_fence_def dest: row_by_Some_mem)

lemma get_fence_key:
  "get_router_execution_fence d rid = Some f \<Longrightarrow> f_router_id f = rid"
  by (auto simp: get_router_execution_fence_def dest: row_by_Some_key)

section \<open>Abstract fences\<close>

text \<open>
  What a fence means to its clients: the token, the owner and process that hold it, the end of
  its lease and the job it protects. \<open>fences_of\<close> abstracts the table to a map from routers.
\<close>

record fence_view =
  fv_token :: int
  fv_owner :: string
  fv_holder :: string
  fv_until :: int
  fv_job :: "ident option"

definition view_of :: "fence_row \<Rightarrow> fence_view" where
  "view_of f = \<lparr>fv_token = f_fence_token f, fv_owner = f_lease_owner f,
     fv_holder = f_mutex_holder_id f, fv_until = f_lease_until_epoch f,
     fv_job = f_active_job_id f\<rparr>"

definition fences_of :: "db \<Rightarrow> ident \<Rightarrow> fence_view option" where
  "fences_of d rid = map_option view_of (get_router_execution_fence d rid)"

text \<open>
  The contract of acquiring: a free fence starts at token 1; a live fence is only returned to
  its holder, who may move it to another job; an expired one passes to a caller that holds the
  operating-system mutex, under the next token.
\<close>

definition acquire_spec ::
  "int \<Rightarrow> int \<Rightarrow> string \<Rightarrow> string \<Rightarrow> ident option \<Rightarrow> bool \<Rightarrow> fence_view option
   \<Rightarrow> (int \<times> fence_view) res" where
  "acquire_spec now len owner holder job mutex v = (case v of
     None \<Rightarrow> Inr (1, \<lparr>fv_token = 1, fv_owner = owner, fv_holder = holder,
                     fv_until = now + len, fv_job = job\<rparr>)
   | Some f \<Rightarrow>
       (if now \<le> fv_until f then
          (if fv_owner f \<noteq> owner \<or> fv_holder f \<noteq> holder
           then Inl (MutexHolderRequiredError ''active router execution fence held by another owner'')
           else if job \<noteq> None \<and> str_opt (fv_job f) \<noteq> str_opt job
           then Inr (fv_token f, f\<lparr>fv_until := now + len, fv_job := job\<rparr>)
           else Inr (fv_token f, f))
        else if \<not> mutex
        then Inl (MutexHolderRequiredError ''expired fence takeover requires os mutex held'')
        else Inr (fv_token f + 1, \<lparr>fv_token = fv_token f + 1, fv_owner = owner,
                    fv_holder = holder, fv_until = now + len, fv_job = job\<rparr>)))"

lemma fences_of_update_fences:
  assumes "update_fences P a g d = Inr d'"
    and "\<And>f. P f \<Longrightarrow> f_router_id (g f) = f_router_id f"
    and "\<And>f. P f \<Longrightarrow> f_router_id f = rid"
    and "get_router_execution_fence d rid = Some row" and "P row"
  shows "fences_of d' = (fences_of d)(rid \<mapsto> view_of (g row))"
proof
  fix k
  show "fences_of d' k = ((fences_of d)(rid \<mapsto> view_of (g row))) k"
  proof (cases "k = rid")
    case True
    then show ?thesis
      using assms(4,5) get_fence_update_fences [OF assms(1,2), of rid] by (simp add: fences_of_def)
  next
    case False
    have "\<not> P f" if "get_router_execution_fence d k = Some f" for f
      using False assms(3) get_fence_key [OF that] by blast
    then show ?thesis
      using False get_fence_update_fences [OF assms(1,2), of k]
      by (cases "get_router_execution_fence d k") (simp_all add: fences_of_def)
  qed
qed

lemma fence_rowcount_1:
  assumes "fences_ok d" and "get_router_execution_fence d rid = Some row"
  shows "sql_rowcount (\<lambda>f. f_router_id f = rid \<and> Q f) (router_execution_fences d) =
     (if Q row then 1 else 0)"
  using assms rowcount_unique [of f_router_id "router_execution_fences d" rid row Q]
  by (simp add: fences_ok_def get_router_execution_fence_def)

lemma update_fences_Inr:
  "fk (\<lambda>k. get_job d k \<noteq> None) a \<Longrightarrow>
   update_fences P a g d =
     Inr (d\<lparr>router_execution_fences := sql_update P g (router_execution_fences d)\<rparr>)"
  by (simp add: update_fences_def)

lemma acquire_existing:
  assumes ok: "fences_ok d" and job: "fk (\<lambda>k. get_job d k \<noteq> None) job"
    and row: "get_router_execution_fence d rid = Some row"
  shows "map_sum id (\<lambda>(tok, d'). (tok, fences_of d'))
       (acquire_router_execution_fence env rid owner holder len job mutex d) =
     map_sum id (\<lambda>(tok, v). (tok, (fences_of d)(rid \<mapsto> v)))
       (acquire_spec (lease_validity_epoch env) len owner holder job mutex (fences_of d rid))"
proof -
  let ?now = "lease_validity_epoch env"
  have v: "fences_of d rid = Some (view_of row)"
    using row by (simp add: fences_of_def)
  have same: "(fences_of d)(rid \<mapsto> view_of row) = fences_of d"
    using v by (simp add: fun_upd_idem)
  note upd = update_fences_Inr [OF job]
  have fold_upd: "fences_of (d\<lparr>router_execution_fences := sql_update P g (router_execution_fences d)\<rparr>)
      = (fences_of d)(rid \<mapsto> view_of (g row))"
    if "\<And>f. P f \<Longrightarrow> f_router_id (g f) = f_router_id f" "\<And>f. P f \<Longrightarrow> f_router_id f = rid" "P row"
    for P g
    by (rule fences_of_update_fences [OF upd]) (use that row in auto)
  have key: "f_router_id row = rid" using row by (rule get_fence_key)
  have handoff: "fences_of (d\<lparr>router_execution_fences := sql_update
        (\<lambda>f. f_router_id f = rid \<and> f_fence_token f = f_fence_token row \<and>
           f_lease_owner f = f_lease_owner row \<and> f_mutex_holder_id f = f_mutex_holder_id row) g
        (router_execution_fences d)\<rparr>) = (fences_of d)(rid \<mapsto> view_of (g row))"
    if "\<And>f. f_router_id (g f) = f_router_id f" for g
    by (rule fold_upd) (simp_all add: that key)
  show ?thesis
    using row v fence_rowcount_1 [OF ok row]
    by (auto simp: acquire_router_execution_fence_def acquire_spec_def Let_def upd fold_upd handoff
        same view_of_def key)
qed

lemma acquire_new:
  assumes job: "fk (\<lambda>k. get_job d k \<noteq> None) job" and router: "get_router d rid \<noteq> None"
    and fresh: "row_by f_fence_id (new_id ''fence'' (uuid env 0)) (router_execution_fences d) = None"
    and row: "get_router_execution_fence d rid = None"
  shows "map_sum id (\<lambda>(tok, d'). (tok, fences_of d'))
       (acquire_router_execution_fence env rid owner holder len job mutex d) =
     map_sum id (\<lambda>(tok, v). (tok, (fences_of d)(rid \<mapsto> v)))
       (acquire_spec (lease_validity_epoch env) len owner holder job mutex (fences_of d rid))"
proof -
  let ?r = "\<lparr>f_fence_id = new_id ''fence'' (uuid env 0), f_router_id = rid, f_fence_token = 1,
    f_lease_owner = owner, f_mutex_holder_id = holder,
    f_lease_until_epoch = lease_validity_epoch env + len, f_active_job_id = job,
    f_created_at = utc_now_iso env, f_updated_at = utc_now_iso env\<rparr>"
  obtain d' where ins: "insert_fence ?r d = Inr d'"
    using assms by (simp add: insert_fence_def)
  have "fences_of d' = (fences_of d)(rid \<mapsto> view_of ?r)"
    using insert_fence_get [OF ins] by (auto simp: fences_of_def fun_eq_iff)
  then show ?thesis
    using row ins
    by (simp add: acquire_router_execution_fence_def acquire_spec_def Let_def fences_of_def
        view_of_def)
qed

text \<open>
  C37: acquiring a router execution fence refines the abstract fence contract: on a well-formed
  table, for a known router, a known job and an unused row identifier, the SQL code returns the
  token of the specification and changes exactly the fence of that router, or raises the error
  of the specification.
\<close>

theorem acquire_refines_spec:
  assumes "fences_ok d" and "get_router d rid \<noteq> None"
    and "fk (\<lambda>k. get_job d k \<noteq> None) job"
    and "row_by f_fence_id (new_id ''fence'' (uuid env 0)) (router_execution_fences d) = None"
  shows "map_sum id (\<lambda>(tok, d'). (tok, fences_of d'))
       (acquire_router_execution_fence env rid owner holder len job mutex d) =
     map_sum id (\<lambda>(tok, v). (tok, (fences_of d)(rid \<mapsto> v)))
       (acquire_spec (lease_validity_epoch env) len owner holder job mutex (fences_of d rid))"
  using acquire_existing acquire_new assms
  by (cases "get_router_execution_fence d rid") blast+

lemma acquire_Inr:
  assumes ok: "fences_ok d"
    and acq: "acquire_router_execution_fence env rid owner holder len job mutex d = Inr (tok, d')"
  shows "\<exists>v. acquire_spec (lease_validity_epoch env) len owner holder job mutex (fences_of d rid)
            = Inr (tok, v) \<and> fences_of d' = (fences_of d)(rid \<mapsto> v)"
proof (cases "get_router_execution_fence d rid")
  case None
  with acq have "get_router d rid \<noteq> None" "fk (\<lambda>k. get_job d k \<noteq> None) job"
    "row_by f_fence_id (new_id ''fence'' (uuid env 0)) (router_execution_fences d) = None"
    by (auto simp: acquire_router_execution_fence_def Let_def insert_fence_def result_simps
        split: if_splits)
  then show ?thesis
    using acquire_new [OF _ _ _ None, of job env owner holder len mutex] acq None
    by (auto simp: map_sum_def fences_of_def acquire_spec_def split: sum.splits)
next
  case (Some row)
  show ?thesis
  proof (cases "fk (\<lambda>k. get_job d k \<noteq> None) job")
    case True
    from acquire_existing [OF ok True Some, of env owner holder len mutex] acq show ?thesis
      by (auto simp: map_sum_def split: sum.splits prod.splits)
  next
    case False
    then have upd: "update_fences P job g d = Inl (IntegrityError
        ''FOREIGN KEY router_execution_fences.active_job_id'')"
      if "sql_rowcount P (router_execution_fences d) > 0" for P g
      using that by (simp add: update_fences_def)
    have cnt: "sql_rowcount (\<lambda>f. f_router_id f = rid) (router_execution_fences d) > 0"
      using fence_rowcount_1 [OF ok Some, of "\<lambda>_. True"] by simp
    have "d' = d" "tok = f_fence_token row" "lease_validity_epoch env \<le> f_lease_until_epoch row"
      "f_lease_owner row = owner" "f_mutex_holder_id row = holder"
      "\<not> (job \<noteq> None \<and> str_opt (f_active_job_id row) \<noteq> str_opt job)"
      using acq Some False upd cnt
      by (auto simp: acquire_router_execution_fence_def Let_def split: if_splits)
    then show ?thesis using Some
      by (auto simp: acquire_spec_def fences_of_def view_of_def fun_eq_iff)
  qed
qed

lemma acquire_fences_ok:
  assumes ok: "fences_ok d"
    and acq: "acquire_router_execution_fence env rid owner holder len job mutex d = Inr (tok, d')"
  shows "fences_ok d'"
proof (cases "get_router_execution_fence d rid")
  case None
  then show ?thesis using acq
    by (auto simp: acquire_router_execution_fence_def Let_def result_simps
        elim!: insert_fence_ok [OF ok, rotated])
next
  case (Some row)
  then have pos: "1 \<le> f_fence_token row" using ok get_fence_token_pos by blast
  then show ?thesis using acq Some ok
    by (auto simp: acquire_router_execution_fence_def Let_def result_simps split: if_splits
        elim!: update_fences_ok [OF ok])
qed

section \<open>The interface of a lease table\<close>

text \<open>Attempts in sequence; an attempt that fails leaves the state as it was.\<close>

fun attempt_all :: "('q \<Rightarrow> 'd \<Rightarrow> 'd option) \<Rightarrow> 'q list \<Rightarrow> 'd \<Rightarrow> 'd" where
  "attempt_all acquire [] d = d"
| "attempt_all acquire (q # qs) d =
     attempt_all acquire qs (case acquire q d of None \<Rightarrow> d | Some d' \<Rightarrow> d')"

text \<open>
  A table of leases: who holds a key and until when, and an operation that acquires a key for
  a requester at a time for a duration. The laws are what a client of the table relies on.
\<close>

locale lease_table =
  fixes held :: "'d \<Rightarrow> 'k \<Rightarrow> ('h \<times> int) option"
    and ok :: "'d \<Rightarrow> bool"
    and acquire :: "'q \<Rightarrow> 'd \<Rightarrow> 'd option"
    and key_of :: "'q \<Rightarrow> 'k"
    and holder_of :: "'q \<Rightarrow> 'h"
    and time_of :: "'q \<Rightarrow> int"
    and len_of :: "'q \<Rightarrow> int"
  assumes acquire_ok: "ok d \<Longrightarrow> acquire q d = Some d' \<Longrightarrow> ok d'"
    and acquire_held: "ok d \<Longrightarrow> acquire q d = Some d' \<Longrightarrow>
          \<exists>u. held d' (key_of q) = Some (holder_of q, u) \<and>
              (u = time_of q + len_of q \<or> held d (key_of q) = Some (holder_of q, u))"
    and acquire_other: "ok d \<Longrightarrow> acquire q d = Some d' \<Longrightarrow> k \<noteq> key_of q \<Longrightarrow> held d' k = held d k"
    and acquire_excl: "ok d \<Longrightarrow> held d (key_of q) = Some (h, u) \<Longrightarrow> h \<noteq> holder_of q \<Longrightarrow>
          time_of q \<le> u \<Longrightarrow> acquire q d = None"
begin

lemma attempt_keeps:
  assumes "ok d" and "held d k = Some (h, v)" and "u \<le> v"
    and "key_of q = k \<Longrightarrow> time_of q \<le> u \<and> u \<le> time_of q + len_of q"
  shows "\<exists>w. held (case acquire q d of None \<Rightarrow> d | Some d' \<Rightarrow> d') k = Some (h, w) \<and> u \<le> w"
proof (cases "acquire q d")
  case None
  then show ?thesis using assms by auto
next
  case (Some d')
  show ?thesis
  proof (cases "key_of q = k")
    case True
    with assms Some acquire_excl [of d q h v] have "holder_of q = h" by force
    with True Some assms acquire_held [OF assms(1) Some] show ?thesis by auto
  next
    case False
    with Some assms acquire_other [OF assms(1) Some, of k] show ?thesis by auto
  qed
qed

text \<open>
  No sequence of attempts made before the lease of a key runs out takes the key from its holder.
\<close>

lemma holder_keeps:
  assumes "ok d" and "held d k = Some (h, v)" and "u \<le> v"
    and "\<And>q. q \<in> set qs \<Longrightarrow> key_of q = k \<Longrightarrow> time_of q \<le> u \<and> u \<le> time_of q + len_of q"
  shows "\<exists>w. held (attempt_all acquire qs d) k = Some (h, w) \<and> u \<le> w"
  using assms
proof (induction qs arbitrary: d v)
  case Nil
  then show ?case by auto
next
  case (Cons q qs)
  let ?e = "case acquire q d of None \<Rightarrow> d | Some d' \<Rightarrow> d'"
  obtain w where "held ?e k = Some (h, w)" "u \<le> w"
    using attempt_keeps [of d k h v u q] Cons.prems by auto
  moreover have "ok ?e"
    using Cons.prems(1) acquire_ok by (auto split: option.splits)
  ultimately show ?case using Cons.IH [of ?e w] Cons.prems(4) by simp
qed

end

text \<open>Requests for a router execution fence.\<close>

record fence_request =
  qr_env :: call_env
  qr_router :: ident
  qr_owner :: string
  qr_mutex_holder :: string
  qr_lease_seconds :: int
  qr_job :: "ident option"
  qr_os_mutex_held :: bool

definition try_acquire_fence :: "fence_request \<Rightarrow> db \<Rightarrow> db option" where
  "try_acquire_fence q d =
     (case acquire_router_execution_fence (qr_env q) (qr_router q) (qr_owner q)
             (qr_mutex_holder q) (qr_lease_seconds q) (qr_job q) (qr_os_mutex_held q) d of
        Inl _ \<Rightarrow> None | Inr (_, d') \<Rightarrow> Some d')"

definition fence_held :: "db \<Rightarrow> ident \<Rightarrow> ((string \<times> string) \<times> int) option" where
  "fence_held d rid = map_option (\<lambda>v. ((fv_owner v, fv_holder v), fv_until v)) (fences_of d rid)"

lemma try_acquire_fence_Some:
  "try_acquire_fence q d = Some d' \<longleftrightarrow>
     (\<exists>tok. acquire_router_execution_fence (qr_env q) (qr_router q) (qr_owner q)
             (qr_mutex_holder q) (qr_lease_seconds q) (qr_job q) (qr_os_mutex_held q) d
           = Inr (tok, d'))"
  by (auto simp: try_acquire_fence_def split: sum.splits)

lemma try_acquire_fence_spec:
  assumes "fences_ok d" and "try_acquire_fence q d = Some d'"
  obtains tok v where
    "acquire_spec (lease_validity_epoch (qr_env q)) (qr_lease_seconds q) (qr_owner q)
       (qr_mutex_holder q) (qr_job q) (qr_os_mutex_held q) (fences_of d (qr_router q)) = Inr (tok, v)"
    and "fences_of d' = (fences_of d)(qr_router q \<mapsto> v)"
  using assms acquire_Inr [OF assms(1)] by (auto simp: try_acquire_fence_Some) blast

interpretation router_fence: lease_table fence_held fences_ok try_acquire_fence qr_router
  "\<lambda>q. (qr_owner q, qr_mutex_holder q)" "\<lambda>q. lease_validity_epoch (qr_env q)" qr_lease_seconds
proof (unfold_locales, goal_cases)
  case (1 d q d')
  then show ?case using acquire_fences_ok by (auto simp: try_acquire_fence_Some)
next
  case (2 d q d')
  then show ?case
    by (elim try_acquire_fence_spec)
      (auto simp: fence_held_def acquire_spec_def split: option.splits if_splits)
next
  case (3 d q d' k)
  then show ?case by (elim try_acquire_fence_spec) (auto simp: fence_held_def)
next
  case (4 d q h u)
  then show ?case
    by (auto simp: fence_held_def fences_of_def view_of_def try_acquire_fence_def
        acquire_router_execution_fence_def Let_def split: option.splits)
qed


text \<open>
  C39: a fence changes hands only after it has expired and only to a caller that holds the
  operating-system mutex, and then under a strictly larger token; a successful acquisition by
  the holder itself keeps the token.
\<close>

theorem fence_handover:
  assumes "fences_ok d" and "get_router_execution_fence d rid = Some f"
    and "acquire_router_execution_fence env rid owner holder len job mutex d = Inr (tok, d')"
  shows "if f_lease_until_epoch f < lease_validity_epoch env
         then mutex \<and> tok = f_fence_token f + 1
         else f_lease_owner f = owner \<and> f_mutex_holder_id f = holder \<and> tok = f_fence_token f"
  using acquire_Inr [OF assms(1,3)] assms(2)
  by (auto simp: fences_of_def view_of_def acquire_spec_def split: if_splits)

section \<open>Renewing, releasing and reaping\<close>

lemma renew_fence_cases:
  assumes "fences_ok d"
  shows "(\<exists>d'. renew_router_execution_fence env rid owner holder tok len d = Inr d') \<longleftrightarrow>
     (\<exists>v. fences_of d rid = Some v \<and> fv_token v = tok \<and> lease_validity_epoch env \<le> fv_until v \<and>
          fv_owner v = owner \<and> fv_holder v = holder)"
    and "renew_router_execution_fence env rid owner holder tok len d = Inr d' \<Longrightarrow>
     fences_of d' = (fences_of d)(rid \<mapsto>
       (the (fences_of d rid))\<lparr>fv_until := lease_validity_epoch env + len\<rparr>)"
proof -
  let ?P = "\<lambda>f. f_router_id f = rid \<and> f_fence_token f = tok \<and> f_lease_owner f = owner
      \<and> f_mutex_holder_id f = holder"
  let ?g = "\<lambda>f. f\<lparr>f_lease_until_epoch := lease_validity_epoch env + len,
                 f_updated_at := utc_now_iso env\<rparr>"
  show "(\<exists>d'. renew_router_execution_fence env rid owner holder tok len d = Inr d') \<longleftrightarrow>
     (\<exists>v. fences_of d rid = Some v \<and> fv_token v = tok \<and> lease_validity_epoch env \<le> fv_until v \<and>
          fv_owner v = owner \<and> fv_holder v = holder)"
    using fence_rowcount_1 [OF assms]
    by (cases "get_router_execution_fence d rid")
      (auto simp: renew_router_execution_fence_def Let_def fences_of_def view_of_def)
  assume renew: "renew_router_execution_fence env rid owner holder tok len d = Inr d'"
  then obtain row where row: "get_router_execution_fence d rid = Some row"
    by (auto simp: renew_router_execution_fence_def Let_def split: option.splits)
  with renew have P: "?P row" and d': "update_fences ?P None ?g d = Inr d'"
    using get_fence_key [OF row]
    by (auto simp: renew_router_execution_fence_def Let_def update_fences_def fk_def split: if_splits)
  have "fences_of d' = (fences_of d)(rid \<mapsto> view_of (?g row))"
    by (rule fences_of_update_fences [OF d' _ _ row]) (use P in simp_all)
  with row show "fences_of d' = (fences_of d)(rid \<mapsto>
       (the (fences_of d rid))\<lparr>fv_until := lease_validity_epoch env + len\<rparr>)"
    by (simp add: fences_of_def view_of_def)
qed

text \<open>
  A renewal succeeds exactly for the current token, before expiry, by the owner and process
  that hold the fence, and then only extends its lease.
\<close>

theorem renew_fence_iff:
  assumes "fences_ok d"
  shows "(case renew_router_execution_fence env rid owner holder tok len d of
            Inl e \<Rightarrow> \<not> (\<exists>v. fences_of d rid = Some v \<and> fv_token v = tok \<and>
                         lease_validity_epoch env \<le> fv_until v \<and> fv_owner v = owner \<and> fv_holder v = holder)
          | Inr d' \<Rightarrow> (\<exists>v. fences_of d rid = Some v \<and> fv_token v = tok \<and>
                         lease_validity_epoch env \<le> fv_until v \<and> fv_owner v = owner \<and> fv_holder v = holder \<and>
                         fences_of d' = (fences_of d)(rid \<mapsto> v\<lparr>fv_until := lease_validity_epoch env + len\<rparr>)))"
proof (cases "renew_router_execution_fence env rid owner holder tok len d")
  case (Inl e)
  with renew_fence_cases(1) [OF assms, of env rid owner holder tok len] show ?thesis by simp
next
  case (Inr d')
  then obtain v where "fences_of d rid = Some v \<and> fv_token v = tok \<and>
      lease_validity_epoch env \<le> fv_until v \<and> fv_owner v = owner \<and> fv_holder v = holder"
    using renew_fence_cases(1) [OF assms, of env rid owner holder tok len] by blast
  with renew_fence_cases(2) [OF assms Inr] Inr show ?thesis by simp
qed

lemma reap_fold:
  "router_execution_fences (fold (\<lambda>rid d. d\<lparr>router_execution_fences := sql_delete
      (\<lambda>f. f_router_id f = rid \<and> f_lease_until_epoch f < t) (router_execution_fences d)\<rparr>) ids d) =
   sql_delete (\<lambda>f. f_router_id f \<in> set ids \<and> f_lease_until_epoch f < t) (router_execution_fences d)"
  by (induction ids arbitrary: d) (auto simp: sql_delete_def intro!: filter_cong)

lemma reap_fences:
  assumes "reap_expired_router_execution_fences env limit d = (ids, d')"
  shows "router_execution_fences d' = sql_delete (\<lambda>f. f_router_id f \<in> set ids \<and>
           f_lease_until_epoch f < lease_validity_epoch env) (router_execution_fences d)"
    and "ids = map f_router_id (take limit (filter
           (\<lambda>f. f_lease_until_epoch f < lease_validity_epoch env) (router_execution_fences d)))"
  using assms by (auto simp: reap_expired_router_execution_fences_def Let_def reap_fold)

lemma reap_cases:
  assumes ok: "fences_ok d"
    and reap: "reap_expired_router_execution_fences env limit d = (ids, d')"
  shows "fences_ok d'"
    and "get_router_execution_fence d rid = Some f \<Longrightarrow>
           lease_validity_epoch env \<le> f_lease_until_epoch f \<Longrightarrow>
           get_router_execution_fence d' rid = Some f"
    and "rid \<in> set ids \<Longrightarrow> get_router_execution_fence d' rid = None"
    and "length (filter (\<lambda>f. f_lease_until_epoch f < lease_validity_epoch env)
           (router_execution_fences d)) \<le> limit \<Longrightarrow>
         get_router_execution_fence d' rid = Some f \<Longrightarrow>
           lease_validity_epoch env \<le> f_lease_until_epoch f"
proof -
  let ?old = "\<lambda>f. f_lease_until_epoch f < lease_validity_epoch env"
  note fences = reap_fences [OF reap]
  have dist: "distinct (map f_router_id (router_execution_fences d))"
    using ok by (simp add: fences_ok_def)
  have get: "get_router_execution_fence d' k = (case get_router_execution_fence d k of None \<Rightarrow> None
      | Some f \<Rightarrow> if f_router_id f \<in> set ids \<and> ?old f then None else Some f)" for k
    using row_by_sql_delete [OF dist] by (simp add: get_router_execution_fence_def fences(1))
  show "fences_ok d'"
    using ok distinct_map_sql_delete [OF dist] by (auto simp: fences_ok_def fences(1) set_sql_delete)
  show "get_router_execution_fence d rid = Some f \<Longrightarrow>
      lease_validity_epoch env \<le> f_lease_until_epoch f \<Longrightarrow> get_router_execution_fence d' rid = Some f"
    by (simp add: get)
  show "get_router_execution_fence d' rid = None" if "rid \<in> set ids"
  proof -
    from that obtain g where g: "g \<in> set (router_execution_fences d)" "f_router_id g = rid" "?old g"
      unfolding fences(2) by (force dest: in_set_takeD)
    with dist have "get_router_execution_fence d rid = Some g"
      by (auto simp: get_router_execution_fence_def row_by_Some_iff)
    with g that show ?thesis by (simp add: get)
  qed
  show "lease_validity_epoch env \<le> f_lease_until_epoch f"
    if "length (filter ?old (router_execution_fences d)) \<le> limit"
      "get_router_execution_fence d' rid = Some f"
  proof (rule ccontr)
    assume old: "\<not> lease_validity_epoch env \<le> f_lease_until_epoch f"
    from that(2) get [of rid] have f: "get_router_execution_fence d rid = Some f"
      by (auto split: option.splits if_splits)
    then have "f \<in> set (router_execution_fences d)"
      by (auto simp: get_router_execution_fence_def dest: row_by_Some_mem)
    with old that(1) have "f_router_id f \<in> set ids"
      unfolding fences(2) by auto
    with f old that(2) get [of rid] show False by simp
  qed
qed

text \<open>
  Reaping never removes a live fence, removes every fence it reports, and within its limit
  removes every expired one.
\<close>

theorem reap_only_expired:
  assumes "fences_ok d" and "reap_expired_router_execution_fences env limit d = (ids, d')"
  shows "fences_ok d' \<and>
     (\<forall>rid f. get_router_execution_fence d rid = Some f \<and>
        lease_validity_epoch env \<le> f_lease_until_epoch f \<longrightarrow>
        get_router_execution_fence d' rid = Some f) \<and>
     (\<forall>rid \<in> set ids. get_router_execution_fence d' rid = None) \<and>
     (length (filter (\<lambda>f. f_lease_until_epoch f < lease_validity_epoch env)
        (router_execution_fences d)) \<le> limit \<longrightarrow>
      (\<forall>rid f. get_router_execution_fence d' rid = Some f \<longrightarrow>
         lease_validity_epoch env \<le> f_lease_until_epoch f))"
  using reap_cases [OF assms] by blast

section \<open>Witnesses and a token that restarts\<close>

lemma fences_ok_demo_registry: "fences_ok demo_registry"
  by (simp add: fences_ok_def demo_registry_eq empty_db_def)

text \<open>The database after a first acquisition by worker \<open>w1\<close> in process \<open>p1\<close> at second 10.\<close>

definition demo_fenced :: db where
  "demo_fenced = demo_registry\<lparr>router_execution_fences := [\<lparr>f_fence_id = ''fence_c'',
     f_router_id = ''r1'', f_fence_token = 1, f_lease_owner = ''w1'', f_mutex_holder_id = ''p1'',
     f_lease_until_epoch = 40, f_active_job_id = None, f_created_at = 10, f_updated_at = 10\<rparr>]\<rparr>"

lemma demo_acquire_1:
  "acquire_router_execution_fence (demo_env 10 ''c'') ''r1'' ''w1'' ''p1'' 30 None True demo_registry
     = Inr (1, demo_fenced)"
  by (simp add: acquire_router_execution_fence_def Let_def get_router_execution_fence_def
      demo_registry_eq demo_fenced_def insert_fence_def get_router_def empty_db_def fk_def new_id_def)

lemma demo_fenced_simps:
  "fences_ok demo_fenced"
  "fence_held demo_fenced ''r1'' = Some ((''w1'', ''p1''), 40)"
  "get_router_execution_fence demo_fenced ''r1'' = Some (hd (router_execution_fences demo_fenced))"
  "fences_of demo_fenced ''r1'' = Some \<lparr>fv_token = 1, fv_owner = ''w1'', fv_holder = ''p1'',
     fv_until = 40, fv_job = None\<rparr>"
  by (simp_all add: fences_ok_def demo_fenced_def fence_held_def fences_of_def view_of_def
      get_router_execution_fence_def)

theorem acquire_refines_spec_witness:
  "map_sum id (\<lambda>(tok, d'). (tok, fences_of d'))
     (acquire_router_execution_fence (demo_env 50 ''e'') ''r1'' ''w2'' ''p2'' 30 None True demo_fenced) =
   Inr (2, (fences_of demo_fenced)(''r1'' \<mapsto> \<lparr>fv_token = 2, fv_owner = ''w2'', fv_holder = ''p2'',
     fv_until = 80, fv_job = None\<rparr>))"
proof -
  have pre: "fences_ok demo_fenced" "get_router demo_fenced ''r1'' \<noteq> None"
    "fk (\<lambda>k. get_job demo_fenced k \<noteq> None) None"
    "row_by f_fence_id (new_id ''fence'' (uuid (demo_env 50 ''e'') 0))
       (router_execution_fences demo_fenced) = None"
    by (simp_all add: demo_fenced_simps)
      (simp_all add: demo_fenced_def demo_registry_eq get_router_def fk_def new_id_def)
  show ?thesis
    using acquire_refines_spec [OF pre, of "''w2''" "''p2''" 30 True]
    by (simp add: acquire_spec_def demo_fenced_def fences_of_def view_of_def
        get_router_execution_fence_def)
qed

text \<open>Worker \<open>w2\<close> asks at second 20, within the lease of \<open>w1\<close>.\<close>

definition demo_fence_request :: fence_request where
  "demo_fence_request = \<lparr>qr_env = demo_env 20 ''q'', qr_router = ''r1'', qr_owner = ''w2'',
     qr_mutex_holder = ''p2'', qr_lease_seconds = 30, qr_job = None, qr_os_mutex_held = True\<rparr>"


theorem fence_handover_witness:
  "(50::int) > 40 \<and> f_lease_until_epoch (hd (router_execution_fences demo_fenced)) = 40 \<and>
   (\<exists>d'. acquire_router_execution_fence (demo_env 50 ''e'') ''r1'' ''w2'' ''p2'' 30 None True demo_fenced
      = Inr (1 + 1, d'))"
proof -
  obtain tok d' where acq: "acquire_router_execution_fence (demo_env 50 ''e'') ''r1'' ''w2'' ''p2'' 30
      None True demo_fenced = Inr (tok, d')"
    by (simp add: acquire_router_execution_fence_def Let_def demo_fenced_simps)
      (simp add: demo_fenced_def update_fences_def fk_def)
  from fence_handover [OF demo_fenced_simps(1,3) acq] have "tok = 1 + 1"
    by (simp add: demo_fenced_def)
  with acq show ?thesis by (simp add: demo_fenced_def)
qed

theorem renew_fence_iff_witness:
  "fences_ok demo_fenced \<and>
   (\<exists>d'. renew_router_execution_fence (demo_env 30 ''g'') ''r1'' ''w1'' ''p1'' 1 30 demo_fenced = Inr d' \<and>
      fences_of d' ''r1'' = Some \<lparr>fv_token = 1, fv_owner = ''w1'', fv_holder = ''p1'',
        fv_until = 60, fv_job = None\<rparr>)"
  using renew_fence_iff [OF demo_fenced_simps(1), where env = "demo_env 30 ''g''" and rid = "''r1''"
      and owner = "''w1''" and holder = "''p1''" and tok = 1 and len = 30]
  by (auto simp: demo_fenced_simps split: sum.splits)

lemma demo_reap:
  "reap_expired_router_execution_fences (demo_env 100 ''h'') 100 demo_fenced = ([''r1''], demo_registry)"
  by (simp add: reap_expired_router_execution_fences_def Let_def demo_fenced_def)
    (simp add: demo_registry_eq empty_db_def)

theorem reap_only_expired_witness:
  "fences_ok demo_registry \<and> get_router_execution_fence demo_registry ''r1'' = None"
  using reap_only_expired [OF demo_fenced_simps(1) demo_reap] by simp

text \<open>
  After a fence has been reaped, the next acquisition of the router starts again at token 1,
  whatever the token of the reaped fence was: tokens of a router are not monotonic over its life,
  against the words of \<open>acquire_router_execution_fence\<close>.
\<close>

theorem fence_token_restarts_after_reap:
  assumes "fences_ok d" and "reap_expired_router_execution_fences env limit d = (ids, d')"
    and "rid \<in> set ids"
    and "acquire_router_execution_fence env' rid owner holder len job mutex d' = Inr (tok, d'')"
  shows "tok = 1"
proof -
  from reap_cases [OF assms(1,2)] assms(3) have "fences_ok d'" "fences_of d' rid = None"
    by (simp_all add: fences_of_def)
  with acquire_Inr [OF _ assms(4)] show ?thesis by (auto simp: acquire_spec_def)
qed

text \<open>A fence that had reached token 5 before it expired.\<close>

definition demo_fenced_5 :: db where
  "demo_fenced_5 = demo_fenced\<lparr>router_execution_fences :=
     map (\<lambda>f. f\<lparr>f_fence_token := 5\<rparr>) (router_execution_fences demo_fenced)\<rparr>"

theorem fence_token_restarts_after_reap_witness:
  "f_fence_token (hd (router_execution_fences demo_fenced_5)) = 5 \<and>
   (\<exists>d' d''. reap_expired_router_execution_fences (demo_env 100 ''h'') 100 demo_fenced_5 = ([''r1''], d') \<and>
      acquire_router_execution_fence (demo_env 110 ''k'') ''r1'' ''w2'' ''p2'' 30 None True d' = Inr (1, d''))"
proof -
  have ok: "fences_ok demo_fenced_5"
    by (simp add: fences_ok_def demo_fenced_5_def demo_fenced_def)
  have reap: "reap_expired_router_execution_fences (demo_env 100 ''h'') 100 demo_fenced_5
      = ([''r1''], demo_registry)"
    by (simp add: reap_expired_router_execution_fences_def Let_def demo_fenced_5_def demo_fenced_def)
      (simp add: demo_registry_eq empty_db_def)
  obtain tok d'' where acq: "acquire_router_execution_fence (demo_env 110 ''k'') ''r1'' ''w2'' ''p2'' 30
      None True demo_registry = Inr (tok, d'')"
    by (simp add: acquire_router_execution_fence_def Let_def get_router_execution_fence_def
        demo_registry_eq insert_fence_def get_router_def empty_db_def fk_def)
  with fence_token_restarts_after_reap [OF ok reap _ acq] reap show ?thesis
    by (simp add: demo_fenced_5_def demo_fenced_def)
qed

end
