(* ===== verification/Operation_Store.thy ===== *)
theory Operation_Store
  imports Fence_Store
begin

text \<open>
  Operations and their idempotency records, \<open>src/router_control/persistence/store.py\<close>:
  \<open>peek_idempotency\<close>, \<open>create_operation_bundle\<close> with its dispatch payload, \<open>append_audit\<close> and
  \<open>update_idempotency_response\<close>. The locale \<open>idempotent_command\<close> is the contract that the
  commands keyed by an idempotency key share; it is interpreted on the operation bundle here and
  on recovery requests in \<open>Recovery_Store\<close>.
\<close>

section \<open>The contract of an idempotent command\<close>

locale idempotent_command =
  fixes run :: "'q \<Rightarrow> 'd \<Rightarrow> 'e + ('o \<times> 'd)"
    and lookup :: "'q \<Rightarrow> 'd \<Rightarrow> 'r option"
    and digest_of :: "'r \<Rightarrow> 'g"
    and request_digest :: "'q \<Rightarrow> 'g"
    and replay :: "'r \<Rightarrow> 'd \<Rightarrow> 'e + 'o"
    and conflict :: 'e
    and ok :: "'d \<Rightarrow> bool"
  assumes run_found: "ok d \<Longrightarrow> lookup q d = Some r \<Longrightarrow>
      run q d = (if digest_of r \<noteq> request_digest q then Inl conflict
                 else map_sum id (\<lambda>out. (out, d)) (replay r d))"
    and run_new: "ok d \<Longrightarrow> lookup q d = None \<Longrightarrow> run q d = Inr (out, d') \<Longrightarrow>
      \<exists>r. lookup q d' = Some r \<and> digest_of r = request_digest q"
    and run_ok: "ok d \<Longrightarrow> run q d = Inr (out, d') \<Longrightarrow> ok d'"
begin

lemma recorded:
  assumes "ok d" and "run q d = Inr (out, d')"
  shows "\<exists>r. lookup q d' = Some r \<and> digest_of r = request_digest q"
proof (cases "lookup q d")
  case None
  then show ?thesis using run_new assms by blast
next
  case (Some r)
  with assms run_found [OF assms(1) Some] have "d' = d" "digest_of r = request_digest q"
    by (auto simp: result_simps split: if_splits)
  with Some show ?thesis by blast
qed

text \<open>A repeated request changes nothing and answers with the recorded outcome.\<close>

lemma repeat:
  assumes "ok d" and "run q d = Inr (out, d')"
  shows "\<exists>r. lookup q d' = Some r \<and> run q d' = map_sum id (\<lambda>out. (out, d')) (replay r d')"
  using recorded [OF assms] run_found [OF run_ok [OF assms]] by auto

lemma repeat_unchanged:
  assumes "ok d" and "run q d = Inr (out, d')" and "run q d' = Inr (out2, d2)"
  shows "d2 = d'"
proof -
  from repeat [OF assms(1,2)] assms(3) obtain r where
    "map_sum id (\<lambda>out. (out, d')) (replay r d') = Inr (out2, d2)" by auto
  then show ?thesis by (auto simp: result_simps)
qed

text \<open>The same key with another digest is a conflict.\<close>

lemma conflicting:
  assumes "ok d" and "run q d = Inr (out, d')" and "\<And>e. lookup q' e = lookup q e"
    and "request_digest q' \<noteq> request_digest q"
  shows "run q' d' = Inl conflict"
  using recorded [OF assms(1,2)] assms(3,4) run_found [OF run_ok [OF assms(1,2)], of q'] by auto

end

section \<open>Audit trail\<close>

definition append_audit ::
  "call_env \<Rightarrow> string \<Rightarrow> audit_row \<Rightarrow> db \<Rightarrow> db res" where
  "append_audit env u r d =
     insert_audit (r\<lparr>a_audit_event_id := new_id ''aud'' u, a_occurred_at := utc_now_iso env\<rparr>) d"

text \<open>The keyword defaults of \<open>append_audit\<close>.\<close>

definition audit_default :: "string \<Rightarrow> string \<Rightarrow> audit_row" where
  "audit_default action outcome = \<lparr>a_audit_event_id = [], a_occurred_at = 0,
     a_actor_type = ''system'', a_actor_id = None, a_correlation_id = None, a_router_id = None,
     a_operation_id = None, a_job_id = None, a_plan_id = None, a_action = action,
     a_outcome = outcome, a_summary_redacted = None, a_request_digest = None\<rparr>"

section \<open>Stored responses\<close>

definition response_json :: "int \<Rightarrow> json \<Rightarrow> stored_text" where
  "response_json http body = Json (JObj [(''http_status'', JInt http), (''body'', body)])"

text \<open>
  \<open>int(payload.get("http_status", 0)) or None\<close>, where decoding and conversion errors give
  \<open>None\<close> and a payload that is no dictionary raises.
\<close>

definition stored_http_status :: "stored_text option \<Rightarrow> int option res" where
  "stored_http_status ref =
     (if \<not> truthy_text ref then Inr None
      else case rbind (json_loads (the ref)) (\<lambda>p.
             rbind (json_get p ''http_status'' (JInt 0)) py_int) of
        Inr n \<Rightarrow> Inr (if n = 0 then None else Some n)
      | Inl AttributeError \<Rightarrow> Inl AttributeError
      | Inl _ \<Rightarrow> Inr None)"

lemma stored_http_status_response [simp]:
  "stored_http_status (Some (response_json h b)) = Inr (if h = 0 then None else Some h)"
  by (simp add: stored_http_status_def response_json_def truthy_text_def json_loads_def
      json_get_def py_int_def)

lemma stored_http_status_None [simp]: "stored_http_status None = Inr None"
  by (simp add: stored_http_status_def truthy_text_def)

definition update_idempotency_response :: "ident \<Rightarrow> int \<Rightarrow> json \<Rightarrow> db \<Rightarrow> db" where
  "update_idempotency_response rid http body d =
     d\<lparr>idempotency_records := sql_update (\<lambda>i. i_idempotency_record_id i = rid)
        (\<lambda>i. i\<lparr>i_response_ref := Some (response_json http body), i_status := ''Completed''\<rparr>)
        (idempotency_records d)\<rparr>"

section \<open>Outcomes and look-up\<close>

record idempotency_outcome =
  out_created :: bool
  out_operation_id :: ident
  out_job_id :: ident
  out_record_id :: ident
  out_status :: string
  out_response_ref :: "stored_text option"
  out_http_status :: "int option"

definition outcome_from_idempotency_row ::
  "idempotency_row \<Rightarrow> db \<Rightarrow> idempotency_outcome res" where
  "outcome_from_idempotency_row r d =
     rbind (stored_http_status (i_response_ref r)) (\<lambda>http.
     Inr \<lparr>out_created = False, out_operation_id = i_operation_id r,
          out_job_id = (case list_jobs_for_operation d (i_operation_id r) of
             [] \<Rightarrow> '''' | j # _ \<Rightarrow> j_job_id j),
          out_record_id = i_idempotency_record_id r, out_status = i_status r,
          out_response_ref = i_response_ref r, out_http_status = http\<rparr>)"

record bundle_request =
  bq_router_id :: ident
  bq_operation_kind :: string
  bq_idempotency_key :: string
  bq_request_digest :: string
  bq_scope :: string
  bq_plan_id :: "ident option"
  bq_actor_type :: string
  bq_actor_id :: "string option"
  bq_correlation_id :: "string option"
  bq_initial_job_status :: job_status
  bq_response_ref :: "stored_text option"
  bq_http_status :: "int option"
  bq_expires_in_seconds :: int
  bq_match_without_router_id :: bool

text \<open>The keyword defaults of \<open>create_operation_bundle\<close>.\<close>

definition bundle_default :: "ident \<Rightarrow> string \<Rightarrow> string \<Rightarrow> string \<Rightarrow> bundle_request" where
  "bundle_default rid kind key digest = \<lparr>bq_router_id = rid, bq_operation_kind = kind,
     bq_idempotency_key = key, bq_request_digest = digest, bq_scope = ''hub_admin'',
     bq_plan_id = None, bq_actor_type = ''operator'', bq_actor_id = None,
     bq_correlation_id = None, bq_initial_job_status = Queued, bq_response_ref = None,
     bq_http_status = None, bq_expires_in_seconds = 86400,
     bq_match_without_router_id = False\<rparr>"

definition find_idempotency ::
  "ident option \<Rightarrow> string \<Rightarrow> string \<Rightarrow> string \<Rightarrow> db \<Rightarrow> idempotency_row option" where
  "find_idempotency rid scope kind key d =
     find (\<lambda>i. i_scope i = scope \<and> (case rid of None \<Rightarrow> True | Some r \<Rightarrow> i_router_id i = r) \<and>
               i_operation_kind i = kind \<and> i_idempotency_key i = key) (idempotency_records d)"

definition peek_idempotency ::
  "ident option \<Rightarrow> string \<Rightarrow> string \<Rightarrow> string \<Rightarrow> string \<Rightarrow> db \<Rightarrow> idempotency_outcome option res" where
  "peek_idempotency rid scope kind key digest d =
     (case find_idempotency rid scope kind key d of
        None \<Rightarrow> Inr None
      | Some r \<Rightarrow>
          (if i_request_digest r \<noteq> digest
           then Inl (IdempotencyConflict ''same key different digest'')
           else map_sum id Some (outcome_from_idempotency_row r d)))"

section \<open>The operation bundle\<close>

definition bundle_terminal :: "job_status \<Rightarrow> bool" where
  "bundle_terminal s = (s \<in> {Succeeded, Failed, Cancelled})"

definition bundle_aggregate :: "job_status \<Rightarrow> string" where
  "bundle_aggregate s =
     (if s = Cancelled then ''Failed'' else if s = Failed then ''Failed''
      else if s = Succeeded then ''Converged'' else ''Pending'')"

definition bundle_stored_ref :: "bundle_request \<Rightarrow> stored_text option res" where
  "bundle_stored_ref q = (case bq_http_status q of
     None \<Rightarrow> Inr (bq_response_ref q)
   | Some http \<Rightarrow>
       (if truthy_text (bq_response_ref q)
        then rbind (json_loads (the (bq_response_ref q))) (\<lambda>b. Inr (Some (response_json http b)))
        else Inr (Some (response_json http (JObj [])))))"

definition bundle_lookup :: "bundle_request \<Rightarrow> db \<Rightarrow> idempotency_row option" where
  "bundle_lookup q d = find_idempotency
     (if bq_match_without_router_id q then None else Some (bq_router_id q))
     (bq_scope q) (bq_operation_kind q) (bq_idempotency_key q) d"

definition bundle_operation :: "call_env \<Rightarrow> bundle_request \<Rightarrow> operation_row" where
  "bundle_operation env q = (let ts = utc_now_iso env in
     \<lparr>o_operation_id = new_id ''op'' (uuid env 0), o_router_id = bq_router_id q,
      o_plan_id = bq_plan_id q, o_operation_kind = bq_operation_kind q,
      o_aggregate_status = bundle_aggregate (bq_initial_job_status q),
      o_actor_type = bq_actor_type q, o_actor_id = bq_actor_id q,
      o_idempotency_record_id = new_id ''idem'' (uuid env 1),
      o_correlation_id = bq_correlation_id q, o_created_at = ts, o_updated_at = ts,
      o_terminal_at = (if bundle_terminal (bq_initial_job_status q) then Some ts else None)\<rparr>)"

definition bundle_record ::
  "call_env \<Rightarrow> bundle_request \<Rightarrow> stored_text option \<Rightarrow> idempotency_row" where
  "bundle_record env q ref =
     \<lparr>i_idempotency_record_id = new_id ''idem'' (uuid env 1), i_scope = bq_scope q,
      i_router_id = bq_router_id q, i_operation_kind = bq_operation_kind q,
      i_idempotency_key = bq_idempotency_key q, i_request_digest = bq_request_digest q,
      i_operation_id = new_id ''op'' (uuid env 0), i_response_ref = ref,
      i_status = (if bundle_terminal (bq_initial_job_status q) then ''Completed'' else ''InProgress''),
      i_created_at = utc_now_iso env,
      i_expires_at = (wall_now env + bq_expires_in_seconds q * 1000000) div 1000000\<rparr>"

definition bundle_job :: "call_env \<Rightarrow> bundle_request \<Rightarrow> job_row" where
  "bundle_job env q = (let ts = utc_now_iso env;
       done = (if bundle_terminal (bq_initial_job_status q) then Some ts else None) in
     \<lparr>j_job_id = new_id ''job'' (uuid env 2), j_operation_id = new_id ''op'' (uuid env 0),
      j_router_id = bq_router_id q, j_attempt = 1, j_status = bq_initial_job_status q,
      j_lease_owner = None, j_lease_until_epoch = None, j_heartbeat_at = None,
      j_fencing_token = 0, j_recovery_state = None, j_cancel_requested = False,
      j_terminal_outcome = None, j_created_at = ts, j_updated_at = ts,
      j_started_at = done, j_finished_at = done\<rparr>)"

definition bundle_audit :: "bundle_request \<Rightarrow> ident \<Rightarrow> ident \<Rightarrow> audit_row" where
  "bundle_audit q oid jid =
     (audit_default (''operation.'' @ bq_operation_kind q)
        (if bundle_terminal (bq_initial_job_status q) then ''completed'' else ''accepted''))
     \<lparr>a_actor_type := bq_actor_type q, a_actor_id := bq_actor_id q,
      a_correlation_id := bq_correlation_id q, a_router_id := Some (bq_router_id q),
      a_operation_id := Some oid, a_job_id := Some jid, a_plan_id := bq_plan_id q,
      a_summary_redacted := Some (''operation_kind='' @ bq_operation_kind q),
      a_request_digest := Some (bq_request_digest q)\<rparr>"

definition create_operation_bundle_unlocked ::
  "call_env \<Rightarrow> bundle_request \<Rightarrow> db \<Rightarrow> (idempotency_outcome \<times> db) res" where
  "create_operation_bundle_unlocked env q d =
     (case bundle_lookup q d of
        Some r \<Rightarrow>
          (if i_request_digest r \<noteq> bq_request_digest q
           then Inl (IdempotencyConflict ''same key different digest'')
           else map_sum id (\<lambda>out. (out, d)) (outcome_from_idempotency_row r d))
      | None \<Rightarrow>
          rbind (insert_operation (bundle_operation env q) d) (\<lambda>d.
          rbind (bundle_stored_ref q) (\<lambda>ref.
          rbind (insert_idempotency (bundle_record env q ref) d) (\<lambda>d.
          rbind (insert_job (bundle_job env q) d) (\<lambda>d.
          rbind (append_audit env (uuid env 3)
             (bundle_audit q (new_id ''op'' (uuid env 0)) (new_id ''job'' (uuid env 2))) d) (\<lambda>d.
          Inr (\<lparr>out_created = True, out_operation_id = new_id ''op'' (uuid env 0),
                out_job_id = new_id ''job'' (uuid env 2),
                out_record_id = new_id ''idem'' (uuid env 1),
                out_status = i_status (bundle_record env q ref), out_response_ref = ref,
                out_http_status = bq_http_status q\<rparr>, d)))))))"

definition insert_job_dispatch_payload ::
  "call_env \<Rightarrow> string \<Rightarrow> ident \<Rightarrow> json \<Rightarrow> db \<Rightarrow> db res" where
  "insert_job_dispatch_payload env u job_id payload d =
     insert_step \<lparr>s_step_id = new_id ''step'' u, s_job_id = job_id, s_ordinal = 0,
       s_step_kind = ''dispatch'', s_status = ''Queued'', s_attempt = 1,
       s_checkpoint_json = Some (Json payload), s_error_redacted = None,
       s_started_at = Some (utc_now_iso env), s_finished_at = None\<rparr> d"

text \<open>The first dispatch step of a job; a missing or empty checkpoint is \<open>None\<close>.\<close>

definition get_job_dispatch_payload :: "db \<Rightarrow> ident \<Rightarrow> json option res" where
  "get_job_dispatch_payload d job_id =
     (case filter (\<lambda>s. s_step_kind s = ''dispatch'') (list_job_steps d job_id) of
        [] \<Rightarrow> Inr None
      | s # _ \<Rightarrow>
          (if \<not> truthy_text (s_checkpoint_json s) then Inr None
           else map_sum id Some (json_loads (the (s_checkpoint_json s)))))"

definition create_operation_bundle ::
  "call_env \<Rightarrow> bundle_request \<Rightarrow> json option \<Rightarrow> db \<Rightarrow> (idempotency_outcome \<times> db) res" where
  "create_operation_bundle env q payload d =
     rbind (create_operation_bundle_unlocked env q d) (\<lambda>(out, d).
     if payload \<noteq> None \<and> out_created out
     then rbind (insert_job_dispatch_payload env (uuid env 4) (out_job_id out) (the payload) d)
            (\<lambda>d. Inr (out, d))
     else Inr (out, d))"

section \<open>What a new bundle writes\<close>

lemma bundle_row_simps:
  "o_operation_id (bundle_operation env q) = new_id ''op'' (uuid env 0)"
  "o_router_id (bundle_operation env q) = bq_router_id q"
  "o_plan_id (bundle_operation env q) = bq_plan_id q"
  "i_router_id (bundle_record env q ref) = bq_router_id q"
  "o_operation_kind (bundle_operation env q) = bq_operation_kind q"
  "o_idempotency_record_id (bundle_operation env q) = new_id ''idem'' (uuid env 1)"
  "i_idempotency_record_id (bundle_record env q ref) = new_id ''idem'' (uuid env 1)"
  "i_operation_id (bundle_record env q ref) = new_id ''op'' (uuid env 0)"
  "i_request_digest (bundle_record env q ref) = bq_request_digest q"
  "i_response_ref (bundle_record env q ref) = ref"
  "idem_key (bundle_record env q ref) =
     (bq_scope q, bq_router_id q, bq_operation_kind q, bq_idempotency_key q)"
  "j_job_id (bundle_job env q) = new_id ''job'' (uuid env 2)"
  "j_operation_id (bundle_job env q) = new_id ''op'' (uuid env 0)"
  "j_router_id (bundle_job env q) = bq_router_id q"
  "j_attempt (bundle_job env q) = 1"
  "j_status (bundle_job env q) = bq_initial_job_status q"
  "j_lease_owner (bundle_job env q) = None"
  by (simp_all add: bundle_operation_def bundle_record_def bundle_job_def Let_def idem_key_def)

lemma create_bundle_new:
  assumes "bundle_lookup q d = None"
    and "create_operation_bundle_unlocked env q d = Inr (out, d')"
  obtains ref a where
    "bundle_stored_ref q = Inr ref"
    "d' = d\<lparr>operations := operations d @ [bundle_operation env q],
            idempotency_records := idempotency_records d @ [bundle_record env q ref],
            jobs := jobs d @ [bundle_job env q],
            audit_events := audit_events d @ [a]\<rparr>"
    "get_operation d (new_id ''op'' (uuid env 0)) = None"
    "row_by i_idempotency_record_id (new_id ''idem'' (uuid env 1)) (idempotency_records d) = None"
    "row_by idem_key (idem_key (bundle_record env q ref)) (idempotency_records d) = None"
    "get_idempotency_for_operation d (new_id ''op'' (uuid env 0)) = None"
    "get_job d (new_id ''job'' (uuid env 2)) = None"
    "get_router d (bq_router_id q) \<noteq> None"
    "out = \<lparr>out_created = True, out_operation_id = new_id ''op'' (uuid env 0),
       out_job_id = new_id ''job'' (uuid env 2), out_record_id = new_id ''idem'' (uuid env 1),
       out_status = i_status (bundle_record env q ref), out_response_ref = ref,
       out_http_status = bq_http_status q\<rparr>"
proof -
  from assms obtain d1 d2 d3 d4 ref where steps:
    "insert_operation (bundle_operation env q) d = Inr d1" "bundle_stored_ref q = Inr ref"
    "insert_idempotency (bundle_record env q ref) d1 = Inr d2" "insert_job (bundle_job env q) d2 = Inr d3"
    "append_audit env (uuid env 3) (bundle_audit q (new_id ''op'' (uuid env 0))
       (new_id ''job'' (uuid env 2))) d3 = Inr d4"
    and out: "d' = d4" "out = \<lparr>out_created = True, out_operation_id = new_id ''op'' (uuid env 0),
       out_job_id = new_id ''job'' (uuid env 2), out_record_id = new_id ''idem'' (uuid env 1),
       out_status = i_status (bundle_record env q ref), out_response_ref = ref,
       out_http_status = bq_http_status q\<rparr>"
    unfolding create_operation_bundle_unlocked_def by (simp add: result_simps) blast
  note i1 = insert_operation_Inr [OF steps(1)]
  note i2 = insert_idempotency_Inr [OF steps(3)]
  note i3 = insert_job_Inr [OF steps(4)]
  note i4 = insert_audit_Inr [OF steps(5) [unfolded append_audit_def]]
  show ?thesis
    by (rule that [of ref]) (use steps(2) out i1 i2 i3 i4 in
      \<open>simp_all add: get_job_def get_router_def get_operation_def get_idempotency_for_operation_def
        bundle_row_simps\<close>)
qed

lemma create_bundle_found:
  assumes "bundle_lookup q d = Some r"
    and "create_operation_bundle_unlocked env q d = Inr (out, d')"
  shows "d' = d \<and> i_request_digest r = bq_request_digest q \<and> \<not> out_created out \<and>
     out_operation_id out = i_operation_id r"
  using assms by (auto simp: create_operation_bundle_unlocked_def outcome_from_idempotency_row_def
      result_simps split: if_splits)

lemma bundle_lookup_new:
  assumes "bundle_lookup q d = None"
    and "idempotency_records d' = idempotency_records d @ [bundle_record env q ref]"
  shows "bundle_lookup q d' = Some (bundle_record env q ref)"
  using assms
  by (simp add: bundle_lookup_def find_idempotency_def bundle_record_def find_append_None)

text \<open>The bundle keeps referential integrity: operation, record and job are linked one to one.\<close>

lemma schema_ok_append_bundle:
  assumes ok: "schema_ok d"
    and fresh: "get_operation d oid = None" "get_job d jid = None" "get_router d rid \<noteq> None"
      "row_by i_idempotency_record_id iid (idempotency_records d) = None"
      "row_by idem_key (idem_key i) (idempotency_records d) = None"
      "get_idempotency_for_operation d oid = None"
    and rows: "op_keys op = (oid, rid, iid, kind)" "job_keys j = (jid, oid, rid, 1)"
      "i_idempotency_record_id i = iid" "i_operation_id i = oid"
    and tables: "operations d' = operations d @ [op]" "jobs d' = jobs d @ [j]"
      "idempotency_records d' = idempotency_records d @ [i]" "routers d' = routers d"
  shows "schema_ok d'"
proof -
  have no_job: "j' \<in> set (jobs d) \<Longrightarrow> j_operation_id j' \<noteq> oid" for j'
    using schema_job_refs [OF ok, of j'] fresh(1) by auto
  show ?thesis
    using ok fresh rows no_job
    unfolding schema_ok_def schema_keys_def tables
    by (auto simp: get_operation_def get_job_def get_router_def row_by_None_iff
        get_idempotency_for_operation_def op_keys_def job_keys_def rec_keys_def image_image comp_def
        split: prod.splits)
qed

lemma create_bundle_schema:
  assumes "create_operation_bundle_unlocked env q d = Inr (out, d')" and ok: "schema_ok d"
  shows "schema_ok d'"
proof (cases "bundle_lookup q d")
  case None
  then show ?thesis
  proof (rule create_bundle_new [OF _ assms(1)])
    fix ref a
    assume w: "bundle_stored_ref q = Inr ref"
      "d' = d\<lparr>operations := operations d @ [bundle_operation env q],
            idempotency_records := idempotency_records d @ [bundle_record env q ref],
            jobs := jobs d @ [bundle_job env q], audit_events := audit_events d @ [a]\<rparr>"
      "get_operation d (new_id ''op'' (uuid env 0)) = None"
      "row_by i_idempotency_record_id (new_id ''idem'' (uuid env 1)) (idempotency_records d) = None"
      "row_by idem_key (idem_key (bundle_record env q ref)) (idempotency_records d) = None"
      "get_idempotency_for_operation d (new_id ''op'' (uuid env 0)) = None"
      "get_job d (new_id ''job'' (uuid env 2)) = None" "get_router d (bq_router_id q) \<noteq> None"
    show ?thesis
      by (rule schema_ok_append_bundle [OF ok w(3,7,8,4,5,6), where j = "bundle_job env q"
            and op = "bundle_operation env q" and kind = "bq_operation_kind q"])
        (simp_all add: w(2) op_keys_def job_keys_def bundle_row_simps)
  qed
next
  case (Some r)
  with create_bundle_found [OF Some assms(1)] ok show ?thesis by simp
qed

lemma insert_job_dispatch_payload_Inr:
  "insert_job_dispatch_payload env u jid p d = Inr d' \<Longrightarrow> \<exists>s. d' = d\<lparr>job_steps := job_steps d @ [s]\<rparr>"
  by (auto simp: insert_job_dispatch_payload_def dest: insert_step_Inr)

lemma create_operation_bundle_cases:
  assumes "create_operation_bundle env q p d = Inr (out, d')"
  obtains d1 ss where "create_operation_bundle_unlocked env q d = Inr (out, d1)"
    "d' = d1\<lparr>job_steps := job_steps d1 @ ss\<rparr>" "\<not> out_created out \<Longrightarrow> ss = []"
proof -
  from assms obtain d1 where u: "create_operation_bundle_unlocked env q d = Inr (out, d1)"
    and s: "(if p \<noteq> None \<and> out_created out
       then rbind (insert_job_dispatch_payload env (uuid env 4) (out_job_id out) (the p) d1)
              (\<lambda>d. Inr (out, d)) else Inr (out, d1)) = Inr (out, d')"
    by (auto simp: create_operation_bundle_def result_simps split: if_splits)
  show thesis
  proof (cases "p \<noteq> None \<and> out_created out")
    case True
    with s obtain st where "d' = d1\<lparr>job_steps := job_steps d1 @ [st]\<rparr>"
      by (auto simp: result_simps dest: insert_job_dispatch_payload_Inr)
    with True show thesis by (intro that [OF u, of "[st]"]) auto
  next
    case False
    with s show thesis by (intro that [OF u, of "[]"]) auto
  qed
qed

lemma create_operation_bundle_schema:
  assumes "create_operation_bundle env q p d = Inr (out, d')" and "schema_ok d"
  shows "schema_ok d'"
  using assms(1)
proof (rule create_operation_bundle_cases)
  fix d1 ss
  assume "create_operation_bundle_unlocked env q d = Inr (out, d1)"
    and d': "d' = d1\<lparr>job_steps := job_steps d1 @ ss\<rparr>"
  then have "schema_ok d1" using create_bundle_schema assms(2) by blast
  then show ?thesis by (rule schema_ok_cong [rotated]) (simp add: d' schema_keys_def)
qed

section \<open>The bundle is an idempotent command\<close>

lemma bundle_run_found:
  assumes "bundle_lookup q d = Some r"
  shows "create_operation_bundle env q p d =
    (if i_request_digest r \<noteq> bq_request_digest q
     then Inl (IdempotencyConflict ''same key different digest'')
     else map_sum id (\<lambda>out. (out, d)) (outcome_from_idempotency_row r d))"
proof (cases "outcome_from_idempotency_row r d")
  case (Inl e)
  with assms show ?thesis
    by (simp add: create_operation_bundle_def create_operation_bundle_unlocked_def)
next
  case (Inr out)
  then have "\<not> out_created out"
    by (auto simp: outcome_from_idempotency_row_def result_simps)
  with Inr assms show ?thesis
    by (simp add: create_operation_bundle_def create_operation_bundle_unlocked_def)
qed

interpretation op_bundle: idempotent_command
  "\<lambda>(env, q, p) d. create_operation_bundle env q p d"
  "\<lambda>(env, q, p) d. bundle_lookup q d"
  i_request_digest
  "\<lambda>(env, q, p). bq_request_digest q"
  outcome_from_idempotency_row
  "IdempotencyConflict ''same key different digest''"
  "\<lambda>_. True"
proof unfold_locales
  fix x :: "call_env \<times> bundle_request \<times> json option" and d r
  assume "(case x of (env, q, p) \<Rightarrow> \<lambda>d. bundle_lookup q d) d = Some r"
  then show "(case x of (env, q, p) \<Rightarrow> \<lambda>d. create_operation_bundle env q p d) d =
      (if i_request_digest r \<noteq> (case x of (env, q, p) \<Rightarrow> bq_request_digest q)
       then Inl (IdempotencyConflict ''same key different digest'')
       else map_sum id (\<lambda>out. (out, d)) (outcome_from_idempotency_row r d))"
    by (cases x) (simp add: bundle_run_found)
next
  fix x :: "call_env \<times> bundle_request \<times> json option" and d out d'
  obtain env q p where x: "x = (env, q, p)" by (cases x)
  assume "(case x of (env, q, p) \<Rightarrow> \<lambda>d. bundle_lookup q d) d = None"
    and "(case x of (env, q, p) \<Rightarrow> \<lambda>d. create_operation_bundle env q p d) d = Inr (out, d')"
  then have none: "bundle_lookup q d = None"
    and run: "create_operation_bundle env q p d = Inr (out, d')"
    by (simp_all add: x)
  from run show "\<exists>r. (case x of (env, q, p) \<Rightarrow> \<lambda>d. bundle_lookup q d) d' = Some r \<and>
      i_request_digest r = (case x of (env, q, p) \<Rightarrow> bq_request_digest q)"
  proof (rule create_operation_bundle_cases)
    fix d1 ss
    assume u: "create_operation_bundle_unlocked env q d = Inr (out, d1)"
      and d': "d' = d1\<lparr>job_steps := job_steps d1 @ ss\<rparr>"
    from none u obtain ref where
      "idempotency_records d1 = idempotency_records d @ [bundle_record env q ref]"
      by (rule create_bundle_new) auto
    with none have "bundle_lookup q d' = Some (bundle_record env q ref)"
      by (intro bundle_lookup_new) (simp_all add: d')
    then show ?thesis by (simp add: x bundle_row_simps)
  qed
qed

section \<open>Replays\<close>

lemma jobs_of_new_operation:
  assumes "schema_ok d" and "get_operation d oid = None"
    and "jobs d' = jobs d @ [j]" and "j_operation_id j = oid"
  shows "list_jobs_for_operation d' oid = [j]"
proof -
  have "filter (\<lambda>j. j_operation_id j = oid) (jobs d) = []"
    using schema_job_refs [OF assms(1)] assms(2) by (fastforce simp: filter_empty_conv)
  with assms(3,4) show ?thesis by (simp add: list_jobs_for_operation_def)
qed

text \<open>Requests whose stored response decodes back to the given status code.\<close>

definition bundle_status_ok :: "bundle_request \<Rightarrow> bool" where
  "bundle_status_ok q =
     (bq_http_status q \<noteq> Some 0 \<and> (bq_http_status q = None \<longrightarrow> bq_response_ref q = None))"

lemma stored_status_round_trip:
  "bundle_stored_ref q = Inr ref \<Longrightarrow> bundle_status_ok q \<Longrightarrow>
   stored_http_status ref = Inr (bq_http_status q)"
  by (auto simp: bundle_stored_ref_def bundle_status_ok_def result_simps
      split: option.splits if_splits)

lemma new_bundle_outcome:
  assumes "bundle_lookup q d = None"
    and "create_operation_bundle env q p d = Inr (out, d')"
    and "schema_ok d" and "bundle_status_ok q"
  shows "\<exists>r. bundle_lookup q d' = Some r \<and> i_request_digest r = bq_request_digest q \<and>
    outcome_from_idempotency_row r d' = Inr (out\<lparr>out_created := False\<rparr>)"
  using assms(2)
proof (rule create_operation_bundle_cases)
  fix d1 ss
  assume u: "create_operation_bundle_unlocked env q d = Inr (out, d1)"
    and d': "d' = d1\<lparr>job_steps := job_steps d1 @ ss\<rparr>"
  from assms(1) u show ?thesis
  proof (rule create_bundle_new)
    fix ref a
    assume w: "bundle_stored_ref q = Inr ref"
      "d1 = d\<lparr>operations := operations d @ [bundle_operation env q],
            idempotency_records := idempotency_records d @ [bundle_record env q ref],
            jobs := jobs d @ [bundle_job env q], audit_events := audit_events d @ [a]\<rparr>"
      "get_operation d (new_id ''op'' (uuid env 0)) = None"
      and out: "out = \<lparr>out_created = True, out_operation_id = new_id ''op'' (uuid env 0),
        out_job_id = new_id ''job'' (uuid env 2), out_record_id = new_id ''idem'' (uuid env 1),
        out_status = i_status (bundle_record env q ref), out_response_ref = ref,
        out_http_status = bq_http_status q\<rparr>"
    have "list_jobs_for_operation d' (new_id ''op'' (uuid env 0)) = [bundle_job env q]"
      by (rule jobs_of_new_operation [OF assms(3) w(3)])
        (simp_all add: d' w(2) bundle_row_simps)
    then have "outcome_from_idempotency_row (bundle_record env q ref) d' =
        Inr (out\<lparr>out_created := False\<rparr>)"
      by (simp add: outcome_from_idempotency_row_def out bundle_row_simps
          stored_status_round_trip [OF w(1) assms(4)])
    moreover have "bundle_lookup q d' = Some (bundle_record env q ref)"
      by (rule bundle_lookup_new [OF assms(1)]) (simp add: d' w(2))
    ultimately show ?thesis by (simp add: bundle_row_simps)
  qed
qed

text \<open>
  C6: A request is executed at most once. After \<open>create_operation_bundle\<close> has succeeded, the
  same request, issued later by any caller with any clock, any random identifiers and any dispatch
  payload, returns the same operation, job and record identifiers, the same stored response and
  the same HTTP status, with \<open>created\<close> false, and leaves the database exactly as it is; the same
  key with another request digest is refused as an idempotency conflict.
\<close>

theorem bundle_replay:
  assumes "schema_ok d" and "bundle_status_ok q"
    and "create_operation_bundle env q p d = Inr (out, d')"
  shows "create_operation_bundle env' q p' d' = Inr (out\<lparr>out_created := False\<rparr>, d') \<and>
    (digest \<noteq> bq_request_digest q \<longrightarrow>
      create_operation_bundle env' (q\<lparr>bq_request_digest := digest\<rparr>) p' d' =
        Inl (IdempotencyConflict ''same key different digest''))"
proof
  show "create_operation_bundle env' q p' d' = Inr (out\<lparr>out_created := False\<rparr>, d')"
  proof (cases "bundle_lookup q d")
    case None
    from new_bundle_outcome [OF None assms(3,1,2)] show ?thesis
      by (auto simp: bundle_run_found)
  next
    case (Some r)
    with assms(3) have d': "d' = d" "i_request_digest r = bq_request_digest q"
      "outcome_from_idempotency_row r d = Inr out"
      by (auto simp: bundle_run_found result_simps split: if_splits)
    then have "\<not> out_created out"
      by (auto simp: outcome_from_idempotency_row_def result_simps)
    with d' Some show ?thesis by (simp add: bundle_run_found)
  qed
  show "digest \<noteq> bq_request_digest q \<longrightarrow>
      create_operation_bundle env' (q\<lparr>bq_request_digest := digest\<rparr>) p' d' =
        Inl (IdempotencyConflict ''same key different digest'')"
    using op_bundle.conflicting [of "(env, q, p)" d out d' "(env', q\<lparr>bq_request_digest := digest\<rparr>, p')"]
      assms(3) by (simp add: bundle_lookup_def)
qed

text \<open>
  A new bundle is complete and consistent: in the resulting database the operation, its job
  (attempt 1, queued as asked) and its idempotency record exist under the returned identifiers and
  point to each other and to the router, and all keys and references of the schema still hold.
\<close>

theorem bundle_complete:
  assumes "schema_ok d" and "create_operation_bundle env q p d = Inr (out, d')"
    and "out_created out"
  shows "schema_ok d' \<and>
    (\<exists>r j i. get_operation d' (out_operation_id out) = Some r \<and>
       get_job d' (out_job_id out) = Some j \<and>
       get_idempotency_for_operation d' (out_operation_id out) = Some i \<and>
       i_idempotency_record_id i = out_record_id out \<and>
       o_idempotency_record_id r = out_record_id out \<and>
       o_router_id r = bq_router_id q \<and> o_operation_kind r = bq_operation_kind q \<and>
       j_operation_id j = out_operation_id out \<and> j_router_id j = bq_router_id q \<and>
       j_attempt j = 1 \<and> j_status j = bq_initial_job_status q \<and> j_lease_owner j = None \<and>
       list_jobs_for_operation d' (out_operation_id out) = [j])"
proof (intro conjI)
  show "schema_ok d'" by (rule create_operation_bundle_schema [OF assms(2,1)])
  have none: "bundle_lookup q d = None"
  proof (rule ccontr)
    assume "bundle_lookup q d \<noteq> None"
    then obtain r where "bundle_lookup q d = Some r" by auto
    with assms(2,3) show False
      by (auto simp: bundle_run_found result_simps outcome_from_idempotency_row_def
          split: if_splits)
  qed
  show "\<exists>r j i. get_operation d' (out_operation_id out) = Some r \<and>
       get_job d' (out_job_id out) = Some j \<and>
       get_idempotency_for_operation d' (out_operation_id out) = Some i \<and>
       i_idempotency_record_id i = out_record_id out \<and>
       o_idempotency_record_id r = out_record_id out \<and>
       o_router_id r = bq_router_id q \<and> o_operation_kind r = bq_operation_kind q \<and>
       j_operation_id j = out_operation_id out \<and> j_router_id j = bq_router_id q \<and>
       j_attempt j = 1 \<and> j_status j = bq_initial_job_status q \<and> j_lease_owner j = None \<and>
       list_jobs_for_operation d' (out_operation_id out) = [j]"
    using assms(2)
  proof (rule create_operation_bundle_cases)
    fix d1 ss
    assume u: "create_operation_bundle_unlocked env q d = Inr (out, d1)"
      and d': "d' = d1\<lparr>job_steps := job_steps d1 @ ss\<rparr>"
    from none u show ?thesis
    proof (rule create_bundle_new)
      fix ref a
      assume w: "d1 = d\<lparr>operations := operations d @ [bundle_operation env q],
            idempotency_records := idempotency_records d @ [bundle_record env q ref],
            jobs := jobs d @ [bundle_job env q], audit_events := audit_events d @ [a]\<rparr>"
        "get_operation d (new_id ''op'' (uuid env 0)) = None"
        "get_idempotency_for_operation d (new_id ''op'' (uuid env 0)) = None"
        "get_job d (new_id ''job'' (uuid env 2)) = None"
        and out: "out = \<lparr>out_created = True, out_operation_id = new_id ''op'' (uuid env 0),
          out_job_id = new_id ''job'' (uuid env 2), out_record_id = new_id ''idem'' (uuid env 1),
          out_status = i_status (bundle_record env q ref), out_response_ref = ref,
          out_http_status = bq_http_status q\<rparr>"
      have "list_jobs_for_operation d' (new_id ''op'' (uuid env 0)) = [bundle_job env q]"
        by (rule jobs_of_new_operation [OF assms(1) w(2)]) (simp_all add: d' w(1) bundle_row_simps)
      moreover have "get_operation d' (new_id ''op'' (uuid env 0)) = Some (bundle_operation env q)"
        "get_job d' (new_id ''job'' (uuid env 2)) = Some (bundle_job env q)"
        "get_idempotency_for_operation d' (new_id ''op'' (uuid env 0)) =
           Some (bundle_record env q ref)"
        using w(2-4) by (simp_all add: get_operation_def get_job_def d' w(1) table_simps
            get_idempotency_for_operation_def bundle_row_simps)
      ultimately show ?thesis by (auto simp: out bundle_row_simps)
    qed
  qed
qed

section \<open>Example: a queued plan application\<close>

definition demo_request :: bundle_request where
  "demo_request = bundle_default ''r1'' ''apply_plan'' ''k1'' ''d1''"

definition demo_queued :: db where
  "demo_queued = (case create_operation_bundle (demo_env 3 ''c'') demo_request None demo_registry of
     Inr (_, d) \<Rightarrow> d | Inl _ \<Rightarrow> empty_db)"

definition demo_outcome :: idempotency_outcome where
  "demo_outcome = \<lparr>out_created = True, out_operation_id = ''op_c'', out_job_id = ''job_cxx'',
     out_record_id = ''idem_cx'', out_status = ''InProgress'', out_response_ref = None,
     out_http_status = None\<rparr>"

lemma demo_bundle:
  "create_operation_bundle (demo_env 3 ''c'') demo_request None demo_registry =
     Inr (demo_outcome, demo_queued)"
  unfolding demo_queued_def demo_outcome_def demo_registry_eq demo_sites_def
  by (simp add: create_operation_bundle_def create_operation_bundle_unlocked_def demo_request_def
      bundle_default_def bundle_lookup_def find_idempotency_def empty_db_def insert_defs
      bundle_operation_def bundle_record_def bundle_job_def bundle_audit_def audit_default_def
      append_audit_def bundle_stored_ref_def bundle_terminal_def get_operation_def get_router_def
      get_job_def get_idempotency_for_operation_def fk_def new_id_def idem_key_def Let_def
      numeral_2_eq_2 numeral_3_eq_3)

lemma demo_queued_eq:
  "demo_queued = demo_registry\<lparr>
     operations := [bundle_operation (demo_env 3 ''c'') demo_request],
     idempotency_records := [bundle_record (demo_env 3 ''c'') demo_request None],
     jobs := [bundle_job (demo_env 3 ''c'') demo_request],
     audit_events := [(bundle_audit demo_request ''op_c'' ''job_cxx'')
       \<lparr>a_audit_event_id := ''aud_cxxx'', a_occurred_at := 3\<rparr>]\<rparr>"
  unfolding demo_queued_def demo_registry_eq demo_sites_def
  by (simp add: create_operation_bundle_def create_operation_bundle_unlocked_def demo_request_def
      bundle_default_def bundle_lookup_def find_idempotency_def empty_db_def insert_defs
      append_audit_def bundle_stored_ref_def get_operation_def get_router_def
      get_job_def get_idempotency_for_operation_def fk_def new_id_def idem_key_def Let_def
      numeral_2_eq_2 numeral_3_eq_3 bundle_row_simps bundle_audit_def audit_default_def)

lemma demo_registry_schema: "schema_ok demo_registry"
  by (simp add: schema_ok_def schema_keys_def demo_registry_eq empty_db_def)

lemma demo_request_status_ok: "bundle_status_ok demo_request"
  by (simp add: bundle_status_ok_def demo_request_def bundle_default_def)

theorem bundle_replay_witness:
  "create_operation_bundle (demo_env 9 ''z'') demo_request (Some JNull) demo_queued =
     Inr (demo_outcome\<lparr>out_created := False\<rparr>, demo_queued) \<and>
   create_operation_bundle (demo_env 9 ''z'') (demo_request\<lparr>bq_request_digest := ''d2''\<rparr>) None
     demo_queued = Inl (IdempotencyConflict ''same key different digest'')"
proof -
  have "''d2'' \<noteq> bq_request_digest demo_request"
    by (simp add: demo_request_def bundle_default_def)
  then show ?thesis
    using bundle_replay [OF demo_registry_schema demo_request_status_ok demo_bundle] by blast
qed

theorem bundle_complete_witness:
  "schema_ok demo_queued \<and> (\<exists>j. get_job demo_queued ''job_cxx'' = Some j \<and> j_status j = Queued)"
  using bundle_complete [OF demo_registry_schema demo_bundle]
  by (auto simp: demo_outcome_def demo_request_def bundle_default_def)

end
