(* ===== verification/Job_Store.thy ===== *)
theory Job_Store
  imports Operation_Store
begin

text \<open>
  The durable job queue of \<open>src/router_control/persistence/store.py\<close>: claiming the next job under
  the per-router mutation lock (\<open>claim_job\<close>), the heartbeat (\<open>renew_lease\<close>), progress and
  completion guarded by owner and fencing token (\<open>record_job_progress\<close>, \<open>complete_job\<close>),
  cancellation (\<open>cancel_job\<close>, \<open>mark_target_job_cancelled\<close>), recovery of expired leases and the
  resume jobs. The paged candidate scan is related to the first claimable row of the whole queue.
\<close>

section \<open>Claiming\<close>

definition mutation_operation_kinds :: "string list" where
  "mutation_operation_kinds = [''apply_plan'', ''enroll'', ''preflight'', ''rotate_credential'']"

definition dispatch_payload_required_kinds :: "string list" where
  "dispatch_payload_required_kinds =
     [''commissioning_assess_readonly'', ''preset_validate'', ''preset_plan_readiness'']"

definition is_mutation :: "string \<Rightarrow> bool" where
  "is_mutation kind \<longleftrightarrow> kind \<in> set mutation_operation_kinds"

definition claim_batch_size :: nat where
  "claim_batch_size = 64"

record claim_result =
  cl_job_id :: ident
  cl_fencing_token :: int
  cl_lease_owner :: string
  cl_lease_until_epoch :: int

text \<open>A candidate is a queued job joined with the kind of its operation.\<close>

type_synonym candidate = "job_row \<times> string"

definition cand_key :: "candidate \<Rightarrow> int \<times> ident" where
  "cand_key c = (j_created_at (fst c), j_job_id (fst c))"

definition claim_join :: "db \<Rightarrow> candidate list" where
  "claim_join d = [(j, o_operation_kind r). j \<leftarrow> jobs d, r \<leftarrow> operations d,
     o_operation_id r = j_operation_id j \<and> j_status j = Queued]"

definition after_cursor :: "(int \<times> ident) option \<Rightarrow> candidate \<Rightarrow> bool" where
  "after_cursor cursor c = (case cursor of
     None \<Rightarrow> True
   | Some (created_at, job_id) \<Rightarrow>
       j_created_at (fst c) > created_at \<or>
       (j_created_at (fst c) = created_at \<and> j_job_id (fst c) > job_id))"

definition claim_page :: "(int \<times> ident) option \<Rightarrow> db \<Rightarrow> candidate list" where
  "claim_page cursor d =
     take claim_batch_size (sort_key cand_key (filter (after_cursor cursor) (claim_join d)))"

definition lock_blocked :: "db \<Rightarrow> ident \<Rightarrow> bool" where
  "lock_blocked d router_id = (case get_lock d router_id of
     None \<Rightarrow> False
   | Some lock \<Rightarrow> (case lk_active_job_id lock of
       None \<Rightarrow> False
     | Some a \<Rightarrow> (case get_job d a of
         None \<Rightarrow> False
       | Some active \<Rightarrow> job_active (j_status active))))"

datatype verdict = No_Payload | Lock_Blocked | Not_Updated | Claimable

definition claim_verdict :: "db \<Rightarrow> candidate \<Rightarrow> verdict res" where
  "claim_verdict d c = (let job_id = j_job_id (fst c) in
     rbind (if snd c \<in> set dispatch_payload_required_kinds
            then get_job_dispatch_payload d job_id else Inr (Some JNull)) (\<lambda>payload.
     Inr (if payload = None then No_Payload
          else if is_mutation (snd c) \<and> lock_blocked d (j_router_id (fst c)) then Lock_Blocked
          else if sql_rowcount (\<lambda>j. j_job_id j = job_id \<and> j_status j = Queued) (jobs d) \<noteq> 1
          then Not_Updated else Claimable)))"

text \<open>One pass of the inner loop: the row to claim, if any, and \<open>batch_all_lock_blocked\<close>.\<close>

fun claim_batch :: "db \<Rightarrow> candidate list \<Rightarrow> bool \<Rightarrow> (candidate option \<times> bool) res" where
  "claim_batch d [] all_blocked = Inr (None, all_blocked)"
| "claim_batch d (c # cs) all_blocked =
     rbind (claim_verdict d c) (\<lambda>v. case v of
       Claimable \<Rightarrow> Inr (Some c, False)
     | Lock_Blocked \<Rightarrow> claim_batch d cs all_blocked
     | _ \<Rightarrow> claim_batch d cs False)"

function (sequential) claim_scan ::
  "db \<Rightarrow> (int \<times> ident) option \<Rightarrow> bool \<Rightarrow> candidate option res" where
  "claim_scan d cursor rescanned = (let cs = claim_page cursor d in
     if cs = [] then Inr None
     else case claim_batch d cs True of
       Inl e \<Rightarrow> Inl e
     | Inr (Some c, _) \<Rightarrow> Inr (Some c)
     | Inr (None, all_blocked) \<Rightarrow>
         (if length cs < claim_batch_size then Inr None
          else if all_blocked \<and> \<not> rescanned then claim_scan d None True
          else claim_scan d (Some (cand_key (last cs))) rescanned))"
  by pat_completeness auto

lemma after_cursor_Some: "after_cursor (Some k) c \<longleftrightarrow> k < cand_key c"
  by (cases k) (auto simp: after_cursor_def cand_key_def less_prod_def)

lemma claim_page_mem: "c \<in> set (claim_page cursor d) \<Longrightarrow> c \<in> set (claim_join d) \<and> after_cursor cursor c"
  by (auto simp: claim_page_def dest: in_set_takeD)

text \<open>Moving the cursor to the last row of a page leaves strictly fewer rows.\<close>

lemma cursor_progress:
  assumes "claim_page cursor d \<noteq> []"
  shows "length (filter (after_cursor (Some (cand_key (last (claim_page cursor d))))) (claim_join d))
       < length (filter (after_cursor cursor) (claim_join d))"
proof -
  let ?c = "last (claim_page cursor d)"
  have c: "?c \<in> set (claim_join d)" "after_cursor cursor ?c"
    using claim_page_mem [OF last_in_set [OF assms]] by simp_all
  have sub: "after_cursor (Some (cand_key ?c)) x \<Longrightarrow> after_cursor cursor x" for x
    using c(2) by (cases cursor) (auto simp: after_cursor_Some, simp add: after_cursor_def)
  have "filter (after_cursor (Some (cand_key ?c))) (claim_join d) =
      filter (after_cursor (Some (cand_key ?c))) (filter (after_cursor cursor) (claim_join d))"
    unfolding filter_filter by (rule filter_cong) (auto dest: sub)
  moreover have "length (filter (after_cursor (Some (cand_key ?c)))
      (filter (after_cursor cursor) (claim_join d))) < length (filter (after_cursor cursor) (claim_join d))"
    using c by (intro length_filter_less [of ?c]) (auto simp: after_cursor_Some)
  ultimately show ?thesis by simp
qed

termination claim_scan
proof (relation "inv_image (less_than <*lex*> less_than)
    (\<lambda>(d, cursor, rescanned). (if rescanned then 0 else 1,
       length (filter (after_cursor cursor) (claim_join d))))", goal_cases)
  case 1
  then show ?case by (simp add: wf_lex_prod)
next
  case (2 d cursor rescanned)
  then show ?case by simp
next
  case (3 d cursor rescanned cs)
  then show ?case using cursor_progress [of cursor d] by (simp del: less_than_iff add: less_than_iff)
qed

declare claim_scan.simps [simp del]

text \<open>The \<open>SET\<close> clause of the claim.\<close>

definition claim_row :: "call_env \<Rightarrow> string \<Rightarrow> int \<Rightarrow> int \<Rightarrow> job_row \<Rightarrow> job_row" where
  "claim_row env w u t j = j\<lparr>j_status := Leased, j_lease_owner := Some w,
     j_lease_until_epoch := Some u, j_fencing_token := t, j_heartbeat_at := Some (utc_now_iso env),
     j_updated_at := utc_now_iso env,
     j_started_at := (case j_started_at j of None \<Rightarrow> Some (utc_now_iso env) | s \<Rightarrow> s)\<rparr>"

lemma claim_row_simps [simp]:
  "job_keys (claim_row env w u t j) = job_keys j"
  "j_job_id (claim_row env w u t j) = j_job_id j"
  "j_operation_id (claim_row env w u t j) = j_operation_id j"
  "j_router_id (claim_row env w u t j) = j_router_id j"
  "j_status (claim_row env w u t j) = Leased"
  "j_lease_owner (claim_row env w u t j) = Some w"
  "j_fencing_token (claim_row env w u t j) = t"
  by (simp_all add: claim_row_def job_keys_def)

definition claim_apply :: "call_env \<Rightarrow> string \<Rightarrow> int \<Rightarrow> candidate \<Rightarrow> db \<Rightarrow> claim_result \<times> db" where
  "claim_apply env worker_id lease_seconds c d =
     (let ts = utc_now_iso env; job_id = j_job_id (fst c);
          new_fence = j_fencing_token (fst c) + 1;
          lease_until = lease_validity_epoch env + lease_seconds;
          d1 = d\<lparr>jobs := sql_update (\<lambda>j. j_job_id j = job_id \<and> j_status j = Queued)
                 (claim_row env worker_id lease_until new_fence) (jobs d)\<rparr>;
          d2 = (if is_mutation (snd c)
                then d1\<lparr>router_mutation_locks :=
                       sql_update (\<lambda>l. lk_router_id l = j_router_id (fst c))
                         (\<lambda>l. l\<lparr>lk_active_job_id := Some job_id, lk_lock_owner := Some worker_id,
                                lk_lock_until_epoch := Some lease_until,
                                lk_fencing_token := new_fence, lk_updated_at := ts\<rparr>)
                         (router_mutation_locks d1)\<rparr>
                else d1)
      in (\<lparr>cl_job_id = job_id, cl_fencing_token = new_fence, cl_lease_owner = worker_id,
           cl_lease_until_epoch = lease_until\<rparr>, d2))"

definition claim_job ::
  "call_env \<Rightarrow> string \<Rightarrow> int \<Rightarrow> db \<Rightarrow> (claim_result option \<times> db) res" where
  "claim_job env worker_id lease_seconds d =
     rbind (claim_scan d None False) (\<lambda>hit. case hit of
       None \<Rightarrow> Inr (None, d)
     | Some c \<Rightarrow> (let (r, d') = claim_apply env worker_id lease_seconds c d in Inr (Some r, d')))"

subsection \<open>The paged scan finds the first claimable row\<close>

text \<open>Reference: the first claimable candidate of the whole queue in first-in first-out order.\<close>

fun first_claimable :: "db \<Rightarrow> candidate list \<Rightarrow> candidate option res" where
  "first_claimable d [] = Inr None"
| "first_claimable d (c # cs) =
     rbind (claim_verdict d c) (\<lambda>v. if v = Claimable then Inr (Some c) else first_claimable d cs)"

definition claim_queue :: "db \<Rightarrow> candidate list" where
  "claim_queue d = sort_key cand_key (claim_join d)"

lemma first_claimable_append:
  "first_claimable d (xs @ ys) = rbind (first_claimable d xs) (\<lambda>hit. case hit of
     Some c \<Rightarrow> Inr (Some c) | None \<Rightarrow> first_claimable d ys)"
proof (induction xs)
  case (Cons c xs)
  then show ?case by (cases "claim_verdict d c") auto
qed simp

lemma claim_batch_first:
  "map_sum id fst (claim_batch d cs b) = first_claimable d cs"
proof (induction cs arbitrary: b)
  case (Cons c cs)
  then show ?case by (cases "claim_verdict d c") (auto split: verdict.splits)
qed simp

lemma claim_batch_cases:
  "case claim_batch d cs b of
     Inl e \<Rightarrow> first_claimable d cs = Inl e
   | Inr (hit, _) \<Rightarrow> first_claimable d cs = Inr hit"
  using claim_batch_first [of d cs b] by (auto split: sum.splits)

lemma claim_page_queue:
  "claim_page cursor d = take claim_batch_size (filter (after_cursor cursor) (claim_queue d))"
  by (simp add: claim_page_def claim_queue_def filter_sort)

lemma filter_greater_last:
  fixes key :: "'a \<Rightarrow> 'k::linorder"
  assumes "sorted (map key (xs @ ys))" and "distinct (map key (xs @ ys))" and "xs \<noteq> []"
  shows "filter (\<lambda>y. key (last xs) < key y) (xs @ ys) = ys"
proof -
  obtain zs z where xs: "xs = zs @ [z]" using assms(3) by (cases xs rule: rev_cases) auto
  have "key y \<le> key z" if "y \<in> set xs" for y
    using assms(1) that by (auto simp: xs sorted_append)
  moreover have "key z < key y" if "y \<in> set ys" for y
  proof -
    have "key z \<le> key y" using assms(1) that by (auto simp: xs sorted_append)
    moreover have "key z \<noteq> key y" using assms(2) that by (auto simp: xs image_iff)
    ultimately show ?thesis by simp
  qed
  ultimately show ?thesis by (auto simp: xs not_less filter_empty_conv)
qed

lemma concat_map_key_set:
  "(\<And>x. x \<in> set xs \<Longrightarrow> length (g x) \<le> 1) \<Longrightarrow> (\<And>x y. x \<in> set xs \<Longrightarrow> y \<in> set (g x) \<Longrightarrow> key y = h x) \<Longrightarrow>
   distinct (map h xs) \<Longrightarrow> distinct (map key (concat (map g xs)))"
proof (induction xs)
  case (Cons x xs)
  have g: "g x = [] \<or> (\<exists>y. g x = [y])"
    using Cons.prems(1) [of x] by (cases "g x") auto
  have "h x \<notin> key ` set (concat (map g xs))"
    using Cons.prems(2,3) by (fastforce simp: image_iff)
  moreover have "distinct (map key (concat (map g xs)))"
    using Cons by auto
  ultimately show ?case using g Cons.prems(2) [of x] by auto
qed simp

lemma claim_queue_distinct:
  assumes "schema_ok d"
  shows "distinct (map cand_key (claim_queue d))"
proof -
  let ?g = "\<lambda>j :: job_row. concat (map (\<lambda>r. if o_operation_id r = j_operation_id j \<and> j_status j = Queued
      then [(j, o_operation_kind r)] else []) (operations d))"
  have len: "length (?g j) \<le> 1" for j
  proof -
    have aux: "length (concat (map (\<lambda>r. if o_operation_id r = k \<and> P then [f r] else []) rows)) \<le> 1"
      if "distinct (map o_operation_id rows)" for rows k P and f :: "operation_row \<Rightarrow> candidate"
      using that
    proof (induction rows)
      case (Cons r rows)
      have "concat (map (\<lambda>r. if o_operation_id r = k \<and> P then [f r] else []) rows) = []"
        if "o_operation_id r = k" using that Cons.prems by (auto simp: image_iff)
      with Cons show ?case by auto
    qed simp
    show ?thesis by (rule aux [OF schema_operations_distinct [OF assms]])
  qed
  have "distinct (map j_job_id (jobs d))" by (rule schema_jobs_distinct [OF assms])
  then have "distinct (map (\<lambda>j. (j_created_at j, j_job_id j)) (jobs d))"
    by (auto simp: distinct_map inj_on_def)
  then have "distinct (map cand_key (concat (map ?g (jobs d))))"
    by (intro concat_map_key_set [OF len]) (auto simp: cand_key_def split: if_splits)
  then have "distinct (map cand_key (claim_join d))" by (simp add: claim_join_def)
  then show ?thesis by (simp add: claim_queue_def distinct_map)
qed

lemma claim_queue_page_split:
  assumes "schema_ok d" and "claim_page cursor d \<noteq> []"
  shows "filter (after_cursor cursor) (claim_queue d) = claim_page cursor d @
    filter (after_cursor (Some (cand_key (last (claim_page cursor d))))) (claim_queue d)"
proof -
  let ?L = "filter (after_cursor cursor) (claim_queue d)" and ?cs = "claim_page cursor d"
  let ?k = "cand_key (last ?cs)"
  have split: "?L = ?cs @ drop claim_batch_size ?L" by (simp add: claim_page_queue)
  have "sorted (map cand_key ?L)" by (simp add: claim_queue_def sorted_filter)
  moreover have "distinct (map cand_key ?L)"
    using claim_queue_distinct [OF assms(1)] by (rule distinct_map_filter)
  ultimately have "filter (\<lambda>y. ?k < cand_key y) (?cs @ drop claim_batch_size ?L) =
      drop claim_batch_size ?L"
    using split assms(2) by (intro filter_greater_last) auto
  then have rest: "filter (\<lambda>y. ?k < cand_key y) ?L = drop claim_batch_size ?L"
    using split by simp
  have "after_cursor cursor (last ?cs)" using claim_page_mem [OF last_in_set [OF assms(2)]] by simp
  then have "after_cursor cursor y" if "?k < cand_key y" for y
    using that by (cases cursor) (auto simp: after_cursor_Some, simp add: after_cursor_def)
  then have "filter (\<lambda>y. ?k < cand_key y) ?L = filter (\<lambda>y. ?k < cand_key y) (claim_queue d)"
    unfolding filter_filter by (intro filter_cong) auto
  moreover have "after_cursor (Some ?k) = (\<lambda>y. ?k < cand_key y)"
    by (simp add: fun_eq_iff after_cursor_Some)
  ultimately show ?thesis using rest split by metis
qed

lemma claim_scan_first:
  assumes "schema_ok d"
    and "first_claimable d (filter (after_cursor cursor) (claim_queue d)) =
         first_claimable d (claim_queue d)"
  shows "claim_scan d cursor rescanned = first_claimable d (claim_queue d)"
  using assms
proof (induction d cursor rescanned rule: claim_scan.induct)
  case (1 d cursor rescanned)
  let ?cs = "claim_page cursor d" and ?L = "filter (after_cursor cursor) (claim_queue d)"
  show ?case
  proof (cases "?cs = []")
    case True
    then have "?L = []" by (simp add: claim_page_queue claim_batch_size_def)
    with True 1(4) show ?thesis by (simp add: claim_scan.simps)
  next
    case False
    note split = claim_queue_page_split [OF 1(3) False]
    note batch = claim_batch_cases [of d ?cs True]
    show ?thesis
    proof (cases "claim_batch d ?cs True")
      case (Inl e)
      with batch split False 1(4) show ?thesis
        by (simp add: claim_scan.simps [of d cursor] first_claimable_append)
    next
      case (Inr hb)
      obtain hit b where hb: "hb = (hit, b)" by (cases hb)
      show ?thesis
      proof (cases hit)
        case (Some c)
        with batch split False 1(4) Inr hb show ?thesis
          by (simp add: claim_scan.simps [of d cursor] first_claimable_append)
      next
        case None
        with batch Inr hb have none: "first_claimable d ?cs = Inr None" by simp
        show ?thesis
        proof (cases "length ?cs < claim_batch_size")
          case True
          then have "?L = ?cs" by (simp add: claim_page_queue)
          with 1(4) none True Inr hb None False show ?thesis
            by (simp add: claim_scan.simps [of d cursor])
        next
          case full: False
          show ?thesis
          proof (cases "b \<and> \<not> rescanned")
            case True
            have "claim_scan d None True = first_claimable d (claim_queue d)"
              using 1(1) [OF refl False Inr hb [symmetric] None full True 1(3)]
              by (simp add: after_cursor_def)
            with True full Inr hb None False show ?thesis
              by (simp add: claim_scan.simps [of d cursor])
          next
            case again: False
            have "first_claimable d (filter (after_cursor (Some (cand_key (last ?cs)))) (claim_queue d))
                = first_claimable d (claim_queue d)"
              using 1(4) none split first_claimable_append [of d ?cs] by simp
            then have "claim_scan d (Some (cand_key (last ?cs))) rescanned =
                first_claimable d (claim_queue d)"
              using 1(2) [OF refl False Inr hb [symmetric] None full again 1(3)] by simp
            with again full Inr hb None False show ?thesis
              by (auto simp: claim_scan.simps [of d cursor])
          qed
        qed
      qed
    qed
  qed
qed

section \<open>Fenced writes of a lease holder\<close>

text \<open>
  The guard all writes of a lease holder start with: the job exists, owner and fencing token are
  the caller's, the status is accepted, and neither the job lease nor the router's execution fence
  has lapsed.
\<close>

definition holds_lease :: "job_row \<Rightarrow> string \<Rightarrow> int \<Rightarrow> bool" where
  "holds_lease job lease_owner fencing_token \<longleftrightarrow>
     j_lease_owner job = Some lease_owner \<and> j_fencing_token job = fencing_token"

definition lease_where :: "ident \<Rightarrow> string \<Rightarrow> int \<Rightarrow> job_row \<Rightarrow> bool" where
  "lease_where job_id lease_owner fencing_token j \<longleftrightarrow>
     j_job_id j = job_id \<and> holds_lease j lease_owner fencing_token"

definition fenced_job ::
  "call_env \<Rightarrow> ident \<Rightarrow> string \<Rightarrow> int \<Rightarrow> string \<Rightarrow> db \<Rightarrow> job_row res" where
  "fenced_job env job_id lease_owner fencing_token msg d =
     (case get_job d job_id of
        None \<Rightarrow> Inl (NotFoundError ''job not found'')
      | Some job \<Rightarrow>
          rbind (raise_if (\<not> holds_lease job lease_owner fencing_token)
            (StaleFenceError ''stale fencing token or lease owner'')) (\<lambda>_.
          rbind (raise_if (\<not> job_active (j_status job)) (StaleFenceError msg)) (\<lambda>_.
          rbind (assert_job_lease_valid env job) (\<lambda>_.
          rbind (assert_active_router_fence_for_job env d job lease_owner) (\<lambda>_.
          Inr job)))))"

definition renew_lease ::
  "call_env \<Rightarrow> ident \<Rightarrow> string \<Rightarrow> int \<Rightarrow> int \<Rightarrow> db \<Rightarrow> db res" where
  "renew_lease env job_id lease_owner fencing_token lease_seconds d =
     rbind (fenced_job env job_id lease_owner fencing_token ''job not actively leased'' d) (\<lambda>job.
     let ts = utc_now_iso env; lease_until = lease_validity_epoch env + lease_seconds;
         sel = (\<lambda>j. lease_where job_id lease_owner fencing_token j \<and> job_active (j_status j)) in
     rbind (raise_if (sql_rowcount sel (jobs d) \<noteq> 1) (StaleFenceError ''lease renew rejected'')) (\<lambda>_.
     let d1 = d\<lparr>jobs := sql_update sel (\<lambda>j. j\<lparr>j_lease_until_epoch := Some lease_until,
                  j_heartbeat_at := Some ts, j_updated_at := ts\<rparr>) (jobs d)\<rparr> in
     Inr (case get_operation d1 (j_operation_id job) of
        None \<Rightarrow> d1
      | Some oper \<Rightarrow>
          (if is_mutation (o_operation_kind oper)
           then d1\<lparr>router_mutation_locks := sql_update
                  (\<lambda>l. lk_active_job_id l = Some job_id \<and> lk_lock_owner l = Some lease_owner)
                  (\<lambda>l. l\<lparr>lk_lock_until_epoch := Some lease_until, lk_fencing_token := fencing_token,
                         lk_updated_at := ts\<rparr>) (router_mutation_locks d1)\<rparr>
           else d1))))"

definition terminal_job_status :: "job_status \<Rightarrow> bool" where
  "terminal_job_status s = (s \<in> {Succeeded, Failed, Cancelled, RecoveryRequired})"

definition aggregate_for_job_status :: "job_status \<Rightarrow> string" where
  "aggregate_for_job_status s = (case s of
     Succeeded \<Rightarrow> ''Converged'' | Failed \<Rightarrow> ''Failed'' | Cancelled \<Rightarrow> ''Failed''
   | RecoveryRequired \<Rightarrow> ''RecoveryRequired'' | _ \<Rightarrow> [])"

definition job_status_lower :: "job_status \<Rightarrow> string" where
  "job_status_lower s = (case s of
     Queued \<Rightarrow> ''queued'' | Leased \<Rightarrow> ''leased'' | Running \<Rightarrow> ''running''
   | Succeeded \<Rightarrow> ''succeeded'' | Failed \<Rightarrow> ''failed'' | Cancelled \<Rightarrow> ''cancelled''
   | Lost \<Rightarrow> ''lost'' | RecoveryRequired \<Rightarrow> ''recoveryrequired'')"

text \<open>
  The cancel records of a router, scanned for the one whose stored body names the target: records
  without a response or with undecodable text are skipped, and the scan stops at the first match.
\<close>

fun cancel_record_scan :: "ident \<Rightarrow> idempotency_row list \<Rightarrow> ident option res" where
  "cancel_record_scan target [] = Inr None"
| "cancel_record_scan target (r # rs) =
     (if \<not> truthy_text (i_response_ref r) then cancel_record_scan target rs
      else case json_loads (the (i_response_ref r)) of
        Inl _ \<Rightarrow> cancel_record_scan target rs
      | Inr payload \<Rightarrow>
          rbind (json_get payload ''body'' JNull) (\<lambda>b.
          rbind (json_get (if json_truthy b then b else JObj []) ''job_id'' JNull) (\<lambda>jid.
          if jid \<noteq> JStr target then cancel_record_scan target rs
          else rbind (json_get payload ''http_status'' (JInt 0)) (\<lambda>h.
               rbind (py_int h) (\<lambda>n.
               Inr (if n \<noteq> 202 then None else Some (i_idempotency_record_id r)))))))"

definition update_cancel_idempotency :: "int \<Rightarrow> json \<Rightarrow> ident \<Rightarrow> ident \<Rightarrow> db \<Rightarrow> db res" where
  "update_cancel_idempotency http body target router_id d =
     rbind (cancel_record_scan target
        (filter (\<lambda>i. i_router_id i = router_id \<and> i_operation_kind i = ''cancel_job'')
          (idempotency_records d))) (\<lambda>hit.
     Inr (case hit of None \<Rightarrow> d | Some rid \<Rightarrow> update_idempotency_response rid http body d))"

definition cancelled_body :: "ident \<Rightarrow> json" where
  "cancelled_body target = JObj [(''job_id'', JStr target), (''status'', JStr ''Cancelled''),
     (''cancel_requested'', JBool False)]"

definition already_terminal_body :: json where
  "already_terminal_body = JObj [(''error'', JObj [(''code'', JStr ''job.already_terminal''),
     (''message'', JStr ''job already terminal''), (''details'', JArr [])])]"

definition update_cancel_idempotency_to_200 :: "ident \<Rightarrow> ident \<Rightarrow> db \<Rightarrow> db res" where
  "update_cancel_idempotency_to_200 target router_id d =
     update_cancel_idempotency 200 (cancelled_body target) target router_id d"

definition update_cancel_idempotency_to_409_terminal :: "ident \<Rightarrow> ident \<Rightarrow> db \<Rightarrow> db res" where
  "update_cancel_idempotency_to_409_terminal target router_id d =
     update_cancel_idempotency 409 already_terminal_body target router_id d"

text \<open>A stored success is not overwritten by a later error response.\<close>

definition skip_idempotency_overwrite :: "stored_text option \<Rightarrow> int \<Rightarrow> bool res" where
  "skip_idempotency_overwrite existing_ref http =
     (if truthy_text existing_ref \<and> http \<ge> 400
      then case rbind (json_loads (the existing_ref)) (\<lambda>p.
             rbind (json_get p ''http_status'' (JInt 0)) py_int) of
        Inr prior \<Rightarrow> Inr (200 \<le> prior \<and> prior < 300)
      | Inl AttributeError \<Rightarrow> Inl AttributeError
      | Inl _ \<Rightarrow> Inr False
      else Inr False)"

definition store_final_response :: "ident \<Rightarrow> int option \<Rightarrow> json option \<Rightarrow> db \<Rightarrow> db res" where
  "store_final_response operation_id http body d =
     (case (get_idempotency_for_operation d operation_id, http, body) of
        (Some idem, Some h, Some b) \<Rightarrow>
          rbind (skip_idempotency_overwrite (i_response_ref idem) h) (\<lambda>skip.
          Inr (if skip then d
               else update_idempotency_response (i_idempotency_record_id idem) h b d))
      | _ \<Rightarrow> Inr d)"

definition update_operation :: "ident \<Rightarrow> (operation_row \<Rightarrow> operation_row) \<Rightarrow> db \<Rightarrow> db" where
  "update_operation oid f d =
     d\<lparr>operations := sql_update (\<lambda>r. o_operation_id r = oid) f (operations d)\<rparr>"

definition clear_lock :: "ident \<Rightarrow> int \<Rightarrow> db \<Rightarrow> db" where
  "clear_lock job_id ts d =
     d\<lparr>router_mutation_locks := sql_update (\<lambda>l. lk_active_job_id l = Some job_id)
        (\<lambda>l. l\<lparr>lk_active_job_id := None, lk_lock_owner := None, lk_lock_until_epoch := None,
               lk_updated_at := ts\<rparr>) (router_mutation_locks d)\<rparr>"

record completion =
  cp_status :: job_status
  cp_summary_redacted :: "string option"
  cp_http_status :: "int option"
  cp_response_body :: "json option"
  cp_correlation_id :: "string option"
  cp_actor_id :: "string option"
  cp_aggregate_status :: "string option"

text \<open>\<open>given or default\<close> on an optional string.\<close>

definition str_or :: "string option \<Rightarrow> string \<Rightarrow> string" where
  "str_or given dflt = (case given of None \<Rightarrow> dflt | Some s \<Rightarrow> if s = [] then dflt else s)"

text \<open>The \<open>SET\<close> clauses of the two branches on a late cancel and of the operation update.\<close>

definition finish_job :: "call_env \<Rightarrow> completion \<Rightarrow> bool \<Rightarrow> job_row \<Rightarrow> job_row" where
  "finish_job env c clear_late_cancel j = (let ts = utc_now_iso env;
       j1 = j\<lparr>j_status := cp_status c, j_terminal_outcome := Some (cp_status c),
              j_finished_at := Some ts, j_updated_at := ts, j_lease_owner := None\<rparr> in
     if clear_late_cancel then j1\<lparr>j_cancel_requested := False\<rparr> else j1)"

definition finish_operation :: "call_env \<Rightarrow> completion \<Rightarrow> operation_row \<Rightarrow> operation_row" where
  "finish_operation env c r = (let ts = utc_now_iso env in
     r\<lparr>o_aggregate_status :=
          str_or (cp_aggregate_status c) (aggregate_for_job_status (cp_status c)),
        o_terminal_at := Some ts, o_updated_at := ts\<rparr>)"

definition complete_audit :: "ident \<Rightarrow> job_row \<Rightarrow> completion \<Rightarrow> audit_row" where
  "complete_audit job_id job c =
     (audit_default ''worker.complete'' (job_status_lower (cp_status c)))
       \<lparr>a_router_id := Some (j_router_id job), a_operation_id := Some (j_operation_id job),
        a_job_id := Some job_id,
        a_summary_redacted := Some (str_or (cp_summary_redacted c)
           (''status='' @ job_status_name (cp_status c))),
        a_correlation_id := cp_correlation_id c, a_actor_id := cp_actor_id c\<rparr>"

definition complete_job ::
  "call_env \<Rightarrow> ident \<Rightarrow> string \<Rightarrow> int \<Rightarrow> completion \<Rightarrow> db \<Rightarrow> db res" where
  "complete_job env job_id lease_owner fencing_token c d =
     rbind (raise_if (\<not> terminal_job_status (cp_status c))
       (ConflictError ''complete_job requires terminal status'')) (\<lambda>_.
     rbind (fenced_job env job_id lease_owner fencing_token ''job not active for completion'' d) (\<lambda>job.
     let clear_late_cancel = (cp_status c = Succeeded \<and> j_cancel_requested job);
         sel = (\<lambda>j. lease_where job_id lease_owner fencing_token j \<and> job_active (j_status j)) in
     rbind (raise_if (sql_rowcount sel (jobs d) \<noteq> 1) (StaleFenceError ''job completion rejected'')) (\<lambda>_.
     let d1 = d\<lparr>jobs := sql_update sel (finish_job env c clear_late_cancel) (jobs d)\<rparr> in
     rbind (if clear_late_cancel
            then update_cancel_idempotency_to_409_terminal job_id (j_router_id job) d1
            else Inr d1) (\<lambda>d2.
     let d3 = update_operation (j_operation_id job) (finish_operation env c) d2 in
     rbind (store_final_response (j_operation_id job) (cp_http_status c) (cp_response_body c) d3)
       (\<lambda>d4.
     append_audit env (uuid env 0) (complete_audit job_id job c)
       (clear_lock job_id (utc_now_iso env) d4))))))"

record progress =
  pr_status :: "job_status option"
  pr_step :: "(string \<times> string) option"
  pr_checkpoint_json :: "stored_text option"
  pr_error_redacted :: "string option"

definition next_ordinal :: "db \<Rightarrow> ident \<Rightarrow> int" where
  "next_ordinal d job_id =
     coalesce_max (- 1) (map s_ordinal (filter (\<lambda>s. s_job_id s = job_id) (job_steps d))) + 1"

definition progress_step :: "call_env \<Rightarrow> ident \<Rightarrow> progress \<Rightarrow> string \<Rightarrow> string \<Rightarrow> int \<Rightarrow> step_row" where
  "progress_step env job_id p step_kind step_status ordinal = (let ts = utc_now_iso env in
     \<lparr>s_step_id = new_id ''step'' (uuid env 0), s_job_id = job_id, s_ordinal = ordinal,
      s_step_kind = step_kind, s_status = step_status, s_attempt = 1,
      s_checkpoint_json = pr_checkpoint_json p, s_error_redacted = pr_error_redacted p,
      s_started_at = Some ts,
      s_finished_at = (if step_status \<in> set [''Succeeded'', ''Failed'', ''RecoveryRequired'']
                       then Some ts else None)\<rparr>)"

definition progress_set_status ::
  "call_env \<Rightarrow> ident \<Rightarrow> string \<Rightarrow> int \<Rightarrow> progress \<Rightarrow> db \<Rightarrow> db res" where
  "progress_set_status env job_id lease_owner fencing_token p d = (case pr_status p of
     None \<Rightarrow> Inr d
   | Some st \<Rightarrow>
       rbind (raise_if (sql_rowcount (lease_where job_id lease_owner fencing_token) (jobs d) \<noteq> 1)
         (StaleFenceError ''job update rejected'')) (\<lambda>_.
       Inr (d\<lparr>jobs := sql_update (lease_where job_id lease_owner fencing_token)
          (\<lambda>j. j\<lparr>j_status := st, j_updated_at := utc_now_iso env\<rparr>) (jobs d)\<rparr>)))"

definition progress_add_step :: "call_env \<Rightarrow> ident \<Rightarrow> progress \<Rightarrow> db \<Rightarrow> db res" where
  "progress_add_step env job_id p d = (case pr_step p of
     None \<Rightarrow> Inr d
   | Some (step_kind, step_status) \<Rightarrow>
       insert_step (progress_step env job_id p step_kind step_status (next_ordinal d job_id)) d)"

definition record_job_progress ::
  "call_env \<Rightarrow> ident \<Rightarrow> string \<Rightarrow> int \<Rightarrow> progress \<Rightarrow> db \<Rightarrow> db res" where
  "record_job_progress env job_id lease_owner fencing_token p d =
     (case get_job d job_id of
        None \<Rightarrow> Inl (NotFoundError ''job not found'')
      | Some job \<Rightarrow>
          rbind (raise_if (\<not> holds_lease job lease_owner fencing_token)
            (StaleFenceError ''stale fencing token or lease owner'')) (\<lambda>_.
          rbind (if job_active (j_status job)
                 then rbind (assert_job_lease_valid env job) (\<lambda>_.
                        assert_active_router_fence_for_job env d job lease_owner)
                 else Inr ()) (\<lambda>_.
          rbind (progress_set_status env job_id lease_owner fencing_token p d)
            (progress_add_step env job_id p))))"

section \<open>Cancellation\<close>

definition closed_job_status :: "job_status \<Rightarrow> bool" where
  "closed_job_status s = (s \<in> {Succeeded, Failed, Cancelled, Lost, RecoveryRequired})"

record cancel_request =
  cr_target_job_id :: ident
  cr_idempotency_key :: string
  cr_request_digest :: string
  cr_actor_id :: "string option"

definition cancel_body :: "ident \<Rightarrow> job_status \<Rightarrow> bool \<Rightarrow> json" where
  "cancel_body target st requested = JObj [(''job_id'', JStr target),
     (''status'', JStr (job_status_name st)), (''cancel_requested'', JBool requested)]"

text \<open>Replay of a stored cancel answer: \<open>json.loads(response_ref or "{}")\<close> with its defaults.\<close>

definition cancel_replay :: "job_row \<Rightarrow> idempotency_outcome \<Rightarrow> (int \<times> json) res" where
  "cancel_replay target existing =
     rbind (if truthy_text (out_response_ref existing)
            then json_loads (the (out_response_ref existing)) else Inr (JObj [])) (\<lambda>stored.
     rbind (json_get stored ''http_status'' (JInt 200)) (\<lambda>h.
     rbind (py_int h) (\<lambda>http.
     rbind (json_get stored ''body'' (cancel_body (j_job_id target) (j_status target)
        (j_cancel_requested target))) (\<lambda>body.
     Inr (http, body)))))"

definition cancel_bundle :: "cancel_request \<Rightarrow> ident \<Rightarrow> int \<Rightarrow> json \<Rightarrow> bundle_request" where
  "cancel_bundle q router_id http body =
     (bundle_default router_id ''cancel_job'' (cr_idempotency_key q) (cr_request_digest q))
     \<lparr>bq_actor_id := cr_actor_id q, bq_initial_job_status := Succeeded,
      bq_response_ref := Some (Json body), bq_http_status := Some http\<rparr>"

text \<open>The immediate answer, and the update of the target: a queued job is cancelled at once.\<close>

definition cancel_answer :: "ident \<Rightarrow> job_status \<Rightarrow> int \<times> json" where
  "cancel_answer tid st =
     (if st = Queued then (200, cancel_body tid Cancelled False) else (202, cancel_body tid st True))"

definition cancel_target :: "call_env \<Rightarrow> ident \<Rightarrow> job_status \<Rightarrow> db \<Rightarrow> db" where
  "cancel_target env tid st d = (let ts = utc_now_iso env in
     if st = Queued
     then d\<lparr>jobs := sql_update (\<lambda>j. j_job_id j = tid \<and> j_status j = Queued)
            (\<lambda>j. j\<lparr>j_status := Cancelled, j_finished_at := Some ts, j_updated_at := ts\<rparr>) (jobs d)\<rparr>
     else d\<lparr>jobs := sql_update (\<lambda>j. j_job_id j = tid \<and> job_active (j_status j))
            (\<lambda>j. j\<lparr>j_cancel_requested := True, j_updated_at := ts\<rparr>) (jobs d)\<rparr>)"

definition cancel_job ::
  "call_env \<Rightarrow> cancel_request \<Rightarrow> db \<Rightarrow> ((int \<times> json \<times> idempotency_outcome) \<times> db) res" where
  "cancel_job env q d =
     (case get_job d (cr_target_job_id q) of
        None \<Rightarrow> Inl (NotFoundError ''job not found'')
      | Some target \<Rightarrow>
          rbind (peek_idempotency (Some (j_router_id target)) ''hub_admin'' ''cancel_job''
             (cr_idempotency_key q) (cr_request_digest q) d) (\<lambda>existing.
          case existing of
            Some out \<Rightarrow> rbind (cancel_replay target out) (\<lambda>(http, body). Inr ((http, body, out), d))
          | None \<Rightarrow>
              rbind (raise_if (closed_job_status (j_status target))
                (ConflictError ''job already terminal'')) (\<lambda>_.
              let (http, body) = cancel_answer (cr_target_job_id q) (j_status target) in
              rbind (create_operation_bundle_unlocked env
                  (cancel_bundle q (j_router_id target) http body) d) (\<lambda>(out, d1).
              Inr ((http, body, out),
                cancel_target env (cr_target_job_id q) (j_status target) d1)))))"

definition mark_target_job_cancelled :: "call_env \<Rightarrow> ident \<Rightarrow> db \<Rightarrow> db res" where
  "mark_target_job_cancelled env target_job_id d =
     (case get_job d target_job_id of
        None \<Rightarrow> Inl (NotFoundError ''job not found'')
      | Some target \<Rightarrow>
          if j_status target = Cancelled
          then update_cancel_idempotency_to_200 target_job_id (j_router_id target) d
          else
            rbind (raise_if (\<not> j_cancel_requested target) (ConflictError ''cancel not requested'')) (\<lambda>_.
            rbind (raise_if (\<not> job_active (j_status target))
              (ConflictError ''job not cancellable at boundary'')) (\<lambda>_.
            let ts = utc_now_iso env;
                sel = (\<lambda>j. j_job_id j = target_job_id \<and> j_cancel_requested j \<and>
                         job_active (j_status j)) in
            rbind (raise_if (sql_rowcount sel (jobs d) \<noteq> 1)
              (ConflictError ''cancel finalize rejected'')) (\<lambda>_.
            let d1 = d\<lparr>jobs := sql_update sel (\<lambda>j. j\<lparr>j_status := Cancelled,
                         j_finished_at := Some ts, j_updated_at := ts\<rparr>) (jobs d)\<rparr>;
                d2 = update_operation (j_operation_id target)
                       (\<lambda>r. r\<lparr>o_aggregate_status := ''Failed'', o_terminal_at := Some ts,
                              o_updated_at := ts\<rparr>) d1 in
            update_cancel_idempotency_to_200 target_job_id (j_router_id target)
              (clear_lock target_job_id ts d2)))))"

section \<open>Recovery of expired leases\<close>

definition job_has_post_dispatch_progress :: "db \<Rightarrow> ident \<Rightarrow> job_status \<Rightarrow> bool" where
  "job_has_post_dispatch_progress d job_id st =
     (st = Running \<or>
      (\<exists>s \<in> set (job_steps d). s_job_id s = job_id \<and>
         s_step_kind s \<in> set [''apply'', ''dispatch'', ''handler''] \<and>
         s_status s \<in> set [''Running'', ''Succeeded'']))"

definition expired_leases :: "call_env \<Rightarrow> db \<Rightarrow> job_row list" where
  "expired_leases env d = filter (\<lambda>j. job_active (j_status j) \<and>
     (case j_lease_until_epoch j of None \<Rightarrow> False | Some u \<Rightarrow> u < lease_validity_epoch env)) (jobs d)"

definition resume_row ::
  "call_env \<Rightarrow> ident \<Rightarrow> ident \<Rightarrow> ident \<Rightarrow> int \<Rightarrow> string \<Rightarrow> job_row" where
  "resume_row env job_id operation_id router_id attempt recovery_state =
     \<lparr>j_job_id = job_id, j_operation_id = operation_id, j_router_id = router_id,
      j_attempt = attempt, j_status = Queued, j_lease_owner = None, j_lease_until_epoch = None,
      j_heartbeat_at = None, j_fencing_token = 0, j_recovery_state = Some recovery_state,
      j_cancel_requested = False, j_terminal_outcome = None, j_created_at = utc_now_iso env,
      j_updated_at = utc_now_iso env, j_started_at = None, j_finished_at = None\<rparr>"

text \<open>\<open>MAX(attempt) + 1\<close> over the attempts of an operation; \<open>int(None)\<close> raises when it has none.\<close>

definition next_attempt :: "db \<Rightarrow> ident \<Rightarrow> int res" where
  "next_attempt d oid = (case map j_attempt (filter (\<lambda>j. j_operation_id j = oid) (jobs d)) of
     [] \<Rightarrow> Inl TypeError | as \<Rightarrow> Inr (Max (set as) + 1))"

definition expire_status :: "db \<Rightarrow> job_row \<Rightarrow> job_status" where
  "expire_status d row =
     (if job_has_post_dispatch_progress d (j_job_id row) (j_status row)
      then RecoveryRequired else Lost)"

definition expire_job :: "call_env \<Rightarrow> job_status \<Rightarrow> job_row \<Rightarrow> job_row" where
  "expire_job env new_status j = (let ts = utc_now_iso env in
     j\<lparr>j_status := new_status, j_lease_owner := None, j_updated_at := ts,
       j_finished_at := Some ts, j_recovery_state := Some ''expired_lease''\<rparr>)"

text \<open>The requeued attempt of a lost job, with the dispatch payload of its predecessor.\<close>

definition requeue_lost :: "call_env \<Rightarrow> nat \<Rightarrow> job_row \<Rightarrow> db \<Rightarrow> db res" where
  "requeue_lost env n row d =
     (let new_job_id = new_id ''job'' (uuid env (2 * n)) in
      rbind (get_job_dispatch_payload d (j_job_id row)) (\<lambda>payload.
      case get_job d (j_job_id row) of
        None \<Rightarrow> Inr d
      | Some j \<Rightarrow>
          rbind (next_attempt d (j_operation_id j)) (\<lambda>attempt.
          rbind (insert_job (resume_row env new_job_id (j_operation_id j) (j_router_id row) attempt
             ''resume_after_lost'') d) (\<lambda>d'.
          case payload of
            None \<Rightarrow> Inr d'
          | Some p \<Rightarrow> insert_job_dispatch_payload env (uuid env (2 * n + 1)) new_job_id p d'))))"

definition recover_one :: "call_env \<Rightarrow> nat \<Rightarrow> job_row \<Rightarrow> db \<Rightarrow> db res" where
  "recover_one env n row d =
     (let ts = utc_now_iso env; job_id = j_job_id row; new_status = expire_status d row;
          d1 = d\<lparr>jobs := sql_update (\<lambda>j. j_job_id j = job_id) (expire_job env new_status) (jobs d)\<rparr>;
          d2 = clear_lock job_id ts d1 in
      if new_status = RecoveryRequired
      then Inr (case get_job d2 job_id of
             None \<Rightarrow> d2
           | Some j \<Rightarrow> update_operation (j_operation_id j)
               (\<lambda>r. r\<lparr>o_aggregate_status := ''RecoveryRequired'', o_updated_at := ts\<rparr>) d2)
      else requeue_lost env n row d2)"

fun recover_rows :: "call_env \<Rightarrow> nat \<Rightarrow> job_row list \<Rightarrow> db \<Rightarrow> db res" where
  "recover_rows env n [] d = Inr d"
| "recover_rows env n (row # rows) d =
     rbind (recover_one env n row d) (recover_rows env (Suc n) rows)"

definition recover_expired_leases :: "call_env \<Rightarrow> db \<Rightarrow> (ident list \<times> db) res" where
  "recover_expired_leases env d =
     (let rows = expired_leases env d in
      map_sum id (\<lambda>d'. (map j_job_id rows, d')) (recover_rows env 0 rows d))"

section \<open>Resume jobs\<close>

definition create_recovery_resume_job_unlocked ::
  "call_env \<Rightarrow> job_row \<Rightarrow> string \<Rightarrow> json \<Rightarrow> db \<Rightarrow> (ident \<times> db) res" where
  "create_recovery_resume_job_unlocked env source recovery_state payload d =
     (let new_job_id = new_id ''job'' (uuid env 0) in
      rbind (next_attempt d (j_operation_id source)) (\<lambda>attempt.
      rbind (insert_job (resume_row env new_job_id (j_operation_id source) (j_router_id source)
         attempt recovery_state) d) (\<lambda>d1.
      rbind (if json_truthy payload
             then insert_job_dispatch_payload env (uuid env 1) new_job_id payload d1
             else Inr d1) (\<lambda>d2.
      Inr (new_job_id, d2)))))"

text \<open>\<open>get_job_dispatch_payload(job_id) or {}\<close>.\<close>

definition dispatch_payload_or_empty :: "db \<Rightarrow> ident \<Rightarrow> json res" where
  "dispatch_payload_or_empty d job_id =
     rbind (get_job_dispatch_payload d job_id) (\<lambda>p. Inr (case p of
       None \<Rightarrow> JObj [] | Some j \<Rightarrow> if json_truthy j then j else JObj []))"

definition create_recovery_resume_job ::
  "call_env \<Rightarrow> ident \<Rightarrow> string \<Rightarrow> json option \<Rightarrow> db \<Rightarrow> (ident \<times> db) res" where
  "create_recovery_resume_job env source_job_id recovery_state dispatch_payload d =
     (case get_job d source_job_id of
        None \<Rightarrow> Inl (NotFoundError ''source job not found'')
      | Some source \<Rightarrow>
          rbind (raise_if (j_status source \<notin> {RecoveryRequired, Lost, Failed})
            (ConflictError ''source job not eligible for recovery resume'')) (\<lambda>_.
          rbind (case dispatch_payload of
                   Some p \<Rightarrow> Inr p
                 | None \<Rightarrow> dispatch_payload_or_empty d source_job_id) (\<lambda>payload.
          create_recovery_resume_job_unlocked env source recovery_state payload d)))"

record resume_request =
  rr_target_job_id :: ident
  rr_action :: string
  rr_idempotency_key :: string
  rr_request_digest :: string
  rr_actor_id :: "string option"

text \<open>The attempt that an earlier call with the same key and digest has created, if any.\<close>

fun find_resumed :: "db \<Rightarrow> resume_request \<Rightarrow> job_row list \<Rightarrow> job_row option res" where
  "find_resumed d q [] = Inr None"
| "find_resumed d q (j # js) =
     rbind (dispatch_payload_or_empty d (j_job_id j)) (\<lambda>payload.
     rbind (json_get payload ''resume_idempotency_key'' JNull) (\<lambda>k.
     if k \<noteq> JStr (rr_idempotency_key q) then find_resumed d q js
     else rbind (json_get payload ''resume_request_digest'' JNull) (\<lambda>g.
       if g = JStr (rr_request_digest q) then Inr (Some j) else find_resumed d q js)))"

definition resume_body :: "ident \<Rightarrow> ident \<Rightarrow> ident \<Rightarrow> string \<Rightarrow> job_status \<Rightarrow> json" where
  "resume_body source job operation recovery_state st = JObj [(''source_job_id'', JStr source),
     (''job_id'', JStr job), (''operation_id'', JStr operation),
     (''recovery_state'', JStr recovery_state), (''status'', JStr (job_status_name st))]"

text \<open>\<open>dict(payload)\<close> of a non-empty value that is no dictionary raises.\<close>

definition resume_payload :: "resume_request \<Rightarrow> json \<Rightarrow> json res" where
  "resume_payload q p = (case p of
     JObj kvs \<Rightarrow> Inr (JObj (dict_set (dict_set (dict_set kvs
        ''recovery_action'' (JStr (rr_action q)))
        ''resume_idempotency_key'' (JStr (rr_idempotency_key q)))
        ''resume_request_digest'' (JStr (rr_request_digest q))))
   | _ \<Rightarrow> Inl TypeError)"

definition queue_resume ::
  "call_env \<Rightarrow> resume_request \<Rightarrow> job_row \<Rightarrow> string \<Rightarrow> json \<Rightarrow> db \<Rightarrow> ((int \<times> json) \<times> db) res" where
  "queue_resume env q target recovery_state payload d =
     rbind (create_recovery_resume_job_unlocked env target recovery_state payload d)
       (\<lambda>(new_job_id, d1).
     rbind (append_audit env (uuid env 2)
       ((audit_default (''recovery.'' @ rr_action q) ''accepted'')
         \<lparr>a_router_id := Some (j_router_id target), a_operation_id := Some (j_operation_id target),
          a_job_id := Some new_job_id,
          a_summary_redacted := Some (''recovery '' @ rr_action q @ '' queued''),
          a_actor_id := rr_actor_id q, a_request_digest := Some (rr_request_digest q)\<rparr>) d1)
       (\<lambda>d2.
     Inr ((202, resume_body (rr_target_job_id q) new_job_id (j_operation_id target)
       recovery_state Queued), d2)))"

definition resume_recovery_job ::
  "call_env \<Rightarrow> resume_request \<Rightarrow> db \<Rightarrow> ((int \<times> json) \<times> db) res" where
  "resume_recovery_job env q d =
     rbind (raise_if (rr_action q \<notin> set [''resume'', ''compensate''])
       (ConflictError ''unsupported recovery action'')) (\<lambda>_.
     case get_job d (rr_target_job_id q) of
       None \<Rightarrow> Inl (NotFoundError ''job not found'')
     | Some target \<Rightarrow>
         let operation_id = j_operation_id target; tid = rr_target_job_id q in
         rbind (find_resumed d q (list_jobs_for_operation d operation_id)) (\<lambda>found.
         case found of
           Some j \<Rightarrow> Inr ((202, resume_body tid (j_job_id j) operation_id
              (case j_recovery_state j of None \<Rightarrow> ''None'' | Some s \<Rightarrow> s) (j_status j)), d)
         | None \<Rightarrow>
             rbind (raise_if (j_status target \<noteq> RecoveryRequired \<and>
                 (case get_operation d operation_id of
                    None \<Rightarrow> True | Some r \<Rightarrow> o_aggregate_status r \<noteq> ''RecoveryRequired''))
               (ConflictError ''job not in RecoveryRequired state'')) (\<lambda>_.
             rbind (dispatch_payload_or_empty d tid) (\<lambda>p.
             rbind (resume_payload q p) (\<lambda>payload.
             queue_resume env q target (if rr_action q = ''resume'' then ''resume_after_readback''
               else ''compensate'') payload d)))))"

section \<open>Claims are first in, first out\<close>

lemma first_claimable_Some:
  "first_claimable d cs = Inr (Some c) \<longleftrightarrow>
     (\<exists>pre post. cs = pre @ c # post \<and> claim_verdict d c = Inr Claimable \<and>
        (\<forall>x \<in> set pre. \<exists>v. claim_verdict d x = Inr v \<and> v \<noteq> Claimable))"
  (is "_ \<longleftrightarrow> ?R cs")
proof (induction cs)
  case (Cons a cs)
  have "?R (a # cs) \<longleftrightarrow> (a = c \<and> claim_verdict d c = Inr Claimable) \<or>
      ((\<exists>v. claim_verdict d a = Inr v \<and> v \<noteq> Claimable) \<and> ?R cs)" (is "_ \<longleftrightarrow> ?S")
  proof
    assume "?R (a # cs)"
    then obtain pre post where w: "a # cs = pre @ c # post" "claim_verdict d c = Inr Claimable"
      "\<forall>x \<in> set pre. \<exists>v. claim_verdict d x = Inr v \<and> v \<noteq> Claimable" by blast
    then show ?S by (cases pre) auto
  next
    assume ?S
    then show "?R (a # cs)"
    proof (elim disjE conjE exE)
      assume "a = c" "claim_verdict d c = Inr Claimable"
      then show ?thesis by (intro exI [of _ "[]"] exI [of _ cs]) auto
    next
      fix v pre post
      assume "claim_verdict d a = Inr v" "v \<noteq> Claimable" "cs = pre @ c # post"
        "claim_verdict d c = Inr Claimable"
        "\<forall>x \<in> set pre. \<exists>v. claim_verdict d x = Inr v \<and> v \<noteq> Claimable"
      then show ?thesis by (intro exI [of _ "a # pre"] exI [of _ post]) auto
    qed
  qed
  with Cons show ?case by (cases "claim_verdict d a") auto
qed simp

lemma first_claimable_None:
  "first_claimable d cs = Inr None \<longleftrightarrow>
     (\<forall>x \<in> set cs. \<exists>v. claim_verdict d x = Inr v \<and> v \<noteq> Claimable)"
proof (induction cs)
  case (Cons a cs)
  then show ?case by (cases "claim_verdict d a") auto
qed simp

lemma claim_scan_queue: "schema_ok d \<Longrightarrow> claim_scan d None False = first_claimable d (claim_queue d)"
  by (rule claim_scan_first) (simp_all add: after_cursor_def)

lemma claim_job_queue:
  "schema_ok d \<Longrightarrow> claim_job env w l d =
     rbind (first_claimable d (claim_queue d)) (\<lambda>hit. case hit of
       None \<Rightarrow> Inr (None, d) | Some c \<Rightarrow> Inr (map_prod Some id (claim_apply env w l c d)))"
  by (cases "first_claimable d (claim_queue d)")
    (auto simp: claim_job_def claim_scan_queue split: option.splits prod.splits)

text \<open>
  C12: The paged scan of \<open>claim_job\<close> (pages of 64, keyset cursor, one rescan from the start)
  always ends and is equivalent to one pass over the whole queue in order of creation time and
  job identifier: it claims the first job of that order which is claimable, skips only jobs that
  are not, and answers \<open>None\<close>, changing nothing, only when no queued job is claimable.
\<close>

theorem claim_job_fifo:
  assumes "schema_ok d" and "claim_job env worker_id lease_seconds d = Inr (hit, d')"
  shows "case hit of
      None \<Rightarrow> d' = d \<and> (\<forall>x \<in> set (claim_queue d). claim_verdict d x \<noteq> Inr Claimable)
    | Some r \<Rightarrow> \<exists>pre c post. claim_queue d = pre @ c # post \<and> claim_verdict d c = Inr Claimable \<and>
        (\<forall>x \<in> set pre. claim_verdict d x \<noteq> Inr Claimable) \<and>
        (r, d') = claim_apply env worker_id lease_seconds c d"
proof -
  from assms(2) [unfolded claim_job_queue [OF assms(1)]] obtain f where
    f: "first_claimable d (claim_queue d) = Inr f"
      "(case f of None \<Rightarrow> Inr (None, d)
        | Some c \<Rightarrow> Inr (map_prod Some id (claim_apply env worker_id lease_seconds c d))) =
       (Inr (hit, d') :: (claim_result option \<times> db) res)"
    by (auto simp: result_simps)
  show ?thesis
  proof (cases f)
    case None
    with f have "hit = None" "d' = d" by simp_all
    with f(1) None show ?thesis by (auto simp: first_claimable_None)
  next
    case (Some c)
    obtain r e where re: "claim_apply env worker_id lease_seconds c d = (r, e)" by fastforce
    with f(2) Some have hit: "hit = Some r" "d' = e" by simp_all
    from f(1) Some obtain pre post where "claim_queue d = pre @ c # post"
      "claim_verdict d c = Inr Claimable"
      "\<forall>x \<in> set pre. \<exists>v. claim_verdict d x = Inr v \<and> v \<noteq> Claimable"
      by (auto simp: first_claimable_Some)
    then have "\<exists>pre c post. claim_queue d = pre @ c # post \<and> claim_verdict d c = Inr Claimable \<and>
        (\<forall>x \<in> set pre. claim_verdict d x \<noteq> Inr Claimable) \<and>
        (r, d') = claim_apply env worker_id lease_seconds c d"
      using re hit by (intro exI [of _ pre] exI [of _ c] exI [of _ post]) auto
    then show ?thesis by (simp add: hit)
  qed
qed

definition demo_claimed :: db where
  "demo_claimed = (case claim_job (demo_env 10 ''w'') ''w1'' 30 demo_queued of
     Inr (_, d) \<Rightarrow> d | Inl _ \<Rightarrow> empty_db)"

definition demo_claim :: claim_result where
  "demo_claim = \<lparr>cl_job_id = ''job_cxx'', cl_fencing_token = 1, cl_lease_owner = ''w1'',
     cl_lease_until_epoch = 40\<rparr>"

lemma demo_queued_schema: "schema_ok demo_queued"
  by (rule create_operation_bundle_schema [OF demo_bundle demo_registry_schema])

lemma demo_claimable:
  "first_claimable demo_queued (claim_queue demo_queued) =
     Inr (Some (bundle_job (demo_env 3 ''c'') demo_request, ''apply_plan''))"
  by (simp add: claim_queue_def claim_join_def demo_queued_eq demo_registry_eq empty_db_def
      claim_verdict_def Let_def dispatch_payload_required_kinds_def is_mutation_def
      mutation_operation_kinds_def lock_blocked_def get_lock_def bundle_row_simps
      demo_request_def bundle_default_def)

lemma demo_claim_ok:
  "claim_job (demo_env 10 ''w'') ''w1'' 30 demo_queued = Inr (Some demo_claim, demo_claimed)"
  unfolding demo_claimed_def claim_job_queue [OF demo_queued_schema] demo_claimable
  by (simp add: claim_apply_def Let_def demo_claim_def bundle_job_def new_id_def numeral_2_eq_2
      is_mutation_def mutation_operation_kinds_def)

theorem claim_job_fifo_witness:
  "schema_ok demo_queued \<and>
   (\<exists>pre c post. claim_queue demo_queued = pre @ c # post \<and>
      (\<forall>x \<in> set pre. claim_verdict demo_queued x \<noteq> Inr Claimable) \<and>
      (demo_claim, demo_claimed) = claim_apply (demo_env 10 ''w'') ''w1'' 30 c demo_queued)"
  using demo_queued_schema claim_job_fifo [OF demo_queued_schema demo_claim_ok] by auto

end
