(* ===== verification/Job_Invariants.thy ===== *)
theory Job_Invariants
  imports Job_Store
begin

text \<open>
  What the job operations keep: the schema, the registry and the mutation lock of every active
  mutation job (\<open>store_inv\<close>), the jobs a worker still holds (\<open>tracked\<close>) and the jobs that have
  reached a closed status (\<open>settled\<close>). Each primitive update is shown to be a \<open>safe_step\<close>, which
  composes; the operations follow from their primitive updates.
\<close>

section \<open>Invariant and safe steps\<close>

definition mutation_job :: "db \<Rightarrow> job_row \<Rightarrow> bool" where
  "mutation_job d j = (case get_operation d (j_operation_id j) of
     None \<Rightarrow> False | Some r \<Rightarrow> is_mutation (o_operation_kind r))"

definition holds_lock :: "db \<Rightarrow> job_row \<Rightarrow> bool" where
  "holds_lock d j = (case get_lock d (j_router_id j) of
     None \<Rightarrow> False | Some l \<Rightarrow> lk_active_job_id l = Some (j_job_id j))"

definition lock_held :: "db \<Rightarrow> bool" where
  "lock_held d = (\<forall>j \<in> set (jobs d). job_active (j_status j) \<and> mutation_job d j \<longrightarrow> holds_lock d j)"

definition store_inv :: "db \<Rightarrow> bool" where
  "store_inv d \<longleftrightarrow> schema_ok d \<and> registry_ok d \<and> lock_held d"

text \<open>A job in a worker's hands: no longer queued, and active as long as it has a lease owner.\<close>

definition worker_job :: "job_row \<Rightarrow> bool" where
  "worker_job j \<longleftrightarrow> j_status j \<noteq> Queued \<and> (j_lease_owner j \<noteq> None \<longrightarrow> job_active (j_status j))"

definition tracked :: "db \<Rightarrow> ident \<Rightarrow> bool" where
  "tracked d x = (case get_job d x of None \<Rightarrow> False | Some j \<Rightarrow> worker_job j)"

definition settled :: "db \<Rightarrow> ident \<Rightarrow> job_status \<Rightarrow> bool" where
  "settled d x st = (case get_job d x of
     None \<Rightarrow> False | Some j \<Rightarrow> j_status j = st \<and> closed_job_status st)"

definition safe_step :: "ident set \<Rightarrow> db \<Rightarrow> db \<Rightarrow> bool" where
  "safe_step X d d' \<longleftrightarrow> (store_inv d \<longrightarrow> store_inv d') \<and>
     (\<forall>x. x \<notin> X \<longrightarrow> tracked d x \<longrightarrow> tracked d' x) \<and>
     (\<forall>x st. settled d x st \<longrightarrow> settled d' x st)"

lemma safe_refl [simp, intro]: "safe_step X d d"
  by (simp add: safe_step_def)

lemma safe_trans [trans]: "safe_step X d d1 \<Longrightarrow> safe_step X d1 d2 \<Longrightarrow> safe_step X d d2"
  by (simp add: safe_step_def)

lemma safe_mono: "safe_step {} d d' \<Longrightarrow> safe_step X d d'"
  by (simp add: safe_step_def)

lemma store_invD:
  assumes "store_inv d"
  shows "schema_ok d" "registry_ok d" "lock_held d"
  using assms by (simp_all add: store_inv_def)

text \<open>The invariant reads only the keys of the tables, the statuses and the lock holders.\<close>

lemma store_inv_cong:
  assumes "jobs d' = jobs d" and "operations d' = operations d"
    and "map rec_keys (idempotency_records d') = map rec_keys (idempotency_records d)"
    and "routers d' = routers d" and "router_mutation_locks d' = router_mutation_locks d"
  shows "store_inv d' \<longleftrightarrow> store_inv d"
  using assms by (simp add: store_inv_def schema_ok_def schema_keys_def registry_ok_def
      lock_held_def mutation_job_def holds_lock_def get_operation_def get_lock_def)

lemma safe_cong:
  assumes "jobs d' = jobs d" and "operations d' = operations d"
    and "map rec_keys (idempotency_records d') = map rec_keys (idempotency_records d)"
    and "routers d' = routers d" and "router_mutation_locks d' = router_mutation_locks d"
  shows "safe_step X d d'"
  using store_inv_cong [OF assms] assms(1)
  by (simp add: safe_step_def tracked_def settled_def get_job_def)

section \<open>Primitive updates\<close>

lemma safe_insert_audit: "insert_audit r d = Inr d' \<Longrightarrow> safe_step X d d'"
  by (rule safe_cong) (auto dest: insert_audit_Inr)

lemma safe_append_audit: "append_audit env u r d = Inr d' \<Longrightarrow> safe_step X d d'"
  by (simp add: append_audit_def safe_insert_audit)

lemma safe_insert_step: "insert_step r d = Inr d' \<Longrightarrow> safe_step X d d'"
  by (rule safe_cong) (auto dest: insert_step_Inr)

lemma safe_dispatch_payload: "insert_job_dispatch_payload env u x p d = Inr d' \<Longrightarrow> safe_step X d d'"
  by (simp add: insert_job_dispatch_payload_def safe_insert_step)

lemma safe_update_response: "safe_step X d (update_idempotency_response rid http body d)"
  by (rule safe_cong)
    (auto simp: update_idempotency_response_def rec_keys_def idem_key_def intro!: map_key_sql_update)

lemma get_job_sql_update:
  assumes "\<And>j. P j \<Longrightarrow> job_keys (f j) = job_keys j"
  shows "get_job (d\<lparr>jobs := sql_update P f (jobs d)\<rparr>) x =
    map_option (\<lambda>j. if P j then f j else j) (get_job d x)"
  unfolding get_job_def using assms
  by (simp add: row_by_sql_update job_keys_def)

text \<open>
  An update of job rows is quiet when it keeps their keys, activates no job, takes no job out of
  a worker's hands without releasing the lease and does not touch a closed status.
\<close>

definition quiet :: "ident set \<Rightarrow> (job_row \<Rightarrow> job_row) \<Rightarrow> job_row \<Rightarrow> bool" where
  "quiet X f j \<longleftrightarrow> job_keys (f j) = job_keys j \<and>
     (job_active (j_status (f j)) \<longrightarrow> job_active (j_status j)) \<and>
     (j_job_id j \<notin> X \<longrightarrow> worker_job j \<longrightarrow> worker_job (f j)) \<and>
     (closed_job_status (j_status j) \<longrightarrow> j_status (f j) = j_status j)"

lemma safe_update_jobs:
  assumes keys: "\<And>j. P j \<Longrightarrow> job_keys (f j) = job_keys j"
    and quiet: "\<And>j. j \<in> set (jobs d) \<Longrightarrow> P j \<Longrightarrow> quiet X f j"
  shows "safe_step X d (d\<lparr>jobs := sql_update P f (jobs d)\<rparr>)"
proof -
  let ?d = "d\<lparr>jobs := sql_update P f (jobs d)\<rparr>"
  note get = get_job_sql_update [OF keys, of P d]
  have mem: "get_job d x = Some j \<Longrightarrow> j \<in> set (jobs d) \<and> j_job_id j = x" for x j
    by (auto simp: get_job_def dest: row_by_Some_mem row_by_Some_key)
  have "store_inv ?d" if inv: "store_inv d"
  proof -
    have "schema_keys ?d = schema_keys d"
      using keys by (simp add: schema_keys_def map_key_sql_update)
    moreover have "lock_held ?d"
      using store_invD(3) [OF inv] quiet unfolding lock_held_def
      by (auto simp: set_sql_update quiet_def job_keys_def mutation_job_def holds_lock_def
          get_operation_def get_lock_def split: option.splits)
    ultimately show ?thesis
      using inv unfolding store_inv_def by (auto simp: schema_ok_def registry_ok_def)
  qed
  moreover have "x \<notin> X \<Longrightarrow> tracked d x \<Longrightarrow> tracked ?d x" for x
    using quiet mem by (auto simp: tracked_def get quiet_def split: option.splits)
  moreover have "settled d x st \<Longrightarrow> settled ?d x st" for x st
    using quiet mem by (auto simp: settled_def get quiet_def split: option.splits)
  ultimately show ?thesis by (auto simp: safe_step_def)
qed

lemma safe_update_operation:
  assumes "\<And>r. op_keys (f r) = op_keys r"
  shows "safe_step X d (update_operation oid f d)"
proof -
  let ?d = "update_operation oid f d"
  have get: "get_operation ?d k = map_option (\<lambda>r. if o_operation_id r = oid then f r else r)
      (get_operation d k)" for k
    using assms by (simp add: update_operation_def get_operation_def row_by_sql_update op_keys_def)
  have "mutation_job ?d j = mutation_job d j" for j
    using assms by (auto simp: mutation_job_def get op_keys_def split: option.splits)
  moreover have "schema_keys ?d = schema_keys d"
    using assms by (simp add: schema_keys_def update_operation_def map_key_sql_update)
  ultimately have "store_inv ?d = store_inv d"
    by (simp add: store_inv_def schema_ok_def registry_ok_def lock_held_def holds_lock_def
        get_lock_def update_operation_def)
  then show ?thesis
    by (simp add: safe_step_def tracked_def settled_def get_job_def update_operation_def)
qed

lemma safe_update_locks:
  assumes keys: "\<And>l. P l \<Longrightarrow> lk_router_id (f l) = lk_router_id l"
    and keep: "\<And>l j. P l \<Longrightarrow> l \<in> set (router_mutation_locks d) \<Longrightarrow> j \<in> set (jobs d) \<Longrightarrow>
      job_active (j_status j) \<Longrightarrow> lk_active_job_id l = Some (j_job_id j) \<Longrightarrow>
      lk_active_job_id (f l) = Some (j_job_id j)"
  shows "safe_step X d (d\<lparr>router_mutation_locks := sql_update P f (router_mutation_locks d)\<rparr>)"
proof -
  let ?d = "d\<lparr>router_mutation_locks := sql_update P f (router_mutation_locks d)\<rparr>"
  have get: "get_lock ?d k = map_option (\<lambda>l. if P l then f l else l) (get_lock d k)" for k
    using keys by (simp add: get_lock_def row_by_sql_update)
  have mem: "get_lock d k = Some l \<Longrightarrow> l \<in> set (router_mutation_locks d)" for k l
    by (auto simp: get_lock_def dest: row_by_Some_mem)
  have "lock_held ?d" if "lock_held d"
    using that keep mem unfolding lock_held_def
    by (fastforce simp: holds_lock_def get mutation_job_def get_operation_def split: option.splits)
  moreover have "registry_ok ?d = registry_ok d"
    using keys by (intro registry_ok_cong) (simp_all add: map_key_sql_update)
  ultimately have "store_inv d \<Longrightarrow> store_inv ?d"
    by (simp add: store_inv_def schema_ok_def schema_keys_def)
  then show ?thesis by (simp add: safe_step_def tracked_def settled_def get_job_def)
qed

lemma safe_clear_lock:
  assumes "\<And>j. j \<in> set (jobs d) \<Longrightarrow> j_job_id j = x \<Longrightarrow> \<not> job_active (j_status j)"
  shows "safe_step X d (clear_lock x ts d)"
  unfolding clear_lock_def by (rule safe_update_locks) (use assms in auto)

subsection \<open>New rows\<close>

lemma get_job_append_tracked:
  assumes "jobs d' = jobs d @ js"
  shows "tracked d x \<Longrightarrow> tracked d' x" "settled d x st \<Longrightarrow> settled d' x st"
  using assms by (auto simp: tracked_def settled_def get_job_def row_by_append split: option.splits)

lemma schema_insert_job:
  assumes "insert_job r d = Inr d'" and "schema_ok d"
  shows "schema_ok d'"
proof -
  note new = insert_job_Inr [OF assms(1)]
  then have "j_job_id r \<notin> j_job_id ` set (jobs d)"
    "j_operation_id r \<in> o_operation_id ` set (operations d)"
    "j_router_id r \<in> r_router_id ` set (routers d)"
    by (auto simp: get_job_def get_operation_def get_router_def row_by_None_iff
        dest: row_by_Some_mem row_by_Some_key)
  with new assms(2) show ?thesis
    by (simp add: schema_ok_def schema_keys_def job_keys_def op_keys_def comp_def image_image)
qed

lemma lock_held_append:
  assumes "lock_held d" and "jobs d' = jobs d @ js" and "operations d' = operations d @ ops"
    and "router_mutation_locks d' = router_mutation_locks d @ ls"
    and idle: "\<And>j. j \<in> set js \<Longrightarrow> \<not> job_active (j_status j)"
    and refs: "\<And>j. j \<in> set (jobs d) \<Longrightarrow> get_operation d (j_operation_id j) \<noteq> None"
  shows "lock_held d'"
  unfolding lock_held_def
proof (intro ballI impI)
  fix j assume "j \<in> set (jobs d')" and j: "job_active (j_status j) \<and> mutation_job d' j"
  then have old: "j \<in> set (jobs d)" using assms(2) idle by auto
  then have "get_operation d' (j_operation_id j) = get_operation d (j_operation_id j)"
    using refs [OF old] assms(3) by (auto simp: get_operation_def row_by_append)
  then have "mutation_job d j" using j by (simp add: mutation_job_def)
  then have "holds_lock d j" using assms(1) old j by (auto simp: lock_held_def)
  then show "holds_lock d' j"
    using assms(4) by (auto simp: holds_lock_def get_lock_def row_by_append split: option.splits)
qed

lemma safe_insert_job:
  assumes "insert_job r d = Inr d'" and "\<not> job_active (j_status r)"
  shows "safe_step X d d'"
proof -
  have d': "d' = d\<lparr>jobs := jobs d @ [r]\<rparr>" using insert_job_Inr [OF assms(1)] by blast
  have "store_inv d'" if "store_inv d"
  proof -
    note inv = store_invD [OF that]
    have "lock_held d'"
      by (rule lock_held_append [OF inv(3), of _ "[r]" "[]" "[]"])
        (use assms(2) d' schema_job_refs [OF inv(1)] in auto)
    with schema_insert_job [OF assms(1) inv(1)] inv(2) show ?thesis
      by (simp add: store_inv_def d' registry_ok_def)
  qed
  then show ?thesis using get_job_append_tracked [of d' d "[r]"] by (simp add: safe_step_def d')
qed

lemma safe_bundle_unlocked:
  assumes "create_operation_bundle_unlocked env q d = Inr (out, d')"
    and "\<not> job_active (bq_initial_job_status q)"
  shows "safe_step X d d'"
proof (cases "bundle_lookup q d")
  case None
  from None assms(1) obtain op i a where d':
    "d' = d\<lparr>operations := operations d @ [op], idempotency_records := idempotency_records d @ [i],
        jobs := jobs d @ [bundle_job env q], audit_events := audit_events d @ [a]\<rparr>"
    by (rule create_bundle_new) blast
  have "store_inv d'" if "store_inv d"
  proof -
    note inv = store_invD [OF that]
    have "lock_held d'"
      by (rule lock_held_append [OF inv(3), of _ "[bundle_job env q]" "[op]" "[]"])
        (use assms(2) d' schema_job_refs [OF inv(1)] in \<open>auto simp: bundle_row_simps\<close>)
    with create_bundle_schema [OF assms(1) inv(1)] inv(2) show ?thesis
      by (simp add: store_inv_def d' registry_ok_def)
  qed
  then show ?thesis
    using get_job_append_tracked [of d' d "[bundle_job env q]"] by (simp add: safe_step_def d')
next
  case (Some r)
  with create_bundle_found [OF Some assms(1)] show ?thesis by simp
qed

lemma safe_bundle:
  assumes "create_operation_bundle env q p d = Inr (out, d')"
    and "\<not> job_active (bq_initial_job_status q)"
  shows "safe_step X d d'"
  using assms(1)
proof (rule create_operation_bundle_cases)
  fix d1 ss
  assume "create_operation_bundle_unlocked env q d = Inr (out, d1)"
    and d': "d' = d1\<lparr>job_steps := job_steps d1 @ ss\<rparr>"
  then have "safe_step X d d1" using safe_bundle_unlocked assms(2) by blast
  also have "safe_step X d1 d'" by (rule safe_cong) (simp_all add: d')
  finally show ?thesis .
qed

lemma keys_ok_more_routers:
  "keys_ok (js, ops, recs, rs) \<Longrightarrow> set rs \<subseteq> set rs' \<Longrightarrow> keys_ok (js, ops, recs, rs')"
  by (auto split: prod.splits) (fastforce)+

lemma safe_enroll:
  assumes "enroll_router env q d = Inr (rid, d')"
  shows "safe_step X d d'"
  using assms
proof (rule enroll_router_Inr)
  fix r e l
  assume d': "d' = d\<lparr>routers := routers d @ [r], router_endpoints := router_endpoints d @ [e],
      router_mutation_locks := router_mutation_locks d @ [l]\<rparr>"
    and "get_router d rid = None" "r_router_id r = rid" "get_lock d rid = None" "lk_router_id l = rid"
  have "store_inv d'" if "store_inv d"
  proof -
    note inv = store_invD [OF that]
    have "lock_held d'"
      by (rule lock_held_append [OF inv(3), of _ "[]" "[]" "[l]"])
        (use d' schema_job_refs [OF inv(1)] in auto)
    moreover have "schema_ok d'"
      using inv(1) unfolding schema_ok_def schema_keys_def
      by (rule keys_ok_more_routers [THEN back_subst [of keys_ok]]) (auto simp: d')
    moreover have "registry_ok d'"
      using inv(2) d' \<open>get_lock d rid = None\<close> \<open>r_router_id r = rid\<close> \<open>lk_router_id l = rid\<close>
      by (auto simp: registry_ok_def get_lock_def row_by_None_iff)
    ultimately show ?thesis by (simp add: store_inv_def)
  qed
  then show ?thesis by (simp add: safe_step_def d' tracked_def settled_def get_job_def)
qed

lemma safe_create_site: "create_site env sid n tz d = Inr (x, d') \<Longrightarrow> safe_step X d d'"
  by (rule safe_cong)
    (auto simp: create_site_def Let_def result_simps insert_site_def split: if_splits)

section \<open>The operations are safe steps\<close>

lemma jobs_frame [simp]:
  "jobs (update_idempotency_response rid http body d) = jobs d"
  "jobs (update_operation oid g d) = jobs d"
  "jobs (clear_lock x ts d) = jobs d"
  by (simp_all add: update_idempotency_response_def update_operation_def clear_lock_def)

lemma update_cancel_idempotency_Inr:
  assumes "update_cancel_idempotency http body x rid d = Inr d'"
  shows "safe_step X d d' \<and> jobs d' = jobs d"
  using assms by (auto simp: update_cancel_idempotency_def result_simps safe_update_response
      split: option.splits)

lemma store_final_response_Inr:
  assumes "store_final_response oid http body d = Inr d'"
  shows "safe_step X d d' \<and> jobs d' = jobs d"
  using assms by (auto simp: store_final_response_def result_simps safe_update_response
      split: option.splits if_splits)

lemma append_audit_jobs: "append_audit env u r d = Inr d' \<Longrightarrow> jobs d' = jobs d"
  by (auto simp: append_audit_def dest: insert_audit_Inr)

lemma get_job_SomeD: "get_job d x = Some j \<Longrightarrow> j \<in> set (jobs d) \<and> j_job_id j = x"
  by (auto simp: get_job_def dest: row_by_Some_mem row_by_Some_key)

lemma get_job_unique:
  assumes "schema_ok d" and "j \<in> set (jobs d)"
  shows "get_job d (j_job_id j) = Some j"
  unfolding get_job_def by (rule row_by_distinct [OF schema_jobs_distinct [OF assms(1)] assms(2)])

lemma job_update_unique:
  assumes "schema_ok d" and "get_job d x = Some job" and "P job"
    and "\<And>j. P j \<Longrightarrow> j_job_id (f j) = j_job_id j"
    and "j \<in> set (sql_update P f (jobs d))" and "j_job_id j = x"
  shows "j = f job"
  using sql_update_unique [OF schema_jobs_distinct [OF assms(1)]] assms(2-) by (simp add: get_job_def)

lemma fenced_job_Inr:
  assumes "fenced_job env x w t m d = Inr job"
  shows "get_job d x = Some job \<and> holds_lease job w t \<and> job_active (j_status job)"
  using assms by (auto simp: fenced_job_def result_simps split: option.splits if_splits)

lemma active_not_closed: "job_active s \<Longrightarrow> \<not> closed_job_status s"
  by (auto simp: job_active_def closed_job_status_def)

lemma terminal_inactive: "terminal_job_status s \<Longrightarrow> \<not> job_active s \<and> s \<noteq> Queued"
  by (auto simp: terminal_job_status_def job_active_def)

lemma safe_renew_lease:
  assumes "renew_lease env x w t secs d = Inr d'"
  shows "safe_step X d d'"
proof -
  let ?ts = "utc_now_iso env" and ?u = "lease_validity_epoch env + secs"
  let ?sel = "\<lambda>j. lease_where x w t j \<and> job_active (j_status j)"
  let ?f = "\<lambda>j. j\<lparr>j_lease_until_epoch := Some ?u, j_heartbeat_at := Some ?ts, j_updated_at := ?ts\<rparr>"
  let ?d = "d\<lparr>jobs := sql_update ?sel ?f (jobs d)\<rparr>"
  let ?l = "?d\<lparr>router_mutation_locks := sql_update
      (\<lambda>l. lk_active_job_id l = Some x \<and> lk_lock_owner l = Some w)
      (\<lambda>l. l\<lparr>lk_lock_until_epoch := Some ?u, lk_fencing_token := t, lk_updated_at := ?ts\<rparr>)
      (router_mutation_locks ?d)\<rparr>"
  have "safe_step X d ?d"
    by (rule safe_update_jobs) (simp_all add: quiet_def job_keys_def worker_job_def)
  moreover have "safe_step X ?d ?l"
    by (rule safe_update_locks) simp_all
  moreover have "d' = ?d \<or> d' = ?l"
    using assms by (auto simp: renew_lease_def result_simps Let_def split: option.splits if_splits)
  ultimately show ?thesis using safe_trans by blast
qed

lemma finish_job_simps [simp]:
  "j_job_id (finish_job env c late j) = j_job_id j"
  "j_status (finish_job env c late j) = cp_status c"
  "j_lease_owner (finish_job env c late j) = None"
  "j_fencing_token (finish_job env c late j) = j_fencing_token j"
  "job_keys (finish_job env c late j) = job_keys j"
  by (simp_all add: finish_job_def Let_def job_keys_def)

lemma complete_job_cases:
  assumes "complete_job env x w t c d = Inr d'"
  obtains job late d2 d4 where "terminal_job_status (cp_status c)"
    "fenced_job env x w t ''job not active for completion'' d = Inr job"
    "late \<longleftrightarrow> cp_status c = Succeeded \<and> j_cancel_requested job"
    "(if late then update_cancel_idempotency_to_409_terminal x (j_router_id job) else Inr)
       (d\<lparr>jobs := sql_update (\<lambda>j. lease_where x w t j \<and> job_active (j_status j))
          (finish_job env c late) (jobs d)\<rparr>) = Inr d2"
    "store_final_response (j_operation_id job) (cp_http_status c) (cp_response_body c)
       (update_operation (j_operation_id job) (finish_operation env c) d2) = Inr d4"
    "append_audit env (uuid env 0) (complete_audit x job c)
       (clear_lock x (utc_now_iso env) d4) = Inr d'"
proof -
  from assms obtain job where
    job: "fenced_job env x w t ''job not active for completion'' d = Inr job"
    and fin: "terminal_job_status (cp_status c)"
    by (auto simp: complete_job_def result_simps split: if_splits)
  note run = assms [unfolded complete_job_def rbind_raise_if Let_def]
  show thesis
  proof (cases "cp_status c = Succeeded \<and> j_cancel_requested job")
    case True
    with run job fin show thesis
      by (auto simp: result_simps split: if_splits intro!: that [of job True])
  next
    case False
    with run job fin show thesis
      by (auto simp: result_simps split: if_splits intro!: that [of job False])
  qed
qed

lemma safe_complete_job:
  assumes "complete_job env x w t c d = Inr d'" and "store_inv d"
  shows "safe_step X d d'"
  using assms(1)
proof (rule complete_job_cases)
  fix job late d2 d4
  let ?sel = "\<lambda>j. lease_where x w t j \<and> job_active (j_status j)"
  let ?d = "d\<lparr>jobs := sql_update ?sel (finish_job env c late) (jobs d)\<rparr>"
  assume fin: "terminal_job_status (cp_status c)"
    and job: "fenced_job env x w t ''job not active for completion'' d = Inr job"
    and s2: "(if late then update_cancel_idempotency_to_409_terminal x (j_router_id job) else Inr) ?d
       = Inr d2"
    and s4: "store_final_response (j_operation_id job) (cp_http_status c) (cp_response_body c)
       (update_operation (j_operation_id job) (finish_operation env c) d2) = Inr d4"
    and s5: "append_audit env (uuid env 0) (complete_audit x job c)
       (clear_lock x (utc_now_iso env) d4) = Inr d'"
  have step1: "safe_step X d ?d"
    using terminal_inactive [OF fin]
    by (intro safe_update_jobs)
      (auto simp: quiet_def worker_job_def active_not_closed)
  have step2: "safe_step X ?d d2 \<and> jobs d2 = jobs ?d"
    using s2 update_cancel_idempotency_Inr
    by (auto simp: update_cancel_idempotency_to_409_terminal_def split: if_splits)
  have step3: "safe_step X d2 (update_operation (j_operation_id job) (finish_operation env c) d2)"
    by (rule safe_update_operation) (simp add: op_keys_def finish_operation_def Let_def)
  note step4 = store_final_response_Inr [OF s4, of X]
  note found = fenced_job_Inr [OF job]
  have sel: "?sel job" using found by (auto simp: lease_where_def get_job_SomeD)
  have jobs4: "jobs d4 = sql_update ?sel (finish_job env c late) (jobs d)"
    using step2 step4 by simp
  have "\<not> job_active (j_status j)" if "j \<in> set (jobs d4)" "j_job_id j = x" for j
  proof -
    have "j = finish_job env c late job"
      by (rule job_update_unique [OF store_invD(1) [OF assms(2)] conjunct1 [OF found], where P = ?sel])
        (use sel that jobs4 in simp_all)
    then show ?thesis
      using terminal_inactive [OF fin] by simp
  qed
  then have step5: "safe_step X d4 (clear_lock x (utc_now_iso env) d4)"
    by (rule safe_clear_lock)
  show ?thesis
    using step1 step2 step3 step4 step5 safe_append_audit [OF s5, of X] safe_trans by metis
qed

text \<open>
  Progress of a worker that still tracks its job. Without that hypothesis the status update is
  not safe: owner and token alone do not show that the job is still active.
\<close>

lemma safe_record_job_progress:
  assumes "record_job_progress env x w t p d = Inr d'" and "store_inv d" and "tracked d x"
    and "pr_status p \<in> {None, Some Running}"
  shows "safe_step X d d'"
proof -
  let ?d = "d\<lparr>jobs := sql_update (lease_where x w t)
      (\<lambda>j. j\<lparr>j_status := Running, j_updated_at := utc_now_iso env\<rparr>) (jobs d)\<rparr>"
  from assms(1) obtain job d1 where job: "get_job d x = Some job" "holds_lease job w t"
    and set_status: "progress_set_status env x w t p d = Inr d1"
    and add_step: "progress_add_step env x p d1 = Inr d'"
    by (auto simp: record_job_progress_def result_simps split: option.splits if_splits)
  have d1: "d1 = d \<or> d1 = ?d"
    using set_status assms(4)
    by (auto simp: progress_set_status_def result_simps split: option.splits if_splits)
  have st: "d' = d1 \<or> (\<exists>r. insert_step r d1 = Inr d')"
    using add_step by (auto simp: progress_add_step_def split: option.splits)
  have act: "job_active (j_status job)"
    using assms(3) job by (auto simp: tracked_def worker_job_def holds_lease_def)
  have only: "j = job" if "j \<in> set (jobs d)" "lease_where x w t j" for j
    using get_job_unique [OF store_invD(1) [OF assms(2)] that(1)] that(2) job
    by (simp add: lease_where_def)
  have "safe_step X d ?d"
    by (rule safe_update_jobs)
      (use only act in \<open>auto simp: quiet_def job_keys_def worker_job_def job_active_def
        closed_job_status_def\<close>)
  with d1 have "safe_step X d d1" by auto
  moreover have "safe_step X d1 d'" using st safe_insert_step by auto
  ultimately show ?thesis by (rule safe_trans)
qed

lemma cancel_job_cases:
  assumes "cancel_job env q d = Inr ((http, body, out), d')"
  obtains (replayed) target where "get_job d (cr_target_job_id q) = Some target" "d' = d"
    "peek_idempotency (Some (j_router_id target)) ''hub_admin'' ''cancel_job''
       (cr_idempotency_key q) (cr_request_digest q) d = Inr (Some out)"
    "cancel_replay target out = Inr (http, body)"
  | (new) target d1 where "get_job d (cr_target_job_id q) = Some target"
    "peek_idempotency (Some (j_router_id target)) ''hub_admin'' ''cancel_job''
       (cr_idempotency_key q) (cr_request_digest q) d = Inr None"
    "\<not> closed_job_status (j_status target)"
    "(http, body) = cancel_answer (cr_target_job_id q) (j_status target)"
    "create_operation_bundle_unlocked env (cancel_bundle q (j_router_id target) http body) d =
       Inr (out, d1)"
    "d' = cancel_target env (cr_target_job_id q) (j_status target) d1"
proof -
  from assms obtain target existing where t: "get_job d (cr_target_job_id q) = Some target"
    "peek_idempotency (Some (j_router_id target)) ''hub_admin'' ''cancel_job''
       (cr_idempotency_key q) (cr_request_digest q) d = Inr existing"
    by (auto simp: cancel_job_def result_simps split: option.splits)
  note run = assms [unfolded cancel_job_def t(1) option.simps t(2) rbind_Inr]
  show thesis
  proof (cases existing)
    case None
    with run t show thesis
      by (auto simp: result_simps split: if_splits prod.splits intro!: new)
  next
    case (Some e)
    with run t show thesis by (auto simp: result_simps intro!: replayed)
  qed
qed

lemma safe_cancel_target: "safe_step X d (cancel_target env x st d)"
  unfolding cancel_target_def Let_def
  by (auto intro!: safe_update_jobs
      simp: quiet_def job_keys_def worker_job_def job_active_def closed_job_status_def)

lemma safe_cancel_job:
  assumes "cancel_job env q d = Inr (out, d')"
  shows "safe_step X d d'"
proof -
  obtain http body o1 where "out = (http, body, o1)" by (cases out)
  with assms have run: "cancel_job env q d = Inr ((http, body, o1), d')" by simp
  then show ?thesis
  proof (cases rule: cancel_job_cases)
    case (new target d1)
    have "safe_step X d d1"
      using new(5) by (rule safe_bundle_unlocked) (simp add: cancel_bundle_def job_active_def)
    then show ?thesis unfolding new(6) by (rule safe_trans [OF _ safe_cancel_target])
  qed simp
qed

lemma safe_mark_cancelled:
  assumes "mark_target_job_cancelled env x d = Inr d'" and "store_inv d"
  shows "safe_step {x} d d'"
proof -
  let ?ts = "utc_now_iso env"
  let ?sel = "\<lambda>j. j_job_id j = x \<and> j_cancel_requested j \<and> job_active (j_status j)"
  let ?f = "\<lambda>j. j\<lparr>j_status := Cancelled, j_finished_at := Some ?ts, j_updated_at := ?ts\<rparr>"
  let ?d = "d\<lparr>jobs := sql_update ?sel ?f (jobs d)\<rparr>"
  let ?g = "\<lambda>r. r\<lparr>o_aggregate_status := ''Failed'', o_terminal_at := Some ?ts, o_updated_at := ?ts\<rparr>"
  from assms(1) obtain target where tg: "get_job d x = Some target"
    by (auto simp: mark_target_job_cancelled_def split: option.splits)
  let ?e = "clear_lock x ?ts (update_operation (j_operation_id target) ?g ?d)"
  from assms(1) tg have cases:
    "update_cancel_idempotency_to_200 x (j_router_id target) d = Inr d' \<or>
     (j_cancel_requested target \<and> job_active (j_status target) \<and>
      update_cancel_idempotency_to_200 x (j_router_id target) ?e = Inr d')"
    by (auto simp: mark_target_job_cancelled_def Let_def result_simps split: if_splits)
  show ?thesis
  proof (rule disjE [OF cases])
    assume "update_cancel_idempotency_to_200 x (j_router_id target) d = Inr d'"
    then show ?thesis
      unfolding update_cancel_idempotency_to_200_def using update_cancel_idempotency_Inr by blast
  next
    assume c: "j_cancel_requested target \<and> job_active (j_status target) \<and>
      update_cancel_idempotency_to_200 x (j_router_id target) ?e = Inr d'"
    have "safe_step {x} d ?d"
      by (rule safe_update_jobs)
        (auto simp: quiet_def job_keys_def job_active_def closed_job_status_def)
    also have "safe_step {x} ?d (update_operation (j_operation_id target) ?g ?d)"
      by (rule safe_update_operation) (simp add: op_keys_def)
    also have "safe_step {x} (update_operation (j_operation_id target) ?g ?d) ?e"
    proof (rule safe_clear_lock)
      fix j assume "j \<in> set (jobs (update_operation (j_operation_id target) ?g ?d))" "j_job_id j = x"
      then have "j = ?f target"
        by (intro job_update_unique [OF store_invD(1) [OF assms(2)] tg, where P = ?sel])
          (use c get_job_SomeD [OF tg] in simp_all)
      then show "\<not> job_active (j_status j)" by (simp add: job_active_def)
    qed
    also have "safe_step {x} ?e d'"
      using c unfolding update_cancel_idempotency_to_200_def
      using update_cancel_idempotency_Inr by blast
    finally show ?thesis .
  qed
qed

lemma expire_job_simps [simp]:
  "j_job_id (expire_job env st j) = j_job_id j"
  "j_operation_id (expire_job env st j) = j_operation_id j"
  "j_status (expire_job env st j) = st"
  "j_lease_owner (expire_job env st j) = None"
  "job_keys (expire_job env st j) = job_keys j"
  by (simp_all add: expire_job_def Let_def job_keys_def)

lemma expire_status_closed: "closed_job_status (expire_status d row) \<and> \<not> job_active (expire_status d row)
    \<and> expire_status d row \<noteq> Queued"
  by (simp add: expire_status_def closed_job_status_def job_active_def)

text \<open>New steps belong to jobs that did not exist before.\<close>

definition steps_grow :: "db \<Rightarrow> db \<Rightarrow> bool" where
  "steps_grow d d' \<longleftrightarrow> (\<exists>ss. job_steps d' = job_steps d @ ss \<and>
     (\<forall>s \<in> set ss. get_job d (s_job_id s) = None))"

lemma requeue_lost_Inr:
  assumes "requeue_lost env n row d = Inr d'"
  shows "safe_step X d d' \<and> (\<exists>js. jobs d' = jobs d @ js) \<and> steps_grow d d'"
proof -
  let ?x = "new_id ''job'' (uuid env (2 * n))"
  from assms have "d' = d \<or> (\<exists>oid rid a d2. insert_job (resume_row env ?x oid rid a
      ''resume_after_lost'') d = Inr d2 \<and>
      (d' = d2 \<or> (\<exists>u p. insert_job_dispatch_payload env u ?x p d2 = Inr d')))"
    by (fastforce simp: requeue_lost_def Let_def result_simps split: option.splits)
  then show ?thesis
  proof (elim disjE exE conjE)
    assume "d' = d" then show ?thesis by (simp add: steps_grow_def)
  next
    fix oid rid a d2
    let ?r = "resume_row env ?x oid rid a ''resume_after_lost''"
    assume ins: "insert_job ?r d = Inr d2"
    then have r: "insert_job ?r d = Inr d2" "\<not> job_active (j_status ?r)" "j_job_id ?r = ?x"
      by (simp_all add: resume_row_def job_active_def)
    have s: "safe_step X d d2" by (rule safe_insert_job [OF r(1,2)])
    have j: "d2 = d\<lparr>jobs := jobs d @ [?r]\<rparr>" "get_job d ?x = None"
      using insert_job_Inr [OF r(1)] r(3) by simp_all
    { assume "d' = d2" then show ?thesis using s j by (simp add: steps_grow_def) }
    { fix u p assume p: "insert_job_dispatch_payload env u ?x p d2 = Inr d'"
      then obtain st where "d' = d2\<lparr>job_steps := job_steps d2 @ [st]\<rparr>" "s_job_id st = ?x"
        by (auto simp: insert_job_dispatch_payload_def dest!: insert_step_Inr)
      then show ?thesis
        using s j safe_dispatch_payload [OF p] safe_trans by (auto simp: steps_grow_def) }
  qed
qed

lemma recover_one_Inr:
  assumes "recover_one env n row d = Inr d'" and "store_inv d"
    and "get_job d (j_job_id row) = Some job" and "job_active (j_status job)"
  shows "safe_step X d d' \<and>
    (\<exists>js. jobs d' = sql_update (\<lambda>j. j_job_id j = j_job_id row)
       (expire_job env (expire_status d row)) (jobs d) @ js) \<and> steps_grow d d'"
proof -
  let ?x = "j_job_id row" and ?st = "expire_status d row"
  let ?d1 = "d\<lparr>jobs := sql_update (\<lambda>j. j_job_id j = ?x) (expire_job env ?st) (jobs d)\<rparr>"
  let ?d2 = "clear_lock ?x (utc_now_iso env) ?d1"
  note sch = store_invD(1) [OF assms(2)]
  note st = expire_status_closed [of d row]
  have only: "j = job" if "j \<in> set (jobs d)" "j_job_id j = ?x" for j
    using get_job_unique [OF sch that(1)] that(2) assms(3) by simp
  have "safe_step X d ?d1"
    by (rule safe_update_jobs)
      (use only st assms(4) in \<open>auto simp: quiet_def worker_job_def active_not_closed\<close>)
  also have "safe_step X ?d1 ?d2"
  proof (rule safe_clear_lock)
    fix j assume "j \<in> set (jobs ?d1)" "j_job_id j = ?x"
    then have "j = expire_job env ?st job"
      by (intro job_update_unique [OF sch assms(3), where P = "\<lambda>j. j_job_id j = ?x"])
        (use get_job_SomeD [OF assms(3)] in simp_all)
    with st show "\<not> job_active (j_status j)" by simp
  qed
  finally have s2: "safe_step X d ?d2" .
  have get2: "get_job ?d2 y = None \<longleftrightarrow> get_job d y = None" for y
    using get_job_sql_update [of "\<lambda>j. j_job_id j = ?x" "expire_job env ?st" d y]
    by (simp add: clear_lock_def get_job_def)
  have steps2: "job_steps ?d2 = job_steps d" by (simp add: clear_lock_def)
  show ?thesis
  proof (cases "?st = RecoveryRequired")
    case True
    let ?g = "\<lambda>r. r\<lparr>o_aggregate_status := ''RecoveryRequired'', o_updated_at := utc_now_iso env\<rparr>"
    have d': "d' = ?d2 \<or> (\<exists>oid. d' = update_operation oid ?g ?d2)"
      using assms(1) True by (auto simp: recover_one_def Let_def split: option.splits)
    moreover have "safe_step X ?d2 (update_operation oid ?g ?d2)" for oid
      by (rule safe_update_operation) (simp add: op_keys_def)
    ultimately have "safe_step X d d'" "jobs d' = jobs ?d2" using s2 safe_trans by auto
    moreover have "job_steps d' = job_steps d"
      using d' steps2 by (auto simp: update_operation_def)
    ultimately show ?thesis by (simp add: steps_grow_def)
  next
    case False
    then have "requeue_lost env n row ?d2 = Inr d'"
      using assms(1) by (simp add: recover_one_def Let_def)
    from requeue_lost_Inr [OF this, of X] s2 show ?thesis
      using safe_trans by (auto simp: steps_grow_def get2 steps2)
  qed
qed

lemma expire_status_grow:
  assumes "steps_grow d d'" and "get_job d (j_job_id r) \<noteq> None"
  shows "expire_status d' r = expire_status d r"
proof -
  obtain ss where ss: "job_steps d' = job_steps d @ ss"
    "\<forall>s \<in> set ss. get_job d (s_job_id s) = None" using assms(1) by (auto simp: steps_grow_def)
  have "s_job_id s \<noteq> j_job_id r" if "s \<in> set ss" for s using ss(2) that assms(2) by metis
  then show ?thesis
    by (auto simp: expire_status_def job_has_post_dispatch_progress_def ss(1))
qed

lemma get_job_expired:
  assumes "jobs d' = sql_update (\<lambda>j. j_job_id j = x) (expire_job env st) (jobs d) @ js"
    and "get_job d y = Some j"
  shows "get_job d' y = Some (if y = x then expire_job env st j else j)"
  using assms(2) get_job_SomeD [OF assms(2)]
  by (simp add: get_job_def assms(1) row_by_append row_by_sql_update)

lemma recover_rows_Inr:
  assumes "recover_rows env n rows d = Inr d'" and "store_inv d"
    and "distinct (map j_job_id rows)"
    and "\<forall>r \<in> set rows. get_job d (j_job_id r) = Some r \<and> job_active (j_status r)"
  shows "safe_step X d d' \<and>
    (\<forall>y j. get_job d y = Some j \<longrightarrow> (\<exists>j'. get_job d' y = Some j' \<and>
       (if y \<in> j_job_id ` set rows
        then j_lease_owner j' = None \<and> j_status j' = expire_status d j
        else j' = j)))"
  using assms
proof (induction rows arbitrary: n d)
  case Nil
  then show ?case by simp
next
  case (Cons row rows)
  from Cons.prems(1) obtain d1 where one: "recover_one env n row d = Inr d1"
    and rest: "recover_rows env (Suc n) rows d1 = Inr d'" by (auto simp: result_simps)
  have job: "get_job d (j_job_id row) = Some row" "job_active (j_status row)"
    using Cons.prems(4) by auto
  from recover_one_Inr [OF one Cons.prems(2) job] obtain js where
    safe: "safe_step X d d1" and js: "jobs d1 = sql_update (\<lambda>j. j_job_id j = j_job_id row)
       (expire_job env (expire_status d row)) (jobs d) @ js" and grow: "steps_grow d d1"
    by blast
  note get = get_job_expired [OF js]
  have fresh: "j_job_id r \<noteq> j_job_id row" if "r \<in> set rows" for r
    using Cons.prems(3) that by (force simp: image_iff)
  have inv1: "store_inv d1" using safe Cons.prems(2) by (simp add: safe_step_def)
  have act1: "\<forall>r \<in> set rows. get_job d1 (j_job_id r) = Some r \<and> job_active (j_status r)"
    using Cons.prems(4) fresh get by fastforce
  note IH = Cons.IH [OF rest inv1 _ act1]
  have dist: "distinct (map j_job_id rows)" using Cons.prems(3) by simp
  have "safe_step X d d'" using safe IH [OF dist] safe_trans by blast
  moreover have "\<exists>j'. get_job d' y = Some j' \<and> (if y \<in> j_job_id ` set (row # rows)
        then j_lease_owner j' = None \<and> j_status j' = expire_status d j
        else j' = j)" if y: "get_job d y = Some j" for y j
  proof -
    let ?j = "if y = j_job_id row then expire_job env (expire_status d row) j else j"
    have y1: "get_job d1 y = Some ?j" by (rule get [OF y])
    with IH [OF dist] obtain j' where j': "get_job d' y = Some j'" "if y \<in> j_job_id ` set rows
        then j_lease_owner j' = None \<and> j_status j' = expire_status d1 ?j else j' = ?j"
      by blast
    have "expire_status d1 j = expire_status d j"
      by (rule expire_status_grow [OF grow]) (use y get_job_SomeD [OF y] in simp)
    moreover have "y = j_job_id row \<Longrightarrow> y \<notin> j_job_id ` set rows" using fresh by force
    moreover have "y = j_job_id row \<Longrightarrow> j = row" using job(1) y by simp
    ultimately show ?thesis
      using j' by (cases "y = j_job_id row") (auto split: if_splits)
  qed
  ultimately show ?case by blast
qed

lemma recover_expired_leases_Inr:
  assumes "recover_expired_leases env d = Inr (ids, d')" and "store_inv d"
  shows "safe_step X d d' \<and> ids = map j_job_id (expired_leases env d) \<and>
    (\<forall>y j. get_job d y = Some j \<longrightarrow> (\<exists>j'. get_job d' y = Some j' \<and>
       (if y \<in> set ids
        then j_lease_owner j' = None \<and> j_status j' = expire_status d j
        else j' = j)))"
proof -
  from assms(1) have run: "recover_rows env 0 (expired_leases env d) d = Inr d'"
    and ids: "ids = map j_job_id (expired_leases env d)"
    by (auto simp: recover_expired_leases_def Let_def result_simps)
  have "distinct (map j_job_id (expired_leases env d))"
    unfolding expired_leases_def
    by (rule distinct_map_filter [OF schema_jobs_distinct [OF store_invD(1) [OF assms(2)]]])
  moreover have "\<forall>r \<in> set (expired_leases env d).
      get_job d (j_job_id r) = Some r \<and> job_active (j_status r)"
    using get_job_unique [OF store_invD(1) [OF assms(2)]] by (auto simp: expired_leases_def)
  ultimately show ?thesis
    using recover_rows_Inr [OF run assms(2)] ids by simp
qed

lemma safe_resume_unlocked:
  assumes "create_recovery_resume_job_unlocked env src rs payload d = Inr (x, d')"
  shows "safe_step X d d'"
proof -
  let ?row = "\<lambda>a. resume_row env (new_id ''job'' (uuid env 0)) (j_operation_id src)
      (j_router_id src) a rs"
  from assms obtain a d1 where r: "insert_job (?row a) d = Inr d1"
    and p: "(if json_truthy payload
        then insert_job_dispatch_payload env (uuid env 1) (new_id ''job'' (uuid env 0)) payload d1
        else Inr d1) = Inr d'"
    unfolding create_recovery_resume_job_unlocked_def Let_def rbind_eq_Inr by blast
  have "safe_step X d d1" by (rule safe_insert_job [OF r]) (simp add: resume_row_def job_active_def)
  moreover have "safe_step X d1 d'" using p safe_dispatch_payload by (auto split: if_splits)
  ultimately show ?thesis by (rule safe_trans)
qed

lemma safe_create_resume:
  "create_recovery_resume_job env src rs payload d = Inr (x, d') \<Longrightarrow> safe_step X d d'"
  by (auto simp: create_recovery_resume_job_def result_simps split: option.splits if_splits
      dest: safe_resume_unlocked)

lemma safe_queue_resume:
  assumes "queue_resume env q target rs p d = Inr (out, d')"
  shows "safe_step X d d'"
proof -
  from assms obtain x d1 a where "create_recovery_resume_job_unlocked env target rs p d = Inr (x, d1)"
    "append_audit env (uuid env 2) a d1 = Inr d'"
    by (auto simp: queue_resume_def result_simps)
  then show ?thesis using safe_resume_unlocked safe_append_audit safe_trans by blast
qed

lemma resume_recovery_job_cases:
  assumes "resume_recovery_job env q d = Inr (out, d')"
  obtains (replayed) target j where "get_job d (rr_target_job_id q) = Some target" "d' = d"
    "find_resumed d q (list_jobs_for_operation d (j_operation_id target)) = Inr (Some j)"
    "out = (202, resume_body (rr_target_job_id q) (j_job_id j) (j_operation_id target)
       (case j_recovery_state j of None \<Rightarrow> ''None'' | Some s \<Rightarrow> s) (j_status j))"
  | (new) target p payload where "get_job d (rr_target_job_id q) = Some target"
    "find_resumed d q (list_jobs_for_operation d (j_operation_id target)) = Inr None"
    "dispatch_payload_or_empty d (rr_target_job_id q) = Inr p" "resume_payload q p = Inr payload"
    "queue_resume env q target (if rr_action q = ''resume'' then ''resume_after_readback''
       else ''compensate'') payload d = Inr (out, d')"
proof -
  from assms obtain target where tg: "get_job d (rr_target_job_id q) = Some target"
    by (cases "get_job d (rr_target_job_id q)") (auto simp: resume_recovery_job_def split: if_splits)
  note run0 = assms [unfolded resume_recovery_job_def Let_def tg option.simps]
  obtain found where t: "get_job d (rr_target_job_id q) = Some target"
    "find_resumed d q (list_jobs_for_operation d (j_operation_id target)) = Inr found"
    using run0 tg
    by (cases "find_resumed d q (list_jobs_for_operation d (j_operation_id target))")
      (auto split: if_splits)
  note run = assms [unfolded resume_recovery_job_def Let_def t(1) option.simps t(2) rbind_Inr]
  show thesis
  proof (cases found)
    case (Some j)
    with run t show thesis by (intro replayed [of target j]) (auto split: if_splits)
  next
    case None
    with run t show thesis by (auto simp: result_simps split: if_splits intro: new)
  qed
qed

lemma safe_resume_recovery_job:
  "resume_recovery_job env q d = Inr (out, d') \<Longrightarrow> safe_step X d d'"
  by (erule resume_recovery_job_cases) (auto dest: safe_queue_resume)

section \<open>Claiming keeps the lock invariant\<close>

lemma claim_join_mem:
  "c \<in> set (claim_join d) \<longleftrightarrow> fst c \<in> set (jobs d) \<and> j_status (fst c) = Queued \<and>
     (\<exists>r \<in> set (operations d). o_operation_id r = j_operation_id (fst c) \<and> snd c = o_operation_kind r)"
  by (cases c) (auto simp: claim_join_def split: if_splits)

lemma claim_verdict_Claimable:
  "claim_verdict d c = Inr Claimable \<Longrightarrow>
   is_mutation (snd c) \<longrightarrow> \<not> lock_blocked d (j_router_id (fst c))"
  by (auto simp: claim_verdict_def Let_def result_simps split: if_splits)

lemma claim_apply_jobs:
  assumes "claim_apply env w secs c d = (r, d')"
  shows "jobs d' = sql_update (\<lambda>j. j_job_id j = cl_job_id r \<and> j_status j = Queued)
      (claim_row env w (cl_lease_until_epoch r) (cl_fencing_token r)) (jobs d)"
    and "operations d' = operations d" and "routers d' = routers d"
    and "idempotency_records d' = idempotency_records d"
    and "cl_job_id r = j_job_id (fst c)" "cl_lease_owner r = w"
      "cl_fencing_token r = j_fencing_token (fst c) + 1"
    and "router_mutation_locks d' = (if is_mutation (snd c)
      then sql_update (\<lambda>l. lk_router_id l = j_router_id (fst c))
        (\<lambda>l. l\<lparr>lk_active_job_id := Some (cl_job_id r), lk_lock_owner := Some w,
          lk_lock_until_epoch := Some (cl_lease_until_epoch r),
          lk_fencing_token := cl_fencing_token r, lk_updated_at := utc_now_iso env\<rparr>)
        (router_mutation_locks d)
      else router_mutation_locks d)"
  using assms by (auto simp: claim_apply_def Let_def split: if_splits)

lemma claim_apply_lock:
  assumes "claim_apply env w secs c d = (r, d')"
  shows "map_option lk_active_job_id (get_lock d' rid) =
    (if is_mutation (snd c) \<and> rid = j_router_id (fst c)
     then map_option (\<lambda>_. Some (cl_job_id r)) (get_lock d rid)
     else map_option lk_active_job_id (get_lock d rid))"
  unfolding get_lock_def claim_apply_jobs(8) [OF assms]
  by (cases "row_by lk_router_id rid (router_mutation_locks d)")
    (auto simp: row_by_sql_update dest: row_by_Some_key)

lemma holds_lock_alt:
  "holds_lock d j \<longleftrightarrow> map_option lk_active_job_id (get_lock d (j_router_id j)) = Some (Some (j_job_id j))"
  by (auto simp: holds_lock_def split: option.splits)

lemma claim_mem_cases:
  assumes "claim_apply env w secs c d = (r, d')" and "schema_ok d" and "c \<in> set (claim_join d)"
    and "j \<in> set (jobs d')"
  shows "j = claim_row env w (cl_lease_until_epoch r) (cl_fencing_token r) (fst c) \<or>
    (j \<in> set (jobs d) \<and> j_job_id j \<noteq> cl_job_id r)"
proof -
  let ?P = "\<lambda>j. j_job_id j = cl_job_id r \<and> j_status j = Queued"
  let ?f = "claim_row env w (cl_lease_until_epoch r) (cl_fencing_token r)"
  note cj = claim_apply_jobs [OF assms(1)]
  have c: "fst c \<in> set (jobs d)" "j_status (fst c) = Queued" using assms(3) by (auto simp: claim_join_mem)
  show ?thesis
  proof (cases "j_job_id j = cl_job_id r")
    case True
    have "j = ?f (fst c)"
      by (rule job_update_unique [OF assms(2) get_job_unique [OF assms(2) c(1)], where P = ?P])
        (use assms(4) cj c True in simp_all)
    then show ?thesis ..
  next
    case False
    with assms(4) have "j \<in> set (jobs d)"
      unfolding cj(1) by (auto simp: set_sql_update split: if_splits)
    with False show ?thesis by simp
  qed
qed

lemma claim_lock_held:
  assumes "claim_apply env w secs c d = (r, d')" and "store_inv d" and "c \<in> set (claim_join d)"
    and "claim_verdict d c = Inr Claimable"
  shows "lock_held d'"
  unfolding lock_held_def
proof (intro ballI impI)
  fix j assume j: "j \<in> set (jobs d')" "job_active (j_status j) \<and> mutation_job d' j"
  note inv = store_invD [OF assms(2)] and cj = claim_apply_jobs [OF assms(1)]
  note lock = claim_apply_lock [OF assms(1)]
  have same: "get_operation d' k = get_operation d k" for k by (simp add: get_operation_def cj(2))
  from assms(3) obtain oper where oper: "oper \<in> set (operations d)"
    "o_operation_id oper = j_operation_id (fst c)" "snd c = o_operation_kind oper"
    and c: "fst c \<in> set (jobs d)" by (auto simp: claim_join_mem)
  have kind: "get_operation d (j_operation_id (fst c)) = Some oper"
    using row_by_distinct [OF schema_operations_distinct [OF inv(1)] oper(1)] oper(2)
    by (simp add: get_operation_def)
  from claim_mem_cases [OF assms(1) inv(1) assms(3) j(1)] show "holds_lock d' j"
  proof
    assume new: "j = claim_row env w (cl_lease_until_epoch r) (cl_fencing_token r) (fst c)"
    have "is_mutation (snd c)"
      using j(2) oper(3) kind by (simp add: new mutation_job_def same)
    moreover obtain l where "get_lock d (j_router_id (fst c)) = Some l"
      using registry_lock [OF inv(2)] schema_job_refs [OF inv(1) c] by blast
    ultimately show ?thesis
      using lock [of "j_router_id (fst c)"] by (simp add: holds_lock_alt new cj(5))
  next
    assume old: "j \<in> set (jobs d) \<and> j_job_id j \<noteq> cl_job_id r"
    then have held: "holds_lock d j"
      using inv(3) j(2) by (simp add: lock_held_def mutation_job_def same)
    have "get_job d (j_job_id j) = Some j" using get_job_unique [OF inv(1)] old by simp
    with held j(2) have "lock_blocked d (j_router_id j)"
      by (auto simp: holds_lock_def lock_blocked_def split: option.splits)
    with claim_verdict_Claimable [OF assms(4)] have "\<not> (is_mutation (snd c) \<and> j_router_id j = j_router_id (fst c))"
      by auto
    with held lock [of "j_router_id j"] show ?thesis by (auto simp: holds_lock_alt)
  qed
qed

lemma claim_job_cases:
  assumes "claim_job env w secs d = Inr (Some r, d')" and "schema_ok d"
  obtains c where "c \<in> set (claim_join d)" "claim_verdict d c = Inr Claimable"
    "claim_apply env w secs c d = (r, d')"
proof -
  from assms obtain c where c: "first_claimable d (claim_queue d) = Inr (Some c)"
    "map_prod Some id (claim_apply env w secs c d) = (Some r, d')"
    by (auto simp: claim_job_queue result_simps split: option.splits)
  from c(1) have "c \<in> set (claim_queue d)" "claim_verdict d c = Inr Claimable"
    by (auto simp: first_claimable_Some)
  moreover have "claim_apply env w secs c d = (r, d')"
    using c(2) by (cases "claim_apply env w secs c d") simp
  ultimately show thesis using that by (simp add: claim_queue_def)
qed

lemma claim_job_Inr:
  assumes "claim_job env w secs d = Inr (Some r, d')" and "store_inv d"
  shows "safe_step {} d d' \<and> \<not> tracked d (cl_job_id r) \<and> tracked d' (cl_job_id r) \<and>
    (\<exists>j j'. get_job d (cl_job_id r) = Some j \<and> j_status j = Queued \<and>
       get_job d' (cl_job_id r) = Some j' \<and> j_status j' = Leased \<and>
       holds_lease j' (cl_lease_owner r) (cl_fencing_token r) \<and>
       cl_fencing_token r = j_fencing_token j + 1 \<and> (mutation_job d' j' \<longrightarrow> holds_lock d' j'))"
proof -
  note inv = store_invD [OF assms(2)]
  obtain c where c: "c \<in> set (claim_join d)" "claim_verdict d c = Inr Claimable"
    "claim_apply env w secs c d = (r, d')" by (rule claim_job_cases [OF assms(1) inv(1)])
  note cj = claim_apply_jobs [OF c(3)]
  let ?f = "claim_row env w (cl_lease_until_epoch r) (cl_fencing_token r)"
  let ?P = "\<lambda>j. j_job_id j = cl_job_id r \<and> j_status j = Queued"
  have fc: "fst c \<in> set (jobs d)" "j_status (fst c) = Queued" using c(1) by (auto simp: claim_join_mem)
  have get: "get_job d' x = map_option (\<lambda>j. if ?P j then ?f j else j) (get_job d x)" for x
    using get_job_sql_update [of ?P ?f d x] by (simp add: get_job_def cj(1))
  have g: "get_job d (cl_job_id r) = Some (fst c)" using get_job_unique [OF inv(1) fc(1)] cj(5) by simp
  have g': "get_job d' (cl_job_id r) = Some (?f (fst c))" using g get fc cj(5) by simp
  have held: "lock_held d'" by (rule claim_lock_held [OF c(3) assms(2) c(1,2)])
  have "schema_keys d' = schema_keys d"
    by (simp add: schema_keys_def cj(1-4) map_key_sql_update)
  then have "schema_ok d'" using inv(1) by (rule schema_ok_cong)
  moreover have "registry_ok d'"
    using registry_ok_cong [of d' d] inv(2) cj(3,8) by (simp add: map_key_sql_update)
  ultimately have "store_inv d'" using held by (simp add: store_inv_def)
  moreover have "tracked d x \<Longrightarrow> tracked d' x" for x
    by (auto simp: tracked_def get worker_job_def job_active_def split: option.splits)
  moreover have "settled d x st \<Longrightarrow> settled d' x st" for x st
    by (auto simp: settled_def get closed_job_status_def split: option.splits)
  ultimately have "safe_step {} d d'" by (simp add: safe_step_def)
  moreover have "\<not> tracked d (cl_job_id r)" "tracked d' (cl_job_id r)"
    by (simp_all add: tracked_def g g' worker_job_def fc job_active_def)
  moreover have "mutation_job d' (?f (fst c)) \<longrightarrow> holds_lock d' (?f (fst c))"
    using held get_job_SomeD [OF g'] by (simp add: lock_held_def job_active_def)
  ultimately show ?thesis using g g' fc cj(6,7) by (auto simp: holds_lease_def)
qed

end
