(* ===== verification/Queue_Protocol.thy ===== *)
theory Queue_Protocol
  imports Job_Invariants
begin

text \<open>
  The job queue as a whole: any number of workers, API callers and recovery passes interleave
  their store transactions on one database. A worker's context (\<open>ActiveHandlerContext\<close> of
  \<open>src/router_control/application/worker.py\<close>) holds the claimed job, the lease owner and the
  fencing token; it exists from the claim until the worker has completed or cancelled the job, or
  has died. Contexts survive the loss of their lease, so late writes of slow workers are steps
  of the system too.
\<close>

section \<open>Transitions\<close>

record ctx =
  cx_job_id :: ident
  cx_lease_owner :: string
  cx_fencing_token :: int

record sys =
  sys_db :: db
  sys_ctx :: "ctx list"

definition sys_init :: "sys \<Rightarrow> bool" where
  "sys_init s \<longleftrightarrow> s = \<lparr>sys_db = empty_db, sys_ctx = []\<rparr>"

definition claim_ctx :: "claim_result \<Rightarrow> ctx" where
  "claim_ctx r = \<lparr>cx_job_id = cl_job_id r, cx_lease_owner = cl_lease_owner r,
     cx_fencing_token = cl_fencing_token r\<rparr>"

text \<open>
  The writes of the other clients. Bundles start queued or already terminal. Of the fence
  operations only their frame matters here: they touch no table but their own.
\<close>

inductive client_step :: "db \<Rightarrow> db \<Rightarrow> bool" where
  site: "create_site env sid n tz d = Inr (x, d') \<Longrightarrow> client_step d d'"
| enroll: "enroll_router env q d = Inr (x, d') \<Longrightarrow> client_step d d'"
| submit: "create_operation_bundle env q p d = Inr (out, d') \<Longrightarrow>
     \<not> job_active (bq_initial_job_status q) \<Longrightarrow> client_step d d'"
| cancel: "cancel_job env q d = Inr (out, d') \<Longrightarrow> client_step d d'"
| recover: "recover_expired_leases env d = Inr (ids, d') \<Longrightarrow> client_step d d'"
| resume: "resume_recovery_job env q d = Inr (out, d') \<Longrightarrow> client_step d d'"
| requeue: "create_recovery_resume_job env src rs p d = Inr (x, d') \<Longrightarrow> client_step d d'"
| audit: "append_audit env u r d = Inr d' \<Longrightarrow> client_step d d'"
| fence_acquire: "acquire_router_execution_fence env rid w h secs a m d = Inr (t, d') \<Longrightarrow> client_step d d'"
| fence_renew: "renew_router_execution_fence env rid w h t secs d = Inr d' \<Longrightarrow> client_step d d'"
| fence_release: "release_router_execution_fence rid w h t d = Inr d' \<Longrightarrow> client_step d d'"
| fence_reap: "client_step d (snd (reap_expired_router_execution_fences env rid d))"

text \<open>
  The writes of a worker. Progress sets the status to \<open>Running\<close> or leaves it; completion and
  cancellation end the context; a context may vanish at any time.
\<close>

inductive sys_step :: "sys \<Rightarrow> sys \<Rightarrow> bool" where
  client: "client_step (sys_db s) d' \<Longrightarrow> sys_step s (s\<lparr>sys_db := d'\<rparr>)"
| claim: "claim_job env w secs (sys_db s) = Inr (Some r, d') \<Longrightarrow>
     sys_step s \<lparr>sys_db = d', sys_ctx = claim_ctx r # sys_ctx s\<rparr>"
| progress: "c \<in> set (sys_ctx s) \<Longrightarrow> pr_status p \<in> {None, Some Running} \<Longrightarrow>
     record_job_progress env (cx_job_id c) (cx_lease_owner c) (cx_fencing_token c) p (sys_db s) =
       Inr d' \<Longrightarrow> sys_step s (s\<lparr>sys_db := d'\<rparr>)"
| heartbeat: "c \<in> set (sys_ctx s) \<Longrightarrow>
     renew_lease env (cx_job_id c) (cx_lease_owner c) (cx_fencing_token c) secs (sys_db s) =
       Inr d' \<Longrightarrow> sys_step s (s\<lparr>sys_db := d'\<rparr>)"
| complete: "c \<in> set (sys_ctx s) \<Longrightarrow>
     complete_job env (cx_job_id c) (cx_lease_owner c) (cx_fencing_token c) cp (sys_db s) =
       Inr d' \<Longrightarrow> sys_step s \<lparr>sys_db = d', sys_ctx = remove1 c (sys_ctx s)\<rparr>"
| finalize_cancel: "c \<in> set (sys_ctx s) \<Longrightarrow>
     mark_target_job_cancelled env (cx_job_id c) (sys_db s) = Inr d' \<Longrightarrow>
     sys_step s \<lparr>sys_db = d', sys_ctx = remove1 c (sys_ctx s)\<rparr>"
| die: "c \<in> set (sys_ctx s) \<Longrightarrow> sys_step s (s\<lparr>sys_ctx := remove1 c (sys_ctx s)\<rparr>)"

inductive_cases sys_stepE: "sys_step s t"

section \<open>Invariant\<close>

lemma safe_fences: "safe_step X d (d\<lparr>router_execution_fences := fs\<rparr>)"
  by (rule safe_cong) simp_all

lemma fold_fences_frame:
  "\<exists>fs. fold (\<lambda>rid d. d\<lparr>router_execution_fences := g rid (router_execution_fences d)\<rparr>) ids d =
     d\<lparr>router_execution_fences := fs\<rparr>"
proof (induction ids arbitrary: d)
  case Nil
  show ?case by (rule exI [of _ "router_execution_fences d"]) simp
next
  case (Cons i ids)
  obtain fs where "fold (\<lambda>rid d. d\<lparr>router_execution_fences := g rid (router_execution_fences d)\<rparr>) ids
      (d\<lparr>router_execution_fences := g i (router_execution_fences d)\<rparr>) =
      d\<lparr>router_execution_fences := g i (router_execution_fences d)\<rparr>\<lparr>router_execution_fences := fs\<rparr>"
    using Cons.IH by blast
  then show ?case by auto
qed

lemma safe_client_step:
  assumes "client_step d d'" and "store_inv d"
  shows "safe_step X d d'"
  using assms
proof (cases rule: client_step.cases)
  case (recover env ids)
  then show ?thesis using recover_expired_leases_Inr assms(2) by blast
next
  case (fence_acquire env rid w h secs a m t)
  then have "\<exists>fs. d' = d\<lparr>router_execution_fences := fs\<rparr>"
    by (auto simp: acquire_router_execution_fence_def Let_def result_simps update_fences_def
        insert_fence_def split: option.splits if_splits intro: exI [of _ "router_execution_fences d"])
  then show ?thesis using safe_fences by auto
next
  case (fence_renew env rid w h t secs)
  then have "\<exists>fs. d' = d\<lparr>router_execution_fences := fs\<rparr>"
    by (auto simp: renew_router_execution_fence_def Let_def split: option.splits if_splits)
  then show ?thesis using safe_fences by auto
next
  case (fence_release rid w h t)
  then have "\<exists>fs. d' = d\<lparr>router_execution_fences := fs\<rparr>"
    by (auto simp: release_router_execution_fence_def Let_def split: option.splits if_splits)
  then show ?thesis using safe_fences by auto
next
  case (fence_reap env rid)
  obtain fs where "snd (reap_expired_router_execution_fences env rid d) =
      d\<lparr>router_execution_fences := fs\<rparr>"
    unfolding reap_expired_router_execution_fences_def Let_def snd_conv
    using fold_fences_frame [of "\<lambda>r. sql_delete (\<lambda>f. f_router_id f = r \<and>
        f_lease_until_epoch f < lease_validity_epoch env)"] by blast
  with fence_reap show ?thesis using safe_fences by simp
qed (simp_all add: safe_create_site safe_enroll safe_bundle safe_cancel_job safe_resume_recovery_job
    safe_create_resume safe_append_audit)

definition sys_inv :: "sys \<Rightarrow> bool" where
  "sys_inv s \<longleftrightarrow> store_inv (sys_db s) \<and> distinct (map cx_job_id (sys_ctx s)) \<and>
     (\<forall>c \<in> set (sys_ctx s). tracked (sys_db s) (cx_job_id c))"

lemma store_inv_empty: "store_inv empty_db"
  using schema_ok_empty registry_ok_empty by (simp add: store_inv_def lock_held_def) (simp add: empty_db_def)

text \<open>A safe step keeps the invariant for the contexts it does not exempt.\<close>

lemma sys_inv_safe:
  assumes "sys_inv s" and "safe_step X (sys_db s) d'"
    and "set cs \<subseteq> set (sys_ctx s)" and "distinct (map cx_job_id cs)"
    and "\<And>c. c \<in> set cs \<Longrightarrow> cx_job_id c \<notin> X"
  shows "sys_inv \<lparr>sys_db = d', sys_ctx = cs\<rparr>"
  using assms by (auto simp: sys_inv_def safe_step_def)

lemma distinct_remove1_key:
  "distinct (map f xs) \<Longrightarrow> c \<in> set xs \<Longrightarrow>
   distinct (map f (remove1 c xs)) \<and> (\<forall>y \<in> set (remove1 c xs). f y \<noteq> f c)"
proof (induction xs)
  case (Cons x xs)
  then show ?case using set_remove1_subset [of c xs] by (auto simp: image_iff)
qed simp

lemma sys_same: "sys_inv s \<Longrightarrow> safe_step {} (sys_db s) d' \<Longrightarrow> sys_inv (s\<lparr>sys_db := d'\<rparr>)"
  using sys_inv_safe [of s "{}" d' "sys_ctx s"] by (cases s) (simp add: sys_inv_def)

lemma sys_drop:
  assumes "sys_inv s" and "c \<in> set (sys_ctx s)" and "safe_step {cx_job_id c} (sys_db s) d'"
  shows "sys_inv \<lparr>sys_db = d', sys_ctx = remove1 c (sys_ctx s)\<rparr>"
  using distinct_remove1_key [of cx_job_id "sys_ctx s" c] assms set_remove1_subset [of c "sys_ctx s"]
  by (intro sys_inv_safe [OF assms(1,3)]) (auto simp: sys_inv_def)

lemma sys_step_safe:
  assumes "sys_step s t" and "sys_inv s"
  shows "sys_inv t \<and> (\<forall>x st. settled (sys_db s) x st \<longrightarrow> settled (sys_db t) x st)"
proof -
  have inv: "store_inv (sys_db s)" using assms(2) by (simp add: sys_inv_def)
  have trk: "tracked (sys_db s) (cx_job_id c)" if "c \<in> set (sys_ctx s)" for c
    using assms(2) that by (simp add: sys_inv_def)
  from assms(1) show ?thesis
  proof (cases rule: sys_step.cases)
    case (client d')
    have "safe_step {} (sys_db s) d'" by (rule safe_client_step [OF client(2) inv])
    with sys_same [OF assms(2)] client(1) show ?thesis by (simp add: safe_step_def)
  next
    case (claim env w secs r d')
    note cl = claim_job_Inr [OF claim(2) inv]
    have "sys_inv (s\<lparr>sys_db := d'\<rparr>)" using sys_same [OF assms(2)] cl by simp
    moreover have "cl_job_id r \<notin> cx_job_id ` set (sys_ctx s)" using trk cl by auto
    ultimately show ?thesis
      using cl claim(1) by (simp add: sys_inv_def claim_ctx_def safe_step_def)
  next
    case (progress c p env d')
    have "safe_step {} (sys_db s) d'"
      by (rule safe_record_job_progress [OF progress(4) inv trk [OF progress(2)] progress(3)])
    with sys_same [OF assms(2)] progress(1) show ?thesis by (simp add: safe_step_def)
  next
    case (heartbeat c env secs d')
    have "safe_step {} (sys_db s) d'" by (rule safe_renew_lease [OF heartbeat(3)])
    with sys_same [OF assms(2)] heartbeat(1) show ?thesis by (simp add: safe_step_def)
  next
    case (complete c env cp d')
    have "safe_step {cx_job_id c} (sys_db s) d'" by (rule safe_complete_job [OF complete(3) inv])
    with sys_drop [OF assms(2) complete(2)] complete(1) show ?thesis by (simp add: safe_step_def)
  next
    case (finalize_cancel c env d')
    have "safe_step {cx_job_id c} (sys_db s) d'"
      by (rule safe_mark_cancelled [OF finalize_cancel(3) inv])
    with sys_drop [OF assms(2) finalize_cancel(2)] finalize_cancel(1)
    show ?thesis by (simp add: safe_step_def)
  next
    case (die c)
    with sys_drop [OF assms(2) die(2), of "sys_db s"] show ?thesis by (cases s) simp
  qed
qed

interpretation queue: invariant_system sys_init sys_step sys_inv
  by unfold_locales (auto simp: sys_init_def sys_inv_def store_inv_empty dest: sys_step_safe)

section \<open>Mutual exclusion\<close>

lemma lock_held_exclusive:
  assumes "store_inv d" and "i \<in> set (jobs d)" "j \<in> set (jobs d)"
    and "job_active (j_status i)" "mutation_job d i" "job_active (j_status j)" "mutation_job d j"
    and "j_router_id i = j_router_id j"
  shows "i = j"
proof -
  have "holds_lock d i" "holds_lock d j"
    using store_invD(3) [OF assms(1)] assms(2-7) by (auto simp: lock_held_def)
  then have "j_job_id i = j_job_id j" using assms(8) by (auto simp: holds_lock_def split: option.splits)
  then show ?thesis
    using get_job_unique [OF store_invD(1) [OF assms(1)]] assms(2,3) by (metis option.inject)
qed



section \<open>Late writers\<close>

lemma no_owner_rejected:
  assumes "get_job d x = Some j" and "j_lease_owner j = None"
  shows "record_job_progress env x w t p d = Inl (StaleFenceError ''stale fencing token or lease owner'')"
    and "renew_lease env x w t secs d = Inl (StaleFenceError ''stale fencing token or lease owner'')"
    and "terminal_job_status (cp_status c) \<Longrightarrow>
      complete_job env x w t c d = Inl (StaleFenceError ''stale fencing token or lease owner'')"
  using assms by (simp_all add: record_job_progress_def renew_lease_def complete_job_def
      fenced_job_def holds_lease_def)



section \<open>Example run\<close>

text \<open>A site, a router, a queued plan application, and a worker that claims it at second 10.\<close>

definition demo_job :: job_row where
  "demo_job = claim_row (demo_env 10 ''w'') ''w1'' 40 1 (bundle_job (demo_env 3 ''c'') demo_request)"

lemma demo_claimed_eq:
  "demo_claimed = demo_queued\<lparr>jobs := [demo_job], router_mutation_locks :=
     [\<lparr>lk_router_id = ''r1'', lk_active_job_id = Some ''job_cxx'', lk_lock_owner = Some ''w1'',
       lk_lock_until_epoch = Some 40, lk_fencing_token = 1, lk_updated_at = 10\<rparr>]\<rparr>"
  unfolding demo_claimed_def claim_job_queue [OF demo_queued_schema] demo_claimable
  by (simp add: claim_apply_def Let_def demo_job_def demo_queued_eq demo_registry_eq new_id_def
      numeral_2_eq_2 is_mutation_def mutation_operation_kinds_def bundle_job_def demo_request_def
      bundle_default_def)

lemma demo_job_simps [simp]:
  "j_job_id demo_job = ''job_cxx''" "j_operation_id demo_job = ''op_c''"
  "j_router_id demo_job = ''r1''" "j_status demo_job = Leased"
  "j_lease_owner demo_job = Some ''w1''" "j_fencing_token demo_job = 1"
  "j_lease_until_epoch demo_job = Some 40" "j_attempt demo_job = 1"
  by (simp_all add: demo_job_def bundle_row_simps new_id_def numeral_2_eq_2 demo_request_def
      bundle_default_def) (simp_all add: claim_row_def bundle_row_simps)

lemma demo_store_inv: "store_inv demo_claimed" "store_inv demo_queued"
proof -
  have "safe_step {} empty_db demo_sites" by (rule safe_create_site [OF demo_create_site])
  also have "safe_step {} demo_sites demo_registry" by (rule safe_enroll [OF demo_enroll_ok])
  also have "safe_step {} demo_registry demo_queued"
    by (rule safe_bundle [OF demo_bundle]) (simp add: demo_request_def bundle_default_def job_active_def)
  finally show "store_inv demo_queued" using store_inv_empty by (simp add: safe_step_def)
  then show "store_inv demo_claimed"
    using claim_job_Inr [OF demo_claim_ok] by (simp add: safe_step_def)
qed

definition demo_sys :: sys where
  "demo_sys = \<lparr>sys_db = demo_claimed, sys_ctx = [claim_ctx demo_claim]\<rparr>"

lemma demo_reach: "reach sys_init sys_step demo_sys"
proof -
  let ?s = "\<lambda>d. \<lparr>sys_db = d, sys_ctx = []\<rparr>"
  have step: "sys_step (?s d) (?s d')" if "client_step d d'" for d d'
    using sys_step.client [of "?s d" d'] that by simp
  have "reach sys_init sys_step (?s empty_db)" by (rule reach_init) (simp add: sys_init_def)
  moreover have "client_step empty_db demo_sites" by (rule site [OF demo_create_site])
  moreover have "client_step demo_sites demo_registry" by (rule enroll [OF demo_enroll_ok])
  moreover have "client_step demo_registry demo_queued"
    by (rule submit [OF demo_bundle]) (simp add: demo_request_def bundle_default_def job_active_def)
  ultimately have "reach sys_init sys_step (?s demo_queued)" by (meson reach_step step)
  moreover have "sys_step (?s demo_queued) demo_sys"
    using sys_step.claim [of _ _ _ "?s demo_queued"] demo_claim_ok by (simp add: demo_sys_def)
  ultimately show ?thesis by (rule reach_step)
qed

lemma demo_claimed_get:
  "get_job demo_claimed ''job_cxx'' = Some demo_job"
  "mutation_job demo_claimed demo_job" "set (jobs demo_claimed) = {demo_job}"
  by (simp_all add: demo_claimed_eq get_job_def mutation_job_def get_operation_def demo_queued_eq
      bundle_row_simps new_id_def is_mutation_def mutation_operation_kinds_def demo_request_def
      bundle_default_def)


text \<open>The same run in which the lease expires and a recovery pass runs at second 100.\<close>

definition demo_recovered :: db where
  "demo_recovered = (case recover_expired_leases (demo_env 100 ''v'') demo_claimed of
     Inr (_, d) \<Rightarrow> d | Inl _ \<Rightarrow> empty_db)"

lemma demo_recover_ok:
  "recover_expired_leases (demo_env 100 ''v'') demo_claimed = Inr ([''job_cxx''], demo_recovered)"
proof -
  have "\<exists>d. recover_expired_leases (demo_env 100 ''v'') demo_claimed = Inr ([''job_cxx''], d)"
    by (simp add: recover_expired_leases_def expired_leases_def demo_claimed_eq Let_def job_active_def
        recover_one_def expire_status_def job_has_post_dispatch_progress_def demo_queued_eq
        demo_registry_eq empty_db_def clear_lock_def requeue_lost_def get_job_dispatch_payload_def
        list_job_steps_def get_job_def expire_job_def next_attempt_def insert_job_def resume_row_def
        get_operation_def get_router_def new_id_def bundle_row_simps demo_request_def
        bundle_default_def)
  then show ?thesis by (auto simp: demo_recovered_def)
qed




end
