(* ===== verification/Effect_Journal.thy ===== *)
theory Effect_Journal
  imports Job_Store
begin

text \<open>
  The journal of external effects, \<open>src/router_control/persistence/store.py\<close>:
  \<open>create_external_effect\<close>, \<open>transition_external_effect\<close>, \<open>upsert_effect_continuation\<close> and the
  look-ups. Every write needs a valid router execution fence of the job's lease owner. The journal
  is event-sourced: the current state of an effect is the replay of its events.
\<close>

section \<open>Operations\<close>

definition effect_state_name :: "effect_state \<Rightarrow> string" where
  "effect_state_name s = (case s of
     Eff_Prepared \<Rightarrow> ''Prepared'' | Eff_Dispatching \<Rightarrow> ''Dispatching''
   | Eff_Acknowledged \<Rightarrow> ''Acknowledged'' | Eff_ObservedApplied \<Rightarrow> ''ObservedApplied''
   | Eff_ObservedAbsent \<Rightarrow> ''ObservedAbsent'' | Eff_ObservedPartial \<Rightarrow> ''ObservedPartial''
   | Eff_Unknown \<Rightarrow> ''Unknown'')"

text \<open>\<open>EffectState(value)\<close>: the member with that value, or \<open>ValueError\<close>.\<close>

definition effect_state_of :: "string \<Rightarrow> effect_state res" where
  "effect_state_of v = (case find (\<lambda>s. effect_state_name s = v)
       [Eff_Prepared, Eff_Dispatching, Eff_Acknowledged, Eff_ObservedApplied, Eff_ObservedAbsent,
        Eff_ObservedPartial, Eff_Unknown] of
     Some s \<Rightarrow> Inr s | None \<Rightarrow> Inl (ValueError ''not a valid EffectState''))"

lemma effect_state_of_name [simp]: "effect_state_of (effect_state_name s) = Inr s"
  by (cases s) (simp_all add: effect_state_of_def effect_state_name_def)

lemma effect_state_of_Inr: "effect_state_of v = Inr s \<longleftrightarrow> v = effect_state_name s"
proof
  assume "effect_state_of v = Inr s"
  then show "v = effect_state_name s"
    by (auto simp: effect_state_of_def split: option.splits if_splits)
qed simp

definition get_external_effect :: "db \<Rightarrow> ident \<Rightarrow> effect_row option" where
  "get_external_effect d eid = row_by e_effect_id eid (external_effects d)"

definition get_external_effect_by_key :: "db \<Rightarrow> ident \<Rightarrow> string \<Rightarrow> effect_row option" where
  "get_external_effect_by_key d rid key =
     row_by (\<lambda>e. (e_router_id e, e_effect_key e)) (rid, key) (external_effects d)"

definition list_external_effect_events :: "db \<Rightarrow> ident \<Rightarrow> effect_event_row list" where
  "list_external_effect_events d eid =
     sort_key ev_occurred_at (filter (\<lambda>v. ev_effect_id v = eid) (external_effect_events d))"

definition insert_effect :: "effect_row \<Rightarrow> db \<Rightarrow> db res" where
  "insert_effect r d =
     (if get_external_effect d (e_effect_id r) \<noteq> None
      then Inl (IntegrityError ''UNIQUE external_effects.effect_id'')
      else if get_external_effect_by_key d (e_router_id r) (e_effect_key r) \<noteq> None
      then Inl (IntegrityError ''UNIQUE external_effects(router_id, effect_key)'')
      else if get_router d (e_router_id r) = None
      then Inl (IntegrityError ''FOREIGN KEY external_effects.router_id'')
      else if \<not> fk (\<lambda>k. get_operation d k \<noteq> None) (e_operation_id r)
      then Inl (IntegrityError ''FOREIGN KEY external_effects.operation_id'')
      else if \<not> fk (\<lambda>k. get_job d k \<noteq> None) (e_job_id r)
      then Inl (IntegrityError ''FOREIGN KEY external_effects.job_id'')
      else Inr (d\<lparr>external_effects := external_effects d @ [r]\<rparr>))"

definition insert_effect_event :: "effect_event_row \<Rightarrow> db \<Rightarrow> db res" where
  "insert_effect_event r d =
     (if row_by ev_event_id (ev_event_id r) (external_effect_events d) \<noteq> None
      then Inl (IntegrityError ''UNIQUE external_effect_events.event_id'')
      else if get_external_effect d (ev_effect_id r) = None
      then Inl (IntegrityError ''FOREIGN KEY external_effect_events.effect_id'')
      else Inr (d\<lparr>external_effect_events := external_effect_events d @ [r]\<rparr>))"

definition append_external_effect_event_unlocked ::
  "call_env \<Rightarrow> string \<Rightarrow> ident \<Rightarrow> effect_state option \<Rightarrow> effect_state \<Rightarrow> string \<Rightarrow>
   string option \<Rightarrow> string option \<Rightarrow> db \<Rightarrow> db res" where
  "append_external_effect_event_unlocked env u eid from to actor_type actor_id summary d =
     insert_effect_event \<lparr>ev_event_id = new_id ''fxev'' u, ev_effect_id = eid,
       ev_from_state = from, ev_to_state = to, ev_actor_type = actor_type, ev_actor_id = actor_id,
       ev_summary_redacted = summary, ev_occurred_at = utc_now_iso env\<rparr> d"

record effect_request =
  fx_router_id :: ident
  fx_effect_key :: string
  fx_job_id :: ident
  fx_lease_owner :: string
  fx_operation_id :: "ident option"
  fx_effect_id :: "ident option"

definition create_external_effect :: "call_env \<Rightarrow> effect_request \<Rightarrow> db \<Rightarrow> (ident \<times> db) res" where
  "create_external_effect env q d =
     (let eid = id_or_new (fx_effect_id q) ''fx'' (uuid env 0); ts = utc_now_iso env in
      rbind (assert_fenced_effect_write env d (fx_router_id q) (fx_job_id q) (fx_lease_owner q)) (\<lambda>_.
      rbind (insert_effect \<lparr>e_effect_id = eid, e_router_id = fx_router_id q,
          e_operation_id = fx_operation_id q, e_job_id = Some (fx_job_id q),
          e_effect_key = fx_effect_key q, e_current_state = Eff_Prepared,
          e_created_at = ts, e_updated_at = ts\<rparr> d) (\<lambda>d1.
      rbind (append_external_effect_event_unlocked env (uuid env 1) eid None Eff_Prepared
          ''system'' None (Some ''effect prepared'') d1) (\<lambda>d2.
      Inr (eid, d2)))))"

record transition_request =
  tr_effect_id :: ident
  tr_to_state :: string
  tr_job_id :: ident
  tr_lease_owner :: string
  tr_actor_type :: string
  tr_actor_id :: "string option"
  tr_summary_redacted :: "string option"

definition transition_external_effect :: "call_env \<Rightarrow> transition_request \<Rightarrow> db \<Rightarrow> db res" where
  "transition_external_effect env q d =
     rbind (effect_state_of (tr_to_state q)) (\<lambda>target.
     case get_external_effect d (tr_effect_id q) of
       None \<Rightarrow> Inl (NotFoundError ''external effect not found'')
     | Some row \<Rightarrow>
         rbind (raise_if (str_opt (e_job_id row) \<noteq> tr_job_id q)
           (StaleFenceError ''effect job mismatch for transition'')) (\<lambda>_.
         rbind (assert_fenced_effect_write env d (e_router_id row) (tr_job_id q)
           (tr_lease_owner q)) (\<lambda>_.
         let current = e_current_state row;
             sel = (\<lambda>e. e_effect_id e = tr_effect_id q \<and> e_current_state e = current) in
         rbind (raise_if (\<not> can_transition_effect current target)
           (EffectTransitionError (''invalid effect transition '' @ effect_state_name current
              @ '' -> '' @ effect_state_name target))) (\<lambda>_.
         rbind (raise_if (sql_rowcount sel (external_effects d) \<noteq> 1)
           (ConflictError ''effect transition lost race'')) (\<lambda>_.
         append_external_effect_event_unlocked env (uuid env 0) (tr_effect_id q) (Some current)
           target (tr_actor_type q) (tr_actor_id q) (tr_summary_redacted q)
           (d\<lparr>external_effects := sql_update sel (\<lambda>e. e\<lparr>e_current_state := target,
               e_updated_at := utc_now_iso env\<rparr>) (external_effects d)\<rparr>))))))"

record continuation_request =
  cq_effect_id :: ident
  cq_continuation_key :: string
  cq_state :: string
  cq_job_id :: ident
  cq_lease_owner :: string

definition insert_continuation :: "continuation_row \<Rightarrow> db \<Rightarrow> db res" where
  "insert_continuation r d =
     (if row_by ct_continuation_id (ct_continuation_id r) (effect_continuations d) \<noteq> None
      then Inl (IntegrityError ''UNIQUE effect_continuations.continuation_id'')
      else if row_by (\<lambda>c. (ct_effect_id c, ct_continuation_key c))
                (ct_effect_id r, ct_continuation_key r) (effect_continuations d) \<noteq> None
      then Inl (IntegrityError ''UNIQUE effect_continuations(effect_id, continuation_key)'')
      else if get_external_effect d (ct_effect_id r) = None
      then Inl (IntegrityError ''FOREIGN KEY effect_continuations.effect_id'')
      else Inr (d\<lparr>effect_continuations := effect_continuations d @ [r]\<rparr>))"

definition find_continuation :: "db \<Rightarrow> ident \<Rightarrow> string \<Rightarrow> continuation_row option" where
  "find_continuation d eid key =
     row_by (\<lambda>c. (ct_effect_id c, ct_continuation_key c)) (eid, key) (effect_continuations d)"

definition upsert_effect_continuation ::
  "call_env \<Rightarrow> continuation_request \<Rightarrow> db \<Rightarrow> (ident \<times> db) res" where
  "upsert_effect_continuation env q d =
     (case get_external_effect d (cq_effect_id q) of
        None \<Rightarrow> Inl (NotFoundError ''external effect not found for continuation'')
      | Some row \<Rightarrow>
          rbind (raise_if (str_opt (e_job_id row) \<noteq> cq_job_id q)
            (StaleFenceError ''effect job mismatch for continuation upsert'')) (\<lambda>_.
          rbind (assert_fenced_effect_write env d (e_router_id row) (cq_job_id q)
            (cq_lease_owner q)) (\<lambda>_.
          let ts = utc_now_iso env in
          case find_continuation d (cq_effect_id q) (cq_continuation_key q) of
            Some existing \<Rightarrow>
              Inr (ct_continuation_id existing,
                d\<lparr>effect_continuations := sql_update
                   (\<lambda>c. ct_continuation_id c = ct_continuation_id existing)
                   (\<lambda>c. c\<lparr>ct_state := cq_state q, ct_updated_at := ts\<rparr>) (effect_continuations d)\<rparr>)
          | None \<Rightarrow>
              rbind (insert_continuation \<lparr>ct_continuation_id = new_id ''fxc'' (uuid env 0),
                  ct_effect_id = cq_effect_id q, ct_continuation_key = cq_continuation_key q,
                  ct_state = cq_state q, ct_created_at = ts, ct_updated_at = ts\<rparr> d) (\<lambda>d'.
              Inr (new_id ''fxc'' (uuid env 0), d')))))"

section \<open>Event sourcing\<close>

text \<open>
  Replaying a list of events from a state (none before the first event): each event must start
  where the previous one ended, the first must be the preparation, and each step must be allowed.
\<close>

fun replay_events :: "effect_state option \<Rightarrow> effect_event_row list \<Rightarrow> effect_state option option" where
  "replay_events cur [] = Some cur"
| "replay_events cur (v # vs) =
     (if ev_from_state v = cur \<and> (case cur of
           None \<Rightarrow> ev_to_state v = Eff_Prepared
         | Some s \<Rightarrow> can_transition_effect s (ev_to_state v))
      then replay_events (Some (ev_to_state v)) vs else None)"

definition effect_trail :: "db \<Rightarrow> ident \<Rightarrow> effect_event_row list" where
  "effect_trail d eid = filter (\<lambda>v. ev_effect_id v = eid) (external_effect_events d)"

definition journal_ok :: "db \<Rightarrow> bool" where
  "journal_ok d \<longleftrightarrow> distinct (map e_effect_id (external_effects d)) \<and>
     (\<forall>v \<in> set (external_effect_events d). ev_effect_id v \<in> e_effect_id ` set (external_effects d)) \<and>
     (\<forall>e \<in> set (external_effects d).
        replay_events None (effect_trail d (e_effect_id e)) = Some (Some (e_current_state e)))"

lemma replay_append:
  "replay_events cur (vs @ [v]) =
     (case replay_events cur vs of
        None \<Rightarrow> None
      | Some c \<Rightarrow> replay_events c [v])"
  by (induction vs arbitrary: cur) (auto split: option.splits)

lemma journal_empty: "journal_ok empty_db"
  by (simp add: journal_ok_def empty_db_def)

lemma insert_effect_Inr:
  "insert_effect r d = Inr d' \<Longrightarrow> d' = d\<lparr>external_effects := external_effects d @ [r]\<rparr> \<and>
     e_effect_id r \<notin> e_effect_id ` set (external_effects d)"
  by (auto simp: insert_effect_def get_external_effect_def row_by_None_iff split: if_splits)

lemma insert_effect_event_Inr:
  "insert_effect_event r d = Inr d' \<Longrightarrow>
   d' = d\<lparr>external_effect_events := external_effect_events d @ [r]\<rparr>"
  by (auto simp: insert_effect_event_def split: if_splits)

lemma create_external_effect_Inr:
  assumes "create_external_effect env q d = Inr (eid, d')"
  obtains e v where
    "d' = d\<lparr>external_effects := external_effects d @ [e],
        external_effect_events := external_effect_events d @ [v]\<rparr>"
    "e_effect_id e = eid" "eid \<notin> e_effect_id ` set (external_effects d)"
    "e_current_state e = Eff_Prepared" "ev_effect_id v = eid" "ev_from_state v = None"
    "ev_to_state v = Eff_Prepared" "e_job_id e = Some (fx_job_id q)" "e_router_id e = fx_router_id q"
    "assert_fenced_effect_write env d (fx_router_id q) (fx_job_id q) (fx_lease_owner q) = Inr ()"
  using assms
  by (auto simp: create_external_effect_def Let_def result_simps
      append_external_effect_event_unlocked_def dest!: insert_effect_Inr insert_effect_event_Inr)

lemma transition_external_effect_Inr:
  assumes "transition_external_effect env q d = Inr d'"
  obtains row target v where "get_external_effect d (tr_effect_id q) = Some row"
    "effect_state_of (tr_to_state q) = Inr target"
    "assert_fenced_effect_write env d (e_router_id row) (tr_job_id q) (tr_lease_owner q) = Inr ()"
    "str_opt (e_job_id row) = tr_job_id q"
    "can_transition_effect (e_current_state row) target"
    "d' = d\<lparr>external_effects := sql_update
         (\<lambda>e. e_effect_id e = tr_effect_id q \<and> e_current_state e = e_current_state row)
         (\<lambda>e. e\<lparr>e_current_state := target, e_updated_at := utc_now_iso env\<rparr>) (external_effects d),
        external_effect_events := external_effect_events d @ [v]\<rparr>"
    "ev_effect_id v = tr_effect_id q" "ev_from_state v = Some (e_current_state row)"
    "ev_to_state v = target"
proof -
  from assms obtain row where row: "get_external_effect d (tr_effect_id q) = Some row"
    by (cases "get_external_effect d (tr_effect_id q)")
      (auto simp: transition_external_effect_def result_simps)
  show thesis
    using assms row
    by (auto simp: transition_external_effect_def Let_def result_simps
        append_external_effect_event_unlocked_def split: if_splits
        dest!: insert_effect_event_Inr intro!: that [OF row])
qed

lemma journal_create:
  assumes "create_external_effect env q d = Inr (eid, d')" and ok: "journal_ok d"
  shows "journal_ok d'"
  using assms(1)
proof (rule create_external_effect_Inr)
  fix e v
  assume w: "d' = d\<lparr>external_effects := external_effects d @ [e],
        external_effect_events := external_effect_events d @ [v]\<rparr>"
    "e_effect_id e = eid" "eid \<notin> e_effect_id ` set (external_effects d)"
    "e_current_state e = Eff_Prepared" "ev_effect_id v = eid" "ev_from_state v = None"
    "ev_to_state v = Eff_Prepared"
  have "effect_trail d eid = []"
    using ok w(3) by (auto simp: journal_ok_def effect_trail_def filter_empty_conv)
  then have "effect_trail d' eid = [v]" by (simp add: effect_trail_def w(1,5))
  moreover have "effect_trail d' x = effect_trail d x" if "x \<noteq> eid" for x
    using that by (simp add: effect_trail_def w(1,5))
  moreover have "x \<in> set (external_effects d) \<Longrightarrow> e_effect_id x \<noteq> eid" for x using w(3) by auto
  ultimately show ?thesis
    using ok w unfolding journal_ok_def by auto
qed

lemma journal_transition:
  assumes "transition_external_effect env q d = Inr d'" and ok: "journal_ok d"
  shows "journal_ok d'"
  using assms(1)
proof (rule transition_external_effect_Inr)
  fix row :: effect_row and target v
  let ?x = "tr_effect_id q"
  let ?P = "\<lambda>e. e_effect_id e = ?x \<and> e_current_state e = e_current_state row"
  let ?f = "\<lambda>e. e\<lparr>e_current_state := target, e_updated_at := utc_now_iso env\<rparr>"
  assume row: "get_external_effect d ?x = Some row"
    and legal: "can_transition_effect (e_current_state row) target"
    and d': "d' = d\<lparr>external_effects := sql_update ?P ?f (external_effects d),
        external_effect_events := external_effect_events d @ [v]\<rparr>"
    and v: "ev_effect_id v = ?x" "ev_from_state v = Some (e_current_state row)"
      "ev_to_state v = target"
  have dist: "distinct (map e_effect_id (external_effects d))" using ok by (simp add: journal_ok_def)
  have mem: "row \<in> set (external_effects d)" "e_effect_id row = ?x"
    using row by (auto simp: get_external_effect_def dest: row_by_Some_mem row_by_Some_key)
  have ids: "map e_effect_id (external_effects d') = map e_effect_id (external_effects d)"
    by (simp add: d' map_key_sql_update)
  have "replay_events None (effect_trail d' (e_effect_id e)) = Some (Some (e_current_state e))"
    if e: "e \<in> set (external_effects d')" for e
  proof (cases "e_effect_id e = ?x")
    case True
    have "e = ?f row"
      by (rule sql_update_unique [OF dist row [unfolded get_external_effect_def], where P = ?P])
        (use e True mem in \<open>simp_all add: d'\<close>)
    moreover have "replay_events None (effect_trail d ?x) = Some (Some (e_current_state row))"
      using ok mem by (auto simp: journal_ok_def)
    ultimately show ?thesis
      using legal v True by (simp add: effect_trail_def d' replay_append)
  next
    case False
    then have "e \<in> set (external_effects d)"
      using e by (auto simp: d' set_sql_update split: if_splits)
    with ok False show ?thesis by (auto simp: journal_ok_def effect_trail_def d' v)
  qed
  moreover have "\<forall>y \<in> set (external_effect_events d'). ev_effect_id y \<in> e_effect_id ` set (external_effects d')"
    using ok v ids [THEN arg_cong, of set] imageI [OF mem(1), of e_effect_id] mem(2)
    by (auto simp: journal_ok_def d')
  ultimately show ?thesis using dist ids by (simp add: journal_ok_def)
qed

section \<open>The journal as a system\<close>

text \<open>Journal writes interleaved with anything that leaves the two journal tables alone.\<close>

inductive journal_step :: "db \<Rightarrow> db \<Rightarrow> bool" where
  create: "create_external_effect env q d = Inr (eid, d') \<Longrightarrow> journal_step d d'"
| transition: "transition_external_effect env t d = Inr d' \<Longrightarrow> journal_step d d'"
| other: "external_effects d' = external_effects d \<Longrightarrow>
     external_effect_events d' = external_effect_events d \<Longrightarrow> journal_step d d'"

definition journal_start :: "db \<Rightarrow> bool" where
  "journal_start d \<longleftrightarrow> external_effects d = [] \<and> external_effect_events d = []"

interpretation journal: invariant_system journal_start journal_step journal_ok
proof unfold_locales
  fix d assume "journal_start d"
  then show "journal_ok d" by (simp add: journal_start_def journal_ok_def)
next
  fix d d' assume "journal_step d d'" "journal_ok d"
  then show "journal_ok d'"
  proof (cases rule: journal_step.cases)
    case other
    with \<open>journal_ok d\<close> show ?thesis by (simp add: journal_ok_def effect_trail_def)
  qed (blast intro: journal_create journal_transition)+
qed

lemma replay_dispatched:
  "replay_events cur vs = Some (Some s) \<Longrightarrow> cur = None \<or> cur = Some Eff_Prepared \<Longrightarrow>
   s = Eff_Prepared \<or> (\<exists>v \<in> set vs. ev_to_state v = Eff_Dispatching)"
proof (induction vs arbitrary: cur)
  case (Cons v vs)
  then have "replay_events (Some (ev_to_state v)) vs = Some (Some s)"
    "ev_to_state v = Eff_Prepared \<or> ev_to_state v = Eff_Dispatching"
    by (auto split: if_splits)
  with Cons.IH [of "Some (ev_to_state v)"] show ?case by auto
qed auto

lemma upsert_continuation_journal:
  "upsert_effect_continuation env q d = Inr (cid, d') \<Longrightarrow> journal_step d d'"
  by (rule other) (auto simp: upsert_effect_continuation_def Let_def result_simps
      insert_continuation_def split: option.splits if_splits)


lemma journal_step_effect:
  assumes "journal_step d d'" and "journal_ok d" and "get_external_effect d x = Some e"
  shows "\<exists>e'. get_external_effect d' x = Some e' \<and>
    (e_current_state e' = e_current_state e \<or>
     can_transition_effect (e_current_state e) (e_current_state e'))"
  using assms(1)
proof cases
  case (create env q eid)
  then show ?thesis
    by (rule create_external_effect_Inr)
      (use assms(3) in \<open>auto simp: get_external_effect_def row_by_append\<close>)
next
  case (transition env t)
  then show ?thesis
  proof (rule transition_external_effect_Inr)
    fix row :: effect_row and target v
    assume row: "get_external_effect d (tr_effect_id t) = Some row"
      and legal: "can_transition_effect (e_current_state row) target"
      and d': "d' = d\<lparr>external_effects := sql_update
         (\<lambda>e. e_effect_id e = tr_effect_id t \<and> e_current_state e = e_current_state row)
         (\<lambda>e. e\<lparr>e_current_state := target, e_updated_at := utc_now_iso env\<rparr>) (external_effects d),
        external_effect_events := external_effect_events d @ [v]\<rparr>"
    have "get_external_effect d' x = Some (if e_effect_id e = tr_effect_id t \<and>
        e_current_state e = e_current_state row
      then e\<lparr>e_current_state := target, e_updated_at := utc_now_iso env\<rparr> else e)"
      using assms(3) by (simp add: d' get_external_effect_def row_by_sql_update)
    then show ?thesis using legal by auto
  qed
next
  case other
  with assms(3) show ?thesis by (simp add: get_external_effect_def)
qed



section \<open>Example: an applied effect\<close>

definition demo_fx_base :: db where
  "demo_fx_base = demo_queued\<lparr>router_execution_fences := [\<lparr>f_fence_id = ''fence_c'',
     f_router_id = ''r1'', f_fence_token = 1, f_lease_owner = ''w1'', f_mutex_holder_id = ''p1'',
     f_lease_until_epoch = 40, f_active_job_id = Some ''job_cxx'', f_created_at = 10,
     f_updated_at = 10\<rparr>]\<rparr>"

definition demo_fx_request :: effect_request where
  "demo_fx_request = \<lparr>fx_router_id = ''r1'', fx_effect_key = ''wifi'', fx_job_id = ''job_cxx'',
     fx_lease_owner = ''w1'', fx_operation_id = None, fx_effect_id = Some ''fx1''\<rparr>"

definition demo_move :: "effect_state \<Rightarrow> transition_request" where
  "demo_move s = \<lparr>tr_effect_id = ''fx1'', tr_to_state = effect_state_name s, tr_job_id = ''job_cxx'',
     tr_lease_owner = ''w1'', tr_actor_type = ''worker'', tr_actor_id = None,
     tr_summary_redacted = None\<rparr>"

definition demo_fx :: "effect_state \<Rightarrow> int \<Rightarrow> effect_event_row list \<Rightarrow> db" where
  "demo_fx s t vs = demo_fx_base\<lparr>external_effects := [\<lparr>e_effect_id = ''fx1'', e_router_id = ''r1'',
     e_operation_id = None, e_job_id = Some ''job_cxx'', e_effect_key = ''wifi'',
     e_current_state = s, e_created_at = 11, e_updated_at = t\<rparr>], external_effect_events := vs\<rparr>"

definition demo_event :: "string \<Rightarrow> effect_state option \<Rightarrow> effect_state \<Rightarrow> int \<Rightarrow> effect_event_row" where
  "demo_event u from to t = \<lparr>ev_event_id = ''fxev_'' @ u, ev_effect_id = ''fx1'',
     ev_from_state = from, ev_to_state = to,
     ev_actor_type = (if from = None then ''system'' else ''worker''), ev_actor_id = None,
     ev_summary_redacted = (if from = None then Some ''effect prepared'' else None),
     ev_occurred_at = t\<rparr>"

lemma demo_fx_get:
  "get_job (demo_fx s t vs) ''job_cxx'' = Some (bundle_job (demo_env 3 ''c'') demo_request)"
  "get_router_execution_fence (demo_fx s t vs) ''r1'' = Some (hd (router_execution_fences demo_fx_base))"
  "get_job demo_fx_base ''job_cxx'' = Some (bundle_job (demo_env 3 ''c'') demo_request)"
  "get_router_execution_fence demo_fx_base ''r1'' = Some (hd (router_execution_fences demo_fx_base))"
  "get_router demo_fx_base ''r1'' \<noteq> None"
  by (simp_all add: demo_fx_def demo_fx_base_def get_job_def get_router_execution_fence_def
      demo_queued_eq demo_registry_eq get_router_def bundle_row_simps new_id_def numeral_2_eq_2)

lemma demo_fenced_write:
  "t \<le> 40 \<Longrightarrow> assert_fenced_effect_write (demo_env t u) demo_fx_base ''r1'' ''job_cxx'' ''w1'' = Inr ()"
  "t \<le> 40 \<Longrightarrow> assert_fenced_effect_write (demo_env t u) (demo_fx s t' vs) ''r1'' ''job_cxx'' ''w1'' = Inr ()"
  by (simp_all add: assert_fenced_effect_write_def demo_fx_get assert_active_router_fence_for_job_def
      bundle_row_simps demo_request_def bundle_default_def)
    (simp_all add: demo_fx_base_def demo_fx_get new_id_def numeral_2_eq_2 demo_request_def bundle_default_def)

lemma demo_fx_create:
  "create_external_effect (demo_env 11 ''a'') demo_fx_request demo_fx_base =
     Inr (''fx1'', demo_fx Eff_Prepared 11 [demo_event ''ax'' None Eff_Prepared 11])"
  using demo_fx_get(3,5)
  by (simp add: create_external_effect_def Let_def demo_fx_request_def id_or_new_def demo_fenced_write
      insert_effect_def get_external_effect_def get_external_effect_by_key_def fk_def
      append_external_effect_event_unlocked_def insert_effect_event_def demo_fx_def demo_event_def new_id_def)
    (simp add: demo_fx_base_def demo_queued_eq demo_registry_eq empty_db_def)

lemma demo_fx_move:
  assumes "can_transition_effect s r" and "t \<le> 40"
    and "row_by ev_event_id (''fxev_'' @ u) vs = None"
  shows "transition_external_effect (demo_env t u) (demo_move r) (demo_fx s t' vs) =
     Inr (demo_fx r t (vs @ [demo_event u (Some s) r t]))"
proof -
  have get: "get_external_effect (demo_fx s t' vs) ''fx1'' = Some \<lparr>e_effect_id = ''fx1'',
      e_router_id = ''r1'', e_operation_id = None, e_job_id = Some ''job_cxx'',
      e_effect_key = ''wifi'', e_current_state = s, e_created_at = 11, e_updated_at = t'\<rparr>"
    by (simp add: demo_fx_def get_external_effect_def)
  show ?thesis
    using assms
    by (simp add: transition_external_effect_def demo_move_def Let_def get str_opt_def
        demo_fenced_write append_external_effect_event_unlocked_def insert_effect_event_def new_id_def)
      (simp add: demo_fx_def get_external_effect_def demo_event_def)
qed

definition demo_applied :: db where
  "demo_applied = demo_fx Eff_ObservedApplied 14 [demo_event ''ax'' None Eff_Prepared 11,
     demo_event ''b'' (Some Eff_Prepared) Eff_Dispatching 12,
     demo_event ''c'' (Some Eff_Dispatching) Eff_Acknowledged 13,
     demo_event ''d'' (Some Eff_Acknowledged) Eff_ObservedApplied 14]"

lemma demo_applied_reach: "reach journal_start journal_step demo_applied"
proof -
  let ?v = "[demo_event ''ax'' None Eff_Prepared 11]"
  let ?w = "?v @ [demo_event ''b'' (Some Eff_Prepared) Eff_Dispatching 12]"
  let ?x = "?w @ [demo_event ''c'' (Some Eff_Dispatching) Eff_Acknowledged 13]"
  have "reach journal_start journal_step demo_fx_base"
    by (rule reach_init) (simp add: journal_start_def demo_fx_base_def demo_queued_eq
        demo_registry_eq empty_db_def)
  then have "reach journal_start journal_step (demo_fx Eff_Prepared 11 ?v)"
    by (rule reach_step) (rule create [OF demo_fx_create])
  then have "reach journal_start journal_step (demo_fx Eff_Dispatching 12 ?w)"
    by (rule reach_step, intro transition [OF demo_fx_move]) (simp_all add: demo_event_def)
  then have "reach journal_start journal_step (demo_fx Eff_Acknowledged 13 ?x)"
    by (rule reach_step, intro transition [OF demo_fx_move]) (simp_all add: demo_event_def)
  then have "reach journal_start journal_step
      (demo_fx Eff_ObservedApplied 14 (?x @ [demo_event ''d'' (Some Eff_Acknowledged) Eff_ObservedApplied 14]))"
    by (rule reach_step, intro transition [OF demo_fx_move]) (simp_all add: demo_event_def)
  then show ?thesis by (simp add: demo_applied_def)
qed




end
