(* ===== verification/Recovery_Store.thy ===== *)
theory Recovery_Store
  imports Queue_Protocol
begin

text \<open>
  Recovery: the compare-and-set table of recovery requests and the boot observations of
  \<open>src/router_control/persistence/store.py\<close> (\<open>submit_recovery_request\<close>,
  \<open>complete_recovery_request\<close>, \<open>record_router_boot_observation\<close>, \<open>assert_router_boot_known\<close>) and
  the classification of a job's steps of \<open>src/router_control/application/recovery.py\<close>.
\<close>

section \<open>Recovery requests\<close>

definition req_terminal :: "recovery_request_status \<Rightarrow> bool" where
  "req_terminal s = (s \<in> {Req_Succeeded, Req_Failed, Req_Conflict})"

record recovery_submit =
  rs_recovery_key :: string
  rs_request_digest :: string
  rs_recovery_action :: string
  rs_operation_id :: "ident option"
  rs_job_id :: "ident option"
  rs_router_id :: "ident option"
  rs_parent_request_id :: "ident option"

definition get_recovery_request :: "db \<Rightarrow> ident \<Rightarrow> recovery_row option" where
  "get_recovery_request d rid = row_by rq_request_id rid (recovery_requests d)"

definition insert_recovery :: "recovery_row \<Rightarrow> db \<Rightarrow> db res" where
  "insert_recovery r d =
     (if get_recovery_request d (rq_request_id r) \<noteq> None
      then Inl (IntegrityError ''UNIQUE recovery_requests.request_id'')
      else if row_by (\<lambda>x. (rq_recovery_key x, rq_request_digest x))
                (rq_recovery_key r, rq_request_digest r) (recovery_requests d) \<noteq> None
      then Inl (IntegrityError ''UNIQUE recovery_requests(recovery_key, request_digest)'')
      else if \<not> fk (\<lambda>k. k = rq_request_id r \<or> get_recovery_request d k \<noteq> None) (rq_parent_request_id r)
      then Inl (IntegrityError ''FOREIGN KEY recovery_requests.parent_request_id'')
      else if \<not> fk (\<lambda>k. get_operation d k \<noteq> None) (rq_operation_id r)
      then Inl (IntegrityError ''FOREIGN KEY recovery_requests.operation_id'')
      else if \<not> fk (\<lambda>k. get_job d k \<noteq> None) (rq_job_id r)
      then Inl (IntegrityError ''FOREIGN KEY recovery_requests.job_id'')
      else if \<not> fk (\<lambda>k. get_router d k \<noteq> None) (rq_router_id r)
      then Inl (IntegrityError ''FOREIGN KEY recovery_requests.router_id'')
      else Inr (d\<lparr>recovery_requests := recovery_requests d @ [r]\<rparr>))"

text \<open>The check of the parent: it must exist and must not have ended.\<close>

definition check_parent :: "ident option \<Rightarrow> db \<Rightarrow> unit res" where
  "check_parent parent d = (case parent of
     None \<Rightarrow> Inr ()
   | Some pid \<Rightarrow>
       (if pid = [] then Inr ()
        else case get_recovery_request d pid of
          None \<Rightarrow> Inl (NotFoundError ''parent recovery request not found'')
        | Some row \<Rightarrow>
            (if req_terminal (rq_status row)
             then Inl (ConflictError ''stale parent recovery attempt'') else Inr ())))"

definition recovery_new_row :: "call_env \<Rightarrow> recovery_submit \<Rightarrow> recovery_row" where
  "recovery_new_row env q = \<lparr>rq_request_id = new_id ''rcvr'' (uuid env 0),
     rq_recovery_key = rs_recovery_key q, rq_request_digest = rs_request_digest q,
     rq_recovery_action = rs_recovery_action q, rq_parent_request_id = rs_parent_request_id q,
     rq_operation_id = rs_operation_id q, rq_job_id = rs_job_id q, rq_router_id = rs_router_id q,
     rq_status = Req_Active, rq_response_digest = None, rq_created_at = utc_now_iso env,
     rq_updated_at = utc_now_iso env, rq_terminal_at = None\<rparr>"

definition submit_recovery_request ::
  "call_env \<Rightarrow> recovery_submit \<Rightarrow> db \<Rightarrow> ((int \<times> recovery_row) \<times> db) res" where
  "submit_recovery_request env q d =
     (case find (\<lambda>r. rq_recovery_key r = rs_recovery_key q \<and>
                     rq_request_digest r = rs_request_digest q) (recovery_requests d) of
        Some existing \<Rightarrow> Inr ((200, existing), d)
      | None \<Rightarrow>
          rbind (raise_if (find (\<lambda>r. rq_recovery_key r = rs_recovery_key q \<and>
                rq_request_digest r \<noteq> rs_request_digest q) (recovery_requests d) \<noteq> None)
            (RecoveryConflictError ''recovery key replay with different digest'')) (\<lambda>_.
          rbind (raise_if (find (\<lambda>r. rq_recovery_key r = rs_recovery_key q \<and>
                rq_status r = Req_Active) (recovery_requests d) \<noteq> None)
            (ConflictError ''recovery action already active for key'')) (\<lambda>_.
          rbind (check_parent (rs_parent_request_id q) d) (\<lambda>_.
          rbind (insert_recovery (recovery_new_row env q) d) (\<lambda>d'.
          Inr ((201, recovery_new_row env q), d'))))))"

definition complete_recovery_request ::
  "call_env \<Rightarrow> ident \<Rightarrow> recovery_request_status \<Rightarrow> string option \<Rightarrow> db \<Rightarrow> db res" where
  "complete_recovery_request env rid st response_digest d =
     rbind (raise_if (\<not> req_terminal st) (ConflictError ''terminal recovery status required'')) (\<lambda>_.
     case get_recovery_request d rid of
       None \<Rightarrow> Inl (NotFoundError ''recovery request not found'')
     | Some row \<Rightarrow>
         if req_terminal (rq_status row) then Inr d
         else
           let sel = (\<lambda>r. rq_request_id r = rid \<and> \<not> req_terminal (rq_status r)) in
           rbind (raise_if (sql_rowcount sel (recovery_requests d) \<noteq> 1)
             (ConflictError ''recovery completion rejected'')) (\<lambda>_.
           Inr (d\<lparr>recovery_requests := sql_update sel (\<lambda>r. r\<lparr>rq_status := st,
             rq_response_digest := response_digest, rq_updated_at := utc_now_iso env,
             rq_terminal_at := Some (utc_now_iso env)\<rparr>) (recovery_requests d)\<rparr>)))"

text \<open>\<open>submit_recovery_request_cas\<close>: conflicts become a 409 answer, other errors propagate.\<close>

definition recovery_status_name :: "recovery_request_status \<Rightarrow> string" where
  "recovery_status_name s = (case s of
     Req_Pending \<Rightarrow> ''Pending'' | Req_Active \<Rightarrow> ''Active'' | Req_Succeeded \<Rightarrow> ''Succeeded''
   | Req_Failed \<Rightarrow> ''Failed'' | Req_Conflict \<Rightarrow> ''Conflict'')"

definition conflict_body :: "string \<Rightarrow> string \<Rightarrow> json" where
  "conflict_body err msg = JObj [(''error'', JStr err), (''message'', JStr msg)]"

definition submit_recovery_request_cas ::
  "call_env \<Rightarrow> recovery_submit \<Rightarrow> db \<Rightarrow> ((int \<times> json) \<times> db) res" where
  "submit_recovery_request_cas env q d =
     (case submit_recovery_request env q d of
        Inl (RecoveryConflictError m) \<Rightarrow> Inr ((409, conflict_body ''RecoveryConflict'' m), d)
      | Inl (ConflictError m) \<Rightarrow> Inr ((409, conflict_body ''Conflict'' m), d)
      | Inl e \<Rightarrow> Inl e
      | Inr ((st, row), d') \<Rightarrow> Inr ((st, JObj [(''request_id'', JStr (rq_request_id row)),
          (''recovery_key'', JStr (rq_recovery_key row)),
          (''request_digest'', JStr (rq_request_digest row)),
          (''status'', JStr (recovery_status_name (rq_status row))),
          (''recovery_action'', JStr (rq_recovery_action row))]), d'))"

section \<open>Recovery requests are idempotent commands\<close>

text \<open>
  The look-up of the contract is by key. The table holds one digest per key, because a request
  with another digest is refused; under that invariant the code's two look-ups agree with it.
\<close>

definition one_digest_per_key :: "db \<Rightarrow> bool" where
  "one_digest_per_key d \<longleftrightarrow> distinct (map rq_recovery_key (recovery_requests d))"

definition recovery_of_key :: "string \<Rightarrow> db \<Rightarrow> recovery_row option" where
  "recovery_of_key k d = row_by rq_recovery_key k (recovery_requests d)"

lemma find_by_key:
  assumes "distinct (map rq_recovery_key rows)"
  shows "find (\<lambda>r. rq_recovery_key r = k \<and> P r) rows =
    (case row_by rq_recovery_key k rows of None \<Rightarrow> None | Some r \<Rightarrow> if P r then Some r else None)"
  using assms
proof (induction rows)
  case (Cons r rows)
  show ?case
  proof (cases "rq_recovery_key r = k")
    case True
    with Cons.prems have "row_by rq_recovery_key k rows = None" by (auto simp: row_by_None_iff)
    with Cons True show ?thesis by auto
  qed (use Cons in auto)
qed simp

lemma submit_recovery_cases:
  assumes "one_digest_per_key d"
  shows "submit_recovery_request env q d =
    (case recovery_of_key (rs_recovery_key q) d of
       Some r \<Rightarrow>
         (if rq_request_digest r \<noteq> rs_request_digest q
          then Inl (RecoveryConflictError ''recovery key replay with different digest'')
          else Inr ((200, r), d))
     | None \<Rightarrow>
         rbind (check_parent (rs_parent_request_id q) d) (\<lambda>_.
         rbind (insert_recovery (recovery_new_row env q) d) (\<lambda>d'.
         Inr ((201, recovery_new_row env q), d'))))"
  using assms
  by (simp add: submit_recovery_request_def find_by_key one_digest_per_key_def recovery_of_key_def
      split: option.splits)

lemma insert_recovery_Inr:
  "insert_recovery r d = Inr d' \<Longrightarrow> d' = d\<lparr>recovery_requests := recovery_requests d @ [r]\<rparr>"
  by (auto simp: insert_recovery_def split: if_splits)

lemma submit_keeps_one_digest:
  assumes "submit_recovery_request env q d = Inr (out, d')" and "one_digest_per_key d"
  shows "one_digest_per_key d'"
proof (cases "recovery_of_key (rs_recovery_key q) d")
  case None
  with assms have "d' = d\<lparr>recovery_requests := recovery_requests d @ [recovery_new_row env q]\<rparr>"
    by (auto simp: submit_recovery_cases result_simps dest: insert_recovery_Inr)
  with assms(2) None show ?thesis
    by (auto simp: one_digest_per_key_def recovery_of_key_def row_by_None_iff recovery_new_row_def)
next
  case (Some r)
  with assms show ?thesis by (auto simp: submit_recovery_cases split: if_splits)
qed

lemma complete_keeps_one_digest:
  assumes "complete_recovery_request env rid st g d = Inr d'" and "one_digest_per_key d"
  shows "one_digest_per_key d'"
  using assms
  by (auto simp: complete_recovery_request_def one_digest_per_key_def Let_def map_key_sql_update
      split: option.splits if_splits)

interpretation recovery_command: idempotent_command
  "\<lambda>(env, q) d. submit_recovery_request env q d"
  "\<lambda>(env, q) d. recovery_of_key (rs_recovery_key q) d"
  rq_request_digest
  "\<lambda>(env, q). rs_request_digest q"
  "\<lambda>r d. Inr (200, r)"
  "RecoveryConflictError ''recovery key replay with different digest''"
  one_digest_per_key
proof unfold_locales
  fix x :: "call_env \<times> recovery_submit" and d r
  assume "one_digest_per_key d"
    and "(case x of (env, q) \<Rightarrow> \<lambda>d. recovery_of_key (rs_recovery_key q) d) d = Some r"
  then show "(case x of (env, q) \<Rightarrow> \<lambda>d. submit_recovery_request env q d) d =
      (if rq_request_digest r \<noteq> (case x of (env, q) \<Rightarrow> rs_request_digest q)
       then Inl (RecoveryConflictError ''recovery key replay with different digest'')
       else map_sum id (\<lambda>out. (out, d)) (Inr (200, r)))"
    by (cases x) (simp add: submit_recovery_cases)
next
  fix x :: "call_env \<times> recovery_submit" and d out d'
  obtain env q where x: "x = (env, q)" by (cases x)
  assume ok: "one_digest_per_key d"
    and none: "(case x of (env, q) \<Rightarrow> \<lambda>d. recovery_of_key (rs_recovery_key q) d) d = None"
    and run: "(case x of (env, q) \<Rightarrow> \<lambda>d. submit_recovery_request env q d) d = Inr (out, d')"
  then have "d' = d\<lparr>recovery_requests := recovery_requests d @ [recovery_new_row env q]\<rparr>"
    by (auto simp: x submit_recovery_cases result_simps dest: insert_recovery_Inr)
  with none show "\<exists>r. (case x of (env, q) \<Rightarrow> \<lambda>d. recovery_of_key (rs_recovery_key q) d) d' = Some r \<and>
      rq_request_digest r = (case x of (env, q) \<Rightarrow> rs_request_digest q)"
    by (simp add: x recovery_of_key_def row_by_append recovery_new_row_def)
next
  fix x :: "call_env \<times> recovery_submit" and d out d'
  assume "one_digest_per_key d"
    and "(case x of (env, q) \<Rightarrow> \<lambda>d. submit_recovery_request env q d) d = Inr (out, d')"
  then show "one_digest_per_key d'" by (cases x) (auto dest: submit_keeps_one_digest)
qed

text \<open>
  C28: A recovery key is bound to one request. After a request has been accepted, the same request
  from any caller answers 200 with the stored row and changes nothing, and the same key with
  another digest is a recovery conflict, which the application layer answers with 409.
\<close>

theorem recovery_request_cas:
  assumes "one_digest_per_key d" and "submit_recovery_request env q d = Inr ((st, row), d')"
  shows "one_digest_per_key d' \<and> submit_recovery_request env' q d' = Inr ((200, row), d') \<and>
    (digest \<noteq> rs_request_digest q \<longrightarrow>
      submit_recovery_request_cas env' (q\<lparr>rs_request_digest := digest\<rparr>) d' =
        Inr ((409, conflict_body ''RecoveryConflict'' ''recovery key replay with different digest''), d'))"
proof -
  have ok: "one_digest_per_key d'" by (rule submit_keeps_one_digest [OF assms(2,1)])
  have row: "recovery_of_key (rs_recovery_key q) d' = Some row"
  proof (cases "recovery_of_key (rs_recovery_key q) d")
    case None
    with assms have "row = recovery_new_row env q"
      "d' = d\<lparr>recovery_requests := recovery_requests d @ [row]\<rparr>"
      by (auto simp: submit_recovery_cases result_simps dest: insert_recovery_Inr)
    with None show ?thesis by (simp add: recovery_of_key_def row_by_append recovery_new_row_def)
  next
    case (Some r)
    with assms show ?thesis by (auto simp: submit_recovery_cases split: if_splits)
  qed
  from recovery_command.recorded [OF assms(1), of "(env, q)"] assms(2) row
  have dig: "rq_request_digest row = rs_request_digest q" by auto
  have "submit_recovery_request env' q d' = Inr ((200, row), d')"
    using row dig by (simp add: submit_recovery_cases [OF ok])
  moreover have "submit_recovery_request env' (q\<lparr>rs_request_digest := digest\<rparr>) d' =
      Inl (RecoveryConflictError ''recovery key replay with different digest'')"
    if "digest \<noteq> rs_request_digest q"
    using recovery_command.conflicting [OF assms(1), of "(env, q)" "(st, row)" d'
        "(env', q\<lparr>rs_request_digest := digest\<rparr>)"] assms(2) that by simp
  ultimately show ?thesis using ok by (simp add: submit_recovery_request_cas_def)
qed

section \<open>Boot observations\<close>

text \<open>\<open>INSERT OR REPLACE\<close> deletes the rows that clash on a unique key before it inserts.\<close>

definition record_router_boot_observation ::
  "call_env \<Rightarrow> ident \<Rightarrow> string \<Rightarrow> bool \<Rightarrow> string option \<Rightarrow> db \<Rightarrow> (ident \<times> db) res" where
  "record_router_boot_observation env router_id boot_id boot_known boot_marker d =
     (let obs_id = new_id ''boot'' (uuid env 0); ts = utc_now_iso env in
      rbind (raise_if (get_router d router_id = None)
        (IntegrityError ''FOREIGN KEY router_boot_observations.router_id'')) (\<lambda>_.
      Inr (obs_id, d\<lparr>router_boot_observations :=
        sql_delete (\<lambda>b. bt_boot_observation_id b = obs_id \<or>
            (bt_router_id b = router_id \<and> bt_boot_id b = boot_id)) (router_boot_observations d) @
        [\<lparr>bt_boot_observation_id = obs_id, bt_router_id = router_id, bt_boot_id = boot_id,
          bt_boot_marker = boot_marker, bt_boot_known = boot_known, bt_observed_at = ts,
          bt_created_at = ts\<rparr>]\<rparr>)))"

text \<open>
  \<open>ORDER BY observed_at DESC LIMIT 1\<close>. Time stamps have a resolution of one second, so that two
  observations may tie; the order of tied rows is a parameter \<open>tie\<close>, a rank of rows.
\<close>

definition latest_boot :: "(boot_row \<Rightarrow> int) \<Rightarrow> db \<Rightarrow> ident \<Rightarrow> boot_row option" where
  "latest_boot tie d router_id =
     (case sort_key (\<lambda>b. (- bt_observed_at b, tie b))
        (filter (\<lambda>b. bt_router_id b = router_id) (router_boot_observations d)) of
        [] \<Rightarrow> None | b # _ \<Rightarrow> Some b)"

definition assert_router_boot_known :: "(boot_row \<Rightarrow> int) \<Rightarrow> db \<Rightarrow> ident \<Rightarrow> unit res" where
  "assert_router_boot_known tie d router_id = (case latest_boot tie d router_id of
     None \<Rightarrow> Inl (UnknownBootError ''unknown boot blocks readiness'')
   | Some b \<Rightarrow> (if bt_boot_known b then Inr ()
       else Inl (UnknownBootError ''unknown boot blocks readiness'')))"

section \<open>Classification of a job's steps\<close>

record recovery_classification =
  rc_pre_dispatch :: bool
  rc_post_dispatch :: bool
  rc_apply_dispatched :: bool
  rc_last_safe_step :: "string option"
  rc_requires_readback :: bool

definition post_dispatch_step_kinds :: "string list" where
  "post_dispatch_step_kinds =
     [''apply'', ''handler'', ''read-back'', ''verify'', ''save'', ''compensate'']"

definition mutation_dispatch_kinds :: "string list" where
  "mutation_dispatch_kinds = [''apply'']"

text \<open>The loop over the steps with its three variables.\<close>

fun classify_loop :: "step_row list \<Rightarrow> bool \<times> bool \<times> string option \<Rightarrow> bool \<times> bool \<times> string option" where
  "classify_loop [] acc = acc"
| "classify_loop (s # ss) (apply_dispatched, post_dispatch, last_safe) =
     (let kind = s_step_kind s; status = s_status s; went = status \<in> set [''Running'', ''Succeeded''] in
      classify_loop ss
        (apply_dispatched \<or> (kind \<in> set mutation_dispatch_kinds \<and> went),
         post_dispatch \<or> (kind \<in> set post_dispatch_step_kinds \<and> went),
         (if status = ''Succeeded'' \<and> kind \<notin> set mutation_dispatch_kinds
          then Some kind else last_safe)))"

definition classify_job_steps :: "db \<Rightarrow> ident \<Rightarrow> string \<Rightarrow> recovery_classification" where
  "classify_job_steps d job_id job_status =
     (let (apply_dispatched, post, last_safe) =
            classify_loop (list_job_steps d job_id) (False, False, None);
          post_dispatch = (post \<or> job_status = ''Running'')
      in \<lparr>rc_pre_dispatch = (\<not> post_dispatch \<and> \<not> apply_dispatched),
          rc_post_dispatch = post_dispatch, rc_apply_dispatched = apply_dispatched,
          rc_last_safe_step = last_safe,
          rc_requires_readback = (apply_dispatched \<or> post_dispatch)\<rparr>)"

definition classify_recovery_matrix ::
  "(boot_row \<Rightarrow> int) \<Rightarrow> db \<Rightarrow> ident \<Rightarrow> ident \<Rightarrow> string \<Rightarrow> recovery_classification res" where
  "classify_recovery_matrix tie d router_id job_id job_status =
     rbind (assert_router_boot_known tie d router_id) (\<lambda>_.
     Inr (classify_job_steps d job_id job_status))"

definition step_went :: "step_row \<Rightarrow> bool" where
  "step_went s \<longleftrightarrow> s_status s \<in> {''Running'', ''Succeeded''}"

lemma classify_loop_eq:
  "classify_loop ss (a, p, l) =
     (a \<or> (\<exists>s \<in> set ss. s_step_kind s \<in> set mutation_dispatch_kinds \<and> step_went s),
      p \<or> (\<exists>s \<in> set ss. s_step_kind s \<in> set post_dispatch_step_kinds \<and> step_went s),
      (case find (\<lambda>s. s_status s = ''Succeeded'' \<and> s_step_kind s \<notin> set mutation_dispatch_kinds)
         (rev ss) of Some s \<Rightarrow> Some (s_step_kind s) | None \<Rightarrow> l))"
proof (induction ss arbitrary: a p l)
  case (Cons s ss)
  show ?case
    by (simp add: Let_def Cons.IH find_append step_went_def split: option.splits) auto
qed simp

text \<open>The classification as a statement about the recorded steps.\<close>

lemma classify_job_steps_iff:
  "rc_apply_dispatched (classify_job_steps d x st) \<longleftrightarrow>
     (\<exists>s \<in> set (job_steps d). s_job_id s = x \<and> s_step_kind s = ''apply'' \<and> step_went s)"
  "rc_post_dispatch (classify_job_steps d x st) \<longleftrightarrow> st = ''Running'' \<or>
     (\<exists>s \<in> set (job_steps d). s_job_id s = x \<and> s_step_kind s \<in> set post_dispatch_step_kinds \<and>
        step_went s)"
  "rc_pre_dispatch (classify_job_steps d x st) \<longleftrightarrow> \<not> rc_post_dispatch (classify_job_steps d x st)"
  "rc_requires_readback (classify_job_steps d x st) \<longleftrightarrow>
     rc_post_dispatch (classify_job_steps d x st)"
  by (auto simp: classify_job_steps_def classify_loop_eq Let_def list_job_steps_def
      mutation_dispatch_kinds_def post_dispatch_step_kinds_def)


text \<open>
  C40: Recovery needs a known boot. The recovery matrix classifies a job only when the latest boot
  observation of its router, whichever of several observations of the same second counts as the
  latest, is a known one, and a router without any observation is refused.
\<close>

theorem recovery_matrix_needs_known_boot:
  "classify_recovery_matrix tie d rid x st = Inr c \<longleftrightarrow>
     (\<exists>b. latest_boot tie d rid = Some b \<and> b \<in> set (router_boot_observations d) \<and>
        bt_router_id b = rid \<and> bt_boot_known b \<and>
        (\<forall>b' \<in> set (router_boot_observations d). bt_router_id b' = rid \<longrightarrow>
           bt_observed_at b' \<le> bt_observed_at b)) \<and>
     c = classify_job_steps d x st"
proof -
  let ?L = "sort_key (\<lambda>b. (- bt_observed_at b, tie b))
      (filter (\<lambda>b. bt_router_id b = rid) (router_boot_observations d))"
  have "b \<in> set (router_boot_observations d) \<and> bt_router_id b = rid \<and>
      (\<forall>b' \<in> set (router_boot_observations d). bt_router_id b' = rid \<longrightarrow>
         bt_observed_at b' \<le> bt_observed_at b)" if "latest_boot tie d rid = Some b" for b
  proof -
    from that obtain bs where L: "?L = b # bs"
      by (auto simp: latest_boot_def split: list.splits)
    have set: "set (b # bs) = {b \<in> set (router_boot_observations d). bt_router_id b = rid}"
      unfolding L [symmetric] by auto
    have "sorted (map (\<lambda>b. (- bt_observed_at b, tie b)) (b # bs))"
      unfolding L [symmetric] by (rule sorted_sort_key)
    then have "\<forall>b' \<in> set bs. bt_observed_at b' \<le> bt_observed_at b"
      by (auto simp: less_eq_prod_def)
    with set show ?thesis by auto
  qed
  then show ?thesis
    by (auto simp: classify_recovery_matrix_def assert_router_boot_known_def
        split: option.splits if_splits)
qed

section \<open>Examples\<close>

definition demo_recovery :: recovery_submit where
  "demo_recovery = \<lparr>rs_recovery_key = ''k'', rs_request_digest = ''g1'', rs_recovery_action = ''resume'',
     rs_operation_id = None, rs_job_id = None, rs_router_id = None, rs_parent_request_id = None\<rparr>"

lemma demo_recovery_submit:
  "submit_recovery_request (demo_env 5 ''a'') demo_recovery empty_db =
     Inr ((201, recovery_new_row (demo_env 5 ''a'') demo_recovery),
       empty_db\<lparr>recovery_requests := [recovery_new_row (demo_env 5 ''a'') demo_recovery]\<rparr>)"
  by (simp add: submit_recovery_request_def demo_recovery_def empty_db_def check_parent_def
      insert_recovery_def get_recovery_request_def recovery_new_row_def fk_def)

theorem recovery_request_cas_witness:
  "one_digest_per_key empty_db \<and>
   submit_recovery_request (demo_env 6 ''b'') demo_recovery
     (empty_db\<lparr>recovery_requests := [recovery_new_row (demo_env 5 ''a'') demo_recovery]\<rparr>) =
   Inr ((200, recovery_new_row (demo_env 5 ''a'') demo_recovery),
     empty_db\<lparr>recovery_requests := [recovery_new_row (demo_env 5 ''a'') demo_recovery]\<rparr>)"
proof -
  have ok: "one_digest_per_key empty_db" by (simp add: one_digest_per_key_def empty_db_def)
  with recovery_request_cas [OF ok demo_recovery_submit] show ?thesis by blast
qed

text \<open>The claimed job of the queue example, after its worker has started to apply.\<close>

definition demo_apply_step :: step_row where
  "demo_apply_step = \<lparr>s_step_id = ''st1'', s_job_id = ''job_cxx'', s_ordinal = 0,
     s_step_kind = ''apply'', s_status = ''Running'', s_attempt = 1, s_checkpoint_json = None,
     s_error_redacted = None, s_started_at = Some 12, s_finished_at = None\<rparr>"

definition demo_applying :: db where
  "demo_applying = demo_claimed\<lparr>job_steps := [demo_apply_step]\<rparr>"

lemma demo_applying_inv: "store_inv demo_applying"
  using store_inv_cong [of demo_applying demo_claimed] demo_store_inv(1)
  by (simp add: demo_applying_def)

lemma demo_applying_recover:
  "\<exists>d. recover_expired_leases (demo_env 100 ''v'') demo_applying = Inr ([''job_cxx''], d)"
  by (simp add: recover_expired_leases_def expired_leases_def demo_applying_def demo_claimed_eq Let_def
      job_active_def recover_one_def expire_status_def job_has_post_dispatch_progress_def
      demo_apply_step_def)


text \<open>A router seen booting twice: the later observation is the known one.\<close>

definition demo_boot :: "int \<Rightarrow> bool \<Rightarrow> boot_row" where
  "demo_boot t known = \<lparr>bt_boot_observation_id = ''o'', bt_router_id = ''r1'', bt_boot_id = ''b'',
     bt_boot_marker = None, bt_boot_known = known, bt_observed_at = t, bt_created_at = t\<rparr>"

definition demo_booted :: db where
  "demo_booted = empty_db\<lparr>router_boot_observations := [demo_boot 3 False, demo_boot 7 True]\<rparr>"

theorem recovery_matrix_needs_known_boot_witness:
  "bt_boot_known (demo_boot 7 True) \<and> classify_recovery_matrix (\<lambda>_. 0) demo_booted ''r1'' ''x'' ''Leased'' =
     Inr (classify_job_steps demo_booted ''x'' ''Leased'')"
proof -
  have "latest_boot (\<lambda>_. 0) demo_booted ''r1'' = Some (demo_boot 7 True)"
    by (simp add: latest_boot_def demo_booted_def demo_boot_def empty_db_def)
  then show ?thesis
    using recovery_matrix_needs_known_boot [of "\<lambda>_. 0" demo_booted "''r1''" "''x''" "''Leased''"]
    by (simp add: demo_booted_def demo_boot_def)
qed

end
