(* ===== verification/Json_Text.thy ===== *)
theory Json_Text
  imports RC_Prelude
begin

text \<open>
  JSON as text: what \<open>json.dumps\<close> writes and what \<open>json.loads\<close> accepts, at the level of
  characters, for the documents whose length or prefix the code looks at
  (\<open>encode_safety_payload\<close> and \<open>decode_safety_payload\<close> of \<open>persistence/store.py\<close>, the bounded
  documents of \<open>application/recovery.py\<close>).

  Characters are code points below 256 and numbers are integers: a number with a fraction or an
  exponent, and an escape above \<open>\u00ff\<close>, have no value of type \<open>json\<close>, and \<open>loads\<close> refuses them.
  No such text is written from a value of type \<open>json\<close>. The reader uses fuel, twice the length of the
  text; \<open>parse_fuel\<close> shows that more fuel never changes the answer.
\<close>

section \<open>Writing\<close>

definition hex_digit :: "nat \<Rightarrow> char" where
  "hex_digit n = char_of (if n < 10 then 48 + n else 87 + n)"

text \<open>The escapes of the default \<open>ensure_ascii=True\<close>.\<close>

definition escape_char :: "char \<Rightarrow> string" where
  "escape_char c =
     (if c = CHR 0x22 then [CHR 0x5C, CHR 0x22]
      else if c = CHR 0x5C then [CHR 0x5C, CHR 0x5C]
      else if c = CHR 0x0A then [CHR 0x5C, CHR ''n'']
      else if c = CHR 0x0D then [CHR 0x5C, CHR ''r'']
      else if c = CHR 0x09 then [CHR 0x5C, CHR ''t'']
      else if c = CHR 0x0C then [CHR 0x5C, CHR ''f'']
      else if c = CHR 0x08 then [CHR 0x5C, CHR ''b'']
      else if (of_char c :: nat) < 32 \<or> 126 < (of_char c :: nat)
      then [CHR 0x5C, CHR ''u'', CHR ''0'', CHR ''0'',
            hex_digit (of_char c div 16), hex_digit (of_char c mod 16)]
      else [c])"

definition write_string :: "string \<Rightarrow> string" where
  "write_string s = CHR 0x22 # concat (map escape_char s) @ [CHR 0x22]"

definition digit_char :: "nat \<Rightarrow> char" where
  "digit_char n = char_of (48 + n)"

fun write_nat :: "nat \<Rightarrow> string" where
  "write_nat n =
     (if n < 10 then [digit_char n] else write_nat (n div 10) @ [digit_char (n mod 10)])"

declare write_nat.simps [simp del]

definition write_int :: "int \<Rightarrow> string" where
  "write_int i = (if i < 0 then CHR ''-'' # write_nat (nat (- i)) else write_nat (nat i))"

fun join_with :: "string \<Rightarrow> string list \<Rightarrow> string" where
  "join_with sep [] = []"
| "join_with sep [x] = x"
| "join_with sep (x # y # xs) = x @ sep @ join_with sep (y # xs)"

text \<open>\<open>json.dumps(value, separators=(isep, ksep))\<close>, the members in the order of the dictionary.\<close>

primrec write_json :: "string \<Rightarrow> string \<Rightarrow> json \<Rightarrow> string" where
  "write_json isep ksep JNull = ''null''"
| "write_json isep ksep (JBool b) = (if b then ''true'' else ''false'')"
| "write_json isep ksep (JInt i) = write_int i"
| "write_json isep ksep (JStr s) = write_string s"
| "write_json isep ksep (JArr xs) =
     CHR ''['' # join_with isep (map (write_json isep ksep) xs) @ '']''"
| "write_json isep ksep (JObj kvs) =
     CHR ''{'' # join_with isep
       (map (\<lambda>(k, w). write_string k @ ksep @ w) (map (map_prod id (write_json isep ksep)) kvs)) @ ''}''"

text \<open>\<open>sort_keys=True\<close>: the members of every dictionary in the order of their keys.\<close>

primrec sort_keys :: "json \<Rightarrow> json" where
  "sort_keys JNull = JNull"
| "sort_keys (JBool b) = JBool b"
| "sort_keys (JInt i) = JInt i"
| "sort_keys (JStr s) = JStr s"
| "sort_keys (JArr xs) = JArr (map sort_keys xs)"
| "sort_keys (JObj kvs) = JObj (sort_key fst (map (map_prod id sort_keys) kvs))"

text \<open>\<open>json.dumps(value, sort_keys=True, separators=(",", ":"))\<close>.\<close>

definition dumps :: "json \<Rightarrow> string" where
  "dumps j = write_json '','' '':'' (sort_keys j)"

section \<open>Reading\<close>

definition json_space :: "char \<Rightarrow> bool" where
  "json_space c \<longleftrightarrow> c = CHR '' '' \<or> c = CHR 0x09 \<or> c = CHR 0x0A \<or> c = CHR 0x0D"

abbreviation skip_ws :: "string \<Rightarrow> string" where
  "skip_ws s \<equiv> dropWhile json_space s"

definition hex_value :: "char \<Rightarrow> nat option" where
  "hex_value c = (let n = (of_char c :: nat) in
     if 48 \<le> n \<and> n \<le> 57 then Some (n - 48)
     else if 97 \<le> n \<and> n \<le> 102 then Some (n - 87)
     else if 65 \<le> n \<and> n \<le> 70 then Some (n - 55)
     else None)"

definition simple_escape :: "char \<Rightarrow> char option" where
  "simple_escape e =
     (if e = CHR 0x22 \<or> e = CHR 0x5C \<or> e = CHR ''/'' then Some e
      else if e = CHR ''n'' then Some (CHR 0x0A)
      else if e = CHR ''r'' then Some (CHR 0x0D)
      else if e = CHR ''t'' then Some (CHR 0x09)
      else if e = CHR ''f'' then Some (CHR 0x0C)
      else if e = CHR ''b'' then Some (CHR 0x08)
      else None)"

definition unicode_escape :: "char \<Rightarrow> char \<Rightarrow> char \<Rightarrow> char \<Rightarrow> char option" where
  "unicode_escape a b c d =
     (case (hex_value a, hex_value b, hex_value c, hex_value d) of
        (Some 0, Some 0, Some x, Some y) \<Rightarrow> Some (char_of (16 * x + y))
      | _ \<Rightarrow> None)"

text \<open>One character of a string and the text after it.\<close>

definition read_char :: "string \<Rightarrow> (char \<times> string) option" where
  "read_char s = (case s of
     [] \<Rightarrow> None
   | c # cs \<Rightarrow>
       if c = CHR 0x5C then
         (case cs of
            [] \<Rightarrow> None
          | e # es \<Rightarrow>
              if e = CHR ''u'' then
                (case es of
                   x1 # x2 # x3 # x4 # r \<Rightarrow> map_option (\<lambda>x. (x, r)) (unicode_escape x1 x2 x3 x4)
                 | _ \<Rightarrow> None)
              else map_option (\<lambda>x. (x, es)) (simple_escape e))
       else if (of_char c :: nat) < 32 then None
       else Some (c, cs))"

lemma read_char_length: "read_char s = Some (c, r) \<Longrightarrow> length r < length s"
  by (auto simp: read_char_def split: list.splits if_splits)

text \<open>The rest of a string literal after its opening quote.\<close>

function read_string :: "string \<Rightarrow> (string \<times> string) option" where
  "read_string s =
     (if s \<noteq> [] \<and> hd s = CHR 0x22 then Some ([], tl s)
      else case read_char s of
        None \<Rightarrow> None
      | Some (c, r) \<Rightarrow> (case read_string r of None \<Rightarrow> None | Some (cs, t) \<Rightarrow> Some (c # cs, t)))"
  by auto
termination by (relation "measure length") (auto dest: read_char_length)

declare read_string.simps [simp del]

definition is_digit :: "char \<Rightarrow> bool" where
  "is_digit c \<longleftrightarrow> 48 \<le> (of_char c :: nat) \<and> (of_char c :: nat) \<le> 57"

text \<open>A fraction or an exponent after the integer part makes the number a float.\<close>

definition float_follows :: "string \<Rightarrow> bool" where
  "float_follows r = (case r of
     c # d # r' \<Rightarrow>
       (c = CHR ''.'' \<and> is_digit d) \<or>
       ((c = CHR ''e'' \<or> c = CHR ''E'') \<and>
        (is_digit d \<or> ((d = CHR ''+'' \<or> d = CHR ''-'') \<and> r' \<noteq> [] \<and> is_digit (hd r'))))
   | _ \<Rightarrow> False)"

definition read_digits :: "string \<Rightarrow> (int \<times> string) option" where
  "read_digits s =
     (let ds = takeWhile is_digit s; r = dropWhile is_digit s in
      if ds = [] then None
      else if hd ds = CHR ''0'' then Some (0, tl s)
      else map_option (\<lambda>n. (n, r)) (digits_value 0 ds))"

definition read_number :: "string \<Rightarrow> (json \<times> string) option" where
  "read_number s =
     (let (neg, t) = (case s of c # cs \<Rightarrow> if c = CHR ''-'' then (True, cs) else (False, s) | [] \<Rightarrow> (False, s)) in
      case read_digits t of
        None \<Rightarrow> None
      | Some (n, r) \<Rightarrow> if float_follows r then None else Some (JInt (if neg then - n else n), r))"

definition read_word :: "string \<Rightarrow> json \<Rightarrow> string \<Rightarrow> (json \<times> string) option" where
  "read_word w v s = (if take (length w) s = w then Some (v, drop (length w) s) else None)"

definition read_scalar :: "string \<Rightarrow> (json \<times> string) option" where
  "read_scalar s = (case s of
     [] \<Rightarrow> None
   | c # cs \<Rightarrow>
       if c = CHR 0x22 then map_option (\<lambda>(t, r). (JStr t, r)) (read_string cs)
       else if c = CHR ''n'' then read_word ''null'' JNull s
       else if c = CHR ''t'' then read_word ''true'' (JBool True) s
       else if c = CHR ''f'' then read_word ''false'' (JBool False) s
       else read_number s)"

text \<open>A later member of the same key replaces the value of the first one.\<close>

fun dict_put :: "(string \<times> 'v) list \<Rightarrow> string \<Rightarrow> 'v \<Rightarrow> (string \<times> 'v) list" where
  "dict_put [] k v = [(k, v)]"
| "dict_put ((k', v') # kvs) k v = (if k' = k then (k, v) # kvs else (k', v') # dict_put kvs k v)"

definition dict_of :: "(string \<times> 'v) list \<Rightarrow> (string \<times> 'v) list" where
  "dict_of kvs = foldl (\<lambda>d (k, v). dict_put d k v) [] kvs"

text \<open>The separator after an item: the closing character, or a comma and then the next item.\<close>

datatype after = Closed string | More string

definition read_after :: "char \<Rightarrow> string \<Rightarrow> after option" where
  "read_after close r = (case skip_ws r of
     [] \<Rightarrow> None
   | d # ds \<Rightarrow> if d = close then Some (Closed ds)
       else if d = CHR '','' then Some (More (skip_ws ds)) else None)"

text \<open>A key with its colon.\<close>

definition read_key :: "string \<Rightarrow> (string \<times> string) option" where
  "read_key s = (case s of
     [] \<Rightarrow> None
   | q # qs \<Rightarrow> if q \<noteq> CHR 0x22 then None else
       (case read_string qs of
          None \<Rightarrow> None
        | Some (k, r) \<Rightarrow> (case skip_ws r of
            [] \<Rightarrow> None
          | d # ds \<Rightarrow> if d = CHR '':'' then Some (k, skip_ws ds) else None)))"

fun parse_value :: "nat \<Rightarrow> string \<Rightarrow> (json \<times> string) option"
  and parse_items :: "nat \<Rightarrow> string \<Rightarrow> (json list \<times> string) option"
  and parse_members :: "nat \<Rightarrow> string \<Rightarrow> ((string \<times> json) list \<times> string) option" where
  "parse_value 0 s = None"
| "parse_value (Suc n) s = (case s of
     [] \<Rightarrow> None
   | c # cs \<Rightarrow>
       if c = CHR ''{'' then
         (if skip_ws cs \<noteq> [] \<and> hd (skip_ws cs) = CHR ''}'' then Some (JObj [], tl (skip_ws cs))
          else map_option (\<lambda>(kvs, r). (JObj (dict_of kvs), r)) (parse_members n (skip_ws cs)))
       else if c = CHR ''['' then
         (if skip_ws cs \<noteq> [] \<and> hd (skip_ws cs) = CHR '']'' then Some (JArr [], tl (skip_ws cs))
          else map_option (\<lambda>(vs, r). (JArr vs, r)) (parse_items n (skip_ws cs)))
       else read_scalar s)"
| "parse_items 0 s = None"
| "parse_items (Suc n) s = (case parse_value n s of
     None \<Rightarrow> None
   | Some (v, r) \<Rightarrow> (case read_after (CHR '']'') r of
       None \<Rightarrow> None
     | Some (Closed t) \<Rightarrow> Some ([v], t)
     | Some (More t) \<Rightarrow> map_option (\<lambda>(vs, u). (v # vs, u)) (parse_items n t)))"
| "parse_members 0 s = None"
| "parse_members (Suc n) s = (case read_key s of
     None \<Rightarrow> None
   | Some (k, s') \<Rightarrow> (case parse_value n s' of
       None \<Rightarrow> None
     | Some (v, r) \<Rightarrow> (case read_after (CHR ''}'') r of
         None \<Rightarrow> None
       | Some (Closed t) \<Rightarrow> Some ([(k, v)], t)
       | Some (More t) \<Rightarrow> map_option (\<lambda>(kvs, u). ((k, v) # kvs, u)) (parse_members n t))))"

definition loads :: "string \<Rightarrow> json res" where
  "loads s = (case parse_value (2 * length s + 2) (skip_ws s) of
     None \<Rightarrow> Inl JSONDecodeError
   | Some (v, r) \<Rightarrow> if skip_ws r = [] then Inr v else Inl JSONDecodeError)"

section \<open>The reader consumes its input\<close>

definition consumes :: "string \<Rightarrow> string \<Rightarrow> bool" where
  "consumes s r \<longleftrightarrow> (\<exists>p. s = p @ r \<and> p \<noteq> [])"

lemma consumes_Cons [intro]: "consumes (c # cs) cs"
  unfolding consumes_def by (rule exI [of _ "[c]"]) simp

lemma consumes_trans [trans]: "consumes s r \<Longrightarrow> consumes r t \<Longrightarrow> consumes s t"
  by (fastforce simp: consumes_def)

lemma consumes_length: "consumes s r \<Longrightarrow> length r < length s"
  by (auto simp: consumes_def)

lemma consumes_ws: "consumes s r \<Longrightarrow> consumes s (skip_ws r)"
  unfolding consumes_def
  by (metis append.assoc append_is_Nil_conv takeWhile_dropWhile_id)

lemma ws_consumes: "consumes (skip_ws s) r \<Longrightarrow> consumes s r"
  unfolding consumes_def
  by (metis append.assoc append_is_Nil_conv takeWhile_dropWhile_id)

lemma consumes_tl: "s \<noteq> [] \<Longrightarrow> consumes s (tl s)"
  by (cases s) auto

lemma read_char_consumes: "read_char s = Some (c, r) \<Longrightarrow> consumes s r"
  by (auto simp: read_char_def consumes_def Cons_eq_append_conv split: list.splits if_splits)

lemma read_string_consumes: "read_string s = Some (t, r) \<Longrightarrow> consumes s r"
proof (induction s arbitrary: t r rule: read_string.induct)
  case (1 s)
  from 1 show ?case
    by (subst (asm) (2) read_string.simps)
      (auto split: if_splits option.splits prod.splits dest: read_char_consumes
        intro: consumes_tl consumes_trans)
qed

lemma read_digits_consumes:
  assumes "read_digits s = Some (n, r)"
  shows "consumes s r"
proof -
  from assms have ne: "takeWhile is_digit s \<noteq> []"
    by (auto simp: read_digits_def Let_def split: if_splits)
  then have "r = tl s \<or> r = dropWhile is_digit s" "s \<noteq> []"
    using assms by (auto simp: read_digits_def Let_def split: if_splits)
  moreover have "consumes s (dropWhile is_digit s)"
    unfolding consumes_def using ne by (metis takeWhile_dropWhile_id)
  ultimately show ?thesis using consumes_tl by blast
qed

lemma read_number_consumes: "read_number s = Some (v, r) \<Longrightarrow> consumes s r"
  by (cases s) (auto simp: read_number_def Let_def split: if_splits option.splits prod.splits
      dest: read_digits_consumes intro: consumes_trans)

lemma read_word_consumes: "w \<noteq> [] \<Longrightarrow> read_word w x s = Some (v, r) \<Longrightarrow> consumes s r"
  by (auto simp: read_word_def consumes_def split: if_splits) (metis append_take_drop_id)

lemma read_scalar_consumes: "read_scalar s = Some (v, r) \<Longrightarrow> consumes s r"
  by (cases s) (auto simp: read_scalar_def split: if_splits
      dest: read_string_consumes read_word_consumes [rotated] read_number_consumes
      intro: consumes_trans)

lemma consumes_skip: "skip_ws s = c # t \<Longrightarrow> consumes s t"
  by (rule ws_consumes) auto

lemma read_after_Closed: "read_after c r = Some (Closed t) \<Longrightarrow> skip_ws r = c # t"
  by (auto simp: read_after_def split: list.splits if_splits)

lemma read_after_More: "read_after c r = Some (More t) \<Longrightarrow> consumes r t"
  by (auto simp: read_after_def split: list.splits if_splits intro: consumes_skip consumes_ws)

lemma read_after_consumes:
  "read_after c r = Some (Closed t) \<Longrightarrow> consumes r t"
  "read_after c r = Some (More t) \<Longrightarrow> consumes r t"
  by (auto dest: read_after_Closed read_after_More consumes_skip)

lemma read_key_consumes:
  assumes "read_key s = Some (k, r)"
  shows "consumes s r"
proof -
  from assms obtain qs t ds where "s = CHR 0x22 # qs" "read_string qs = Some (k, t)"
    "skip_ws t = CHR '':'' # ds" "r = skip_ws ds"
    by (auto simp: read_key_def split: list.splits if_splits option.splits)
  then show ?thesis
    using consumes_Cons read_string_consumes consumes_skip consumes_ws consumes_trans by metis
qed

lemma parse_items_Suc_Some:
  "parse_items (Suc n) s = Some (vs, u) \<longleftrightarrow> (\<exists>v r. parse_value n s = Some (v, r) \<and>
     (read_after (CHR '']'') r = Some (Closed u) \<and> vs = [v] \<or>
      (\<exists>t ws. read_after (CHR '']'') r = Some (More t) \<and> parse_items n t = Some (ws, u) \<and> vs = v # ws)))"
  by (auto split: option.splits after.splits)

lemma parse_members_Suc_Some:
  "parse_members (Suc n) s = Some (kvs, u) \<longleftrightarrow>
     (\<exists>k s' v r. read_key s = Some (k, s') \<and> parse_value n s' = Some (v, r) \<and>
     (read_after (CHR ''}'') r = Some (Closed u) \<and> kvs = [(k, v)] \<or>
      (\<exists>t ws. read_after (CHR ''}'') r = Some (More t) \<and> parse_members n t = Some (ws, u) \<and>
         kvs = (k, v) # ws)))"
  by (auto split: option.splits after.splits)

lemma ws_tl_consumes: "skip_ws s \<noteq> [] \<Longrightarrow> consumes s (tl (skip_ws s))"
  by (rule ws_consumes) (rule consumes_tl)

lemma parse_consumes:
  "(parse_value n s = Some (v, r) \<longrightarrow> consumes s r) \<and>
   (parse_items n s = Some (vs, r) \<longrightarrow> consumes s r) \<and>
   (parse_members n s = Some (kvs, r) \<longrightarrow> consumes s r)"
proof (induction n arbitrary: s v r vs kvs)
  case (Suc n)
  have pv: "consumes s r" if p: "parse_value (Suc n) s = Some (v, r)" for s v r
  proof (cases s)
    case (Cons c cs)
    have "consumes cs r" if "c = CHR ''{'' \<or> c = CHR ''[''"
      using p Cons that Suc.IH
      by (auto simp del: dropWhile_eq_Nil_conv split: if_splits intro: ws_tl_consumes ws_consumes)
    moreover have "consumes s r" if "c \<noteq> CHR ''{''" "c \<noteq> CHR ''[''"
      using p Cons that read_scalar_consumes by auto
    ultimately show ?thesis using Cons consumes_trans [OF consumes_Cons] by blast
  qed (use p in simp)
  show ?case
    unfolding parse_items_Suc_Some parse_members_Suc_Some
    by (metis pv Suc.IH consumes_trans read_after_consumes read_key_consumes)
qed simp

lemmas parse_length = parse_consumes [THEN conjunct1, rule_format, THEN consumes_length]

section \<open>Enough fuel\<close>

lemma parse_value_cong:
  assumes "\<And>t. length t < length s \<Longrightarrow> parse_items m t = parse_items n t"
    and "\<And>t. length t < length s \<Longrightarrow> parse_members m t = parse_members n t"
  shows "parse_value (Suc m) s = parse_value (Suc n) s"
proof (cases s)
  case (Cons c cs)
  have "length (skip_ws cs) < length s"
    using Cons length_dropWhile_le [of json_space cs] by simp
  then have "parse_items m (skip_ws cs) = parse_items n (skip_ws cs)"
    "parse_members m (skip_ws cs) = parse_members n (skip_ws cs)" using assms by blast+
  then show ?thesis using Cons by simp
qed simp

lemma parse_items_cong:
  assumes "parse_value m s = parse_value n s"
    and "\<And>t. length t < length s \<Longrightarrow> parse_items m t = parse_items n t"
  shows "parse_items (Suc m) s = parse_items (Suc n) s"
proof -
  have "parse_items m t = parse_items n t"
    if "parse_value n s = Some (v, r)" "read_after (CHR '']'') r = Some (More t)" for v r t
    using assms(2) parse_length [OF that(1)] consumes_length [OF read_after_More [OF that(2)]] by simp
  then show ?thesis by (simp add: assms(1) split: option.splits after.splits)
qed

lemma parse_members_cong:
  assumes "\<And>t. length t < length s \<Longrightarrow> parse_value m t = parse_value n t"
    and "\<And>t. length t < length s \<Longrightarrow> parse_members m t = parse_members n t"
  shows "parse_members (Suc m) s = parse_members (Suc n) s"
proof (cases "read_key s")
  case (Some ks)
  obtain k t where ks: "ks = (k, t)" by (cases ks)
  with Some have t: "length t < length s" using consumes_length [OF read_key_consumes] by blast
  have "parse_members m u = parse_members n u"
    if "parse_value n t = Some (v, r)" "read_after (CHR ''}'') r = Some (More u)" for v r u
    using assms(2) t parse_length [OF that(1)] consumes_length [OF read_after_More [OF that(2)]] by simp
  then show ?thesis
    by (simp add: Some ks assms(1) [OF t] split: option.splits after.splits)
qed simp

text \<open>From \<open>2 * length s + 1\<close> on, the fuel does not matter.\<close>

lemma parse_fuel_step:
  "(2 * length s + 1 \<le> n \<longrightarrow> parse_value n s = parse_value (Suc n) s) \<and>
   (2 * length s + 2 \<le> n \<longrightarrow> parse_items n s = parse_items (Suc n) s) \<and>
   (2 * length s + 2 \<le> n \<longrightarrow> parse_members n s = parse_members (Suc n) s)"
proof (induction n arbitrary: s)
  case (Suc n)
  show ?case
    using Suc.IH by (intro conjI impI parse_value_cong parse_items_cong parse_members_cong) auto
qed simp

lemma parse_fuel:
  assumes "2 * length s + 1 \<le> n"
  shows "parse_value n s = parse_value (2 * length s + 1) s"
  using assms by (induction n rule: dec_induct) (use parse_fuel_step in auto)

section \<open>Reading back what was written\<close>

primrec wf_json :: "json \<Rightarrow> bool" where
  "wf_json JNull = True"
| "wf_json (JBool b) = True"
| "wf_json (JInt i) = True"
| "wf_json (JStr s) = True"
| "wf_json (JArr xs) = list_all id (map wf_json xs)"
| "wf_json (JObj kvs) = (distinct (map fst kvs) \<and> list_all snd (map (map_prod id wf_json) kvs))"

lemma char_nat_less: "(of_char c :: nat) < 256"
  by (rule order.strict_trans2 [OF nat_of_char_less_256]) simp

lemma hex_value_digit: "n < 16 \<Longrightarrow> hex_value (hex_digit n) = Some n"
  by (auto simp: hex_value_def hex_digit_def Let_def)

lemma unicode_escape_hex:
  "unicode_escape (CHR ''0'') (CHR ''0'') (hex_digit (of_char c div 16)) (hex_digit (of_char c mod 16))
     = Some c"
proof -
  have "(of_char c :: nat) div 16 < 16" using char_nat_less [of c] by (intro less_mult_imp_div_less) simp
  then show ?thesis
    by (simp add: unicode_escape_def hex_value_digit) (simp add: hex_value_def)
qed

lemma read_char_escape: "read_char (escape_char c @ r) = Some (c, r)"
  by (auto simp: escape_char_def read_char_def simple_escape_def unicode_escape_hex)

lemma escape_not_quote: "escape_char c \<noteq> [] \<and> hd (escape_char c) \<noteq> CHR 0x22"
  by (simp add: escape_char_def)

lemma read_string_escaped:
  "read_string (concat (map escape_char s) @ CHR 0x22 # r) = Some (s, r)"
proof (induction s)
  case (Cons c s)
  have "hd (escape_char c @ concat (map escape_char s) @ CHR 0x22 # r) \<noteq> CHR 0x22"
    using escape_not_quote [of c] by simp
  with Cons show ?case
    by (subst read_string.simps) (simp add: read_char_escape)
qed (simp add: read_string.simps)

lemma digit_char_digit: "n < 10 \<Longrightarrow> is_digit (digit_char n)"
  by (simp add: is_digit_def digit_char_def)

lemma digit_value_char: "n < 10 \<Longrightarrow> digit_value (digit_char n) = Some (int n)"
  by (simp add: digit_value_def digit_char_def flip: of_nat_of_char [where 'a = int])

lemma digit_char_0: "n < 10 \<Longrightarrow> digit_char n = CHR ''0'' \<longleftrightarrow> n = 0"
  unfolding of_char_eq_iff [symmetric, where 'a = nat] by (simp add: digit_char_def)

lemma digits_value_append:
  "digits_value acc (xs @ ys) =
     (case digits_value acc xs of None \<Rightarrow> None | Some a \<Rightarrow> digits_value a ys)"
  by (induction acc xs rule: digits_value.induct) (auto split: option.splits)

lemma write_nat_digits:
  "list_all is_digit (write_nat n)" "write_nat n \<noteq> []" "digits_value 0 (write_nat n) = Some (int n)"
  "hd (write_nat n) = CHR ''0'' \<longleftrightarrow> n = 0" "n = 0 \<Longrightarrow> write_nat n = ''0''"
proof (induction n rule: write_nat.induct)
  case (1 n)
  { case 1 show ?case using "1.IH"(1) by (subst write_nat.simps) (simp add: digit_char_digit) }
  { case 2 show ?case by (subst write_nat.simps) simp }
  { case 3 show ?case using "1.IH"(3)
      by (subst write_nat.simps) (simp add: digit_value_char digits_value_append zdiv_int zmod_int) }
  { case 4 show ?case using "1.IH"(2,4)
      by (subst write_nat.simps) (auto simp: digit_char_0) }
  { case 5 then show ?case by (subst write_nat.simps) (simp add: digit_char_0) }
qed

text \<open>What may stand after a value.\<close>

definition stops :: "string \<Rightarrow> bool" where
  "stops r \<longleftrightarrow> (r = [] \<or> hd r \<in> {CHR '','', CHR '']'', CHR ''}''})"

lemma stops_simps: "stops []" "stops (c # r) \<longleftrightarrow> c \<in> {CHR '','', CHR '']'', CHR ''}''}"
  by (auto simp: stops_def)

lemma read_digits_write:
  assumes "stops r"
  shows "read_digits (write_nat n @ r) = Some (int n, r)"
proof -
  have r: "takeWhile is_digit r = []" "dropWhile is_digit r = r"
    using assms by (cases r; auto simp: stops_def is_digit_def)+
  have all: "\<forall>c \<in> set (write_nat n). is_digit c" using write_nat_digits(1) by (simp add: list_all_iff)
  then have "takeWhile is_digit (write_nat n @ r) = write_nat n"
    "dropWhile is_digit (write_nat n @ r) = r" by (simp_all add: r takeWhile_append2)
  then show ?thesis
    using write_nat_digits(2-4) [of n] write_nat_digits(5) [of n]
    by (auto simp: read_digits_def Let_def)
qed

lemma read_number_write: "stops r \<Longrightarrow> read_number (write_int i @ r) = Some (JInt i, r)"
proof -
  assume r: "stops r"
  then have f: "\<not> float_follows r" by (auto simp: stops_def float_follows_def split: list.splits)
  have "hd (write_nat n) \<noteq> CHR ''-''" for n
    using write_nat_digits(1,2) [of n] by (cases "write_nat n") (auto simp: is_digit_def)
  then have "\<exists>c cs. write_nat n = c # cs \<and> c \<noteq> CHR ''-''" for n
    using write_nat_digits(2) [of n] by (cases "write_nat n") (auto, metis list.sel(1))
  then obtain c cs where "write_nat (nat i) = c # cs" "c \<noteq> CHR ''-''" by blast
  then show ?thesis
    using r f read_digits_write [OF r, of "nat i"]
    by (auto simp: read_number_def write_int_def read_digits_write Let_def)
qed


text \<open>The first character of a value.\<close>

lemma write_json_first:
  "\<exists>c cs. write_json isep ksep j = c # cs \<and> \<not> json_space c \<and> c \<noteq> CHR '']''"
proof (cases j)
  case (JInt i)
  have "\<exists>c cs. write_nat n = c # cs \<and> is_digit c" for n
    using write_nat_digits(1,2) [of n] by (cases "write_nat n") auto
  then obtain c cs where "write_nat (nat i) = c # cs" "is_digit c" by blast
  then show ?thesis
    using JInt by (auto simp: write_int_def is_digit_def json_space_def)
qed (auto simp: json_space_def write_string_def)

text \<open>Separators the code uses: a comma or colon, optionally followed by blanks.\<close>

definition sep_ok :: "char \<Rightarrow> string \<Rightarrow> bool" where
  "sep_ok c sep \<longleftrightarrow> sep \<noteq> [] \<and> hd sep = c \<and> list_all json_space (tl sep)"

lemma sep_okE:
  assumes "sep_ok c sep"
  obtains w where "sep = c # w" "\<forall>r. skip_ws (w @ r) = skip_ws r"
  using assms by (cases sep) (auto simp: sep_ok_def list_all_iff)

lemma skip_ws_write [simp]: "skip_ws (write_json isep ksep j @ r) = write_json isep ksep j @ r"
  using write_json_first [of isep ksep j] by auto

lemma read_after_simps:
  "\<not> json_space c \<Longrightarrow> read_after c (c # r) = Some (Closed r)"
  "c \<noteq> CHR '','' \<Longrightarrow> read_after c (CHR '','' # r) = Some (More (skip_ws r))"
  by (simp_all add: read_after_def json_space_def)

abbreviation json_item :: "string \<Rightarrow> string \<Rightarrow> string \<times> json \<Rightarrow> string" where
  "json_item isep ksep kv \<equiv> write_string (fst kv) @ ksep @ write_json isep ksep (snd kv)"

lemma write_obj:
  "write_json isep ksep (JObj kvs) = CHR ''{'' # join_with isep (map (json_item isep ksep) kvs) @ ''}''"
  by (simp add: case_prod_unfold comp_def)

lemma read_key_write:
  "sep_ok (CHR '':'') ksep \<Longrightarrow>
   read_key (write_string k @ ksep @ write_json isep ksep j @ r) = Some (k, write_json isep ksep j @ r)"
  by (erule sep_okE) (simp add: read_key_def write_string_def read_string_escaped json_space_def)

lemma dict_put_new: "k \<notin> fst ` set d \<Longrightarrow> dict_put d k v = d @ [(k, v)]"
  by (induction d) auto

lemma dict_of_distinct: "distinct (map fst kvs) \<Longrightarrow> dict_of kvs = kvs"
proof -
  have "foldl (\<lambda>d (k, v). dict_put d k v) d kvs = d @ kvs"
    if "distinct (map fst kvs)" "fst ` set d \<inter> fst ` set kvs = {}" for d
    using that by (induction kvs arbitrary: d) (auto simp: dict_put_new image_iff)
  then show "distinct (map fst kvs) \<Longrightarrow> ?thesis" by (simp add: dict_of_def)
qed

text \<open>One value, read back with enough fuel.\<close>

definition reads_back :: "string \<Rightarrow> string \<Rightarrow> json \<Rightarrow> bool" where
  "reads_back isep ksep j \<longleftrightarrow> (\<forall>n r. stops r \<longrightarrow> 2 * length (write_json isep ksep j) + 1 \<le> n \<longrightarrow>
     parse_value n (write_json isep ksep j @ r) = Some (j, r))"

lemma reads_backD:
  "reads_back isep ksep j \<Longrightarrow> stops r \<Longrightarrow> 2 * length (write_json isep ksep j) + 1 \<le> n \<Longrightarrow>
   parse_value n (write_json isep ksep j @ r) = Some (j, r)"
  by (simp add: reads_back_def)

lemma parse_items_write:
  assumes "sep_ok (CHR '','') isep" and "xs \<noteq> []" and "\<forall>j \<in> set xs. reads_back isep ksep j"
    and "2 * length (join_with isep (map (write_json isep ksep) xs)) + 2 \<le> n"
  shows "parse_items n (join_with isep (map (write_json isep ksep) xs) @ CHR '']'' # r) = Some (xs, r)"
  using assms(2-)
proof (induction xs arbitrary: n rule: list_nonempty_induct)
  case (single j)
  then obtain m where "n = Suc m" by (cases n) auto
  with single show ?case
    by (simp add: reads_back_def stops_simps read_after_simps json_space_def)
next
  case (cons j xs)
  obtain m where n: "n = Suc m" using cons.prems by (cases n) auto
  obtain w where isep: "isep = CHR '','' # w" and w: "\<forall>r. skip_ws (w @ r) = skip_ws r"
    using assms(1) by (rule sep_okE)
  obtain y ys where xs: "xs = y # ys" using cons.hyps by (cases xs) auto
  let ?rest = "join_with isep (map (write_json isep ksep) xs)"
  have join: "join_with isep (map (write_json isep ksep) (j # xs)) = write_json isep ksep j @ isep @ ?rest"
    by (simp add: xs)
  have len: "2 * length (write_json isep ksep j @ isep @ ?rest) + 2 \<le> Suc m"
    using cons.prems(2) by (simp only: join n)
  have "parse_value m (write_json isep ksep j @ isep @ ?rest @ CHR '']'' # r) =
      Some (j, isep @ ?rest @ CHR '']'' # r)"
    using cons.prems(1) len by (intro reads_backD) (auto simp: isep stops_simps)
  moreover have "read_after (CHR '']'') (isep @ ?rest @ CHR '']'' # r) = Some (More (?rest @ CHR '']'' # r))"
    by (cases ys) (simp_all add: isep read_after_simps w xs)
  moreover have "parse_items m (?rest @ CHR '']'' # r) = Some (xs, r)"
    using cons.prems(1) len by (intro cons.IH) (auto simp: isep)
  ultimately show ?case unfolding n join by simp
qed

lemma parse_members_write:
  assumes "sep_ok (CHR '','') isep" and "sep_ok (CHR '':'') ksep" and "kvs \<noteq> []"
    and "\<forall>kv \<in> set kvs. reads_back isep ksep (snd kv)"
    and "2 * length (join_with isep (map (json_item isep ksep) kvs)) + 2 \<le> n"
  shows "parse_members n (join_with isep (map (json_item isep ksep) kvs) @ CHR ''}'' # r) = Some (kvs, r)"
  using assms(3-)
proof (induction kvs arbitrary: n rule: list_nonempty_induct)
  case (single kv)
  then obtain m where "n = Suc m" by (cases n) auto
  with single show ?case
    by (cases kv) (simp add: reads_back_def stops_simps read_after_simps json_space_def
        read_key_write [OF assms(2)])
next
  case (cons kv kvs)
  obtain k j where kv: "kv = (k, j)" by (cases kv)
  obtain m where n: "n = Suc m" using cons.prems by (cases n) auto
  obtain w where isep: "isep = CHR '','' # w" and w: "\<forall>r. skip_ws (w @ r) = skip_ws r"
    using assms(1) by (rule sep_okE)
  obtain y ys where kvs: "kvs = y # ys" using cons.hyps by (cases kvs) auto
  let ?rest = "join_with isep (map (json_item isep ksep) kvs)"
  have join: "join_with isep (map (json_item isep ksep) (kv # kvs)) = json_item isep ksep kv @ isep @ ?rest"
    by (simp add: kvs)
  have len: "2 * length (json_item isep ksep kv @ isep @ ?rest) + 2 \<le> Suc m"
    using cons.prems(2) by (simp only: join n)
  have "parse_value m (write_json isep ksep j @ isep @ ?rest @ CHR ''}'' # r) =
      Some (j, isep @ ?rest @ CHR ''}'' # r)"
    using cons.prems(1) len by (intro reads_backD) (auto simp: isep stops_simps kv)
  moreover have "read_after (CHR ''}'') (isep @ ?rest @ CHR ''}'' # r) = Some (More (?rest @ CHR ''}'' # r))"
    by (cases ys) (simp_all add: isep read_after_simps w kvs write_string_def json_space_def)
  moreover have "parse_members m (?rest @ CHR ''}'' # r) = Some (kvs, r)"
    using cons.prems(1) len by (intro cons.IH) (auto simp: isep)
  ultimately show ?case unfolding n join by (simp add: kv read_key_write [OF assms(2)])
qed

lemma reads_back_scalar:
  assumes "\<And>m r. stops r \<Longrightarrow> parse_value (Suc m) (write_json isep ksep j @ r) = Some (j, r)"
  shows "reads_back isep ksep j"
  unfolding reads_back_def using assms by (metis Suc_eq_plus1 Suc_le_D)

lemma write_reads_back:
  assumes "sep_ok (CHR '','') isep" and "sep_ok (CHR '':'') ksep" and "wf_json j"
  shows "reads_back isep ksep j"
  using assms(3)
proof (induction j)
  case (JArr xs)
  have "parse_value n (write_json isep ksep (JArr xs) @ r) = Some (JArr xs, r)"
    if le: "2 * length (write_json isep ksep (JArr xs)) + 1 \<le> n" for n r
  proof (cases xs)
    case Nil
    then show ?thesis using le by (cases n) (auto simp: json_space_def)
  next
    case (Cons x ys)
    obtain m where n: "n = Suc m" using le by (cases n) auto
    obtain c cs where c: "join_with isep (map (write_json isep ksep) xs) = c # cs"
      "\<not> json_space c" "c \<noteq> CHR '']''"
      using write_json_first [of isep ksep x] by (cases ys) (auto simp: Cons)
    have "parse_items m (join_with isep (map (write_json isep ksep) xs) @ CHR '']'' # r) = Some (xs, r)"
      using JArr le by (intro parse_items_write [OF assms(1)]) (auto simp: n Cons list_all_iff)
    with c show ?thesis by (simp add: n)
  qed
  then show ?case by (simp add: reads_back_def)
next
  case (JObj kvs)
  have "parse_value n (write_json isep ksep (JObj kvs) @ r) = Some (JObj kvs, r)"
    if le: "2 * length (write_json isep ksep (JObj kvs)) + 1 \<le> n" for n r
  proof (cases kvs)
    case Nil
    then show ?thesis using le by (cases n) (auto simp: json_space_def)
  next
    case (Cons x ys)
    have le': "2 * length (join_with isep (map (json_item isep ksep) kvs)) + 5 \<le> n"
      using le unfolding write_obj by simp
    then obtain m where n: "n = Suc m" by (cases n) auto
    obtain cs where c: "join_with isep (map (json_item isep ksep) kvs) = CHR 0x22 # cs"
      by (cases ys) (auto simp: Cons write_string_def)
    have rb: "reads_back isep ksep (snd kv)" if "kv \<in> set kvs" for kv
      using JObj that by (cases kv) (fastforce simp: list_all_iff)
    have "parse_members m (join_with isep (map (json_item isep ksep) kvs) @ CHR ''}'' # r) = Some (kvs, r)"
      using le' rb by (intro parse_members_write [OF assms(1,2)]) (simp_all add: n Cons)
    with c JObj.prems show ?thesis
      by (simp add: n write_obj json_space_def dict_of_distinct del: write_json.simps)
  qed
  then show ?case by (simp add: reads_back_def)
next
  case (JInt i)
  obtain c cs where c: "write_int i = c # cs" "is_digit c \<or> c = CHR ''-''"
    using write_nat_digits(1,2) [of "nat i"]
    by (cases "write_nat (nat i)"; cases "i < 0") (auto simp: write_int_def)
  from c(2) have "c \<notin> {CHR ''{'', CHR ''['', CHR 0x22, CHR ''n'', CHR ''t'', CHR ''f''}"
    by (auto simp: is_digit_def)
  then have "parse_value (Suc m) (write_int i @ r) = Some (JInt i, r)" if "stops r" for m r
    using read_number_write [OF that, of i] by (simp add: read_scalar_def c(1))
  then show ?case by (intro reads_back_scalar) (simp only: write_json.simps)
qed (rule reads_back_scalar; simp add: read_scalar_def read_word_def write_string_def
    read_string_escaped)+

text \<open>\<open>json.loads\<close> inverts \<open>json.dumps\<close> on values whose dictionaries have distinct keys.\<close>

lemma loads_write:
  assumes "sep_ok (CHR '','') isep" and "sep_ok (CHR '':'') ksep" and "wf_json j"
  shows "loads (write_json isep ksep j) = Inr j"
proof -
  have "parse_value (2 * length (write_json isep ksep j) + 2) (write_json isep ksep j) = Some (j, [])"
    using write_reads_back [OF assms]
    unfolding reads_back_def by (metis append_Nil2 add_leD1 le_add1 nat_arith.suc1 one_add_one stops_simps(1) add.assoc)
  then show ?thesis using skip_ws_write [of isep ksep j "[]"] by (simp add: loads_def)
qed

lemma distinct_sorted_keys:
  fixes kvs :: "(string \<times> 'a) list" and f :: "'a \<Rightarrow> 'b"
  shows "distinct (map fst (sort_key fst (map (map_prod id f) kvs))) \<longleftrightarrow> distinct (map fst kvs)"
proof -
  have "distinct (map fst (sort_key fst xs)) \<longleftrightarrow> distinct (map fst xs)" for xs :: "(string \<times> 'b) list"
    by (simp add: distinct_map)
  from this [of "map (map_prod id f) kvs"] show ?thesis by simp
qed

lemma sort_keys_wf: "wf_json j \<Longrightarrow> wf_json (sort_keys j)"
proof (induction j)
  case (JObj kvs)
  have "distinct (map fst (sort_key fst (map (map_prod id sort_keys) kvs)))"
    using JObj.prems by (simp only: distinct_sorted_keys wf_json.simps)
  moreover have "wf_json (sort_keys (snd kv))" if "kv \<in> set kvs" for kv
    using JObj that by (cases kv) (fastforce simp: list_all_iff)
  ultimately show ?case by (auto simp: list_all_iff)
qed (auto simp: list_all_iff)

lemma loads_dumps: "wf_json j \<Longrightarrow> loads (dumps j) = Inr (sort_keys j)"
  unfolding dumps_def by (rule loads_write) (simp_all add: sort_keys_wf sep_ok_def)

lemma sort_keys_lookup:
  fixes kvs :: "(string \<times> json) list"
  shows "distinct (map fst kvs) \<Longrightarrow>
    map_of (sort_key fst (map (map_prod id sort_keys) kvs)) k = map_option sort_keys (map_of kvs k)"
proof -
  assume d: "distinct (map fst kvs)"
  let ?s = "map (map_prod id sort_keys) kvs"
  have "distinct (map fst (sort_key fst ?s))" unfolding distinct_sorted_keys by (rule d)
  moreover have "distinct (map fst ?s)" using d by simp
  ultimately have "map_of (sort_key fst ?s) = map_of ?s"
    by (simp only: map_of_inject_set set_sort)
  then show ?thesis by (simp add: map_prod_def map_of_map)
qed

section \<open>Where an object ends\<close>

text \<open>A text that starts with a brace is accepted only when the last character but blanks is a brace.\<close>

lemma parse_members_close: "parse_members n s = Some (kvs, r) \<Longrightarrow> \<exists>p. s = p @ CHR ''}'' # r"
proof (induction n arbitrary: s kvs)
  case (Suc n)
  from Suc.prems obtain k s' v t where p: "read_key s = Some (k, s')" "parse_value n s' = Some (v, t)"
    "read_after (CHR ''}'') t = Some (Closed r) \<or>
     (\<exists>u ws. read_after (CHR ''}'') t = Some (More u) \<and> parse_members n u = Some (ws, r))"
    unfolding parse_members_Suc_Some by blast
  then have "\<exists>q. t = q @ CHR ''}'' # r"
    using Suc.IH read_after_More read_after_Closed
    by (metis append_assoc consumes_def takeWhile_dropWhile_id)
  moreover have "consumes s t"
    using p(1,2) read_key_consumes parse_consumes consumes_trans by blast
  ultimately show ?case by (metis append_assoc consumes_def)
qed simp

lemma loads_object_end:
  assumes "loads (CHR ''{'' # s) = Inr v"
  shows "\<exists>p w. CHR ''{'' # s = p @ CHR ''}'' # w \<and> list_all json_space w"
proof -
  from assms obtain r where p: "parse_value (Suc (Suc (Suc (Suc (2 * length s))))) (CHR ''{'' # s) = Some (v, r)"
    and r: "skip_ws r = []"
    unfolding loads_def by (auto simp: json_space_def simp del: parse_value.simps dropWhile_eq_Nil_conv
        split: option.splits if_splits)
  from p have "\<exists>p. s = p @ CHR ''}'' # r"
  proof (cases "skip_ws s \<noteq> [] \<and> hd (skip_ws s) = CHR ''}''")
    case True
    then have "skip_ws s = CHR ''}'' # r" using p by (cases "skip_ws s") (auto simp del: dropWhile_eq_Nil_conv)
    then show ?thesis by (metis takeWhile_dropWhile_id)
  next
    case False
    with p obtain kvs where "parse_members (Suc (Suc (Suc (2 * length s)))) (skip_ws s) = Some (kvs, r)"
      by (auto simp del: dropWhile_eq_Nil_conv)
    then show ?thesis using parse_members_close by (metis append_assoc takeWhile_dropWhile_id)
  qed
  with r show ?thesis by (metis append_Cons dropWhile_eq_Nil_conv list_all_iff)
qed

end
