(* ===== verification/Sanitize.thy ===== *)
theory Sanitize
  imports Json_Text
begin

text \<open>
  Redaction of router payloads before they are stored or logged
  (\<open>adapters/netcraze/sanitize.py\<close>): which keys name a secret, the pattern for serial numbers and
  hardware addresses, the recursive sanitiser of mappings, the walk over nested command bodies and
  the removal of terminal artefacts. Both sanitisers are interpretations of one interface, a
  redaction that reaches a clean document and leaves clean documents alone.
\<close>

section \<open>Strings\<close>

text \<open>\<open>str.lower\<close> on code points below 256.\<close>

definition lower_char :: "char \<Rightarrow> char" where
  "lower_char c = (let n = (of_char c :: nat) in
     if (65 \<le> n \<and> n \<le> 90) \<or> (192 \<le> n \<and> n \<le> 222 \<and> n \<noteq> 215) then char_of (n + 32) else c)"

definition py_lower :: "string \<Rightarrow> string" where
  "py_lower s = map lower_char s"

definition starts :: "string \<Rightarrow> string \<Rightarrow> bool" where
  "starts p s \<longleftrightarrow> take (length p) s = p"

definition ends :: "string \<Rightarrow> string \<Rightarrow> bool" where
  "ends p s \<longleftrightarrow> length p \<le> length s \<and> drop (length s - length p) s = p"

text \<open>Some suffix of the text satisfies the test: \<open>re.search\<close>, and \<open>in\<close> on strings.\<close>

fun some_suffix :: "(string \<Rightarrow> bool) \<Rightarrow> string \<Rightarrow> bool" where
  "some_suffix P [] = P []"
| "some_suffix P (c # cs) = (P (c # cs) \<or> some_suffix P cs)"

definition contains :: "string \<Rightarrow> string \<Rightarrow> bool" where
  "contains p s = some_suffix (starts p) s"

definition normalize_key :: "string \<Rightarrow> string" where
  "normalize_key k = map (\<lambda>c. if c = CHR ''-'' then CHR ''_'' else c) (py_lower (py_strip k))"

section \<open>Secret keys\<close>

definition redact_keys :: "string list" where
  "redact_keys = [''password'', ''username'', ''user'', ''authorization'', ''cookie'', ''set-cookie'',
     ''serial'', ''servicetag'', ''service_tag'', ''mac'', ''macaddr'', ''mac_address'', ''session'',
     ''session_cookie'', ''token'', ''secret'', ''challenge'', ''realm'', ''x-ndm-challenge'',
     ''x-ndm-realm'', ''www-authenticate'', ''ha1'', ''hostname'', ''domain'']"

definition secret_key_fragments :: "string list" where
  "secret_key_fragments = [''passphrase'', ''preshared'', ''pre_shared'', ''private_key'',
     ''privatekey'', ''psk'', ''wpa_psk'', ''sae'', ''authentication_sae'', ''obfs_key'', ''obfskey'']"

definition redact_key :: "string \<Rightarrow> bool" where
  "redact_key key =
     (let normalized = normalize_key key in
      if normalized = ''credential_ref_id'' \<or> ends ''_credential_ref_id'' normalized then False
      else normalized \<in> set (map (map (\<lambda>c. if c = CHR ''-'' then CHR ''_'' else c)) redact_keys)
        \<or> contains ''password'' normalized \<or> contains ''secret'' normalized
        \<or> contains ''challenge'' normalized \<or> contains ''realm'' normalized
        \<or> contains ''token'' normalized
        \<or> list_ex (\<lambda>fragment. contains fragment normalized) secret_key_fragments)"

section \<open>Hardware addresses and serial numbers\<close>

definition is_hex :: "char \<Rightarrow> bool" where
  "is_hex c = (hex_value c \<noteq> None)"

fun hex_pairs :: "nat \<Rightarrow> string \<Rightarrow> bool" where
  "hex_pairs 0 s = True"
| "hex_pairs (Suc n) (x # a # b # s) = (x = CHR '':'' \<and> is_hex a \<and> is_hex b \<and> hex_pairs n s)"
| "hex_pairs (Suc n) s = False"

text \<open>The three alternatives of \<open>_SERIAL_MAC_PATTERN\<close> at one position.\<close>

definition mac_at :: "string \<Rightarrow> bool" where
  "mac_at s = (case s of a # b # r \<Rightarrow> is_hex a \<and> is_hex b \<and> hex_pairs 5 r | _ \<Rightarrow> False)"

definition hex_run_at :: "string \<Rightarrow> bool" where
  "hex_run_at s = (12 \<le> length s \<and> list_all is_hex (take 12 s))"

definition serial_at :: "string \<Rightarrow> bool" where
  "serial_at s = (let l = py_lower s in
     starts ''serial'' l \<and>
     (let r = drop 6 l in
      starts ''redacted'' r \<or> starts ''_redacted'' r \<or> starts ''-redacted'' r))"

definition serial_mac_pattern :: "string \<Rightarrow> bool" where
  "serial_mac_pattern s = some_suffix (\<lambda>r. mac_at r \<or> hex_run_at r \<or> serial_at r) s"

section \<open>The sanitiser\<close>

definition public_key_name :: "string option \<Rightarrow> bool" where
  "public_key_name parent_key = (case parent_key of
     None \<Rightarrow> False
   | Some k \<Rightarrow> ends ''public_key'' (normalize_key k)
       \<or> normalize_key k \<in> set [''public_key'', ''peer_public_key''])"

definition sanitize_text :: "string \<Rightarrow> string option \<Rightarrow> string" where
  "sanitize_text value parent_key =
     (if starts ''sha256:'' value \<or> starts ''digest:'' value then value
      else if public_key_name parent_key then value
      else if serial_mac_pattern value then ''REDACTED''
      else value)"

primrec sanitize_value :: "json \<Rightarrow> string option \<Rightarrow> json" where
  "sanitize_value JNull = (\<lambda>parent_key. JNull)"
| "sanitize_value (JBool b) = (\<lambda>parent_key. JBool b)"
| "sanitize_value (JInt i) = (\<lambda>parent_key. JInt i)"
| "sanitize_value (JStr s) = (\<lambda>parent_key. JStr (sanitize_text s parent_key))"
| "sanitize_value (JArr xs) = (\<lambda>parent_key. JArr (map (\<lambda>item. item parent_key) (map sanitize_value xs)))"
| "sanitize_value (JObj kvs) = (\<lambda>parent_key. JObj
     (map (\<lambda>(key, value). (key, if redact_key key then JStr ''REDACTED'' else value (Some key)))
       (map (map_prod id sanitize_value) kvs)))"

definition sanitize_mapping :: "(string \<times> json) list \<Rightarrow> (string \<times> json) list" where
  "sanitize_mapping mapping =
     map (\<lambda>(key, value).
       (key, if redact_key key then JStr ''REDACTED'' else sanitize_value value (Some key))) mapping"

lemma sanitize_value_Obj [simp]:
  "sanitize_value (JObj kvs) parent_key = JObj (sanitize_mapping kvs)"
  by (auto simp: sanitize_mapping_def)

lemma sanitize_value_Arr [simp]:
  "sanitize_value (JArr xs) parent_key = JArr (map (\<lambda>x. sanitize_value x parent_key) xs)"
  by simp

declare sanitize_value.simps(5,6) [simp del]

section \<open>Nested command bodies\<close>

definition nested_secret_keys :: "string list" where
  "nested_secret_keys = [''preshared_key'', ''private_key'', ''privatekey'', ''psk'', ''passphrase'',
     ''password'', ''pre_shared_key'', ''wpa_psk'']"

definition nested_secret :: "string \<Rightarrow> bool" where
  "nested_secret key = (normalize_key key \<in> set nested_secret_keys)"

primrec redact_walk :: "json \<Rightarrow> json" where
  "redact_walk JNull = JNull"
| "redact_walk (JBool b) = JBool b"
| "redact_walk (JInt i) = JInt i"
| "redact_walk (JStr s) = JStr s"
| "redact_walk (JArr xs) = JArr (map redact_walk xs)"
| "redact_walk (JObj kvs) = JObj
     (map (\<lambda>(key, value). (key, if nested_secret key then JStr ''REDACTED'' else value))
       (map (map_prod id redact_walk) kvs))"

text \<open>The body is copied through its text, so the caller's object is never changed.\<close>

definition redact_sealed_nested_body :: "(string \<times> json) list \<Rightarrow> json res" where
  "redact_sealed_nested_body body =
     rbind (loads (write_json '', '' '': '' (JObj body))) (\<lambda>result. Inr (redact_walk result))"

section \<open>Terminal artefacts\<close>

definition erase_suffix :: string where
  "erase_suffix = [CHR 0x1B, CHR ''['', CHR ''K'']"

fun crlf_to_lf :: "string \<Rightarrow> string" where
  "crlf_to_lf [] = []"
| "crlf_to_lf [c] = [c]"
| "crlf_to_lf (c # d # s) =
     (if c = CHR 0x0D \<and> d = CHR 0x0A then CHR 0x0A # crlf_to_lf s else c # crlf_to_lf (d # s))"

fun split_lines :: "string \<Rightarrow> string list" where
  "split_lines [] = [[]]"
| "split_lines (c # s) =
     (if c = CHR 0x0A then [] # split_lines s
      else case split_lines s of l # ls \<Rightarrow> (c # l) # ls | [] \<Rightarrow> [[c]])"

text \<open>The loop that removes the suffix as long as the line ends with it.\<close>

function strip_erase :: "string \<Rightarrow> string" where
  "strip_erase line =
     (if ends erase_suffix line then strip_erase (take (length line - 3) line) else line)"
  by auto
termination
  by (relation "measure length") (auto simp: ends_def erase_suffix_def)

declare strip_erase.simps [simp del]

definition strip_line :: "string \<Rightarrow> string" where
  "strip_line line = strip_erase (if ends [CHR 0x0D] line then butlast line else line)"

definition strip_ssh_cli_ansi_artifacts :: "string \<Rightarrow> string" where
  "strip_ssh_cli_ansi_artifacts text =
     (if text = [] then text
      else join_with [CHR 0x0A] (map strip_line (split_lines (crlf_to_lf text))))"

section \<open>What a redacted document contains\<close>

text \<open>A redaction: its results are clean, and it does not touch a clean document.\<close>

locale redaction =
  fixes redact :: "'d \<Rightarrow> 'd"
    and clean :: "'d \<Rightarrow> bool"
  assumes redact_clean: "clean (redact d)"
    and clean_fixed: "clean d \<Longrightarrow> redact d = d"
begin

lemma redact_twice: "redact (redact d) = redact d"
  by (rule clean_fixed) (rule redact_clean)

lemma fixed_iff_clean: "redact d = d \<longleftrightarrow> clean d"
  using redact_clean clean_fixed by metis

end

text \<open>The members of all dictionaries inside a document, and its strings with the key above them.\<close>

primrec members :: "json \<Rightarrow> (string \<times> json) list" where
  "members JNull = []"
| "members (JBool b) = []"
| "members (JInt i) = []"
| "members (JStr s) = []"
| "members (JArr xs) = concat (map members xs)"
| "members (JObj kvs) = kvs @ concat (map snd (map (map_prod id members) kvs))"

primrec texts :: "json \<Rightarrow> string option \<Rightarrow> (string option \<times> string) list" where
  "texts JNull = (\<lambda>p. [])"
| "texts (JBool b) = (\<lambda>p. [])"
| "texts (JInt i) = (\<lambda>p. [])"
| "texts (JStr s) = (\<lambda>p. [(p, s)])"
| "texts (JArr xs) = (\<lambda>p. concat (map (\<lambda>t. t p) (map texts xs)))"
| "texts (JObj kvs) = (\<lambda>p. concat (map (\<lambda>(k, t). t (Some k)) (map (map_prod id texts) kvs)))"

definition keeps_secret :: "(string \<Rightarrow> bool) \<Rightarrow> json \<Rightarrow> bool" where
  "keeps_secret secret j \<longleftrightarrow>
     (\<forall>(k, v) \<in> set (members j). secret k \<longrightarrow> v = JStr ''REDACTED'')"

definition text_allowed :: "string option \<Rightarrow> string \<Rightarrow> bool" where
  "text_allowed p s \<longleftrightarrow> starts ''sha256:'' s \<or> starts ''digest:'' s \<or> public_key_name p \<or>
     \<not> serial_mac_pattern s"

definition sanitized :: "json \<Rightarrow> string option \<Rightarrow> bool" where
  "sanitized j p \<longleftrightarrow> keeps_secret redact_key j \<and> (\<forall>(q, s) \<in> set (texts j p). text_allowed q s)"

lemma members_Obj:
  "m \<in> set (members (JObj kvs)) \<longleftrightarrow>
     m \<in> set kvs \<or> (\<exists>k v. (k, v) \<in> set kvs \<and> m \<in> set (members v))"
  by (force simp: image_iff)

lemma keeps_secret_simps [simp]:
  "keeps_secret secret JNull" "keeps_secret secret (JBool b)" "keeps_secret secret (JInt i)"
  "keeps_secret secret (JStr s)"
  "keeps_secret secret (JArr xs) \<longleftrightarrow> (\<forall>x \<in> set xs. keeps_secret secret x)"
  "keeps_secret secret (JObj kvs) \<longleftrightarrow>
     (\<forall>(k, v) \<in> set kvs. (secret k \<longrightarrow> v = JStr ''REDACTED'') \<and> keeps_secret secret v)"
  by (auto simp: keeps_secret_def members_Obj simp del: members.simps(6)) fastforce+

lemma sanitized_simps [simp]:
  "sanitized JNull p" "sanitized (JBool b) p" "sanitized (JInt i) p"
  "sanitized (JStr s) p \<longleftrightarrow> text_allowed p s"
  "sanitized (JArr xs) p \<longleftrightarrow> (\<forall>x \<in> set xs. sanitized x p)"
  "sanitized (JObj kvs) p \<longleftrightarrow>
     (\<forall>(k, v) \<in> set kvs. (redact_key k \<longrightarrow> v = JStr ''REDACTED'') \<and> sanitized v (Some k))"
  by (auto simp: sanitized_def split: prod.splits)

lemma redacted_allowed [simp]: "text_allowed p ''REDACTED''"
proof -
  have "\<not> serial_mac_pattern ''REDACTED''" by code_simp
  then show ?thesis by (simp add: text_allowed_def)
qed

lemma sanitize_text_allowed: "text_allowed p (sanitize_text s p)"
  using redacted_allowed [of p] by (auto simp: sanitize_text_def) (auto simp: text_allowed_def)

lemma sanitize_text_fixed: "text_allowed p s \<Longrightarrow> sanitize_text s p = s"
  by (auto simp: sanitize_text_def text_allowed_def)

lemma sanitize_value_clean: "sanitized (sanitize_value j p) p"
  by (induction j arbitrary: p) (fastforce simp: sanitize_text_allowed sanitize_mapping_def)+

lemma sanitize_value_fixed: "sanitized j p \<Longrightarrow> sanitize_value j p = j"
proof (induction j arbitrary: p)
  case (JObj kvs)
  have "(case kv of (k, v) \<Rightarrow> (k, if redact_key k then JStr ''REDACTED'' else sanitize_value v (Some k))) = kv"
    if "kv \<in> set kvs" for kv
    using JObj that by (cases kv) fastforce
  then show ?case by (simp add: sanitize_mapping_def map_idI)
qed (auto simp: sanitize_text_fixed map_idI)

interpretation sanitiser: redaction
  "\<lambda>m. sanitize_mapping m" "\<lambda>m. sanitized (JObj m) None"
proof
  show "sanitized (JObj (sanitize_mapping d)) None" for d
    using sanitize_value_clean [of "JObj d" None] by simp
  show "sanitize_mapping d = d" if "sanitized (JObj d) None" for d
    using sanitize_value_fixed [OF that] by simp
qed

lemma redact_walk_clean: "keeps_secret nested_secret (redact_walk j)"
  by (induction j) fastforce+

lemma redact_walk_fixed: "keeps_secret nested_secret j \<Longrightarrow> redact_walk j = j"
proof (induction j)
  case (JObj kvs)
  have "(case map_prod id redact_walk kv of (k, v) \<Rightarrow> (k, if nested_secret k then JStr ''REDACTED'' else v)) = kv"
    if "kv \<in> set kvs" for kv
    using JObj that by (cases kv) fastforce
  then show ?case by (simp add: map_idI)
qed (auto simp: map_idI)

interpretation body_walk: redaction redact_walk "keeps_secret nested_secret"
  by unfold_locales (simp_all add: redact_walk_clean redact_walk_fixed)

lemma map_fst_sanitize: "map fst (sanitize_mapping m) = map fst m"
  by (auto simp: sanitize_mapping_def)

text \<open>
  C29: Sanitised mappings hold no secrets. After \<open>sanitize_mapping\<close>, every member of every
  dictionary at any depth whose key names a secret has the value \<open>REDACTED\<close>, no string that matches
  the pattern of serial numbers and hardware addresses is left except digests and public keys, the
  top-level keys are kept, and sanitising again changes nothing.
\<close>

theorem sanitize_mapping_no_secrets:
  "sanitized (JObj (sanitize_mapping m)) None \<and> map fst (sanitize_mapping m) = map fst m \<and>
   sanitize_mapping (sanitize_mapping m) = sanitize_mapping m"
  using sanitiser.redact_clean sanitiser.redact_twice map_fst_sanitize by blast

text \<open>
  Nested command bodies. For a body whose dictionaries have distinct keys the copy through
  \<open>json.dumps\<close> and \<open>json.loads\<close> never fails, every pre-shared key, private key, passphrase and
  password at any depth is replaced by \<open>REDACTED\<close>, and a body that holds none is returned unchanged.
\<close>

theorem nested_body_redacted:
  assumes "wf_json (JObj body)"
  shows "\<exists>r. redact_sealed_nested_body body = Inr r \<and> keeps_secret nested_secret r \<and>
    (r = JObj body \<longleftrightarrow> keeps_secret nested_secret (JObj body))"
proof -
  have "redact_sealed_nested_body body = Inr (redact_walk (JObj body))"
    using loads_write [of "'', ''" "'': ''" "JObj body"] assms
    by (simp add: redact_sealed_nested_body_def sep_ok_def json_space_def del: wf_json.simps)
  then show ?thesis
    using body_walk.redact_clean [of "JObj body"] body_walk.fixed_iff_clean [of "JObj body"] by blast
qed

section \<open>Lines without artefacts\<close>

lemma split_lines_no_newline: "l \<in> set (split_lines s) \<Longrightarrow> CHR 0x0A \<notin> set l"
  by (induction s arbitrary: l rule: split_lines.induct) (auto split: list.splits if_splits)

lemma split_lines_line: "CHR 0x0A \<notin> set l \<Longrightarrow> split_lines l = [l]"
  by (induction l) auto

lemma split_lines_append:
  "CHR 0x0A \<notin> set l \<Longrightarrow> split_lines (l @ CHR 0x0A # s) = l # split_lines s"
  by (induction l) auto

lemma split_join:
  assumes "ls \<noteq> []" and "\<forall>l \<in> set ls. CHR 0x0A \<notin> set l"
  shows "split_lines (join_with [CHR 0x0A] ls) = ls"
  using assms by (induction "[CHR 0x0A]" ls rule: join_with.induct) (auto simp: split_lines_line split_lines_append)

lemma strip_erase_take: "\<exists>n. strip_erase l = take n l"
proof (induction l rule: strip_erase.induct)
  case (1 l)
  show ?case
  proof (cases "ends erase_suffix l")
    case True
    with 1 obtain n where "strip_erase (take (length l - 3) l) = take n (take (length l - 3) l)" by blast
    with True show ?thesis by (subst strip_erase.simps) auto
  qed (subst strip_erase.simps, auto intro: exI [of _ "length l"])
qed

lemma strip_erase_no_suffix: "\<not> ends erase_suffix (strip_erase l)"
  by (induction l rule: strip_erase.induct) (subst strip_erase.simps, simp)

lemma strip_line_take: "\<exists>n. strip_line l = take n l"
proof -
  obtain n where "strip_erase (if ends [CHR 0x0D] l then butlast l else l) =
      take n (if ends [CHR 0x0D] l then butlast l else l)" using strip_erase_take by blast
  then show ?thesis by (auto simp: strip_line_def butlast_conv_take)
qed

text \<open>
  Terminal artefacts. The lines of the cleaned text are, in order, prefixes of the lines of the
  text with normalised line ends, and none of them ends with the erase sequence any more.
\<close>

theorem strip_ssh_cli_lines:
  "list_all2 (\<lambda>l l'. (\<exists>n. l' = take n l) \<and> \<not> ends erase_suffix l')
     (split_lines (crlf_to_lf text)) (split_lines (strip_ssh_cli_ansi_artifacts text))"
proof (cases "text = []")
  case True
  then show ?thesis by (auto simp: strip_ssh_cli_ansi_artifacts_def ends_def erase_suffix_def)
next
  case False
  let ?ls = "split_lines (crlf_to_lf text)"
  have no_suffix: "\<not> ends erase_suffix (strip_line l)" for l
    by (simp add: strip_line_def strip_erase_no_suffix)
  have ne: "?ls \<noteq> []" by (cases "crlf_to_lf text") (auto split: list.splits)
  have "CHR 0x0A \<notin> set (strip_line l)" if "l \<in> set ?ls" for l
    using split_lines_no_newline [OF that] strip_line_take [of l] set_take_subset by fastforce
  then have "split_lines (strip_ssh_cli_ansi_artifacts text) = map strip_line ?ls"
    using False ne by (simp add: strip_ssh_cli_ansi_artifacts_def split_join)
  then show ?thesis
    using strip_line_take no_suffix by (auto simp: list.rel_map intro: list.rel_refl_strong)
qed

text \<open>A WireGuard peer body and a probe reply.\<close>

definition demo_body :: "(string \<times> json) list" where
  "demo_body = [(''peer'', JArr [JObj [(''Preshared-Key'', JStr ''abc''), (''public-key'', JStr ''xyz'')]])]"

theorem nested_body_redacted_witness:
  "\<exists>r. redact_sealed_nested_body demo_body = Inr r \<and> keeps_secret nested_secret r \<and> r \<noteq> JObj demo_body"
proof -
  have "wf_json (JObj demo_body)" by (simp add: demo_body_def)
  moreover have "nested_secret ''Preshared-Key''" by code_simp
  then have "\<not> keeps_secret nested_secret (JObj demo_body)" by (simp add: demo_body_def)
  ultimately show ?thesis using nested_body_redacted [of demo_body] by blast
qed

end
