(* ===== verification/Trail_Documents.thy ===== *)
theory Trail_Documents
  imports Sanitize "HOL-Library.Multiset"
begin

text \<open>
  The JSON documents the durable trail is made of: the safety payload kept in the reboot marker
  (\<open>persistence/store.py\<close>), and the checkpoint, evidence, baseline, outcome and audit documents of
  sealed applies with their size limits (\<open>application/recovery.py\<close>, \<open>persistence/store.py\<close>).

  Two helpers of the source are arguments: \<open>scrub\<close> is \<open>scrub_error_message\<close> and \<open>redact_ack\<close> is
  \<open>redact_sealed_apply_device_ack\<close>, both built on regular expressions that are not modelled; every
  statement below holds for whatever they return.
\<close>

section \<open>Dictionaries\<close>

definition dict_update :: "(string \<times> 'v) list \<Rightarrow> (string \<times> 'v) list \<Rightarrow> (string \<times> 'v) list" where
  "dict_update d upd = foldl (\<lambda>d (k, v). dict_put d k v) d upd"

definition dict_del :: "(string \<times> 'v) list \<Rightarrow> string \<Rightarrow> (string \<times> 'v) list" where
  "dict_del d k = filter (\<lambda>kv. fst kv \<noteq> k) d"

definition has_key :: "(string \<times> 'v) list \<Rightarrow> string \<Rightarrow> bool" where
  "has_key d k = (k \<in> fst ` set d)"

text \<open>\<open>if value is not None: d[k] = value\<close>.\<close>

definition put_some :: "string \<Rightarrow> 'v option \<Rightarrow> (string \<times> 'v) list \<Rightarrow> (string \<times> 'v) list" where
  "put_some k v d = (case v of None \<Rightarrow> d | Some x \<Rightarrow> dict_put d k x)"

section \<open>Safety payload\<close>

definition safety_payload_prefix :: string where
  "safety_payload_prefix = ''rc:safety:v1:''"

definition encode_safety_payload :: "(string \<times> json) list \<Rightarrow> string" where
  "encode_safety_payload payload = safety_payload_prefix @ dumps (JObj payload)"

definition decode_safety_payload :: "string option \<Rightarrow> (string \<times> json) list" where
  "decode_safety_payload reboot_marker = (case reboot_marker of
     None \<Rightarrow> []
   | Some marker \<Rightarrow>
       if marker = [] \<or> \<not> starts safety_payload_prefix marker then []
       else (case loads (drop (length safety_payload_prefix) marker) of
               Inr (JObj kvs) \<Rightarrow> kvs
             | _ \<Rightarrow> []))"

definition truthy_str :: "string option \<Rightarrow> bool" where
  "truthy_str s = (case s of None \<Rightarrow> False | Some t \<Rightarrow> t \<noteq> [])"

definition merge_safety_payload ::
  "string option \<Rightarrow> string option \<Rightarrow> (string \<times> json) list option \<Rightarrow> string option" where
  "merge_safety_payload existing_marker boot_marker payload_updates =
     (if payload_updates \<noteq> None \<and> the payload_updates \<noteq> [] then
        let merged = dict_update (decode_safety_payload existing_marker) (the payload_updates);
            merged = (if truthy_str boot_marker \<and> \<not> has_key merged ''baseline_observation''
                      then dict_put merged ''baseline_observation'' (JStr (the boot_marker)) else merged)
        in Some (encode_safety_payload merged)
      else if truthy_str boot_marker \<and>
        \<not> (truthy_str existing_marker \<and> starts safety_payload_prefix (the existing_marker))
      then boot_marker
      else existing_marker)"

section \<open>Bounded documents\<close>

definition truncation_mark :: string where
  "truncation_mark = ''...[truncated]''"

text \<open>Python's \<open>text[:n]\<close>, where a negative \<open>n\<close> counts from the end.\<close>

definition py_slice_to :: "int \<Rightarrow> string \<Rightarrow> string" where
  "py_slice_to n text = (if 0 \<le> n then take (nat n) text else take (length text - nat (- n)) text)"

definition checkpoint_payload ::
  "string \<Rightarrow> string option \<Rightarrow> string option \<Rightarrow> bool \<Rightarrow> bool \<Rightarrow> string list option \<Rightarrow> (string \<times> json) list" where
  "checkpoint_payload phase last_safe_step backup_artifact_id apply_dispatched fail_safe ops_dispatched =
     (let payload = [(''phase'', JStr phase), (''apply_dispatched'', JBool apply_dispatched),
                     (''fail_safe'', JBool fail_safe)];
          payload = (if truthy_str last_safe_step
                     then dict_put payload ''last_safe_step'' (JStr (the last_safe_step)) else payload);
          payload = (if truthy_str backup_artifact_id
                     then dict_put payload ''backup_artifact_id'' (JStr (the backup_artifact_id)) else payload)
      in (case ops_dispatched of
            Some (op # ops) \<Rightarrow> dict_put payload ''ops_dispatched_redacted'' (JArr (map JStr (op # ops)))
          | _ \<Rightarrow> payload))"

definition checkpoint_redacted ::
  "string \<Rightarrow> string option \<Rightarrow> string option \<Rightarrow> bool \<Rightarrow> bool \<Rightarrow> string list option \<Rightarrow> string" where
  "checkpoint_redacted phase last_safe_step backup_artifact_id apply_dispatched fail_safe ops_dispatched =
     write_json '', '' '': '' (sort_keys (JObj
       (checkpoint_payload phase last_safe_step backup_artifact_id apply_dispatched fail_safe ops_dispatched)))"

definition too_long :: "nat \<Rightarrow> (string \<times> json) list \<Rightarrow> bool" where
  "too_long max_bytes kvs = (max_bytes < length (dumps (JObj kvs)))"

text \<open>The loop that drops the two bulky members, one per round.\<close>

function trim_document :: "nat \<Rightarrow> (string \<times> json) list \<Rightarrow> (string \<times> json) list" where
  "trim_document max_bytes trimmed =
     (if \<not> too_long max_bytes trimmed then trimmed
      else if has_key trimmed ''observed_redacted''
      then trim_document max_bytes (dict_del trimmed ''observed_redacted'')
      else if has_key trimmed ''device_ack''
      then trim_document max_bytes (dict_del trimmed ''device_ack'')
      else dict_del trimmed ''truncated'')"
  by auto

lemma dict_del_shorter: "has_key d k \<Longrightarrow> length (dict_del d k) < length d"
  by (auto simp: dict_del_def has_key_def intro: length_filter_less)

termination trim_document by (relation "measure (\<lambda>(_, d). length d)") (auto intro: dict_del_shorter)

declare trim_document.simps [simp del]

definition bound_json_document :: "(string \<times> json) list \<Rightarrow> nat \<Rightarrow> string" where
  "bound_json_document payload max_bytes =
     (let text = dumps (JObj payload) in
      if length text \<le> max_bytes then text
      else
        let trimmed = trim_document max_bytes (dict_put payload ''truncated'' (JBool True));
            text = dumps (JObj trimmed)
        in if max_bytes < length text
           then py_slice_to (int max_bytes - int (length truncation_mark)) text @ truncation_mark
           else text)"

text \<open>\<open>json.loads(_bound_json_document(...))\<close>, the last step of the three functions below.\<close>

definition load_bounded :: "(string \<times> json) list \<Rightarrow> nat \<Rightarrow> json res" where
  "load_bounded payload max_bytes = loads (bound_json_document payload max_bytes)"

definition op_evidence_max_bytes :: nat where "op_evidence_max_bytes = 2048"
definition pre_apply_baseline_max_bytes :: nat where "pre_apply_baseline_max_bytes = 4096"
definition outcome_snapshot_max_bytes :: nat where "outcome_snapshot_max_bytes = 4096"
definition audit_summary_max_len :: nat where "audit_summary_max_len = 16384"

definition scrub_evidence_value :: "(string \<Rightarrow> string) \<Rightarrow> string \<Rightarrow> json \<Rightarrow> json" where
  "scrub_evidence_value scrub key value = (case value of
     JObj kvs \<Rightarrow> if key = ''device_ack'' then JObj (sanitize_mapping kvs) else value
   | JStr s \<Rightarrow> if key \<in> set [''error'', ''router_message''] then JStr (scrub s) else value
   | _ \<Rightarrow> value)"

definition redact_sealed_apply_op_evidence ::
  "(string \<Rightarrow> string) \<Rightarrow> (string \<times> json) list \<Rightarrow> json res" where
  "redact_sealed_apply_op_evidence scrub evidence =
     (let scrubbed = map (\<lambda>(key, value). (key, scrub_evidence_value scrub key value)) evidence in
      if \<not> too_long op_evidence_max_bytes scrubbed then Inr (JObj scrubbed)
      else load_bounded (dict_put (dict_del scrubbed ''device_ack'') ''truncated'' (JBool True))
             op_evidence_max_bytes)"

text \<open>The step is its dictionary (\<open>to_dict()\<close> of the apply services).\<close>

definition build_sealed_apply_op_evidence ::
  "(string \<Rightarrow> string) \<Rightarrow> (string \<times> json) list \<Rightarrow> (string \<times> json) list option \<Rightarrow> json res" where
  "build_sealed_apply_op_evidence scrub step device_ack =
     redact_sealed_apply_op_evidence scrub (put_some ''device_ack'' (map_option JObj device_ack) step)"

definition serialize_pre_apply_baseline_for_trail ::
  "('raw \<Rightarrow> (string \<times> json) list option) \<Rightarrow> (string \<times> json) list \<Rightarrow> (string \<times> json) list option \<Rightarrow> 'raw \<Rightarrow> json res" where
  "serialize_pre_apply_baseline_for_trail redact_ack pre_state observed raw =
     (let payload = [(''pre_state'', JObj pre_state)];
          payload = put_some ''observed_redacted'' (map_option (\<lambda>m. JObj (sanitize_mapping m)) observed) payload;
          payload = put_some ''device_read_redacted'' (map_option JObj (redact_ack raw)) payload
      in load_bounded payload pre_apply_baseline_max_bytes)"

definition build_sealed_apply_outcome_snapshot ::
  "(string \<Rightarrow> string) \<Rightarrow> string \<Rightarrow> (string \<times> json) list option \<Rightarrow> string option \<Rightarrow> string option \<Rightarrow>
   (string \<times> json) list option \<Rightarrow> string list \<Rightarrow> json res" where
  "build_sealed_apply_outcome_snapshot scrub overall verdict_explanation on_air uplink rollback rollback_errors =
     (let payload = [(''overall'', JStr overall)];
          payload = put_some ''on_air_verification_status'' (map_option JStr on_air) payload;
          payload = put_some ''uplink_verification_status'' (map_option JStr uplink) payload;
          payload = put_some ''verdict_explanation'' (map_option JObj verdict_explanation) payload;
          payload = put_some ''rollback'' (map_option JObj rollback) payload;
          payload = (if rollback_errors = [] then payload
                     else dict_put payload ''rollback_errors''
                       (JArr (map (\<lambda>item. JStr (if scrub item = [] then ''[REDACTED:error_message]'' else scrub item))
                          rollback_errors)))
      in load_bounded payload outcome_snapshot_max_bytes)"

section \<open>Audit summary\<close>

definition redact_sealed_apply_audit_error_message :: "(string \<Rightarrow> string) \<Rightarrow> string option \<Rightarrow> string option" where
  "redact_sealed_apply_audit_error_message scrub message = (case message of
     None \<Rightarrow> None
   | Some m \<Rightarrow> if scrub m = [] then None else Some (take 500 (scrub m)))"

definition audit_result_body :: "(string \<times> json) list option \<Rightarrow> (string \<times> json) list \<Rightarrow> (string \<times> json) list" where
  "audit_result_body trail_snapshot result_payload =
     (if (case trail_snapshot of None \<Rightarrow> False | Some t \<Rightarrow> has_key t ''ops_evidence_redacted'')
      then foldl dict_del result_payload [''steps'', ''verdict_explanation'', ''rollback'',
             ''rollback_errors'', ''on_air_verification_status'', ''uplink_verification_status'']
      else result_payload)"

definition build_sealed_apply_audit_summary ::
  "(string \<Rightarrow> string) \<Rightarrow> string \<Rightarrow> string \<Rightarrow> (string \<times> json) list \<Rightarrow> (string \<times> json) list option \<Rightarrow>
   (string \<times> json) list option \<Rightarrow> string option \<Rightarrow> string option \<Rightarrow> (string \<times> json) list option \<Rightarrow> string" where
  "build_sealed_apply_audit_summary scrub route verb intent result_payload outcome_snapshot
       error_message exception_type trail_snapshot =
     (let summary = [(''route'', JStr route), (''verb'', JStr verb), (''intent'', JObj intent)];
          summary = put_some ''outcome'' (map_option JObj outcome_snapshot) summary;
          summary = put_some ''trail'' (map_option JObj trail_snapshot) summary;
          summary = put_some ''result''
            (map_option (\<lambda>r. JObj (audit_result_body trail_snapshot r)) result_payload) summary;
          summary = put_some ''error_message''
            (map_option JStr (redact_sealed_apply_audit_error_message scrub error_message)) summary;
          summary = put_some ''exception_type'' (map_option JStr exception_type) summary;
          text = dumps (JObj summary)
      in if audit_summary_max_len < length text
         then take audit_summary_max_len text @ truncation_mark else text)"

section \<open>Dictionary laws\<close>

lemma map_of_dict_put [simp]: "map_of (dict_put d k v) = (map_of d)(k \<mapsto> v)"
  by (induction d) auto

lemma keys_dict_put [simp]: "fst ` set (dict_put d k v) = insert k (fst ` set d)"
  by (induction d k v rule: dict_put.induct) (simp_all add: insert_commute)

lemma distinct_dict_put: "distinct (map fst d) \<Longrightarrow> distinct (map fst (dict_put d k v))"
  by (induction d k v rule: dict_put.induct) (simp_all, blast)

lemma set_dict_put: "set (dict_put d k v) \<subseteq> insert (k, v) (set d)"
  by (induction d k v rule: dict_put.induct) auto

lemma wf_Obj: "wf_json (JObj d) \<longleftrightarrow> distinct (map fst d) \<and> (\<forall>(k, v) \<in> set d. wf_json v)"
  by (auto simp: list_all_iff)

lemma wf_dict_put: "wf_json (JObj d) \<Longrightarrow> wf_json v \<Longrightarrow> wf_json (JObj (dict_put d k v))"
  unfolding wf_Obj using set_dict_put [of d k v] distinct_dict_put by fastforce

lemma wf_dict_update: "wf_json (JObj d) \<Longrightarrow> wf_json (JObj u) \<Longrightarrow> wf_json (JObj (dict_update d u))"
proof -
  have "wf_json (JObj (dict_update d u))" if "wf_json (JObj d)" "\<forall>(k, v) \<in> set u. wf_json v"
    using that by (induction u arbitrary: d) (auto simp: dict_update_def wf_dict_put simp del: wf_json.simps)
  then show "wf_json (JObj d) \<Longrightarrow> wf_json (JObj u) \<Longrightarrow> ?thesis" unfolding wf_Obj by blast
qed

lemma wf_dict_del: "wf_json (JObj d) \<Longrightarrow> wf_json (JObj (dict_del d k))"
  unfolding wf_Obj dict_del_def by (auto intro: distinct_map_filter)

lemma map_of_dict_update:
  "distinct (map fst u) \<Longrightarrow> map_of (dict_update d u) k = (case map_of u k of Some v \<Rightarrow> Some v | None \<Rightarrow> map_of d k)"
proof (induction u arbitrary: d)
  case (Cons kv u)
  then show ?case
    by (cases kv) (auto simp: dict_update_def image_iff split: option.splits dest!: map_of_SomeD)
qed (simp add: dict_update_def)

lemma dict_of_distinct_keys: "distinct (map fst (dict_of kvs))"
proof -
  have "distinct (map fst (foldl (\<lambda>d (k, v). dict_put d k v) d kvs))" if "distinct (map fst d)" for d
    using that by (induction kvs arbitrary: d) (auto simp: distinct_dict_put)
  then show ?thesis by (simp add: dict_of_def)
qed

lemma set_dict_of: "set (dict_of kvs) \<subseteq> set kvs"
proof -
  have "set (foldl (\<lambda>d (k, v). dict_put d k v) d kvs) \<subseteq> set d \<union> set kvs" for d
  proof (induction kvs arbitrary: d)
    case (Cons kv kvs)
    show ?case using Cons [of "dict_put d (fst kv) (snd kv)"] set_dict_put [of d "fst kv" "snd kv"]
      by (cases kv) auto
  qed simp
  then show ?thesis by (force simp: dict_of_def)
qed

text \<open>What \<open>json.loads\<close> returns has distinct keys everywhere.\<close>

lemma read_scalar_wf: "read_scalar s = Some (v, r) \<Longrightarrow> wf_json v"
  by (auto simp: read_scalar_def read_word_def read_number_def split: list.splits if_splits option.splits prod.splits)

lemma parse_wf:
  "(parse_value n s = Some (v, r) \<longrightarrow> wf_json v) \<and>
   (parse_items n s = Some (vs, r) \<longrightarrow> (\<forall>x \<in> set vs. wf_json x)) \<and>
   (parse_members n s = Some (kvs, r) \<longrightarrow> (\<forall>(k, x) \<in> set kvs. wf_json x))"
proof (induction n arbitrary: s v r vs kvs)
  case (Suc n)
  have obj: "wf_json (JObj (dict_of ms))" if "parse_members n t = Some (ms, u)" for t ms u
    unfolding wf_Obj using Suc.IH that dict_of_distinct_keys set_dict_of by fast
  have arr: "wf_json (JArr xs)" if "parse_items n t = Some (xs, u)" for t xs u
    using Suc.IH that by (auto simp: list_all_iff)
  have "wf_json v" if "parse_value (Suc n) s = Some (v, r)" for v r
    using that obj arr read_scalar_wf
    by (auto split: list.splits if_splits simp del: wf_json.simps(5,6)) simp_all
  then show ?case
    unfolding parse_items_Suc_Some parse_members_Suc_Some using Suc.IH by (auto simp del: parse_value.simps) blast+
qed simp

lemma loads_wf: "loads s = Inr v \<Longrightarrow> wf_json v"
  using parse_wf by (auto simp: loads_def simp del: parse_value.simps split: option.splits if_splits)

lemma decode_wf: "wf_json (JObj (decode_safety_payload m))"
  using loads_wf by (auto simp: decode_safety_payload_def split: option.splits sum.splits json.splits
      simp del: wf_json.simps) simp_all

section \<open>Lengths of documents\<close>

lemma sort_keys_twice [simp]: "sort_keys (sort_keys j) = sort_keys j"
proof (induction j)
  case (JObj kvs)
  let ?f = "map_prod id sort_keys :: string \<times> json \<Rightarrow> string \<times> json"
  let ?s = "sort_key fst (map ?f kvs)"
  have "?f kv = kv" if "kv \<in> set ?s" for kv
    using JObj that by (auto simp: map_prod_def)
  then have "map ?f ?s = ?s" by (rule map_idI)
  then show ?case by (simp add: sort_key_id_if_sorted [OF sorted_sort_key])
qed simp_all

lemma dumps_sort_keys [simp]: "dumps (sort_keys j) = dumps j"
  by (simp add: dumps_def)

lemma length_join: "length (join_with [c] xs) = sum_list (map length xs) + (length xs - 1)"
  by (induction "[c]" xs rule: join_with.induct) auto

definition item_length :: "string \<times> json \<Rightarrow> nat" where
  "item_length kv = length (write_string (fst kv)) + 1 + length (dumps (snd kv))"

lemma sum_list_map_sort: "sum_list (map (h :: _ \<Rightarrow> nat) (sort_key g xs)) = sum_list (map h xs)"
  by (simp flip: sum_mset_sum_list)

lemma length_dumps_Obj:
  "length (dumps (JObj kvs)) = sum_list (map item_length kvs) + (length kvs - 1) + 2"
proof -
  let ?f = "map_prod id sort_keys :: string \<times> json \<Rightarrow> string \<times> json"
  let ?g = "\<lambda>kv. length (write_string (fst kv)) + 1 + length (write_json '','' '':'' (snd kv))"
  have "sum_list (map ?g (sort_key fst (map ?f kvs))) = sum_list (map ?g (map ?f kvs))"
    by (rule sum_list_map_sort)
  moreover have "map (length \<circ> json_item '','' '':'') kvs' = map ?g kvs'" for kvs' by simp
  moreover have "item_length = (\<lambda>kv. ?g (?f kv))" by (auto simp: item_length_def dumps_def)
  ultimately show ?thesis
    by (simp add: dumps_def write_obj length_join comp_def del: write_json.simps)
qed

lemma too_long_dict_del: "too_long n (dict_del d k) \<Longrightarrow> too_long n d"
proof -
  have "sum_list (map item_length (dict_del d k)) \<le> sum_list (map item_length d)"
    unfolding dict_del_def by (rule sum_list_filter_le_nat)
  moreover have "length (dict_del d k) \<le> length d" by (simp add: dict_del_def)
  ultimately show "too_long n (dict_del d k) \<Longrightarrow> too_long n d"
    by (simp add: too_long_def length_dumps_Obj)
qed

text \<open>What is left when everything that may be dropped is dropped.\<close>

definition document_core :: "(string \<times> json) list \<Rightarrow> (string \<times> json) list" where
  "document_core d = dict_del (dict_del (dict_del d ''observed_redacted'') ''device_ack'') ''truncated''"

lemma dict_del_put: "dict_del (dict_put d k v) k = dict_del d k"
  by (induction d k v rule: dict_put.induct) (auto simp: dict_del_def)

lemma dict_del_absent: "\<not> has_key d k \<Longrightarrow> dict_del d k = d"
  by (auto simp: dict_del_def has_key_def filter_id_conv)

lemma dict_del_commute: "dict_del (dict_del d a) b = dict_del (dict_del d b) a"
  by (auto simp: dict_del_def intro: filter_cong)

lemma dict_del_twice: "dict_del (dict_del d a) a = dict_del d a"
  by (simp add: dict_del_def)

lemma document_core_simps:
  "document_core (dict_del d ''observed_redacted'') = document_core d"
  "document_core (dict_del d ''device_ack'') = document_core d"
  "document_core (dict_put d ''truncated'' v) = document_core d"
  unfolding document_core_def
  by (metis dict_del_commute dict_del_twice dict_del_put)+

lemma too_long_core: "too_long n (document_core d) \<Longrightarrow> too_long n d"
  unfolding document_core_def by (blast dest: too_long_dict_del)

lemma too_long_trim: "too_long n (trim_document n d) \<longleftrightarrow> too_long n (document_core d)"
proof (induction n d rule: trim_document.induct)
  case (1 n d)
  show ?case
  proof (cases "too_long n d")
    case True
    consider "has_key d ''observed_redacted''" | "\<not> has_key d ''observed_redacted''" "has_key d ''device_ack''"
      | "\<not> has_key d ''observed_redacted''" "\<not> has_key d ''device_ack''" by blast
    then show ?thesis
      by cases (use True 1 in \<open>simp_all add: trim_document.simps [of n d] document_core_simps\<close>,
        simp add: document_core_def dict_del_absent)
  next
    case False
    then show ?thesis using too_long_core by (auto simp: trim_document.simps)
  qed
qed

lemma wf_trim: "wf_json (JObj d) \<Longrightarrow> wf_json (JObj (trim_document n d))"
  by (induction n d rule: trim_document.induct)
    (subst trim_document.simps, simp add: wf_dict_del del: wf_json.simps)

text \<open>A document that was cut is never accepted by \<open>json.loads\<close>.\<close>

lemma loads_cut: "loads (CHR ''{'' # s @ truncation_mark) = Inl JSONDecodeError"
proof (cases "loads (CHR ''{'' # s @ truncation_mark)")
  case (Inl e)
  then show ?thesis
    unfolding loads_def by (auto simp del: parse_value.simps split: option.splits if_splits)
next
  case (Inr v)
  then obtain p w where w: "CHR ''{'' # s @ truncation_mark = p @ CHR ''}'' # w" "list_all json_space w"
    using loads_object_end by blast
  have "last (CHR ''{'' # s @ truncation_mark) = CHR '']''" by (simp add: truncation_mark_def)
  then have "last (CHR ''}'' # w) = CHR '']''" using w(1) by simp
  then have False using w(2) by (cases w rule: rev_cases) (auto simp: json_space_def)
  then show ?thesis ..
qed

lemma dumps_Obj_first: "\<exists>s. dumps (JObj d) = CHR ''{'' # s"
  by (simp add: dumps_def)

lemma load_bounded_eq:
  assumes "wf_json (JObj p)" and "14 < n"
  shows "load_bounded p n =
    (if too_long n (document_core p) then Inl JSONDecodeError
     else Inr (sort_keys (JObj (if too_long n p then trim_document n (dict_put p ''truncated'' (JBool True)) else p))))"
proof -
  let ?t = "trim_document n (dict_put p ''truncated'' (JBool True))"
  have wf: "wf_json (JObj ?t)" by (intro wf_trim wf_dict_put assms(1)) simp
  have cut: "too_long n ?t \<longleftrightarrow> too_long n (document_core p)" by (simp add: too_long_trim document_core_simps)
  obtain s where s: "dumps (JObj ?t) = CHR ''{'' # s" using dumps_Obj_first by blast
  have "loads (take (n - 14) (dumps (JObj ?t)) @ truncation_mark) = Inl JSONDecodeError"
    using assms(2) loads_cut by (cases "n - 14") (auto simp: s)
  moreover have "nat (int n - int (length truncation_mark)) = n - 14" by (simp add: truncation_mark_def nat_diff_distrib)
  ultimately show ?thesis
    using loads_dumps [OF wf] loads_dumps [OF assms(1)] cut too_long_core [of n p] assms(2)
    by (auto simp: load_bounded_def bound_json_document_def Let_def too_long_def py_slice_to_def not_less truncation_mark_def)
qed

lemma load_bounded_fits:
  assumes "wf_json (JObj p)" and "14 < n" and "load_bounded p n = Inr doc"
  shows "length (dumps doc) \<le> n"
proof -
  let ?d = "if too_long n p then trim_document n (dict_put p ''truncated'' (JBool True)) else p"
  have "doc = sort_keys (JObj ?d)" "\<not> too_long n (document_core p)"
    using assms(3) load_bounded_eq [OF assms(1,2)] by (auto split: if_splits)
  then have "\<not> too_long n ?d" by (simp add: too_long_trim document_core_simps)
  then show ?thesis using \<open>doc = _\<close> by (simp add: too_long_def del: sort_keys.simps)
qed

section \<open>Properties\<close>

text \<open>
  C30: Safety payload round trip. What \<open>encode_safety_payload\<close> writes into the reboot marker is read
  back by \<open>decode_safety_payload\<close> with the same fields and values (nested dictionaries with their
  members in key order).
\<close>

theorem safety_payload_roundtrip:
  assumes "wf_json (JObj payload)"
  shows "JObj (decode_safety_payload (Some (encode_safety_payload payload))) = sort_keys (JObj payload) \<and>
    map_of (decode_safety_payload (Some (encode_safety_payload payload))) k =
      map_option sort_keys (map_of payload k)"
proof -
  have "decode_safety_payload (Some (encode_safety_payload payload)) =
      sort_key fst (map (map_prod id sort_keys) payload)"
    using loads_dumps [OF assms]
    by (simp add: decode_safety_payload_def encode_safety_payload_def safety_payload_prefix_def starts_def)
  with assms show ?thesis using sort_keys_lookup [of payload] by (simp only: sort_keys.simps wf_Obj)
qed

lemma decode_encode_lookup:
  "wf_json (JObj d) \<Longrightarrow> map_of (decode_safety_payload (Some (encode_safety_payload d))) k =
     map_option sort_keys (map_of d k)"
proof -
  assume wf: "wf_json (JObj d)"
  then have "decode_safety_payload (Some (encode_safety_payload d)) =
      sort_key fst (map (map_prod id sort_keys) d)"
    using loads_dumps [OF wf]
    by (simp add: decode_safety_payload_def encode_safety_payload_def safety_payload_prefix_def starts_def)
  with wf show ?thesis using sort_keys_lookup [of d] by (simp only: wf_Obj)
qed

text \<open>
  C31: Merging updates. A merge with a non-empty update sets exactly the updated fields, keeps every
  other field of the marker, and records the boot marker as baseline observation only when neither
  the marker nor the update has one; nothing of a payload that was stored before is lost.
\<close>

theorem merge_safety_payload_keeps:
  assumes "wf_json (JObj upd)" and "upd \<noteq> []" and "merge_safety_payload existing boot (Some upd) = m"
  shows "map_of (decode_safety_payload m) k =
    (case map_of upd k of
       Some v \<Rightarrow> Some (sort_keys v)
     | None \<Rightarrow> (case map_of (decode_safety_payload existing) k of
         Some v \<Rightarrow> Some (sort_keys v)
       | None \<Rightarrow> if k = ''baseline_observation'' \<and> truthy_str boot then Some (JStr (the boot)) else None))"
proof -
  let ?u = "dict_update (decode_safety_payload existing) upd"
  have wf: "wf_json (JObj ?u)" using decode_wf assms(1) by (rule wf_dict_update)
  have u: "map_of ?u k = (case map_of upd k of Some v \<Rightarrow> Some v | None \<Rightarrow> map_of (decode_safety_payload existing) k)" for k
    using assms(1) unfolding wf_Obj by (simp add: map_of_dict_update)
  have has: "has_key ?u x \<longleftrightarrow> map_of ?u x \<noteq> None" for x
    by (simp add: has_key_def map_of_eq_None_iff)
  let ?m = "if truthy_str boot \<and> \<not> has_key ?u ''baseline_observation''
    then dict_put ?u ''baseline_observation'' (JStr (the boot)) else ?u"
  have "wf_json (JObj ?m)" using wf by (simp add: wf_dict_put del: wf_json.simps(6))
  from decode_encode_lookup [OF this] have "map_of (decode_safety_payload m) k = map_option sort_keys (map_of ?m k)"
    using assms(2,3) by (auto simp: merge_safety_payload_def Let_def)
  then show ?thesis by (auto simp: u has split: option.splits)
qed

text \<open>
  C34: Bounded documents. Whatever the payload, \<open>_bound_json_document\<close> ends and returns a text of at
  most \<open>max_bytes\<close> characters, provided the limit leaves room for the truncation mark.
\<close>

theorem bound_json_document_length:
  assumes "14 \<le> max_bytes"
  shows "length (bound_json_document payload max_bytes) \<le> max_bytes"
  using assms by (auto simp: bound_json_document_def Let_def py_slice_to_def truncation_mark_def)

text \<open>
  C32: Evidence of an operation. \<open>redact_sealed_apply_op_evidence\<close> returns a document of at most 2048
  characters, or raises: it raises \<open>JSONDecodeError\<close> exactly when the scrubbed evidence without the
  device acknowledgement and the observed state is still longer than that, because the cut text is
  handed to \<open>json.loads\<close>.
\<close>

theorem op_evidence_bounded_or_raises:
  assumes "wf_json (JObj (map (\<lambda>(k, v). (k, scrub_evidence_value scrub k v)) evidence))"
  shows "(case redact_sealed_apply_op_evidence scrub evidence of
       Inr doc \<Rightarrow> length (dumps doc) \<le> op_evidence_max_bytes \<and>
         \<not> too_long op_evidence_max_bytes
             (document_core (map (\<lambda>(k, v). (k, scrub_evidence_value scrub k v)) evidence))
     | Inl e \<Rightarrow> e = JSONDecodeError \<and>
         too_long op_evidence_max_bytes
           (document_core (map (\<lambda>(k, v). (k, scrub_evidence_value scrub k v)) evidence)))"
proof -
  let ?s = "map (\<lambda>(k, v). (k, scrub_evidence_value scrub k v)) evidence"
  let ?b = "dict_put (dict_del ?s ''device_ack'') ''truncated'' (JBool True)"
  have n: "14 < op_evidence_max_bytes" by (simp add: op_evidence_max_bytes_def)
  have wf: "wf_json (JObj ?b)" using assms by (intro wf_dict_put wf_dict_del) simp_all
  have core: "document_core ?b = document_core ?s" by (simp add: document_core_simps)
  show ?thesis
  proof (cases "too_long op_evidence_max_bytes ?s")
    case True
    then have "redact_sealed_apply_op_evidence scrub evidence = load_bounded ?b op_evidence_max_bytes"
      by (simp add: redact_sealed_apply_op_evidence_def Let_def)
    then show ?thesis
      using load_bounded_eq [OF wf n] load_bounded_fits [OF wf n] core by (auto split: sum.splits if_splits)
  next
    case False
    then have "redact_sealed_apply_op_evidence scrub evidence = Inr (JObj ?s)"
      by (simp add: redact_sealed_apply_op_evidence_def)
    moreover have "\<not> too_long op_evidence_max_bytes (document_core ?s)" using False too_long_core by blast
    ultimately show ?thesis using False by (simp add: too_long_def)
  qed
qed

lemma wf_sanitize_value: "wf_json j \<Longrightarrow> wf_json (sanitize_value j p)"
proof (induction j arbitrary: p)
  case (JObj kvs)
  have "wf_json (sanitize_value v (Some k))" if "(k, v) \<in> set kvs" for k v
    using JObj that unfolding wf_Obj by fastforce
  then show ?case
    using JObj.prems unfolding sanitize_value_Obj wf_Obj map_fst_sanitize
    by (auto simp: sanitize_mapping_def)
qed (auto simp: list_all_iff)

lemma wf_put_some: "wf_json (JObj d) \<Longrightarrow> pred_option wf_json v \<Longrightarrow> wf_json (JObj (put_some k v d))"
  by (cases v) (simp_all add: put_some_def wf_dict_put del: wf_json.simps(6))

text \<open>
  C33: Baseline of an apply. For well-formed inputs \<open>serialize_pre_apply_baseline_for_trail\<close> returns a
  document of at most 4096 characters, or raises: it raises \<open>JSONDecodeError\<close> exactly when the state
  before the apply together with the redacted device read, which are never dropped, is longer.
\<close>

theorem pre_apply_baseline_bounded_or_raises:
  assumes "wf_json (JObj pre_state)" and "pred_option (\<lambda>m. wf_json (JObj m)) observed"
    and "pred_option (\<lambda>m. wf_json (JObj m)) (redact_ack raw)"
  shows "case serialize_pre_apply_baseline_for_trail redact_ack pre_state observed raw of
      Inr doc \<Rightarrow> length (dumps doc) \<le> 4096 \<and>
        \<not> too_long 4096 (put_some ''device_read_redacted'' (map_option JObj (redact_ack raw))
            [(''pre_state'', JObj pre_state)])
    | Inl e \<Rightarrow> e = JSONDecodeError \<and>
        too_long 4096 (put_some ''device_read_redacted'' (map_option JObj (redact_ack raw))
            [(''pre_state'', JObj pre_state)])"
proof -
  let ?o = "map_option (\<lambda>m. JObj (sanitize_mapping m)) observed"
  let ?d = "map_option JObj (redact_ack raw)"
  let ?p = "put_some ''device_read_redacted'' ?d (put_some ''observed_redacted'' ?o [(''pre_state'', JObj pre_state)])"
  have "pred_option wf_json ?o" "pred_option wf_json ?d"
    using assms wf_sanitize_value [of "JObj _"] unfolding sanitize_value_Obj
    by (auto simp: option.pred_map comp_def elim!: option.pred_mono_strong)
  then have wf: "wf_json (JObj ?p)" using assms(1) by (intro wf_put_some) simp_all
  have core: "document_core ?p = put_some ''device_read_redacted'' ?d [(''pre_state'', JObj pre_state)]"
    by (cases observed; cases "redact_ack raw") (simp_all add: put_some_def document_core_def dict_del_def)
  have eq: "serialize_pre_apply_baseline_for_trail redact_ack pre_state observed raw = load_bounded ?p 4096"
    by (simp add: serialize_pre_apply_baseline_for_trail_def pre_apply_baseline_max_bytes_def)
  show ?thesis
    unfolding eq using load_bounded_eq [OF wf, of 4096] load_bounded_fits [OF wf, of 4096] core
    by (auto split: sum.splits if_splits)
qed

section \<open>Examples\<close>

definition demo_payload :: "(string \<times> json) list" where
  "demo_payload = [(''stage'', JStr ''armed''), (''baseline_observation'', JStr ''o1'')]"

lemma demo_payload_wf: "wf_json (JObj demo_payload)"
  by (simp add: demo_payload_def)

theorem safety_payload_roundtrip_witness:
  "map_of (decode_safety_payload (Some (encode_safety_payload demo_payload))) ''stage'' = Some (JStr ''armed'')"
  using safety_payload_roundtrip [OF demo_payload_wf, of "''stage''"] by (simp add: demo_payload_def)

text \<open>An armed payload is updated and keeps its baseline when the router boots again.\<close>

theorem merge_safety_payload_keeps_witness:
  "let m = merge_safety_payload (Some (encode_safety_payload demo_payload)) (Some ''b2'') (Some [(''stage'', JStr ''done'')])
   in map_of (decode_safety_payload m) ''baseline_observation'' = Some (JStr ''o1'')"
proof -
  have "wf_json (JObj [(''stage'', JStr ''done'')])" by simp
  from merge_safety_payload_keeps [OF this _ refl, of "Some (encode_safety_payload demo_payload)" "Some ''b2''"
      "''baseline_observation''"]
  show ?thesis
    using decode_encode_lookup [OF demo_payload_wf, of "''baseline_observation''"]
    by (simp add: demo_payload_def Let_def)
qed

theorem bound_json_document_length_witness:
  "(14 :: nat) \<le> 20 \<and> length (bound_json_document demo_payload 20) \<le> 20"
  using bound_json_document_length [of 20 demo_payload] by simp

text \<open>A message of 5000 characters, longer than any of the limits.\<close>

definition demo_message :: string where
  "demo_message = replicate 5000 (CHR ''x'')"

lemma demo_message_length: "length (dumps (JStr demo_message)) = 5002"
proof -
  have "length (concat (map escape_char (replicate n (CHR ''x'')))) = n" for n
    by (induction n) (simp_all add: escape_char_def)
  then show ?thesis by (simp add: dumps_def write_string_def demo_message_def)
qed

lemma demo_message_too_long: "n < 5000 \<Longrightarrow> too_long n [(k, JStr demo_message)]"
  by (simp add: too_long_def length_dumps_Obj item_length_def demo_message_length)

theorem op_evidence_bounded_or_raises_witness:
  "redact_sealed_apply_op_evidence (\<lambda>s. s) [(''error'', JStr demo_message)] = Inl JSONDecodeError"
proof -
  let ?e = "[(''error'', JStr demo_message)]"
  have e: "map (\<lambda>(k, v). (k, scrub_evidence_value (\<lambda>s. s) k v)) ?e = ?e"
    by (simp add: scrub_evidence_value_def)
  have "document_core ?e = ?e" by (simp add: document_core_def dict_del_def)
  then have "too_long op_evidence_max_bytes (document_core ?e)"
    by (simp add: demo_message_too_long op_evidence_max_bytes_def)
  then show ?thesis
    using op_evidence_bounded_or_raises [of "\<lambda>s. s" ?e] unfolding e by (simp split: sum.splits)
qed

theorem pre_apply_baseline_bounded_or_raises_witness:
  "serialize_pre_apply_baseline_for_trail (\<lambda>raw. Some [(''reply'', JStr raw)]) [] None demo_message =
     Inl JSONDecodeError"
proof -
  have "too_long 4096 [(''pre_state'', JObj []), (''device_read_redacted'', JObj [(''reply'', JStr demo_message)])]"
    by (simp add: too_long_def length_dumps_Obj item_length_def demo_message_length)
  then show ?thesis
    using pre_apply_baseline_bounded_or_raises [of "[]" None "\<lambda>raw. Some [(''reply'', JStr raw)]" demo_message]
    by (simp add: put_some_def split: sum.splits)
qed

end
