(* ===== verification/Sealed_Apply.thy ===== *)
theory Sealed_Apply
  imports Complex_Main Operation_Store Trail_Documents
begin

text \<open>
  The durable trail of sealed applies: the table \<open>sealed_apply_runs\<close> and the operations of
  \<open>persistence/store.py\<close> on it (begin, lease renewal, baseline, intent, abandon, progress, finish,
  interruption of stale runs, listing, audit snapshot), and the functions of
  \<open>application/recovery.py\<close> that drive them (trail handle, begin and finish, the sleep that keeps the
  lease alive). The table is a state of its own: no other modelled operation writes it; the rest of
  the database is only read, and appended to by the audit.

  JSON columns hold the text the code writes. Clocks and random identifiers are the \<open>call_env\<close> of
  the call; \<open>sha\<close> is the hexadecimal SHA-256 of a text; \<open>tie\<close> stands for the order SQLite returns
  rows with equal sort keys in.
\<close>

section \<open>Rows\<close>

datatype run_status = RunRunning | RunSucceeded | RunFailed | RunRolledBack | RunInterrupted

definition run_status_name :: "run_status \<Rightarrow> string" where
  "run_status_name s = (case s of RunRunning \<Rightarrow> ''Running'' | RunSucceeded \<Rightarrow> ''Succeeded''
     | RunFailed \<Rightarrow> ''Failed'' | RunRolledBack \<Rightarrow> ''RolledBack'' | RunInterrupted \<Rightarrow> ''Interrupted'')"

text \<open>The \<open>CHECK\<close> constraint on the status column.\<close>

definition run_status_of :: "string \<Rightarrow> run_status res" where
  "run_status_of v = (if v = ''Running'' then Inr RunRunning
     else if v = ''Succeeded'' then Inr RunSucceeded
     else if v = ''Failed'' then Inr RunFailed
     else if v = ''RolledBack'' then Inr RunRolledBack
     else if v = ''Interrupted'' then Inr RunInterrupted
     else Inl (IntegrityError ''CHECK sealed_apply_runs.status''))"

record run_row =
  sr_run_id :: ident
  sr_router_id :: "ident option"
  sr_route :: string
  sr_verb :: string
  sr_status :: run_status
  sr_correlation_id :: "string option"
  sr_request_digest :: "string option"
  sr_intent_summary :: string
  sr_checkpoint_json :: "string option"
  sr_ops_planned :: "string option"
  sr_ops_pending :: "string option"
  sr_ops_dispatched :: "string option"
  sr_pre_apply_baseline :: "string option"
  sr_ops_evidence :: string
  sr_outcome_snapshot :: "string option"
  sr_overall :: "string option"
  sr_error :: "string option"
  sr_lease_owner :: "string option"
  sr_lease_until :: "int option"
  sr_started_at :: int
  sr_updated_at :: int
  sr_finished_at :: "int option"

section \<open>Python's text of a value\<close>

definition repr_char :: "char \<Rightarrow> char \<Rightarrow> string" where
  "repr_char q c = (let n = (of_char c :: nat) in
     if c = q \<or> c = CHR 0x5C then [CHR 0x5C, c]
     else if c = CHR 0x0A then [CHR 0x5C, CHR ''n'']
     else if c = CHR 0x0D then [CHR 0x5C, CHR ''r'']
     else if c = CHR 0x09 then [CHR 0x5C, CHR ''t'']
     else if n < 32 \<or> (127 \<le> n \<and> n \<le> 160) \<or> n = 173
     then [CHR 0x5C, CHR ''x'', hex_digit (n div 16), hex_digit (n mod 16)]
     else [c])"

definition repr_string :: "string \<Rightarrow> string" where
  "repr_string s =
     (let q = (if CHR 0x27 \<in> set s \<and> CHR 0x22 \<notin> set s then CHR 0x22 else CHR 0x27) in
      q # concat (map (repr_char q) s) @ [q])"

primrec py_repr :: "json \<Rightarrow> string" where
  "py_repr JNull = ''None''"
| "py_repr (JBool b) = (if b then ''True'' else ''False'')"
| "py_repr (JInt i) = write_int i"
| "py_repr (JStr s) = repr_string s"
| "py_repr (JArr xs) = CHR ''['' # join_with '', '' (map py_repr xs) @ '']''"
| "py_repr (JObj kvs) = CHR ''{'' # join_with '', ''
     (map (\<lambda>(k, w). repr_string k @ '': '' @ w) (map (map_prod id py_repr) kvs)) @ ''}''"

definition py_str :: "json \<Rightarrow> string" where
  "py_str j = (case j of JStr s \<Rightarrow> s | _ \<Rightarrow> py_repr j)"

section \<open>Columns that hold lists and evidence\<close>

definition dump_list :: "string list \<Rightarrow> string" where
  "dump_list xs = write_json '','' '':'' (JArr (map JStr xs))"

definition dump_dict :: "(string \<times> json) list \<Rightarrow> string" where
  "dump_dict d = write_json '','' '':'' (JObj d)"

definition parse_sealed_apply_trail_lists :: "string option \<Rightarrow> string list" where
  "parse_sealed_apply_trail_lists raw =
     (if \<not> truthy_str raw then []
      else case loads (the raw) of Inr (JArr xs) \<Rightarrow> map py_str xs | _ \<Rightarrow> [])"

definition parse_sealed_apply_ops_evidence :: "string option \<Rightarrow> (string \<times> json) list" where
  "parse_sealed_apply_ops_evidence raw =
     (if \<not> truthy_str raw then []
      else case loads (the raw) of Inr (JObj kvs) \<Rightarrow> kvs | _ \<Rightarrow> [])"

definition merge_sealed_apply_op_evidence ::
  "(string \<times> json) list \<Rightarrow> string \<Rightarrow> (string \<times> json) list option \<Rightarrow> (string \<times> json) list" where
  "merge_sealed_apply_op_evidence existing op_name evidence =
     (case evidence of None \<Rightarrow> existing | Some e \<Rightarrow> dict_put existing op_name (JObj e))"

definition sealed_apply_request_digest :: "(string \<Rightarrow> string) \<Rightarrow> (string \<times> json) list \<Rightarrow> string" where
  "sealed_apply_request_digest sha intent = ''sha256:'' @ sha (dumps (JObj intent))"

section \<open>Operations of the store\<close>

definition sealed_apply_lease_seconds :: int where
  "sealed_apply_lease_seconds = 30"

definition get_run :: "ident \<Rightarrow> run_row list \<Rightarrow> run_row option" where
  "get_run run_id runs = row_by sr_run_id run_id runs"

text \<open>The \<open>WHERE\<close> clause every write of a worker carries.\<close>

definition holds_run :: "ident \<Rightarrow> string \<Rightarrow> run_row \<Rightarrow> bool" where
  "holds_run run_id owner r \<longleftrightarrow>
     sr_run_id r = run_id \<and> sr_status r = RunRunning \<and> sr_lease_owner r = Some owner"

definition update_held ::
  "ident \<Rightarrow> string \<Rightarrow> store_error \<Rightarrow> (run_row \<Rightarrow> run_row) \<Rightarrow> run_row list \<Rightarrow> run_row list res" where
  "update_held run_id owner err f runs =
     (if sql_rowcount (holds_run run_id owner) runs = 0 then Inl err
      else Inr (sql_update (holds_run run_id owner) f runs))"

definition lost_error :: "ident \<Rightarrow> store_error" where
  "lost_error run_id = NotFoundError (''sealed_apply_run not found or lease lost: '' @ run_id)"

record run_request =
  rr_route :: string
  rr_verb :: string
  rr_intent :: "(string \<times> json) list"
  rr_ops_planned :: "string list"
  rr_router_id :: "ident option"
  rr_correlation_id :: "string option"
  rr_lease_owner :: string
  rr_lease_seconds :: int

definition new_run_row :: "(string \<Rightarrow> string) \<Rightarrow> call_env \<Rightarrow> run_request \<Rightarrow> ident option \<Rightarrow> run_row" where
  "new_run_row sha env q rid = \<lparr>sr_run_id = new_id ''sar'' (uuid env 0), sr_router_id = rid,
     sr_route = rr_route q, sr_verb = rr_verb q, sr_status = RunRunning,
     sr_correlation_id = rr_correlation_id q,
     sr_request_digest = Some (sealed_apply_request_digest sha (rr_intent q)),
     sr_intent_summary = dumps (JObj (rr_intent q)),
     sr_checkpoint_json = Some (checkpoint_redacted ''dispatch'' None None False False None),
     sr_ops_planned = Some (dump_list (rr_ops_planned q)), sr_ops_pending = Some ''[]'',
     sr_ops_dispatched = Some ''[]'', sr_pre_apply_baseline = None, sr_ops_evidence = ''{}'',
     sr_outcome_snapshot = None, sr_overall = None, sr_error = None,
     sr_lease_owner = Some (rr_lease_owner q),
     sr_lease_until = Some (lease_validity_epoch env + rr_lease_seconds q),
     sr_started_at = utc_now_iso env, sr_updated_at = utc_now_iso env, sr_finished_at = None\<rparr>"

definition insert_run :: "db \<Rightarrow> run_row \<Rightarrow> run_row list \<Rightarrow> run_row list res" where
  "insert_run d r runs =
     (if get_run (sr_run_id r) runs \<noteq> None
      then Inl (IntegrityError ''UNIQUE sealed_apply_runs.run_id'')
      else if \<not> fk (\<lambda>rid. get_router d rid \<noteq> None) (sr_router_id r)
      then Inl (IntegrityError ''FOREIGN KEY sealed_apply_runs.router_id'')
      else Inr (runs @ [r]))"

text \<open>An unknown router is stored as \<open>NULL\<close>; a foreign-key failure is retried without the router.\<close>

definition begin_sealed_apply_run ::
  "(string \<Rightarrow> string) \<Rightarrow> call_env \<Rightarrow> run_request \<Rightarrow> db \<Rightarrow> run_row list \<Rightarrow> (ident \<times> run_row list) res" where
  "begin_sealed_apply_run sha env q d runs =
     (let rid = (case rr_router_id q of
                   Some r \<Rightarrow> if get_router d r = None then None else Some r
                 | None \<Rightarrow> None)
      in case insert_run d (new_run_row sha env q rid) runs of
           Inr runs' \<Rightarrow> Inr (new_id ''sar'' (uuid env 0), runs')
         | Inl e \<Rightarrow>
             if rid = None then Inl e
             else rbind (insert_run d (new_run_row sha env q None) runs) (\<lambda>runs'.
                  Inr (new_id ''sar'' (uuid env 0), runs')))"

definition renew_sealed_apply_lease ::
  "call_env \<Rightarrow> ident \<Rightarrow> string \<Rightarrow> int \<Rightarrow> run_row list \<Rightarrow> run_row list res" where
  "renew_sealed_apply_lease env run_id owner lease_seconds runs =
     update_held run_id owner (lost_error run_id)
       (\<lambda>r. r\<lparr>sr_lease_until := Some (lease_validity_epoch env + lease_seconds),
              sr_updated_at := utc_now_iso env\<rparr>) runs"

definition load_sealed_apply_op_lists ::
  "ident \<Rightarrow> run_row list \<Rightarrow> (string list \<times> string list \<times> (string \<times> json) list) res" where
  "load_sealed_apply_op_lists run_id runs = (case get_run run_id runs of
     None \<Rightarrow> Inl (NotFoundError (''sealed_apply_run not found: '' @ run_id))
   | Some r \<Rightarrow> Inr (parse_sealed_apply_trail_lists (sr_ops_pending r),
       parse_sealed_apply_trail_lists (sr_ops_dispatched r),
       parse_sealed_apply_ops_evidence (Some (sr_ops_evidence r))))"

text \<open>What every write of a worker also does: a new update time and a new lease.\<close>

definition touch :: "call_env \<Rightarrow> run_row \<Rightarrow> run_row" where
  "touch env r = r\<lparr>sr_updated_at := utc_now_iso env,
     sr_lease_until := Some (lease_validity_epoch env + sealed_apply_lease_seconds)\<rparr>"

definition record_sealed_apply_pre_apply_baseline ::
  "call_env \<Rightarrow> ident \<Rightarrow> (string \<times> json) list \<Rightarrow> string \<Rightarrow> run_row list \<Rightarrow> run_row list res" where
  "record_sealed_apply_pre_apply_baseline env run_id baseline owner runs =
     (let hit = (\<lambda>r. holds_run run_id owner r \<and> sr_pre_apply_baseline r = None) in
      if sql_rowcount hit runs = 0
      then Inl (NotFoundError (''sealed_apply_run not found, lease lost, or baseline already set: '' @ run_id))
      else Inr (sql_update hit
        (\<lambda>r. touch env (r\<lparr>sr_pre_apply_baseline := Some (dumps (JObj baseline))\<rparr>)) runs))"

definition dispatch_checkpoint :: "string list \<Rightarrow> string" where
  "dispatch_checkpoint dispatched =
     checkpoint_redacted ''dispatch'' None None (dispatched \<noteq> []) False
       (if dispatched = [] then None else Some dispatched)"

definition record_sealed_apply_op_intent ::
  "call_env \<Rightarrow> ident \<Rightarrow> string \<Rightarrow> string \<Rightarrow> run_row list \<Rightarrow> run_row list res" where
  "record_sealed_apply_op_intent env run_id op_name owner runs =
     rbind (load_sealed_apply_op_lists run_id runs) (\<lambda>(pending, dispatched, evidence).
       let pending = (if op_name \<in> set pending then pending else pending @ [op_name]) in
       update_held run_id owner (lost_error run_id)
         (\<lambda>r. touch env (r\<lparr>sr_ops_pending := Some (dump_list pending),
                sr_checkpoint_json := Some (dispatch_checkpoint dispatched)\<rparr>)) runs)"

definition abandon_sealed_apply_op_intent ::
  "call_env \<Rightarrow> ident \<Rightarrow> string \<Rightarrow> string \<Rightarrow> (string \<times> json) list option \<Rightarrow> run_row list \<Rightarrow> run_row list res" where
  "abandon_sealed_apply_op_intent env run_id op_name owner op_evidence runs =
     rbind (load_sealed_apply_op_lists run_id runs) (\<lambda>(pending, dispatched, evidence).
       let pending = filter (\<lambda>op. op \<noteq> op_name) pending;
           evidence = merge_sealed_apply_op_evidence evidence op_name op_evidence in
       update_held run_id owner (lost_error run_id)
         (\<lambda>r. touch env (r\<lparr>sr_ops_pending := Some (dump_list pending),
                sr_ops_evidence := dump_dict evidence,
                sr_checkpoint_json := Some (dispatch_checkpoint dispatched)\<rparr>)) runs)"

definition record_sealed_apply_op_progress ::
  "call_env \<Rightarrow> ident \<Rightarrow> string \<Rightarrow> string \<Rightarrow> (string \<times> json) list option \<Rightarrow> run_row list \<Rightarrow> run_row list res" where
  "record_sealed_apply_op_progress env run_id op_name owner op_evidence runs =
     rbind (load_sealed_apply_op_lists run_id runs) (\<lambda>(pending, dispatched, evidence).
       let pending = filter (\<lambda>op. op \<noteq> op_name) pending;
           dispatched = (if op_name \<in> set dispatched then dispatched else dispatched @ [op_name]);
           evidence = merge_sealed_apply_op_evidence evidence op_name op_evidence in
       update_held run_id owner (lost_error run_id)
         (\<lambda>r. touch env (r\<lparr>sr_ops_pending := Some (dump_list pending),
                sr_ops_dispatched := Some (dump_list dispatched),
                sr_ops_evidence := dump_dict evidence,
                sr_checkpoint_json := Some (checkpoint_redacted ''dispatch'' None None True False (Some dispatched))\<rparr>))
         runs)"

definition finish_sealed_apply_run ::
  "call_env \<Rightarrow> ident \<Rightarrow> string \<Rightarrow> string \<Rightarrow> string option \<Rightarrow> string option \<Rightarrow> (string \<times> json) list option \<Rightarrow>
   run_row list \<Rightarrow> (bool \<times> run_row list) res" where
  "finish_sealed_apply_run env run_id owner status overall error_redacted outcome runs =
     (if sql_rowcount (holds_run run_id owner) runs = 0 then Inr (False, runs)
      else rbind (run_status_of status) (\<lambda>st.
        Inr (sql_rowcount (holds_run run_id owner) runs = 1,
          sql_update (holds_run run_id owner)
            (\<lambda>r. r\<lparr>sr_status := st, sr_overall := overall, sr_error := error_redacted,
                   sr_outcome_snapshot := map_option (\<lambda>snap. dumps (JObj snap)) outcome,
                   sr_updated_at := utc_now_iso env, sr_finished_at := Some (utc_now_iso env),
                   sr_lease_owner := None, sr_lease_until := None\<rparr>) runs)))"

text \<open>
  A stale run: its lease is over, or it has none and started too long ago, measured from the
  explicit \<open>now\<close> when one is given and from the lease clock otherwise.
\<close>

definition stale_run :: "call_env \<Rightarrow> bool \<Rightarrow> run_row \<Rightarrow> bool" where
  "stale_run env now_given r \<longleftrightarrow> sr_status r = RunRunning \<and>
     (case sr_lease_until r of
        Some t \<Rightarrow> t < lease_validity_epoch env
      | None \<Rightarrow> sr_started_at r <
          (if now_given then (wall_now env - sealed_apply_lease_seconds * 1000000) div 1000000
           else lease_validity_epoch env - sealed_apply_lease_seconds))"

definition interrupt_stale_sealed_apply_runs :: "call_env \<Rightarrow> bool \<Rightarrow> run_row list \<Rightarrow> nat \<times> run_row list" where
  "interrupt_stale_sealed_apply_runs env now_given runs =
     (sql_rowcount (stale_run env now_given) runs,
      sql_update (stale_run env now_given)
        (\<lambda>r. r\<lparr>sr_status := RunInterrupted, sr_updated_at := utc_now_iso env,
               sr_lease_owner := None, sr_lease_until := None\<rparr>) runs)"

definition list_unfinished_sealed_applies ::
  "(run_row \<Rightarrow> int) \<Rightarrow> ident option \<Rightarrow> nat \<Rightarrow> run_row list \<Rightarrow> run_row list" where
  "list_unfinished_sealed_applies tie router_id limit runs =
     take limit (sort_key (\<lambda>r. (- sr_started_at r, tie r))
       (filter (\<lambda>r. sr_status r \<in> {RunRunning, RunInterrupted} \<and>
          (case router_id of None \<Rightarrow> True | Some rid \<Rightarrow> sr_router_id r = Some rid)) runs))"

section \<open>Audit correlation\<close>

text \<open>The flag of a checkpoint document, when there is one.\<close>

definition checkpoint_flag :: "string option \<Rightarrow> bool option" where
  "checkpoint_flag raw =
     (if \<not> truthy_str raw then None
      else case loads (the raw) of
        Inr (JObj kvs) \<Rightarrow> map_option json_truthy (map_of kvs ''apply_dispatched'')
      | _ \<Rightarrow> None)"

definition baseline_document :: "string option \<Rightarrow> (string \<times> json) list option" where
  "baseline_document raw =
     (if \<not> truthy_str raw then None
      else case loads (the raw) of Inr (JObj kvs) \<Rightarrow> Some kvs | _ \<Rightarrow> None)"

definition json_strings :: "string list \<Rightarrow> json" where
  "json_strings xs = JArr (map JStr xs)"

definition build_sealed_apply_trail_snapshot_for_audit :: "run_row \<Rightarrow> (string \<times> json) list" where
  "build_sealed_apply_trail_snapshot_for_audit r =
     (let planned = parse_sealed_apply_trail_lists (sr_ops_planned r);
          pending = parse_sealed_apply_trail_lists (sr_ops_pending r);
          dispatched = parse_sealed_apply_trail_lists (sr_ops_dispatched r);
          evidence = parse_sealed_apply_ops_evidence (Some (sr_ops_evidence r));
          snapshot = [(''run_id'', JStr (sr_run_id r)), (''status'', JStr (run_status_name (sr_status r))),
            (''ops_planned_redacted'', json_strings planned),
            (''ops_pending_redacted'', json_strings pending),
            (''ops_dispatched_redacted'', json_strings dispatched),
            (''apply_dispatched'', JBool (dispatched \<noteq> []))];
          snapshot = put_some ''ops_evidence_redacted'' (if evidence = [] then None else Some (JObj evidence)) snapshot;
          snapshot = put_some ''pre_apply_baseline_redacted''
            (map_option JObj (baseline_document (sr_pre_apply_baseline r))) snapshot;
          snapshot = put_some ''checkpoint_apply_dispatched''
            (map_option JBool (checkpoint_flag (sr_checkpoint_json r))) snapshot;
          snapshot = put_some ''ops_unconfirmed_redacted'' (if pending = [] then None else Some (json_strings pending)) snapshot
      in put_some ''overall'' (map_option JStr (sr_overall r)) snapshot)"

definition get_sealed_apply_trail_snapshot_for_audit ::
  "(run_row \<Rightarrow> int) \<Rightarrow> string option \<Rightarrow> string \<Rightarrow> string \<Rightarrow> run_row list \<Rightarrow> (string \<times> json) list option" where
  "get_sealed_apply_trail_snapshot_for_audit tie correlation_id route verb runs =
     (if \<not> truthy_str correlation_id then None
      else case sort_key (\<lambda>r. (- sr_started_at r, tie r))
          (filter (\<lambda>r. sr_correlation_id r = correlation_id \<and> sr_route r = route \<and> sr_verb r = verb) runs) of
        [] \<Rightarrow> None
      | r # _ \<Rightarrow> Some (build_sealed_apply_trail_snapshot_for_audit r))"

record audit_request =
  aq_action :: string
  aq_outcome :: string
  aq_route :: string
  aq_verb :: string
  aq_intent :: "(string \<times> json) list"
  aq_router_id :: "ident option"
  aq_correlation_id :: "string option"
  aq_result_payload :: "(string \<times> json) list option"
  aq_outcome_snapshot :: "(string \<times> json) list option"
  aq_error_message :: "string option"
  aq_exception_type :: "string option"
  aq_actor_id :: "string option"

text \<open>Any failure of the audit is logged and swallowed: the call returns \<open>None\<close>.\<close>

definition try_append_sealed_apply_audit ::
  "(string \<Rightarrow> string) \<Rightarrow> (string \<Rightarrow> string) \<Rightarrow> (run_row \<Rightarrow> int) \<Rightarrow> call_env \<Rightarrow> audit_request \<Rightarrow>
   run_row list \<Rightarrow> db \<Rightarrow> ident option \<times> db" where
  "try_append_sealed_apply_audit sha scrub tie env q runs d =
     (let trail = get_sealed_apply_trail_snapshot_for_audit tie (aq_correlation_id q) (aq_route q) (aq_verb q) runs;
          summary = build_sealed_apply_audit_summary scrub (aq_route q) (aq_verb q) (aq_intent q)
            (aq_result_payload q) (aq_outcome_snapshot q) (aq_error_message q) (aq_exception_type q) trail
      in case append_audit env (uuid env 0)
           ((audit_default (aq_action q) (aq_outcome q))\<lparr>a_router_id := aq_router_id q,
              a_correlation_id := aq_correlation_id q, a_summary_redacted := Some summary,
              a_request_digest := Some (sealed_apply_request_digest sha (aq_intent q)),
              a_actor_id := aq_actor_id q\<rparr>) d of
           Inl _ \<Rightarrow> (None, d)
         | Inr d' \<Rightarrow> (Some (new_id ''aud'' (uuid env 0)), d'))"

section \<open>The trail handle\<close>

record trail_params =
  tp_route :: string
  tp_verb :: string
  tp_intent :: "(string \<times> json) list"
  tp_correlation_id :: "string option"
  tp_router_id :: "ident option"

record trail_handle =
  th_run_id :: ident
  th_lease_owner :: string

datatype trail_error = SealedApplyTrailBeginError

text \<open>
  Without a store or parameters there is no trail; a trail that cannot be created raises before
  anything is sent to the device. \<open>owner\<close> is the fresh \<open>sar:<pid>:<random>\<close> name.
\<close>

definition begin_sealed_apply_trail ::
  "(string \<Rightarrow> string) \<Rightarrow> call_env \<Rightarrow> string \<Rightarrow> bool \<Rightarrow> trail_params option \<Rightarrow> string list \<Rightarrow> db \<Rightarrow> run_row list \<Rightarrow>
   trail_error + (trail_handle option \<times> run_row list)" where
  "begin_sealed_apply_trail sha env owner has_store params ops_planned d runs =
     (case params of
        Some p \<Rightarrow> if \<not> has_store then Inr (None, runs) else
          (case begin_sealed_apply_run sha env
             \<lparr>rr_route = tp_route p, rr_verb = tp_verb p, rr_intent = tp_intent p,
              rr_ops_planned = ops_planned, rr_router_id = tp_router_id p,
              rr_correlation_id = tp_correlation_id p, rr_lease_owner = owner,
              rr_lease_seconds = sealed_apply_lease_seconds\<rparr> d runs of
             Inl _ \<Rightarrow> Inl SealedApplyTrailBeginError
           | Inr (run_id, runs') \<Rightarrow> Inr (Some \<lparr>th_run_id = run_id, th_lease_owner = owner\<rparr>, runs'))
      | None \<Rightarrow> Inr (None, runs))"

definition trail_status_for_overall :: "string \<Rightarrow> string" where
  "trail_status_for_overall overall =
     (if overall = ''rolled_back'' then ''RolledBack''
      else if overall \<in> set [''applied'', ''dispatched_offline'', ''unsupported_pending_verification'']
      then ''Succeeded''
      else if overall \<in> set [''failed'', ''verify_mismatch''] then ''Failed''
      else ''Failed'')"

definition finish_sealed_apply_trail ::
  "call_env \<Rightarrow> trail_handle option \<Rightarrow> string \<Rightarrow> string option \<Rightarrow> (string \<times> json) list option \<Rightarrow>
   run_row list \<Rightarrow> run_row list" where
  "finish_sealed_apply_trail env handle overall error_redacted outcome runs = (case handle of
     None \<Rightarrow> runs
   | Some h \<Rightarrow>
       (case finish_sealed_apply_run env (th_run_id h) (th_lease_owner h) (trail_status_for_overall overall)
          (Some overall) error_redacted outcome runs of
          Inr (_, runs') \<Rightarrow> runs'
        | Inl _ \<Rightarrow> runs))"

text \<open>
  The guard around the body of an apply: the body returns a value or raises an exception of the
  given type name; an exception finishes the trail as failed and is raised again.
\<close>

definition guard_sealed_apply_trail ::
  "call_env \<Rightarrow> trail_handle option \<Rightarrow> (run_row list \<Rightarrow> (string + 'a) \<times> run_row list) \<Rightarrow>
   run_row list \<Rightarrow> (string + 'a) \<times> run_row list" where
  "guard_sealed_apply_trail env trail fn runs = (case fn runs of
     (Inr x, runs') \<Rightarrow> (Inr x, runs')
   | (Inl exc, runs') \<Rightarrow> (Inl exc, finish_sealed_apply_trail env trail ''failed'' (Some exc) None runs'))"

section \<open>Sleeping with a live lease\<close>

datatype wait_event = Slept rat | Renewed

definition renew_interval :: "int \<Rightarrow> rat" where
  "renew_interval lease_seconds = max 1 (of_int lease_seconds / 3)"

text \<open>
  The loop of \<open>sleep_preserving_sealed_apply_lease\<close>; \<open>renew n\<close> is the \<open>n\<close>-th renewal of the lease, which
  may raise. Seconds are exact rationals instead of floats.
\<close>

function sleep_loop ::
  "int \<Rightarrow> (nat \<Rightarrow> 's \<Rightarrow> 'e + 's) \<Rightarrow> nat \<Rightarrow> rat \<Rightarrow> 's \<Rightarrow> wait_event list \<times> ('e + 's)" where
  "sleep_loop lease_seconds renew n remaining st =
     (if remaining \<le> 0 then ([], Inr st)
      else
        let chunk = min (renew_interval lease_seconds) remaining in
        if remaining - chunk \<le> 0 then ([Slept chunk], Inr st)
        else case renew n st of
          Inl e \<Rightarrow> ([Slept chunk], Inl e)
        | Inr st' \<Rightarrow>
            (let (evs, r) = sleep_loop lease_seconds renew (Suc n) (remaining - chunk) st'
             in (Slept chunk # Renewed # evs, r)))"
  by auto

lemma sleep_measure:
  assumes "\<not> x \<le> 0" and "\<not> x - min (renew_interval l) x \<le> 0"
  shows "nat \<lceil>x - min (renew_interval l) x\<rceil> < nat \<lceil>x\<rceil>"
proof -
  have "min (renew_interval l) x \<ge> 1"
    using assms by (auto simp: renew_interval_def min_def split: if_splits)
  then have "\<lceil>x - min (renew_interval l) x\<rceil> \<le> \<lceil>x - 1\<rceil>" by (intro ceiling_mono) simp
  moreover have "\<lceil>x - 1\<rceil> = \<lceil>x\<rceil> - 1" by simp
  moreover have "0 < \<lceil>x\<rceil>" using assms(1) by simp
  ultimately show ?thesis by linarith
qed

termination sleep_loop
  by (relation "measure (\<lambda>(_, _, _, remaining, _). nat \<lceil>remaining\<rceil>)")
    (simp, simp only: in_measure split_conv, rule sleep_measure, assumption+)

declare sleep_loop.simps [simp del]

definition sleep_preserving_sealed_apply_lease ::
  "bool \<Rightarrow> rat \<Rightarrow> int \<Rightarrow> (nat \<Rightarrow> 's \<Rightarrow> 'e + 's) \<Rightarrow> 's \<Rightarrow> wait_event list \<times> ('e + 's)" where
  "sleep_preserving_sealed_apply_lease has_trail seconds lease_seconds renew st =
     (if seconds \<le> 0 then ([], Inr st)
      else if \<not> has_trail then ([Slept seconds], Inr st)
      else sleep_loop lease_seconds renew 0 seconds st)"

end
