(* ===== verification/Sealed_Trail.thy ===== *)
theory Sealed_Trail
  imports Sealed_Apply "HOL-Library.Sublist"
begin

text \<open>
  What the trail of sealed applies guarantees: the columns written by the code are read back as they
  were written, every write of a worker replaces one running row it holds, and therefore, over any
  interleaving (\<open>trail_step\<close>), checkpoints agree with the recorded operations, recorded operations are
  never lost, closed runs never change, interrupted holders are refused, and a long sleep keeps the
  lease.
\<close>


section \<open>Reading the columns back\<close>

lemma loads_compact: "wf_json j \<Longrightarrow> loads (write_json '','' '':'' j) = Inr j"
  by (rule loads_write) (simp_all add: sep_ok_def)

lemma parse_dump_list [simp]: "parse_sealed_apply_trail_lists (Some (dump_list xs)) = xs"
proof -
  have "loads (dump_list xs) = Inr (JArr (map JStr xs))"
    unfolding dump_list_def by (rule loads_compact) (simp add: list_all_iff)
  moreover have "dump_list xs \<noteq> []" by (simp add: dump_list_def)
  ultimately show ?thesis
    by (simp add: parse_sealed_apply_trail_lists_def truthy_str_def py_str_def comp_def)
qed

lemma parse_dump_dict [simp]:
  "wf_json (JObj d) \<Longrightarrow> parse_sealed_apply_ops_evidence (Some (dump_dict d)) = d"
  using loads_compact [of "JObj d"]
  by (simp add: parse_sealed_apply_ops_evidence_def truthy_str_def dump_dict_def del: wf_json.simps) 

lemma checkpoint_flag_redacted:
  "checkpoint_flag (Some (checkpoint_redacted phase lst backup flag safe ops)) = Some flag"
proof -
  let ?p = "checkpoint_payload phase lst backup flag safe ops"
  have wf: "wf_json (JObj ?p)" "map_of ?p ''apply_dispatched'' = Some (JBool flag)"
    by (auto simp: checkpoint_payload_def Let_def truthy_str_def list_all_iff split: option.splits list.splits)
  then have "loads (checkpoint_redacted phase lst backup flag safe ops) = Inr (sort_keys (JObj ?p))"
    unfolding checkpoint_redacted_def by (intro loads_write sort_keys_wf) (simp_all add: sep_ok_def json_space_def)
  moreover have "truthy_str (Some (checkpoint_redacted phase lst backup flag safe ops))"
    by (simp add: checkpoint_redacted_def truthy_str_def)
  ultimately show ?thesis
    using wf sort_keys_lookup [of ?p] unfolding wf_Obj by (simp add: checkpoint_flag_def)
qed

section \<open>Writes as replacements of one row\<close>

definition replace_run :: "ident \<Rightarrow> run_row \<Rightarrow> run_row list \<Rightarrow> run_row list" where
  "replace_run run_id g runs = sql_update (\<lambda>r. sr_run_id r = run_id) (\<lambda>_. g) runs"

abbreviation run_ids :: "run_row list \<Rightarrow> ident list" where
  "run_ids runs \<equiv> map sr_run_id runs"

lemma update_is_replace:
  assumes "distinct (run_ids runs)" and "get_run run_id runs = Some r" and "P r"
    and "\<And>r'. P r' \<Longrightarrow> sr_run_id r' = run_id"
  shows "sql_update P f runs = replace_run run_id (f r) runs"
proof -
  have "r' = r" if "r' \<in> set runs" "sr_run_id r' = run_id" for r'
    using assms(1,2) that unfolding get_run_def by (metis row_by_distinct option.inject)
  then show ?thesis using assms(3,4) by (auto simp: sql_update_def replace_run_def)
qed

lemma rowcount_held:
  assumes "distinct (run_ids runs)" and "\<And>r'. P r' \<Longrightarrow> sr_run_id r' = run_id"
  shows "sql_rowcount P runs = (case get_run run_id runs of Some r \<Rightarrow> if P r then 1 else 0 | None \<Rightarrow> 0)"
proof (cases "get_run run_id runs")
  case (Some r)
  have "sql_rowcount (\<lambda>r. sr_run_id r = run_id \<and> P r) runs = (if P r then 1 else 0)"
    using rowcount_unique [OF assms(1)] Some by (simp add: get_run_def)
  moreover have "(\<lambda>r. sr_run_id r = run_id \<and> P r) = P" using assms(2) by auto
  ultimately show ?thesis using Some by simp
next
  case None
  then have "\<forall>r \<in> set runs. \<not> P r"
    using assms(2) by (auto simp: get_run_def row_by_None_iff)
  with None show ?thesis by (simp add: sql_rowcount_0)
qed

lemma get_replace_run:
  "sr_run_id g = run_id \<Longrightarrow> get_run run_id runs = Some r \<Longrightarrow>
   get_run x (replace_run run_id g runs) = (if x = run_id then Some g else get_run x runs)"
  unfolding get_run_def replace_run_def
  by (subst row_by_sql_update, simp)
    (cases "row_by sr_run_id x runs", auto dest: row_by_Some_key)

lemma ids_replace_run: "sr_run_id g = run_id \<Longrightarrow> run_ids (replace_run run_id g runs) = run_ids runs"
  by (auto simp: replace_run_def sql_update_def)

lemma holds_run_id: "holds_run run_id owner r \<Longrightarrow> sr_run_id r = run_id"
  by (simp add: holds_run_def)

lemma update_held_iff:
  assumes "distinct (run_ids runs)"
  shows "update_held run_id owner err f runs =
    (case get_run run_id runs of
       Some r \<Rightarrow> if holds_run run_id owner r then Inr (replace_run run_id (f r) runs) else Inl err
     | None \<Rightarrow> Inl err)"
  using rowcount_held [OF assms holds_run_id] update_is_replace [OF assms _ _ holds_run_id]
  by (simp add: update_held_def split: option.splits)

section \<open>What a run looks like\<close>

definition run_ok :: "run_row \<Rightarrow> bool" where
  "run_ok r \<longleftrightarrow> (\<exists>pending dispatched evidence.
     sr_ops_pending r = Some (dump_list pending) \<and> distinct pending \<and>
     sr_ops_dispatched r = Some (dump_list dispatched) \<and> distinct dispatched \<and>
     sr_ops_evidence r = dump_dict evidence \<and> wf_json (JObj evidence) \<and>
     sr_checkpoint_json r = Some (dispatch_checkpoint dispatched)) \<and>
     (sr_lease_owner r \<noteq> None \<longleftrightarrow> sr_status r = RunRunning) \<and>
     (sr_lease_until r \<noteq> None \<longleftrightarrow> sr_status r = RunRunning)"

definition trail_inv :: "run_row list \<Rightarrow> bool" where
  "trail_inv runs \<longleftrightarrow> distinct (run_ids runs) \<and> (\<forall>r \<in> set runs. run_ok r)"

abbreviation pending_ops :: "run_row \<Rightarrow> string list" where
  "pending_ops r \<equiv> parse_sealed_apply_trail_lists (sr_ops_pending r)"

abbreviation dispatched_ops :: "run_row \<Rightarrow> string list" where
  "dispatched_ops r \<equiv> parse_sealed_apply_trail_lists (sr_ops_dispatched r)"

abbreviation op_evidence :: "run_row \<Rightarrow> (string \<times> json) list" where
  "op_evidence r \<equiv> parse_sealed_apply_ops_evidence (Some (sr_ops_evidence r))"

lemma run_ok_simps:
  assumes "run_ok r"
  shows "sr_ops_pending r = Some (dump_list (pending_ops r))" "distinct (pending_ops r)"
    "sr_ops_dispatched r = Some (dump_list (dispatched_ops r))" "distinct (dispatched_ops r)"
    "sr_ops_evidence r = dump_dict (op_evidence r)" "wf_json (JObj (op_evidence r))"
    "sr_checkpoint_json r = Some (dispatch_checkpoint (dispatched_ops r))"
  using assms by (auto simp: run_ok_def simp del: wf_json.simps)

lemma dispatch_checkpoint_flag: "checkpoint_flag (Some (dispatch_checkpoint ops)) = Some (ops \<noteq> [])"
  by (simp add: dispatch_checkpoint_def checkpoint_flag_redacted)

lemma trail_inv_get: "trail_inv runs \<Longrightarrow> get_run x runs = Some r \<Longrightarrow> run_ok r \<and> sr_run_id r = x"
  unfolding trail_inv_def get_run_def by (blast dest: row_by_Some_mem row_by_Some_key)

lemma trail_inv_replace:
  "trail_inv runs \<Longrightarrow> run_ok g \<Longrightarrow> sr_run_id g = run_id \<Longrightarrow> trail_inv (replace_run run_id g runs)"
  unfolding trail_inv_def by (simp only: ids_replace_run) (auto simp: replace_run_def table_simps)

text \<open>The row after a write of a worker.\<close>

definition with_ops :: "call_env \<Rightarrow> string list \<Rightarrow> string list \<Rightarrow> (string \<times> json) list \<Rightarrow> run_row \<Rightarrow> run_row" where
  "with_ops env pending dispatched evidence r = touch env (r\<lparr>sr_ops_pending := Some (dump_list pending),
     sr_ops_dispatched := Some (dump_list dispatched), sr_ops_evidence := dump_dict evidence,
     sr_checkpoint_json := Some (dispatch_checkpoint dispatched)\<rparr>)"

lemma run_ok_with_ops:
  "sr_status r = RunRunning \<Longrightarrow> sr_lease_owner r \<noteq> None \<Longrightarrow> distinct p \<Longrightarrow> distinct s \<Longrightarrow>
   wf_json (JObj e) \<Longrightarrow> run_ok (with_ops env p s e r)"
  unfolding run_ok_def by (auto simp: with_ops_def touch_def simp del: wf_json.simps)

lemma with_ops_same:
  assumes "run_ok r"
  shows "touch env (r\<lparr>sr_ops_pending := Some (dump_list p),
      sr_checkpoint_json := Some (dispatch_checkpoint (dispatched_ops r))\<rparr>) =
      with_ops env p (dispatched_ops r) (op_evidence r) r"
    and "touch env (r\<lparr>sr_ops_pending := Some (dump_list p), sr_ops_evidence := dump_dict e,
      sr_checkpoint_json := Some (dispatch_checkpoint (dispatched_ops r))\<rparr>) =
      with_ops env p (dispatched_ops r) e r"
  using run_ok_simps(3,5) [OF assms] by (auto simp: with_ops_def touch_def intro!: run_row.equality)

lemma checkpoint_progress:
  "ops \<noteq> [] \<Longrightarrow> checkpoint_redacted ''dispatch'' None None True False (Some ops) = dispatch_checkpoint ops"
  by (simp add: dispatch_checkpoint_def)

lemma record_intent_eq:
  assumes "trail_inv runs"
  shows "record_sealed_apply_op_intent env run_id op owner runs = (case get_run run_id runs of
      None \<Rightarrow> Inl (NotFoundError (''sealed_apply_run not found: '' @ run_id))
    | Some r \<Rightarrow> if \<not> holds_run run_id owner r then Inl (lost_error run_id)
        else Inr (replace_run run_id (with_ops env
          (if op \<in> set (pending_ops r) then pending_ops r else pending_ops r @ [op])
          (dispatched_ops r) (op_evidence r) r) runs))"
  using assms trail_inv_get [OF assms, of run_id]
  by (auto simp: record_sealed_apply_op_intent_def load_sealed_apply_op_lists_def Let_def trail_inv_def
      update_held_iff with_ops_same split: option.splits)

lemma abandon_intent_eq:
  assumes "trail_inv runs"
  shows "abandon_sealed_apply_op_intent env run_id op owner ev runs = (case get_run run_id runs of
      None \<Rightarrow> Inl (NotFoundError (''sealed_apply_run not found: '' @ run_id))
    | Some r \<Rightarrow> if \<not> holds_run run_id owner r then Inl (lost_error run_id)
        else Inr (replace_run run_id (with_ops env (filter (\<lambda>x. x \<noteq> op) (pending_ops r))
          (dispatched_ops r) (merge_sealed_apply_op_evidence (op_evidence r) op ev) r) runs))"
  using assms trail_inv_get [OF assms, of run_id]
  by (auto simp: abandon_sealed_apply_op_intent_def load_sealed_apply_op_lists_def Let_def trail_inv_def
      update_held_iff with_ops_same split: option.splits)

lemma record_progress_eq:
  assumes "trail_inv runs"
  shows "record_sealed_apply_op_progress env run_id op owner ev runs = (case get_run run_id runs of
      None \<Rightarrow> Inl (NotFoundError (''sealed_apply_run not found: '' @ run_id))
    | Some r \<Rightarrow> if \<not> holds_run run_id owner r then Inl (lost_error run_id)
        else Inr (replace_run run_id (with_ops env (filter (\<lambda>x. x \<noteq> op) (pending_ops r))
          (if op \<in> set (dispatched_ops r) then dispatched_ops r else dispatched_ops r @ [op])
          (merge_sealed_apply_op_evidence (op_evidence r) op ev) r) runs))"
proof -
  have "(if op \<in> set xs then xs else xs @ [op]) \<noteq> []" for xs by auto
  from checkpoint_progress [OF this] show ?thesis
    using assms by (simp add: record_sealed_apply_op_progress_def load_sealed_apply_op_lists_def Let_def
        trail_inv_def update_held_iff with_ops_def split: option.splits)
qed


section \<open>The trail as a transition system\<close>

inductive trail_step :: "run_row list \<Rightarrow> run_row list \<Rightarrow> bool" where
  begin_run: "begin_sealed_apply_run sha env q d runs = Inr (i, runs') \<Longrightarrow> trail_step runs runs'"
| renew_run: "renew_sealed_apply_lease env i owner secs runs = Inr runs' \<Longrightarrow> trail_step runs runs'"
| baseline_run: "record_sealed_apply_pre_apply_baseline env i b owner runs = Inr runs' \<Longrightarrow> trail_step runs runs'"
| intent_run: "record_sealed_apply_op_intent env i op owner runs = Inr runs' \<Longrightarrow> trail_step runs runs'"
| abandon_run: "abandon_sealed_apply_op_intent env i op owner ev runs = Inr runs' \<Longrightarrow>
    pred_option (\<lambda>e. wf_json (JObj e)) ev \<Longrightarrow> trail_step runs runs'"
| progress_run: "record_sealed_apply_op_progress env i op owner ev runs = Inr runs' \<Longrightarrow>
    pred_option (\<lambda>e. wf_json (JObj e)) ev \<Longrightarrow> trail_step runs runs'"
| finish_run: "trail_step runs (finish_sealed_apply_trail env h overall err outcome runs)"
| interrupt_run: "trail_step runs (snd (interrupt_stale_sealed_apply_runs env now_given runs))"

text \<open>How a step may change one run: not at all, or the holder of a running run moves it forward.\<close>

definition run_evolves :: "run_row \<Rightarrow> run_row \<Rightarrow> bool" where
  "run_evolves r r' \<longleftrightarrow> r' = r \<or>
     (sr_status r = RunRunning \<and> prefix (dispatched_ops r) (dispatched_ops r') \<and>
      (sr_pre_apply_baseline r \<noteq> None \<longrightarrow> sr_pre_apply_baseline r' = sr_pre_apply_baseline r) \<and>
      sr_intent_summary r' = sr_intent_summary r \<and> sr_ops_planned r' = sr_ops_planned r \<and>
      sr_router_id r' = sr_router_id r \<and> sr_started_at r' = sr_started_at r)"

definition replaces :: "run_row list \<Rightarrow> run_row list \<Rightarrow> bool" where
  "replaces runs runs' \<longleftrightarrow> (\<exists>i r g. get_run i runs = Some r \<and> sr_status r = RunRunning \<and>
     sr_run_id g = i \<and> run_ok g \<and> run_evolves r g \<and> runs' = replace_run i g runs)"

lemma with_ops_fields [simp]:
  "sr_run_id (with_ops env p s e r) = sr_run_id r"
  "sr_ops_dispatched (with_ops env p s e r) = Some (dump_list s)"
  "sr_ops_pending (with_ops env p s e r) = Some (dump_list p)"
  "sr_ops_evidence (with_ops env p s e r) = dump_dict e"
  "sr_status (with_ops env p s e r) = sr_status r"
  "sr_lease_owner (with_ops env p s e r) = sr_lease_owner r"
  "sr_pre_apply_baseline (with_ops env p s e r) = sr_pre_apply_baseline r"
  "sr_intent_summary (with_ops env p s e r) = sr_intent_summary r"
  "sr_ops_planned (with_ops env p s e r) = sr_ops_planned r"
  "sr_router_id (with_ops env p s e r) = sr_router_id r"
  "sr_started_at (with_ops env p s e r) = sr_started_at r"
  by (simp_all add: with_ops_def touch_def)

lemma replaces_with_ops:
  assumes "trail_inv runs" and "get_run i runs = Some r" and "holds_run i owner r"
    and "distinct p" and "distinct s" and "prefix (dispatched_ops r) s" and "wf_json (JObj e)"
  shows "replaces runs (replace_run i (with_ops env p s e r) runs)"
proof -
  have "sr_run_id r = i" using trail_inv_get [OF assms(1,2)] by simp
  moreover have "run_ok (with_ops env p s e r)"
    using assms(3-5,7) by (intro run_ok_with_ops) (auto simp: holds_run_def)
  moreover have "run_evolves r (with_ops env p s e r)"
    using assms(3,6) by (simp add: run_evolves_def holds_run_def)
  ultimately show ?thesis
    unfolding replaces_def using assms(2,3) holds_run_def with_ops_fields(1) by metis
qed

lemma wf_merge_evidence:
  "wf_json (JObj d) \<Longrightarrow> pred_option (\<lambda>e. wf_json (JObj e)) ev \<Longrightarrow>
   wf_json (JObj (merge_sealed_apply_op_evidence d op ev))"
  by (cases ev) (simp_all add: merge_sealed_apply_op_evidence_def wf_dict_put del: wf_json.simps)

text \<open>A write that leaves the lists alone keeps the row in order.\<close>

lemma replaces_same_ops:
  assumes "trail_inv runs" and "get_run i runs = Some r" and "sr_status r = RunRunning"
    and "sr_run_id g = i" and "sr_ops_pending g = sr_ops_pending r"
    and "sr_ops_dispatched g = sr_ops_dispatched r" and "sr_ops_evidence g = sr_ops_evidence r"
    and "sr_checkpoint_json g = sr_checkpoint_json r"
    and "sr_lease_owner g \<noteq> None \<longleftrightarrow> sr_status g = RunRunning"
    and "sr_lease_until g \<noteq> None \<longleftrightarrow> sr_status g = RunRunning"
    and "sr_pre_apply_baseline r \<noteq> None \<longrightarrow> sr_pre_apply_baseline g = sr_pre_apply_baseline r"
    and "sr_intent_summary g = sr_intent_summary r" and "sr_ops_planned g = sr_ops_planned r"
    and "sr_router_id g = sr_router_id r" and "sr_started_at g = sr_started_at r"
  shows "replaces runs (replace_run i g runs)"
proof -
  have "run_ok g" using trail_inv_get [OF assms(1,2)] assms(5-10) by (simp add: run_ok_def)
  moreover have "run_evolves r g" using assms by (simp add: run_evolves_def)
  ultimately show ?thesis unfolding replaces_def using assms(2,3,4) by blast
qed

lemma worker_steps_replace:
  assumes inv: "trail_inv runs"
  shows "record_sealed_apply_op_intent env i op owner runs = Inr runs' \<Longrightarrow> replaces runs runs'"
    and "abandon_sealed_apply_op_intent env i op owner ev runs = Inr runs' \<Longrightarrow>
      pred_option (\<lambda>e. wf_json (JObj e)) ev \<Longrightarrow> replaces runs runs'"
    and "record_sealed_apply_op_progress env i op owner ev runs = Inr runs' \<Longrightarrow>
      pred_option (\<lambda>e. wf_json (JObj e)) ev \<Longrightarrow> replaces runs runs'"
    and "renew_sealed_apply_lease env i owner secs runs = Inr runs' \<Longrightarrow> replaces runs runs'"
    and "record_sealed_apply_pre_apply_baseline env i b owner runs = Inr runs' \<Longrightarrow> replaces runs runs'"
proof -
  note ok = trail_inv_get [OF inv, THEN conjunct1, THEN run_ok_simps(2)]
    trail_inv_get [OF inv, THEN conjunct1, THEN run_ok_simps(4)]
    trail_inv_get [OF inv, THEN conjunct1, THEN run_ok_simps(6)]
  have d: "distinct (run_ids runs)" using inv by (simp add: trail_inv_def)
  show "replaces runs runs'" if "record_sealed_apply_op_intent env i op owner runs = Inr runs'"
    using that ok unfolding record_intent_eq [OF inv]
    by (auto split: option.splits if_splits simp del: wf_json.simps intro!: replaces_with_ops [OF inv])
  show "replaces runs runs'" if "abandon_sealed_apply_op_intent env i op owner ev runs = Inr runs'"
    "pred_option (\<lambda>e. wf_json (JObj e)) ev"
    using that ok unfolding abandon_intent_eq [OF inv]
    by (auto split: option.splits if_splits simp del: wf_json.simps intro!: replaces_with_ops [OF inv] wf_merge_evidence)
  show "replaces runs runs'" if "record_sealed_apply_op_progress env i op owner ev runs = Inr runs'"
    "pred_option (\<lambda>e. wf_json (JObj e)) ev"
    using that ok unfolding record_progress_eq [OF inv]
    by (auto split: option.splits if_splits simp del: wf_json.simps intro!: replaces_with_ops [OF inv] wf_merge_evidence)
  show "replaces runs runs'" if "renew_sealed_apply_lease env i owner secs runs = Inr runs'"
    using that unfolding renew_sealed_apply_lease_def update_held_iff [OF d]
    by (auto split: option.splits if_splits simp: holds_run_def intro!: replaces_same_ops [OF inv])
  show "replaces runs runs'" if "record_sealed_apply_pre_apply_baseline env i b owner runs = Inr runs'"
  proof -
    let ?hit = "\<lambda>r. holds_run i owner r \<and> sr_pre_apply_baseline r = None"
    have hit: "?hit r \<Longrightarrow> sr_run_id r = i" for r by (simp add: holds_run_def)
    from that obtain r where r: "get_run i runs = Some r" "?hit r"
      using rowcount_held [OF d hit]
      by (auto simp: record_sealed_apply_pre_apply_baseline_def Let_def split: if_splits option.splits)
    then have eq: "runs' = replace_run i (touch env (r\<lparr>sr_pre_apply_baseline := Some (dumps (JObj b))\<rparr>)) runs"
      using that update_is_replace [where P = ?hit, OF d r hit]
      by (auto simp: record_sealed_apply_pre_apply_baseline_def Let_def split: if_splits)
    show ?thesis
      unfolding eq using r by (intro replaces_same_ops [OF inv r(1)]) (auto simp: holds_run_def touch_def)
  qed
qed


lemma get_run_update:
  assumes "\<And>r. sr_run_id (f r) = sr_run_id r"
  shows "get_run x (sql_update P f runs) = map_option (\<lambda>r. if P r then f r else r) (get_run x runs)"
  unfolding get_run_def by (rule row_by_sql_update) (simp add: assms)

lemma replaces_inv: "trail_inv runs \<Longrightarrow> replaces runs runs' \<Longrightarrow> trail_inv runs'"
  unfolding replaces_def by (auto intro: trail_inv_replace)

lemma replaces_evolves:
  "replaces runs runs' \<Longrightarrow> get_run x runs = Some r \<Longrightarrow> \<exists>r'. get_run x runs' = Some r' \<and> run_evolves r r'"
  unfolding replaces_def by (auto simp: get_replace_run run_evolves_def)

lemma begin_run_appends:
  assumes "begin_sealed_apply_run sha env q d runs = Inr (i, runs')"
  shows "\<exists>rid. i = new_id ''sar'' (uuid env 0) \<and> get_run i runs = None \<and>
    runs' = runs @ [new_run_row sha env q rid]"
  using assms
  by (auto simp: begin_sealed_apply_run_def insert_run_def new_run_row_def Let_def result_simps
      split: sum.splits if_splits option.splits)

lemma run_ok_new: "run_ok (new_run_row sha env q rid)"
proof -
  have "''[]'' = dump_list []" "''{}'' = dump_dict []" by (simp_all add: dump_list_def dump_dict_def)
  moreover have "checkpoint_redacted ''dispatch'' None None False False None = dispatch_checkpoint []"
    by (simp add: dispatch_checkpoint_def)
  ultimately show ?thesis
    by (auto simp: run_ok_def new_run_row_def intro!: exI [of _ "[]"])
qed

lemma trail_status_final:
  "\<exists>st. run_status_of (trail_status_for_overall overall) = Inr st \<and> st \<noteq> RunRunning"
proof -
  have "trail_status_for_overall overall \<in> {''RolledBack'', ''Succeeded'', ''Failed''}"
    by (simp add: trail_status_for_overall_def)
  then show ?thesis by (auto simp: run_status_of_def)
qed

lemma finish_replaces:
  assumes inv: "trail_inv runs"
  shows "finish_sealed_apply_trail env h overall err outcome runs = runs \<or>
    replaces runs (finish_sealed_apply_trail env h overall err outcome runs)"
proof (cases h)
  case (Some t)
  have d: "distinct (run_ids runs)" using inv by (simp add: trail_inv_def)
  let ?i = "th_run_id t" and ?o = "th_lease_owner t"
  show ?thesis
  proof (cases "\<exists>r. get_run ?i runs = Some r \<and> holds_run ?i ?o r")
    case True
    then obtain r where r: "get_run ?i runs = Some r" "holds_run ?i ?o r" by blast
    obtain st where st: "run_status_of (trail_status_for_overall overall) = Inr st" "st \<noteq> RunRunning"
      using trail_status_final by blast
    have "sql_rowcount (holds_run ?i ?o) runs = 1" using rowcount_held [OF d holds_run_id] r by simp
    then have eq: "finish_sealed_apply_trail env h overall err outcome runs = replace_run ?i
        (r\<lparr>sr_status := st, sr_overall := Some overall, sr_error := err,
           sr_outcome_snapshot := map_option (\<lambda>snap. dumps (JObj snap)) outcome,
           sr_updated_at := utc_now_iso env, sr_finished_at := Some (utc_now_iso env),
           sr_lease_owner := None, sr_lease_until := None\<rparr>) runs"
      using st update_is_replace [where P = "holds_run ?i ?o", OF d r holds_run_id]
      by (simp add: Some finish_sealed_apply_trail_def finish_sealed_apply_run_def)
    show ?thesis
      unfolding eq using r st(2)
      by (intro disjI2 replaces_same_ops [OF inv r(1)]) (auto simp: holds_run_def)
  next
    case False
    then have "sql_rowcount (holds_run ?i ?o) runs = 0"
      using rowcount_held [OF d holds_run_id] by (auto split: option.splits)
    then show ?thesis by (simp add: Some finish_sealed_apply_trail_def finish_sealed_apply_run_def)
  qed
qed (simp add: finish_sealed_apply_trail_def)

lemma interrupt_inv: "trail_inv runs \<Longrightarrow> trail_inv (snd (interrupt_stale_sealed_apply_runs env g runs))"
  by (auto simp: interrupt_stale_sealed_apply_runs_def trail_inv_def map_key_sql_update table_simps run_ok_def)

lemma interrupt_get:
  "get_run x (snd (interrupt_stale_sealed_apply_runs env g runs)) = map_option
     (\<lambda>r. if stale_run env g r then r\<lparr>sr_status := RunInterrupted, sr_updated_at := utc_now_iso env,
        sr_lease_owner := None, sr_lease_until := None\<rparr> else r) (get_run x runs)"
  by (simp add: interrupt_stale_sealed_apply_runs_def get_run_update)

lemma step_by_replace:
  assumes "trail_inv runs" and "replaces runs runs'"
  shows "trail_inv runs' \<and>
    (\<forall>x r. get_run x runs = Some r \<longrightarrow> (\<exists>r'. get_run x runs' = Some r' \<and> run_evolves r r'))"
  using replaces_inv [OF assms] replaces_evolves [OF assms(2)] by blast

lemma trail_step_cases:
  assumes "trail_step runs runs'" and inv: "trail_inv runs"
  shows "trail_inv runs' \<and>
    (\<forall>x r. get_run x runs = Some r \<longrightarrow> (\<exists>r'. get_run x runs' = Some r' \<and> run_evolves r r'))"
  using assms(1)
proof cases
  case (begin_run sha env q d i)
  then obtain rid where rid: "get_run i runs = None" "i = sr_run_id (new_run_row sha env q rid)"
    "runs' = runs @ [new_run_row sha env q rid]"
    using begin_run_appends [OF begin_run] by (auto simp: new_run_row_def)
  then have "trail_inv runs'"
    using inv run_ok_new by (auto simp: trail_inv_def get_run_def row_by_None_iff)
  moreover have "get_run x runs' = Some r" if "get_run x runs = Some r" for x r
    using that rid(3) by (simp add: get_run_def row_by_append)
  ultimately show ?thesis by (auto simp: run_evolves_def)
next
  case (interrupt_run env now_given)
  then show ?thesis
    using interrupt_inv [OF inv] interrupt_get
    by (auto simp: stale_run_def run_evolves_def)
next
  case (finish_run env h overall err outcome)
  then show ?thesis
    using finish_replaces [OF inv] replaces_inv [OF inv] replaces_evolves inv run_evolves_def by metis
qed (rule step_by_replace [OF inv], blast intro: worker_steps_replace [OF inv])+

interpretation trail: invariant_system "\<lambda>runs. runs = []" trail_step trail_inv
  by unfold_locales (use trail_step_cases in \<open>auto simp: trail_inv_def\<close>)

lemma run_evolves_trans: "run_evolves a b \<Longrightarrow> run_evolves b c \<Longrightarrow> run_evolves a c"
  unfolding run_evolves_def by (auto dest: prefix_order.trans)

lemma trail_steps_evolve:
  assumes "trail_step\<^sup>*\<^sup>* runs runs'" and "trail_inv runs" and "get_run x runs = Some r"
  shows "\<exists>r'. get_run x runs' = Some r' \<and> run_evolves r r'"
  using assms(1)
proof (induction rule: rtranclp_induct)
  case base
  then show ?case using assms(3) by (simp add: run_evolves_def)
next
  case (step ys zs)
  have "trail_inv ys" using trail.steps_inv [OF step.hyps(1) assms(2)] .
  with step trail_step_cases show ?case using run_evolves_trans by metis
qed


section \<open>Properties of the trail\<close>


text \<open>
  C8: Dispatched operations are never forgotten. Whatever happens later, the list of dispatched
  operations of a run only grows at its end, a recorded baseline is never replaced, and a run that
  is no longer running never changes again.
\<close>

theorem trail_only_grows:
  assumes "reach (\<lambda>runs. runs = []) trail_step runs" and "trail_step\<^sup>*\<^sup>* runs runs'"
    and "get_run x runs = Some r"
  shows "\<exists>r'. get_run x runs' = Some r' \<and> prefix (dispatched_ops r) (dispatched_ops r') \<and>
    (sr_pre_apply_baseline r \<noteq> None \<longrightarrow> sr_pre_apply_baseline r' = sr_pre_apply_baseline r) \<and>
    (sr_status r \<noteq> RunRunning \<longrightarrow> r' = r)"
proof -
  obtain r' where "get_run x runs' = Some r'" "run_evolves r r'"
    using trail_steps_evolve [OF assms(2) trail.reach_inv [OF assms(1)] assms(3)] by blast
  then show ?thesis by (auto simp: run_evolves_def)
qed

lemma refused:
  assumes "trail_inv runs" and "get_run i runs = Some r" and "\<not> holds_run i owner r"
  shows "record_sealed_apply_op_intent env i op owner runs = Inl (lost_error i)"
    "record_sealed_apply_op_progress env i op owner ev runs = Inl (lost_error i)"
    "abandon_sealed_apply_op_intent env i op owner ev runs = Inl (lost_error i)"
    "renew_sealed_apply_lease env i owner secs runs = Inl (lost_error i)"
    "finish_sealed_apply_run env i owner st overall err outcome runs = Inr (False, runs)"
proof -
  have d: "distinct (run_ids runs)" using assms(1) by (simp add: trail_inv_def)
  then have "sql_rowcount (holds_run i owner) runs = 0"
    using rowcount_held [OF d holds_run_id] assms(2,3) by simp
  then show "finish_sealed_apply_run env i owner st overall err outcome runs = Inr (False, runs)"
    by (simp add: finish_sealed_apply_run_def)
qed (use assms in \<open>simp_all add: record_intent_eq record_progress_eq abandon_intent_eq
      renew_sealed_apply_lease_def update_held_iff trail_inv_def\<close>)


text \<open>
  C35: Intent, then progress. The holder of a run that announces an operation and then records it as
  dispatched finds it once among the dispatched operations, no longer among the pending ones, with
  its evidence, and everything recorded before still there.
\<close>

theorem intent_then_progress:
  assumes "reach (\<lambda>runs. runs = []) trail_step runs" and "get_run i runs = Some r" and "holds_run i owner r"
    and "wf_json (JObj ev)"
  shows "\<exists>runs1 runs2 r2. record_sealed_apply_op_intent env1 i op owner runs = Inr runs1 \<and>
    record_sealed_apply_op_progress env2 i op owner (Some ev) runs1 = Inr runs2 \<and>
    get_run i runs2 = Some r2 \<and> holds_run i owner r2 \<and>
    set (pending_ops r2) = set (pending_ops r) - {op} \<and>
    set (dispatched_ops r2) = insert op (set (dispatched_ops r)) \<and> distinct (dispatched_ops r2) \<and>
    map_of (op_evidence r2) = (map_of (op_evidence r))(op \<mapsto> JObj ev)"
proof -
  note inv = trail.reach_inv [OF assms(1)]
  have ok: "run_ok r" "sr_run_id r = i" using trail_inv_get [OF inv assms(2)] by auto
  let ?p = "if op \<in> set (pending_ops r) then pending_ops r else pending_ops r @ [op]"
  let ?r1 = "with_ops env1 ?p (dispatched_ops r) (op_evidence r) r"
  let ?runs1 = "replace_run i ?r1 runs"
  have step1: "record_sealed_apply_op_intent env1 i op owner runs = Inr ?runs1"
    using assms(2,3) by (simp add: record_intent_eq [OF inv])
  then have inv1: "trail_inv ?runs1"
    using worker_steps_replace(1) [OF inv] replaces_inv [OF inv] by blast
  have get1: "get_run i ?runs1 = Some ?r1" using get_replace_run [OF _ assms(2)] ok(2) by simp
  have held1: "holds_run i owner ?r1" using assms(3) by (simp add: holds_run_def)
  have read: "dispatched_ops ?r1 = dispatched_ops r" "op_evidence ?r1 = op_evidence r" "pending_ops ?r1 = ?p"
    using run_ok_simps(6) [OF ok(1)] by (simp_all del: wf_json.simps)
  let ?s = "if op \<in> set (dispatched_ops r) then dispatched_ops r else dispatched_ops r @ [op]"
  let ?e = "merge_sealed_apply_op_evidence (op_evidence r) op (Some ev)"
  let ?r2 = "with_ops env2 (filter (\<lambda>x. x \<noteq> op) ?p) ?s ?e ?r1"
  have step2: "record_sealed_apply_op_progress env2 i op owner (Some ev) ?runs1 = Inr (replace_run i ?r2 ?runs1)"
    using get1 held1 read by (simp add: record_progress_eq [OF inv1])
  have get2: "get_run i (replace_run i ?r2 ?runs1) = Some ?r2"
    using get_replace_run [OF _ get1] ok(2) by simp
  have e: "wf_json (JObj ?e)" using run_ok_simps(6) [OF ok(1)] assms(4) by (intro wf_merge_evidence) simp_all
  have "set (pending_ops ?r2) = set (pending_ops r) - {op}" by auto
  moreover have "set (dispatched_ops ?r2) = insert op (set (dispatched_ops r))" by auto
  moreover have "distinct (dispatched_ops ?r2)" using run_ok_simps(4) [OF ok(1)] by simp
  moreover have "map_of (op_evidence ?r2) = (map_of (op_evidence r))(op \<mapsto> JObj ev)"
    using parse_dump_dict [OF e] by (simp add: merge_sealed_apply_op_evidence_def)
  moreover have "holds_run i owner ?r2" using held1 by (simp add: holds_run_def)
  ultimately show ?thesis using step1 step2 get2 by blast
qed

text \<open>
  C36: An exception never leaves a run open. When the body of an apply raises while its lease is still
  held, the guard closes the run as failed with the name of the exception and raises it again.
\<close>

theorem guard_closes_run:
  assumes "fn runs = (Inl exc, runs')" and "trail_inv runs'" and "get_run (th_run_id h) runs' = Some r"
    and "holds_run (th_run_id h) (th_lease_owner h) r"
  shows "\<exists>runs'' r''. guard_sealed_apply_trail env (Some h) fn runs = (Inl exc, runs'') \<and>
    get_run (th_run_id h) runs'' = Some r'' \<and> sr_status r'' = RunFailed \<and> sr_error r'' = Some exc \<and>
    sr_lease_owner r'' = None \<and> sr_finished_at r'' = Some (utc_now_iso env)"
proof -
  have d: "distinct (run_ids runs')" using assms(2) by (simp add: trail_inv_def)
  have "sql_rowcount (holds_run (th_run_id h) (th_lease_owner h)) runs' = 1"
    using rowcount_held [OF d holds_run_id] assms(3,4) by simp
  moreover have "run_status_of (trail_status_for_overall ''failed'') = Inr RunFailed"
    by (simp add: trail_status_for_overall_def run_status_of_def)
  ultimately show ?thesis
    using assms(1,3,4)
    by (simp add: guard_sealed_apply_trail_def finish_sealed_apply_trail_def finish_sealed_apply_run_def get_run_update)
qed

section \<open>The lease during a long sleep\<close>

definition slept :: "wait_event list \<Rightarrow> rat list" where
  "slept evs = concat (map (\<lambda>e. case e of Slept c \<Rightarrow> [c] | Renewed \<Rightarrow> []) evs)"

lemma slept_simps [simp]:
  "slept [] = []" "slept (Slept c # evs) = c # slept evs" "slept (Renewed # evs) = slept evs"
  by (simp_all add: slept_def)

lemma renew_interval_bounds: "1 \<le> l \<Longrightarrow> 0 < renew_interval l \<and> renew_interval l \<le> of_int l"
  by (auto simp: renew_interval_def)

definition lease_reaches :: "ident \<Rightarrow> string \<Rightarrow> int \<Rightarrow> run_row list \<Rightarrow> bool" where
  "lease_reaches i owner t runs \<longleftrightarrow> distinct (run_ids runs) \<and>
     (\<exists>r u. get_run i runs = Some r \<and> holds_run i owner r \<and> sr_lease_until r = Some u \<and> t \<le> u)"

lemma renew_reaches:
  assumes "lease_reaches i owner t runs"
  shows "\<exists>runs'. renew_sealed_apply_lease env i owner secs runs = Inr runs' \<and>
    lease_reaches i owner (lease_validity_epoch env + secs) runs'"
proof -
  from assms obtain r where r: "distinct (run_ids runs)" "get_run i runs = Some r" "holds_run i owner r"
    by (auto simp: lease_reaches_def)
  then show ?thesis
    by (auto simp: renew_sealed_apply_lease_def update_held_iff lease_reaches_def get_replace_run
        ids_replace_run holds_run_def)
qed

lemma sleep_loop_lease:
  assumes l: "1 \<le> l" and env: "\<And>n. lease_validity_epoch (env n) = \<lfloor>t0 + of_nat (Suc n) * renew_interval l\<rfloor>"
    and "0 < remaining" and "lease_reaches i owner (\<lfloor>t0 + of_nat n * renew_interval l\<rfloor> + l) runs"
  shows "\<exists>evs runs'. sleep_loop l (\<lambda>n. renew_sealed_apply_lease (env n) i owner l) n remaining runs = (evs, Inr runs') \<and>
    sum_list (slept evs) = remaining \<and> (\<forall>c \<in> set (slept evs). c \<le> renew_interval l) \<and>
    lease_reaches i owner \<lfloor>t0 + of_nat n * renew_interval l + remaining\<rfloor> runs'"
  using assms(3,4)
proof (induction "nat \<lceil>remaining\<rceil>" arbitrary: n remaining runs rule: less_induct)
  case less
  let ?I = "renew_interval l"
  let ?renew = "\<lambda>n. renew_sealed_apply_lease (env n) i owner l"
  note I = renew_interval_bounds [OF l]
  show ?case
  proof (cases "remaining \<le> ?I")
    case True
    then have "\<lfloor>t0 + of_nat n * ?I + remaining\<rfloor> \<le> \<lfloor>t0 + of_nat n * ?I + of_int l\<rfloor>"
      using I by (intro floor_mono) simp
    then have "lease_reaches i owner \<lfloor>t0 + of_nat n * ?I + remaining\<rfloor> runs"
      using less.prems(2) unfolding lease_reaches_def by fastforce
    moreover have "sleep_loop l ?renew n remaining runs = ([Slept remaining], Inr runs)"
      using True less.prems(1) by (subst sleep_loop.simps) simp
    ultimately show ?thesis using True by auto
  next
    case False
    obtain runs1 where r1: "?renew n runs = Inr runs1"
      "lease_reaches i owner (\<lfloor>t0 + of_nat (Suc n) * ?I\<rfloor> + l) runs1"
      using renew_reaches [OF less.prems(2), of "env n" l] env by auto
    have "nat \<lceil>remaining - ?I\<rceil> < nat \<lceil>remaining\<rceil>"
      using sleep_measure [of remaining l] less.prems(1) False by simp
    from less.hyps [OF this _ r1(2)] False obtain evs runs' where ih:
      "sleep_loop l ?renew (Suc n) (remaining - ?I) runs1 = (evs, Inr runs')"
      "sum_list (slept evs) = remaining - ?I" "\<forall>c \<in> set (slept evs). c \<le> ?I"
      "lease_reaches i owner \<lfloor>t0 + of_nat (Suc n) * ?I + (remaining - ?I)\<rfloor> runs'"
      by auto
    have "sleep_loop l ?renew n remaining runs = (Slept ?I # Renewed # evs, Inr runs')"
      using False less.prems(1) r1(1) ih(1) by (subst sleep_loop.simps) simp
    moreover have eq: "t0 + of_nat (Suc n) * ?I + (remaining - ?I) = t0 + of_nat n * ?I + remaining"
      by (simp add: algebra_simps)
    have "lease_reaches i owner \<lfloor>t0 + of_nat n * ?I + remaining\<rfloor> runs'" using ih(4) unfolding eq .
    ultimately show ?thesis using ih(2,3) by auto
  qed
qed



section \<open>Examples\<close>

definition demo_run_request :: run_request where
  "demo_run_request = \<lparr>rr_route = ''/wifi'', rr_verb = ''apply'', rr_intent = [(''ssid'', JStr ''x'')],
     rr_ops_planned = [''set-ssid''], rr_router_id = None, rr_correlation_id = Some ''c1'',
     rr_lease_owner = ''w1'', rr_lease_seconds = 30\<rparr>"

definition demo_run :: run_row where
  "demo_run = new_run_row (\<lambda>t. t) (demo_env 10 ''a'') demo_run_request None"

lemma demo_run_begin:
  "begin_sealed_apply_run (\<lambda>t. t) (demo_env 10 ''a'') demo_run_request empty_db [] =
     Inr (sr_run_id demo_run, [demo_run])"
  by (simp add: begin_sealed_apply_run_def demo_run_request_def insert_run_def get_run_def fk_def
      new_run_row_def demo_run_def Let_def)

lemma demo_run_reach: "reach (\<lambda>runs. runs = []) trail_step [demo_run]"
  using reach_step [of "\<lambda>runs. runs = []" trail_step "[]"] reach_init [of "\<lambda>runs. runs = []" "[]"]
    begin_run [OF demo_run_begin] by blast

lemma demo_run_get: "get_run (sr_run_id demo_run) [demo_run] = Some demo_run"
  by (simp add: get_run_def)

lemma demo_run_held: "holds_run (sr_run_id demo_run) ''w1'' demo_run"
  by (simp add: holds_run_def demo_run_def new_run_row_def demo_run_request_def)

lemma demo_run_lease: "sr_lease_until demo_run = Some 40" "sr_status demo_run = RunRunning"
  by (simp_all add: demo_run_def new_run_row_def demo_run_request_def lease_validity_epoch_def demo_env_def)


theorem intent_then_progress_witness:
  "\<exists>runs1 runs2 r2. record_sealed_apply_op_intent (demo_env 11 ''b'') (sr_run_id demo_run) ''set-ssid'' ''w1'' [demo_run] = Inr runs1 \<and>
     record_sealed_apply_op_progress (demo_env 12 ''c'') (sr_run_id demo_run) ''set-ssid'' ''w1'' (Some []) runs1 = Inr runs2 \<and>
     get_run (sr_run_id demo_run) runs2 = Some r2 \<and> ''set-ssid'' \<in> set (dispatched_ops r2)"
  using intent_then_progress [OF demo_run_reach demo_run_get demo_run_held,
      of "[]" "demo_env 11 ''b''" "''set-ssid''" "demo_env 12 ''c''"] by auto

theorem trail_only_grows_witness:
  "\<exists>r'. get_run (sr_run_id demo_run) (snd (interrupt_stale_sealed_apply_runs (demo_env 50 ''d'') False [demo_run])) = Some r' \<and>
     prefix (dispatched_ops demo_run) (dispatched_ops r')"
proof -
  have "trail_step\<^sup>*\<^sup>* [demo_run] (snd (interrupt_stale_sealed_apply_runs (demo_env 50 ''d'') False [demo_run]))"
    by (rule r_into_rtranclp) (rule interrupt_run)
  from trail_only_grows [OF demo_run_reach this demo_run_get] show ?thesis by blast
qed


definition demo_handle :: trail_handle where
  "demo_handle = \<lparr>th_run_id = sr_run_id demo_run, th_lease_owner = ''w1''\<rparr>"

theorem guard_closes_run_witness:
  "\<exists>runs r. guard_sealed_apply_trail (demo_env 12 ''f'') (Some demo_handle)
      (\<lambda>runs. (Inl ''RuntimeError'' :: string + unit, runs)) [demo_run] = (Inl ''RuntimeError'', runs) \<and>
    get_run (sr_run_id demo_run) runs = Some r \<and> sr_status r = RunFailed"
proof -
  have g: "get_run (th_run_id demo_handle) [demo_run] = Some demo_run"
    "holds_run (th_run_id demo_handle) (th_lease_owner demo_handle) demo_run"
    using demo_run_get demo_run_held by (simp_all add: demo_handle_def)
  have "trail_inv [demo_run]" using trail.reach_inv [OF demo_run_reach] .
  from guard_closes_run [where fn = "\<lambda>runs. (Inl ''RuntimeError'' :: string + unit, runs)", OF refl this g]
  show ?thesis by (fastforce simp: demo_handle_def)
qed


end
