(* ===== verification/Worker.thy ===== *)
theory Worker
  imports Complex_Main Queue_Protocol Recovery_Store
begin

text \<open>
  The durable worker: \<open>application/worker.py\<close> and the handler registry of
  \<open>application/worker_handlers.py\<close>. A poll claims a job, takes the router's execution fence, runs the
  registered handler under a heartbeat and completes, fails or cancels the job. Each store call is
  one transaction and keeps its effect when a later call of the worker raises, so the worker is a
  computation on the database that may end with an exception.

  The handler of a job is an argument: what it does to the database while it runs, together with
  the heartbeat and everything other processes do meanwhile, is one state change; it reports its
  result or exception and whether the heartbeat lost the lease. SQLite is never busy in the model,
  so the branches for \<open>OperationalError\<close> do not occur.
\<close>

section \<open>Computations of the worker\<close>

type_synonym 'a work = "db \<Rightarrow> (store_error + 'a) \<times> db"

definition work_bind :: "'a work \<Rightarrow> ('a \<Rightarrow> 'b work) \<Rightarrow> 'b work" where
  "work_bind m f = (\<lambda>d. case m d of (Inl e, d') \<Rightarrow> (Inl e, d') | (Inr x, d') \<Rightarrow> f x d')"

text \<open>One store call: it commits, or raises and leaves the database alone.\<close>

definition work_call :: "(db \<Rightarrow> db res) \<Rightarrow> unit work" where
  "work_call f = (\<lambda>d. case f d of Inl e \<Rightarrow> (Inl e, d) | Inr d' \<Rightarrow> (Inr (), d'))"

definition is_stale :: "store_error \<Rightarrow> bool" where
  "is_stale e = (case e of StaleFenceError _ \<Rightarrow> True | _ \<Rightarrow> False)"

text \<open>\<open>try: m; except StaleFenceError: return\<close>, followed by the rest of the function.\<close>

definition unless_stale :: "unit work \<Rightarrow> unit work \<Rightarrow> unit work" where
  "unless_stale m rest = (\<lambda>d. case m d of
     (Inl e, d') \<Rightarrow> if is_stale e then (Inr (), d') else (Inl e, d')
   | (Inr _, d') \<Rightarrow> rest d')"

section \<open>Handlers and their registry\<close>

record handler_result =
  hr_status :: job_status
  hr_summary :: string
  hr_http_status :: "int option"
  hr_response_body :: "json option"
  hr_aggregate_status :: "string option"

text \<open>Exceptions that leave a handler: the two that are treated apart, and any other by type name.\<close>

datatype handler_exc = LeaseLostExc | RecoveryRequiredExc string | OtherExc string

record worker_ctx =
  wx_job_id :: ident
  wx_operation_id :: ident
  wx_operation_kind :: string
  wx_router_id :: ident
  wx_correlation_id :: "string option"
  wx_lease_owner :: string
  wx_fencing_token :: int

type_synonym handler = "worker_ctx \<Rightarrow> db \<Rightarrow> ((handler_exc + handler_result) \<times> bool) \<times> db"

definition supported_handler_kinds :: "string list" where
  "supported_handler_kinds = [''commissioning_assess_readonly'', ''preset_validate'',
     ''preset_plan_readiness'', ''fake_simulate_apply'']"

definition live_mutation_kinds :: "string list" where
  "live_mutation_kinds = [''apply_plan'', ''enroll'', ''preflight'', ''rotate_credential'',
     ''revoke_credential'', ''put_credential'', ''import_profile'', ''validate_profile'']"

datatype handler_reject = MutationForbidden string | WorkerJobRejected string

definition reject_name :: "handler_reject \<Rightarrow> string" where
  "reject_name e = (case e of MutationForbidden _ \<Rightarrow> ''MutationForbidden'' | WorkerJobRejected _ \<Rightarrow> ''WorkerJobRejected'')"

definition reject_message :: "handler_reject \<Rightarrow> string" where
  "reject_message e = (case e of MutationForbidden m \<Rightarrow> m | WorkerJobRejected m \<Rightarrow> m)"

definition resolve_handler_kind :: "string \<Rightarrow> string \<Rightarrow> bool \<Rightarrow> handler_reject + string" where
  "resolve_handler_kind operation_kind adapter_mode allow_fake_mutations =
     (if operation_kind \<in> set supported_handler_kinds then Inr operation_kind
      else if operation_kind = ''apply_plan'' then
        (if adapter_mode = ''fake'' \<and> allow_fake_mutations then Inr ''fake_simulate_apply''
         else Inl (MutationForbidden ''live apply_plan forbidden; fake simulation not enabled''))
      else if operation_kind \<in> set live_mutation_kinds then
        Inl (MutationForbidden (''operation_kind '' @ operation_kind @ '' is a live mutation; rejected''))
      else Inl (WorkerJobRejected (''unknown or unsupported operation_kind: '' @ operation_kind)))"

record handler_registry =
  hreg_handlers :: "(string \<times> handler) list"
  hreg_adapter_mode :: string
  hreg_allow_fake_mutations :: bool

definition get_or_reject :: "handler_registry \<Rightarrow> string \<Rightarrow> handler_reject + handler" where
  "get_or_reject reg operation_kind =
     rbind (resolve_handler_kind operation_kind (hreg_adapter_mode reg) (hreg_allow_fake_mutations reg)) (\<lambda>kind.
     case map_of (hreg_handlers reg) kind of
       None \<Rightarrow> Inl (WorkerJobRejected (''no handler registered for kind: '' @ kind))
     | Some h \<Rightarrow> Inr h)"

definition error_body :: "string \<Rightarrow> json" where
  "error_body name = JObj [(''error'', JStr name)]"

definition recovery_error_body :: "string \<Rightarrow> json" where
  "recovery_error_body name = JObj [(''status'', JStr ''RecoveryRequired''), (''error'', JStr name)]"

definition safe_handler_call :: "handler \<Rightarrow> worker_ctx \<Rightarrow> db \<Rightarrow> (handler_result \<times> bool) \<times> db" where
  "safe_handler_call h ctx d = (case h ctx d of
     ((Inr result, lost), d') \<Rightarrow> ((result, lost), d')
   | ((Inl exc, lost), d') \<Rightarrow> (((case exc of
         LeaseLostExc \<Rightarrow> \<lparr>hr_status = Failed, hr_summary = ''lease lost during handler'',
           hr_http_status = None, hr_response_body = None, hr_aggregate_status = None\<rparr>
       | RecoveryRequiredExc msg \<Rightarrow> \<lparr>hr_status = RecoveryRequired, hr_summary = take 200 msg,
           hr_http_status = Some 422, hr_response_body = Some (recovery_error_body ''RecoveryRequired''),
           hr_aggregate_status = None\<rparr>
       | OtherExc name \<Rightarrow>
           (if rc_apply_dispatched (classify_job_steps d' (wx_job_id ctx) ''Running'')
            then \<lparr>hr_status = RecoveryRequired, hr_summary = name @ '': post-dispatch handler error'',
              hr_http_status = Some 422, hr_response_body = Some (recovery_error_body name),
              hr_aggregate_status = None\<rparr>
            else \<lparr>hr_status = Failed, hr_summary = name @ '': handler error'',
              hr_http_status = Some 500, hr_response_body = Some (error_body name),
              hr_aggregate_status = None\<rparr>)), lost), d'))"

section \<open>Finishing a job\<close>

definition worker_audit :: "string \<Rightarrow> string \<Rightarrow> worker_ctx \<Rightarrow> string \<Rightarrow> audit_row" where
  "worker_audit action outcome ctx summary =
     (audit_default action outcome)\<lparr>a_router_id := Some (wx_router_id ctx),
        a_operation_id := Some (wx_operation_id ctx), a_job_id := Some (wx_job_id ctx),
        a_summary_redacted := Some summary, a_correlation_id := wx_correlation_id ctx\<rparr>"

definition append_worker_audit :: "call_env \<Rightarrow> audit_row \<Rightarrow> unit work" where
  "append_worker_audit env r = work_call (append_audit env (uuid env 0) r)"

definition result_http_status :: "handler_result \<Rightarrow> int option" where
  "result_http_status result =
     (let http = hr_http_status result;
          http = (if hr_status result = Succeeded \<and> http = None then Some 200 else http)
      in if hr_status result \<in> {Failed, RecoveryRequired} \<and> http = None then Some 422 else http)"

definition result_action :: "job_status \<Rightarrow> string" where
  "result_action s = (if s = Failed then ''worker.failure''
     else if s = RecoveryRequired then ''worker.recovery_required'' else ''worker.success'')"

definition result_completion :: "worker_ctx \<Rightarrow> handler_result \<Rightarrow> completion" where
  "result_completion ctx result = \<lparr>cp_status = hr_status result, cp_summary_redacted = Some (hr_summary result),
     cp_http_status = result_http_status result, cp_response_body = hr_response_body result,
     cp_correlation_id = wx_correlation_id ctx, cp_actor_id = None,
     cp_aggregate_status = hr_aggregate_status result\<rparr>"

definition complete_from_result :: "(nat \<Rightarrow> call_env) \<Rightarrow> worker_ctx \<Rightarrow> handler_result \<Rightarrow> unit work" where
  "complete_from_result env ctx result =
     unless_stale (work_call (record_job_progress (env 0) (wx_job_id ctx) (wx_lease_owner ctx) (wx_fencing_token ctx)
       \<lparr>pr_status = None, pr_step = Some (''handler'', job_status_name (hr_status result)),
        pr_checkpoint_json = Some (Raw (take 500 (hr_summary result))), pr_error_redacted = None\<rparr>))
    (unless_stale (work_call (complete_job (env 1) (wx_job_id ctx) (wx_lease_owner ctx) (wx_fencing_token ctx)
       (result_completion ctx result)))
    (append_worker_audit (env 2)
       (worker_audit (result_action (hr_status result)) (job_status_lower (hr_status result)) ctx (hr_summary result))))"

definition fail_job :: "call_env \<Rightarrow> worker_ctx \<Rightarrow> string \<Rightarrow> int \<Rightarrow> json \<Rightarrow> unit work" where
  "fail_job env ctx summary http_status body =
     unless_stale (work_call (complete_job env (wx_job_id ctx) (wx_lease_owner ctx) (wx_fencing_token ctx)
       \<lparr>cp_status = Failed, cp_summary_redacted = Some summary, cp_http_status = Some http_status,
        cp_response_body = Some body, cp_correlation_id = wx_correlation_id ctx, cp_actor_id = None,
        cp_aggregate_status = None\<rparr>)) (\<lambda>d. (Inr (), d))"

text \<open>Whatever the finalisation raises is logged, and the audit is still written.\<close>

definition finalize_cancel :: "(nat \<Rightarrow> call_env) \<Rightarrow> worker_ctx \<Rightarrow> unit work" where
  "finalize_cancel env ctx d =
     append_worker_audit (env 1) (worker_audit ''worker.cancel'' ''cancelled'' ctx ''cancelled at safe boundary'')
       (snd (work_call (mark_target_job_cancelled (env 0) (wx_job_id ctx)) d))"

section \<open>Processing a claim\<close>

definition partial_apply_result :: "worker_ctx \<Rightarrow> handler_result" where
  "partial_apply_result ctx = \<lparr>hr_status = RecoveryRequired,
     hr_summary = ''cancel after partial apply requires verify/compensate'', hr_http_status = Some 422,
     hr_response_body = Some (JObj [(''operation_id'', JStr (wx_operation_id ctx)),
       (''job_id'', JStr (wx_job_id ctx)), (''status'', JStr ''RecoveryRequired'')]),
     hr_aggregate_status = None\<rparr>"

definition is_cancel_requested :: "db \<Rightarrow> ident \<Rightarrow> bool" where
  "is_cancel_requested d job_id = (case get_job d job_id of None \<Rightarrow> False | Some j \<Rightarrow> j_cancel_requested j)"

text \<open>What follows the handler.\<close>

definition settle_result :: "(nat \<Rightarrow> call_env) \<Rightarrow> worker_ctx \<Rightarrow> handler_result \<Rightarrow> bool \<Rightarrow> unit work" where
  "settle_result env ctx result lost d =
     (if lost then (Inr (), d)
      else if is_cancel_requested d (wx_job_id ctx) \<and> hr_status result \<noteq> RecoveryRequired then
        (if hr_status result = Cancelled then finalize_cancel env ctx d
         else if hr_status result = Succeeded then complete_from_result env ctx result d
         else if rc_apply_dispatched (classify_job_steps d (wx_job_id ctx) ''Running'')
         then complete_from_result env ctx (partial_apply_result ctx) d
         else finalize_cancel env ctx d)
      else complete_from_result env ctx result d)"

definition run_handler :: "(nat \<Rightarrow> call_env) \<Rightarrow> handler \<Rightarrow> worker_ctx \<Rightarrow> unit work" where
  "run_handler env h ctx d =
     (let ((result, lost), d') = safe_handler_call h ctx d in settle_result env ctx result lost d')"

definition process_claim_locked ::
  "(nat \<Rightarrow> call_env) \<Rightarrow> handler_registry \<Rightarrow> worker_ctx \<Rightarrow> unit work" where
  "process_claim_locked env reg ctx =
     work_bind (append_worker_audit (env 0)
       (worker_audit ''worker.claim'' ''accepted'' ctx (''operation_kind='' @ wx_operation_kind ctx))) (\<lambda>_.
     case get_or_reject reg (wx_operation_kind ctx) of
       Inl exc \<Rightarrow> fail_job (env 1) ctx (''rejected: '' @ reject_name exc) 403
         (JObj [(''error'', JStr (reject_name exc)), (''message'', JStr (take 120 (reject_message exc)))])
     | Inr h \<Rightarrow>
         unless_stale (work_call (record_job_progress (env 1) (wx_job_id ctx) (wx_lease_owner ctx) (wx_fencing_token ctx)
           \<lparr>pr_status = Some Running, pr_step = Some (''dispatch'', ''Running''), pr_checkpoint_json = None,
            pr_error_redacted = None\<rparr>))
         (work_bind (append_worker_audit (env 2) (worker_audit ''worker.start'' ''running'' ctx
            (''handler dispatch operation_kind='' @ wx_operation_kind ctx))) (\<lambda>_.
          run_handler (\<lambda>n. env (3 + n)) h ctx)))"

datatype worker_lifecycle = LcStopped | LcStarting | LcRunning | LcStopping | LcDegraded

record worker_config =
  wc_worker_id :: string
  wc_instance_id :: string
  wc_process_id :: int
  wc_boot_id :: string
  wc_lease_seconds :: int
  wc_poll_interval :: rat
  wc_max_backoff :: rat

definition claim_worker_ctx :: "claim_result \<Rightarrow> job_row \<Rightarrow> operation_row \<Rightarrow> worker_ctx" where
  "claim_worker_ctx claim job op = \<lparr>wx_job_id = cl_job_id claim, wx_operation_id = j_operation_id job,
     wx_operation_kind = o_operation_kind op, wx_router_id = j_router_id job,
     wx_correlation_id = (case o_correlation_id op of None \<Rightarrow> None | Some c \<Rightarrow> if c = [] then None else Some c),
     wx_lease_owner = cl_lease_owner claim, wx_fencing_token = cl_fencing_token claim\<rparr>"

text \<open>
  The handler thread: the process mutex is held while it runs. The result says whether the thread
  ended with an exception, which marks the worker as degraded.
\<close>

definition process_claim ::
  "(nat \<Rightarrow> call_env) \<Rightarrow> worker_config \<Rightarrow> handler_registry \<Rightarrow> claim_result \<Rightarrow> db \<Rightarrow> store_error option \<times> db" where
  "process_claim env cfg reg claim d = (case get_job d (cl_job_id claim) of
     None \<Rightarrow> (None, d)
   | Some job \<Rightarrow> (case get_operation d (j_operation_id job) of
       None \<Rightarrow> (None, d)
     | Some op \<Rightarrow>
         (case work_bind
             (work_call (\<lambda>d. map_sum id snd (acquire_router_execution_fence (env 0) (j_router_id job) (wc_worker_id cfg)
                (wc_instance_id cfg) (wc_lease_seconds cfg) (Some (cl_job_id claim)) True d)))
             (\<lambda>_. process_claim_locked (\<lambda>n. env (Suc n)) reg (claim_worker_ctx claim job op)) d of
            (Inl e, d') \<Rightarrow> (Some e, d')
          | (Inr _, d') \<Rightarrow> (None, d'))))"

text \<open>One poll: \<open>False\<close> when nothing was claimed; the claim itself may raise.\<close>

definition poll_once ::
  "(nat \<Rightarrow> call_env) \<Rightarrow> worker_config \<Rightarrow> handler_registry \<Rightarrow> db \<Rightarrow> (store_error + bool \<times> store_error option) \<times> db" where
  "poll_once env cfg reg d = (case claim_job (env 0) (wc_worker_id cfg) (wc_lease_seconds cfg) d of
     Inl e \<Rightarrow> (Inl e, d)
   | Inr (None, d') \<Rightarrow> (Inr (False, None), d')
   | Inr (Some claim, d') \<Rightarrow>
       (let (err, d'') = process_claim (\<lambda>n. env (Suc n)) cfg reg claim d' in (Inr (True, err), d'')))"

section \<open>Heartbeat and back-off\<close>

datatype beat_outcome = BeatAlive | BeatLost | BeatDied store_error

definition heartbeat_interval :: "int \<Rightarrow> int" where
  "heartbeat_interval lease_seconds = max 1 (lease_seconds div 3)"

definition beat_call :: "(db \<Rightarrow> db res) \<Rightarrow> (db \<Rightarrow> beat_outcome \<times> db) \<Rightarrow> db \<Rightarrow> beat_outcome \<times> db" where
  "beat_call f rest d = (case f d of
     Inr d' \<Rightarrow> rest d'
   | Inl (StaleFenceError m) \<Rightarrow> (BeatLost, d)
   | Inl (FenceExpiredError m) \<Rightarrow> (BeatLost, d)
   | Inl e \<Rightarrow> (BeatDied e, d))"

definition heartbeat_beat ::
  "(nat \<Rightarrow> call_env) \<Rightarrow> worker_config \<Rightarrow> worker_ctx \<Rightarrow> db \<Rightarrow> beat_outcome \<times> db" where
  "heartbeat_beat env cfg ctx d =
     (let renew = beat_call (renew_lease (env 1) (wx_job_id ctx) (wx_lease_owner ctx) (wx_fencing_token ctx)
                    (wc_lease_seconds cfg)) (\<lambda>d. (BeatAlive, d))
      in case get_router_execution_fence d (wx_router_id ctx) of
           Some f \<Rightarrow>
             if f_lease_owner f = wx_lease_owner ctx \<and> f_mutex_holder_id f = wc_instance_id cfg
             then beat_call (renew_router_execution_fence (env 0) (wx_router_id ctx) (wx_lease_owner ctx)
                    (wc_instance_id cfg) (f_fence_token f) (wc_lease_seconds cfg)) renew d
             else renew d
         | None \<Rightarrow> renew d)"

text \<open>The outcome of one round of the main loop and the pause that follows it.\<close>

datatype round = Processed | Idle | Raised

definition next_backoff :: "worker_config \<Rightarrow> round \<Rightarrow> rat \<Rightarrow> rat" where
  "next_backoff cfg r backoff = (case r of
     Processed \<Rightarrow> wc_poll_interval cfg
   | Idle \<Rightarrow> min (backoff * (3 / 2)) (wc_max_backoff cfg)
   | Raised \<Rightarrow> wc_max_backoff cfg)"

definition backoff_after :: "worker_config \<Rightarrow> round list \<Rightarrow> rat" where
  "backoff_after cfg rounds = foldl (\<lambda>b r. next_backoff cfg r b) (wc_poll_interval cfg) rounds"

section \<open>Life cycle of the worker\<close>

record worker_row =
  wi_worker_instance_id :: ident
  wi_process_id :: int
  wi_boot_id :: string
  wi_hostname :: "string option"
  wi_lifecycle_status :: worker_lifecycle
  wi_started_at_epoch :: int
  wi_stopped_at_epoch :: "int option"
  wi_created_at :: int
  wi_updated_at :: int

definition register_worker_instance ::
  "call_env \<Rightarrow> ident \<Rightarrow> int \<Rightarrow> string \<Rightarrow> string option \<Rightarrow> worker_lifecycle \<Rightarrow> int option \<Rightarrow> worker_row list \<Rightarrow> worker_row list res" where
  "register_worker_instance env instance_id process_id boot_id hostname status started rows =
     (if row_by wi_worker_instance_id instance_id rows \<noteq> None
      then Inl (IntegrityError ''UNIQUE worker_instances.worker_instance_id'')
      else if row_by (\<lambda>r. (wi_process_id r, wi_boot_id r)) (process_id, boot_id) rows \<noteq> None
      then Inl (IntegrityError ''UNIQUE worker_instances(process_id, boot_id)'')
      else Inr (rows @ [\<lparr>wi_worker_instance_id = instance_id, wi_process_id = process_id, wi_boot_id = boot_id,
        wi_hostname = hostname, wi_lifecycle_status = status,
        wi_started_at_epoch = (case started of Some e \<Rightarrow> e | None \<Rightarrow> wall_now env div 1000000),
        wi_stopped_at_epoch = None, wi_created_at = utc_now_iso env, wi_updated_at = utc_now_iso env\<rparr>]))"

definition update_worker_instance_lifecycle ::
  "call_env \<Rightarrow> ident \<Rightarrow> worker_lifecycle \<Rightarrow> int option \<Rightarrow> worker_row list \<Rightarrow> worker_row list" where
  "update_worker_instance_lifecycle env instance_id status stopped rows =
     sql_update (\<lambda>r. wi_worker_instance_id r = instance_id)
       (\<lambda>r. r\<lparr>wi_lifecycle_status := status,
              wi_stopped_at_epoch := (case stopped of Some e \<Rightarrow> Some e | None \<Rightarrow> wi_stopped_at_epoch r),
              wi_updated_at := utc_now_iso env\<rparr>) rows"

definition get_worker_instance :: "ident \<Rightarrow> worker_row list \<Rightarrow> worker_row option" where
  "get_worker_instance instance_id rows = row_by wi_worker_instance_id instance_id rows"

text \<open>\<open>ws_loops\<close> counts the loop threads that are alive.\<close>

record worker_state =
  ws_lifecycle :: worker_lifecycle
  ws_stop_requested :: bool
  ws_last_error :: "string option"
  ws_loops :: nat

definition worker_start ::
  "call_env \<Rightarrow> worker_config \<Rightarrow> worker_state \<times> worker_row list \<Rightarrow> worker_state \<times> worker_row list" where
  "worker_start env cfg = (\<lambda>(st, rows).
     if ws_lifecycle st \<in> {LcRunning, LcStarting} then (st, rows)
     else
       (st\<lparr>ws_lifecycle := LcStarting, ws_stop_requested := False, ws_loops := ws_loops st + 1\<rparr>,
        case register_worker_instance env (wc_instance_id cfg) (wc_process_id cfg) (wc_boot_id cfg) None
           LcStarting (Some (wall_now env div 1000000)) rows of
          Inr rows' \<Rightarrow> rows' | Inl _ \<Rightarrow> rows))"

definition error_type_name :: "store_error \<Rightarrow> string" where
  "error_type_name e = (case e of
     ConflictError _ \<Rightarrow> ''ConflictError'' | PreconditionFailed _ \<Rightarrow> ''PreconditionFailed''
   | IdempotencyConflict _ \<Rightarrow> ''IdempotencyConflict'' | StaleFenceError _ \<Rightarrow> ''StaleFenceError''
   | NotFoundError _ \<Rightarrow> ''NotFoundError'' | FenceExpiredError _ \<Rightarrow> ''FenceExpiredError''
   | MutexHolderRequiredError _ \<Rightarrow> ''MutexHolderRequiredError''
   | RecoveryConflictError _ \<Rightarrow> ''RecoveryConflictError''
   | EffectTransitionError _ \<Rightarrow> ''EffectTransitionError'' | UnknownBootError _ \<Rightarrow> ''UnknownBootError''
   | ArtifactNotRestorableError _ \<Rightarrow> ''ArtifactNotRestorableError''
   | IntegrityError _ \<Rightarrow> ''IntegrityError'' | JSONDecodeError \<Rightarrow> ''JSONDecodeError''
   | AttributeError \<Rightarrow> ''AttributeError'' | TypeError \<Rightarrow> ''TypeError'' | ValueError _ \<Rightarrow> ''ValueError''
   | KeyError _ \<Rightarrow> ''KeyError'')"

definition degrade :: "store_error \<Rightarrow> string \<Rightarrow> worker_state \<Rightarrow> worker_state" where
  "degrade e place st = st\<lparr>ws_last_error := Some (error_type_name e @ '': '' @ place), ws_lifecycle := LcDegraded\<rparr>"

text \<open>The beginning of \<open>_run_loop\<close>: recovery and reaping, then running; a failure ends the loop.\<close>

definition loop_begin ::
  "(nat \<Rightarrow> call_env) \<Rightarrow> worker_config \<Rightarrow> worker_state \<times> worker_row list \<times> db \<Rightarrow> worker_state \<times> worker_row list \<times> db" where
  "loop_begin env cfg = (\<lambda>(st, rows, d). case recover_expired_leases (env 0) d of
     Inl e \<Rightarrow> ((degrade e ''worker fatal'' st)\<lparr>ws_loops := ws_loops st - 1\<rparr>, rows, d)
   | Inr (_, d1) \<Rightarrow>
       (st\<lparr>ws_lifecycle := LcRunning\<rparr>,
        update_worker_instance_lifecycle (env 2) (wc_instance_id cfg) LcRunning None rows,
        snd (reap_expired_router_execution_fences (env 1) 100 d1)))"

text \<open>One round of the loop, unless a stop was requested, with its outcome for the back-off.\<close>

definition loop_round ::
  "(nat \<Rightarrow> call_env) \<Rightarrow> worker_config \<Rightarrow> handler_registry \<Rightarrow> worker_state \<times> db \<Rightarrow> round option \<times> worker_state \<times> db" where
  "loop_round env cfg reg = (\<lambda>(st, d).
     if ws_stop_requested st then (None, st\<lparr>ws_loops := ws_loops st - 1\<rparr>, d)
     else case poll_once env cfg reg d of
       (Inl e, d') \<Rightarrow> (Some Raised, degrade e ''worker loop error'' st, d')
     | (Inr (processed, err), d') \<Rightarrow>
         (Some (if processed then Processed else Idle),
          (case err of None \<Rightarrow> st | Some e \<Rightarrow> degrade e ''handler thread error'' st), d'))"

text \<open>\<open>stop()\<close> after the loop thread has been joined; a handler that is still active degrades.\<close>

definition worker_stop ::
  "call_env \<Rightarrow> worker_config \<Rightarrow> bool \<Rightarrow> worker_state \<times> worker_row list \<Rightarrow> worker_state \<times> worker_row list" where
  "worker_stop env cfg mutation_active = (\<lambda>(st, rows).
     if ws_lifecycle st = LcStopped then (st, rows)
     else let lc = (if mutation_active then LcDegraded else LcStopped) in
       (st\<lparr>ws_lifecycle := lc, ws_stop_requested := True\<rparr>,
        update_worker_instance_lifecycle env (wc_instance_id cfg) lc (Some (wall_now env div 1000000)) rows))"

end
