(* ===== verification/Worker_Refinement.thy ===== *)
theory Worker_Refinement
  imports Worker
begin

text \<open>
  The worker against the queue protocol: every poll is a sequence of protocol steps, so the
  guarantees of \<open>Queue_Protocol\<close> hold for the worker's own code; which jobs are refused before
  dispatch, how handler errors are settled, and the bounds of the pause between polls.
\<close>


section \<open>The worker takes steps of the queue protocol\<close>

definition ctx_of :: "worker_ctx \<Rightarrow> ctx" where
  "ctx_of wx = \<lparr>cx_job_id = wx_job_id wx, cx_lease_owner = wx_lease_owner wx, cx_fencing_token = wx_fencing_token wx\<rparr>"

definition sys_to :: "sys \<Rightarrow> db \<Rightarrow> ctx list \<Rightarrow> bool" where
  "sys_to s d cs \<longleftrightarrow> sys_step\<^sup>*\<^sup>* s \<lparr>sys_db = d, sys_ctx = cs\<rparr>"

text \<open>
  Three grades of a state change of the database: it needs no context, it uses the context and
  leaves it in place, it uses the context and may end it.
\<close>

definition frees :: "(db \<Rightarrow> db) \<Rightarrow> bool" where
  "frees f \<longleftrightarrow> (\<forall>s. sys_to s (f (sys_db s)) (sys_ctx s))"

definition keeps :: "ctx \<Rightarrow> (db \<Rightarrow> db) \<Rightarrow> bool" where
  "keeps c f \<longleftrightarrow> (\<forall>s. c \<in> set (sys_ctx s) \<longrightarrow> (\<exists>cs. sys_to s (f (sys_db s)) cs \<and> c \<in> set cs))"

definition uses :: "ctx \<Rightarrow> (db \<Rightarrow> db) \<Rightarrow> bool" where
  "uses c f \<longleftrightarrow> (\<forall>s. c \<in> set (sys_ctx s) \<longrightarrow> (\<exists>cs. sys_to s (f (sys_db s)) cs))"

lemma uses_at: "uses c f \<Longrightarrow> c \<in> set cs \<Longrightarrow> \<exists>cs'. sys_to \<lparr>sys_db = d, sys_ctx = cs\<rparr> (f d) cs'"
  unfolding uses_def by (metis sys.select_convs)

lemma frees_keeps: "frees f \<Longrightarrow> keeps c f"
  unfolding frees_def keeps_def by blast

lemma keeps_uses: "keeps c f \<Longrightarrow> uses c f"
  unfolding uses_def keeps_def by blast

lemma sys_to_trans: "sys_to s d cs \<Longrightarrow> sys_to \<lparr>sys_db = d, sys_ctx = cs\<rparr> d' cs' \<Longrightarrow> sys_to s d' cs'"
  unfolding sys_to_def by (rule rtranclp_trans)

lemma keeps_comp: "keeps c f \<Longrightarrow> keeps c g \<Longrightarrow> keeps c (\<lambda>d. g (f d))"
  unfolding keeps_def by (metis sys.select_convs sys_to_trans)

lemma keeps_then_uses: "keeps c f \<Longrightarrow> uses c g \<Longrightarrow> uses c (\<lambda>d. g (f d))"
  unfolding keeps_def uses_def by (metis sys.select_convs sys_to_trans)

lemma uses_then_frees: "uses c f \<Longrightarrow> frees g \<Longrightarrow> uses c (\<lambda>d. g (f d))"
  unfolding frees_def uses_def by (metis sys.select_convs sys_to_trans)

lemma sys_to_refl: "sys_to s (sys_db s) (sys_ctx s)"
  by (cases s) (simp add: sys_to_def)

lemma keeps_id: "keeps c (\<lambda>d. d)"
  unfolding keeps_def using sys_to_refl by blast

lemma sys_to_upd:
  assumes "sys_step s (s\<lparr>sys_db := d\<rparr>)"
  shows "sys_to s d (sys_ctx s)"
proof -
  have "s\<lparr>sys_db := d\<rparr> = \<lparr>sys_db = d, sys_ctx = sys_ctx s\<rparr>" by simp
  with assms show ?thesis unfolding sys_to_def by (metis r_into_rtranclp)
qed

lemma frees_call:
  assumes "\<And>d d'. f d = Inr d' \<Longrightarrow> client_step d d'"
  shows "frees (\<lambda>d. snd (work_call f d))"
  unfolding frees_def
proof
  fix s :: sys
  show "sys_to s (snd (work_call f (sys_db s))) (sys_ctx s)"
  proof (cases "f (sys_db s)")
    case (Inr d')
    with assms have "sys_step s (s\<lparr>sys_db := d'\<rparr>)" by (intro sys_step.client)
    from sys_to_upd [OF this] show ?thesis using Inr by (simp add: work_call_def)
  qed (simp add: work_call_def sys_to_refl)
qed

lemma keeps_progress:
  assumes "pr_status p \<in> {None, Some Running}"
  shows "keeps c (\<lambda>d. snd (work_call (record_job_progress env (cx_job_id c) (cx_lease_owner c) (cx_fencing_token c) p) d))"
  unfolding keeps_def
proof (intro allI impI)
  fix s :: sys
  assume c: "c \<in> set (sys_ctx s)"
  let ?f = "record_job_progress env (cx_job_id c) (cx_lease_owner c) (cx_fencing_token c) p"
  have "sys_to s (snd (work_call ?f (sys_db s))) (sys_ctx s)"
  proof (cases "?f (sys_db s)")
    case (Inr d')
    with assms c have "sys_step s (s\<lparr>sys_db := d'\<rparr>)" by (intro sys_step.progress)
    from sys_to_upd [OF this] show ?thesis using Inr by (simp add: work_call_def)
  qed (simp add: work_call_def sys_to_refl)
  with c show "\<exists>cs. sys_to s (snd (work_call ?f (sys_db s))) cs \<and> c \<in> set cs" by blast
qed

lemma uses_step:
  assumes "\<And>s d'. c \<in> set (sys_ctx s) \<Longrightarrow> f (sys_db s) = Inr d' \<Longrightarrow>
    sys_step s \<lparr>sys_db = d', sys_ctx = remove1 c (sys_ctx s)\<rparr>"
  shows "uses c (\<lambda>d. snd (work_call f d))"
  unfolding uses_def
proof (intro allI impI)
  fix s :: sys
  assume c: "c \<in> set (sys_ctx s)"
  show "\<exists>cs. sys_to s (snd (work_call f (sys_db s))) cs"
  proof (cases "f (sys_db s)")
    case (Inl e)
    then show ?thesis using sys_to_refl by (auto simp: work_call_def)
  next
    case (Inr d')
    with assms [OF c] show ?thesis by (auto simp: work_call_def sys_to_def)
  qed
qed

text \<open>How the combinators of the worker combine grades.\<close>

lemma snd_work_bind:
  "snd (work_bind m f d) = (case m d of (Inl e, d') \<Rightarrow> d' | (Inr x, d') \<Rightarrow> snd (f x d'))"
  by (simp add: work_bind_def split: prod.splits sum.splits)

lemma snd_unless_stale:
  "snd (unless_stale m rest d) = (case m d of (Inl e, d') \<Rightarrow> d' | (Inr x, d') \<Rightarrow> snd (rest d'))"
  by (simp add: unless_stale_def split: prod.splits sum.splits if_splits)

lemma uses_branch:
  assumes "keeps c (\<lambda>d. snd (m d))" and "\<And>x. uses c (\<lambda>d. snd (f x d))"
  shows "uses c (\<lambda>d. case m d of (Inl e, d') \<Rightarrow> d' | (Inr x, d') \<Rightarrow> snd (f x d'))"
  unfolding uses_def
proof (intro allI impI)
  fix s :: sys
  assume "c \<in> set (sys_ctx s)"
  then obtain cs where cs: "sys_to s (snd (m (sys_db s))) cs" "c \<in> set cs"
    using assms(1) unfolding keeps_def by blast
  obtain r d' where m: "m (sys_db s) = (r, d')" by fastforce
  show "\<exists>cs. sys_to s (case m (sys_db s) of (Inl e, d') \<Rightarrow> d' | (Inr x, d') \<Rightarrow> snd (f x d')) cs"
  proof (cases r)
    case (Inr x)
    obtain cs' where "sys_to \<lparr>sys_db = d', sys_ctx = cs\<rparr> (snd (f x d')) cs'"
      using uses_at [OF assms(2) cs(2)] by blast
    with cs m Inr show ?thesis using sys_to_trans by fastforce
  qed (use cs m in auto)
qed

lemma uses_bind:
  "keeps c (\<lambda>d. snd (m d)) \<Longrightarrow> (\<And>x. uses c (\<lambda>d. snd (f x d))) \<Longrightarrow> uses c (\<lambda>d. snd (work_bind m f d))"
  unfolding snd_work_bind by (rule uses_branch)

lemma uses_unless:
  "keeps c (\<lambda>d. snd (m d)) \<Longrightarrow> uses c (\<lambda>d. snd (rest d)) \<Longrightarrow> uses c (\<lambda>d. snd (unless_stale m rest d))"
  unfolding snd_unless_stale by (rule uses_branch [where f = "\<lambda>_. rest"])

lemma uses_unless_end:
  assumes "uses c (\<lambda>d. snd (m d))" and "frees (\<lambda>d. snd (rest d))"
  shows "uses c (\<lambda>d. snd (unless_stale m rest d))"
  unfolding uses_def snd_unless_stale
proof (intro allI impI)
  fix s :: sys
  assume "c \<in> set (sys_ctx s)"
  then obtain cs where cs: "sys_to s (snd (m (sys_db s))) cs" using assms(1) unfolding uses_def by blast
  obtain r d' where m: "m (sys_db s) = (r, d')" by fastforce
  have "sys_to \<lparr>sys_db = d', sys_ctx = cs\<rparr> (snd (rest d')) cs"
    using assms(2) unfolding frees_def by (metis sys.select_convs)
  then show "\<exists>cs. sys_to s (case m (sys_db s) of (Inl e, d') \<Rightarrow> d' | (Inr x, d') \<Rightarrow> snd (rest d')) cs"
    using cs m sys_to_trans by (cases r) fastforce+
qed

lemma frees_audit: "frees (\<lambda>d. snd (append_worker_audit env r d))"
  unfolding append_worker_audit_def by (rule frees_call) (rule client_step.audit)

lemma uses_complete:
  "uses c (\<lambda>d. snd (work_call (complete_job env (cx_job_id c) (cx_lease_owner c) (cx_fencing_token c) cp) d))"
  by (rule uses_step) (rule sys_step.complete)

lemma uses_mark_cancelled: "uses c (\<lambda>d. snd (work_call (mark_target_job_cancelled env (cx_job_id c)) d))"
  by (rule uses_step) (rule sys_step.finalize_cancel)

lemma ctx_of_simps [simp]:
  "cx_job_id (ctx_of wx) = wx_job_id wx" "cx_lease_owner (ctx_of wx) = wx_lease_owner wx"
  "cx_fencing_token (ctx_of wx) = wx_fencing_token wx"
  by (simp_all add: ctx_of_def)

lemma uses_complete_from_result: "uses (ctx_of wx) (\<lambda>d. snd (complete_from_result env wx result d))"
  unfolding complete_from_result_def
  using keeps_progress [of _ "ctx_of wx"] uses_complete [of "ctx_of wx"] frees_audit
  by (intro uses_unless uses_unless_end) simp_all

lemma uses_fail_job: "uses (ctx_of wx) (\<lambda>d. snd (fail_job env wx summary http body d))"
proof -
  have "frees (\<lambda>d. snd ((Inr () :: store_error + unit), d))" unfolding frees_def using sys_to_refl by simp
  then show ?thesis
    unfolding fail_job_def using uses_complete [of "ctx_of wx"] by (intro uses_unless_end) simp_all
qed

lemma uses_finalize_cancel: "uses (ctx_of wx) (\<lambda>d. snd (finalize_cancel env wx d))"
  unfolding finalize_cancel_def
  using uses_then_frees [OF uses_mark_cancelled [of "ctx_of wx"] frees_audit] by simp

lemma uses_if: "uses c f \<Longrightarrow> uses c g \<Longrightarrow> uses c (\<lambda>d. if P d then f d else g d)"
  unfolding uses_def by auto

lemma uses_settle_result: "uses (ctx_of wx) (\<lambda>d. snd (settle_result env wx result lost d))"
  unfolding settle_result_def if_distrib [of snd]
  by (intro uses_if uses_finalize_cancel uses_complete_from_result)
    (simp add: keeps_uses [OF keeps_id])

text \<open>
  What is asked of a handler: with the heartbeat and everything else that happens meanwhile, its
  effect is a sequence of steps of the protocol after which the context is still there.
\<close>

definition handler_keeps :: "handler \<Rightarrow> bool" where
  "handler_keeps h \<longleftrightarrow> (\<forall>wx. keeps (ctx_of wx) (\<lambda>d. snd (h wx d)))"

definition handlers_keep :: "handler_registry \<Rightarrow> bool" where
  "handlers_keep reg \<longleftrightarrow> (\<forall>(kind, h) \<in> set (hreg_handlers reg). handler_keeps h)"

lemma registered_keeps: "handlers_keep reg \<Longrightarrow> get_or_reject reg kind = Inr h \<Longrightarrow> handler_keeps h"
  by (auto simp: handlers_keep_def get_or_reject_def result_simps split: option.splits dest: map_of_SomeD)

lemma snd_safe_handler_call: "snd (safe_handler_call h wx d) = snd (h wx d)"
  by (auto simp: safe_handler_call_def split: prod.splits sum.splits)

lemma uses_run_handler:
  assumes "handler_keeps h"
  shows "uses (ctx_of wx) (\<lambda>d. snd (run_handler env h wx d))"
  unfolding uses_def
proof (intro allI impI)
  fix s :: sys
  assume c: "ctx_of wx \<in> set (sys_ctx s)"
  obtain result lost d' where call: "safe_handler_call h wx (sys_db s) = ((result, lost), d')"
    by (metis prod.exhaust)
  then have "snd (h wx (sys_db s)) = d'" using snd_safe_handler_call by (metis snd_conv)
  then obtain cs where "sys_to s d' cs" "ctx_of wx \<in> set cs"
    using assms c unfolding handler_keeps_def keeps_def by blast
  then have "\<exists>cs. sys_to s (snd (settle_result env wx result lost d')) cs"
    using uses_at [OF uses_settle_result] sys_to_trans by blast
  then show "\<exists>cs. sys_to s (snd (run_handler env h wx (sys_db s))) cs"
    by (simp add: run_handler_def call)
qed

lemma uses_process_claim_locked:
  assumes "handlers_keep reg"
  shows "uses (ctx_of wx) (\<lambda>d. snd (process_claim_locked env reg wx d))"
proof -
  have "uses (ctx_of wx) (\<lambda>d. snd ((case get_or_reject reg (wx_operation_kind wx) of
       Inl exc \<Rightarrow> fail_job (env 1) wx (''rejected: '' @ reject_name exc) 403
         (JObj [(''error'', JStr (reject_name exc)), (''message'', JStr (take 120 (reject_message exc)))])
     | Inr h \<Rightarrow>
         unless_stale (work_call (record_job_progress (env 1) (wx_job_id wx) (wx_lease_owner wx) (wx_fencing_token wx)
           \<lparr>pr_status = Some Running, pr_step = Some (''dispatch'', ''Running''), pr_checkpoint_json = None,
            pr_error_redacted = None\<rparr>))
         (work_bind (append_worker_audit (env 2) (worker_audit ''worker.start'' ''running'' wx
            (''handler dispatch operation_kind='' @ wx_operation_kind wx))) (\<lambda>_.
          run_handler (\<lambda>n. env (3 + n)) h wx))) d))"
  proof (cases "get_or_reject reg (wx_operation_kind wx)")
    case (Inr h)
    have "uses (ctx_of wx) (\<lambda>d. snd (work_bind (append_worker_audit (env 2) r) (\<lambda>_. run_handler env' h wx) d))" for r env'
      by (intro uses_bind frees_keeps frees_audit uses_run_handler registered_keeps [OF assms Inr])
    then show ?thesis
      unfolding Inr sum.case
      by (rule uses_unless [rotated]) (use keeps_progress [of _ "ctx_of wx"] in simp)
  qed (simp add: uses_fail_job)
  then show ?thesis
    unfolding process_claim_locked_def by (intro uses_bind frees_keeps frees_audit)
qed

lemma claim_worker_ctx_of: "ctx_of (claim_worker_ctx claim job op) = claim_ctx claim"
  by (simp add: ctx_of_def claim_worker_ctx_def claim_ctx_def)

lemma uses_process_claim:
  assumes "handlers_keep reg"
  shows "uses (claim_ctx claim) (\<lambda>d. snd (process_claim env cfg reg claim d))"
  unfolding uses_def
proof (intro allI impI)
  fix s :: sys
  assume c: "claim_ctx claim \<in> set (sys_ctx s)"
  show "\<exists>cs. sys_to s (snd (process_claim env cfg reg claim (sys_db s))) cs"
  proof (cases "get_job (sys_db s) (cl_job_id claim)")
    case None
    then show ?thesis using sys_to_refl by (auto simp: process_claim_def)
  next
    case job: (Some job)
    show ?thesis
    proof (cases "get_operation (sys_db s) (j_operation_id job)")
      case None
      then show ?thesis using job sys_to_refl by (auto simp: process_claim_def)
    next
      case (Some op)
      let ?wx = "claim_worker_ctx claim job op"
      let ?fence = "\<lambda>d. map_sum id snd (acquire_router_execution_fence (env 0) (j_router_id job) (wc_worker_id cfg)
                (wc_instance_id cfg) (wc_lease_seconds cfg) (Some (cl_job_id claim)) True d)"
      have "frees (\<lambda>d. snd (work_call ?fence d))"
        by (rule frees_call) (auto simp: result_simps intro: client_step.fence_acquire)
      then have "uses (ctx_of ?wx) (\<lambda>d. snd (work_bind (work_call ?fence)
          (\<lambda>_. process_claim_locked (\<lambda>n. env (Suc n)) reg ?wx) d))"
        by (intro uses_bind frees_keeps uses_process_claim_locked assms)
      then have "\<exists>cs. sys_to s (snd (work_bind (work_call ?fence)
          (\<lambda>_. process_claim_locked (\<lambda>n. env (Suc n)) reg ?wx) (sys_db s))) cs"
        using c unfolding claim_worker_ctx_of uses_def by blast
      then show ?thesis
        using job Some by (auto simp: process_claim_def split: prod.splits sum.splits)
    qed
  qed
qed


lemma poll_once_steps:
  assumes "handlers_keep reg"
  shows "\<exists>cs. sys_to s (snd (poll_once env cfg reg (sys_db s))) cs"
proof (cases "claim_job (env 0) (wc_worker_id cfg) (wc_lease_seconds cfg) (sys_db s)")
  case (Inl e)
  then show ?thesis using sys_to_refl by (auto simp: poll_once_def)
next
  case (Inr hit)
  obtain r d' where hit: "hit = (r, d')" by (cases hit)
  show ?thesis
  proof (cases r)
    case None
    then have "d' = sys_db s"
      using Inr hit by (auto simp: claim_job_def result_simps split: option.splits prod.splits)
    then show ?thesis using Inr hit None sys_to_refl by (auto simp: poll_once_def)
  next
    case (Some claim)
    have "sys_to s d' (claim_ctx claim # sys_ctx s)"
      unfolding sys_to_def using Inr hit Some by (intro r_into_rtranclp sys_step.claim) simp
    moreover obtain cs where "sys_to \<lparr>sys_db = d', sys_ctx = claim_ctx claim # sys_ctx s\<rparr>
        (snd (process_claim (\<lambda>n. env (Suc n)) cfg reg claim d')) cs"
      using uses_at [OF uses_process_claim [OF assms]] by (metis list.set_intros(1))
    ultimately have "sys_to s (snd (process_claim (\<lambda>n. env (Suc n)) cfg reg claim d')) cs"
      by (rule sys_to_trans)
    then show ?thesis
      using Inr hit Some by (auto simp: poll_once_def Let_def split: prod.splits)
  qed
qed

lemma reach_steps: "step\<^sup>*\<^sup>* s t \<Longrightarrow> reach init step s \<Longrightarrow> reach init step t"
  by (induction rule: rtranclp_induct) (auto intro: reach_step)


section \<open>Deny by default\<close>

lemma resolve_rejects_live:
  assumes "kind \<in> set live_mutation_kinds" and "\<not> (kind = ''apply_plan'' \<and> mode = ''fake'' \<and> allow)"
  shows "\<exists>m. resolve_handler_kind kind mode allow = Inl (MutationForbidden m)"
  using assms by (auto simp: resolve_handler_kind_def live_mutation_kinds_def supported_handler_kinds_def)

lemma update_cancel_steps: "update_cancel_idempotency http body x rid d = Inr d' \<Longrightarrow> job_steps d' = job_steps d"
  by (auto simp: update_cancel_idempotency_def result_simps update_idempotency_response_def split: option.splits)

lemma store_final_response_steps: "store_final_response oid http body d = Inr d' \<Longrightarrow> job_steps d' = job_steps d"
  by (auto simp: store_final_response_def result_simps update_idempotency_response_def split: option.splits if_splits)

lemma append_audit_steps: "append_audit env u r d = Inr d' \<Longrightarrow> job_steps d' = job_steps d"
  by (auto simp: append_audit_def insert_audit_def split: if_splits)

lemma complete_job_steps:
  assumes "complete_job env x w t c d = Inr d'"
  shows "job_steps d' = job_steps d"
  using assms
  by (rule complete_job_cases)
    (auto simp: update_cancel_idempotency_to_409_terminal_def clear_lock_def update_operation_def
      dest!: append_audit_steps store_final_response_steps update_cancel_steps split: if_splits)

lemma work_call_steps:
  assumes "\<And>d d'. f d = Inr d' \<Longrightarrow> job_steps d' = job_steps d"
  shows "job_steps (snd (work_call f d)) = job_steps d"
  using assms by (auto simp: work_call_def split: sum.splits)

lemma fail_job_steps: "job_steps (snd (fail_job env ctx summary http body d)) = job_steps d"
proof -
  have "job_steps (snd (work_call (complete_job env x w t c) d)) = job_steps d" for x w t c
    by (rule work_call_steps) (rule complete_job_steps)
  then show ?thesis
    unfolding fail_job_def snd_unless_stale by (auto split: prod.splits sum.splits) (metis snd_conv)+
qed



section \<open>Back-off\<close>

text \<open>
  The pause between polls is bounded. After any sequence of processed, idle and failed rounds it
  lies between the poll interval and the maximal back-off, and after \<open>n\<close> idle rounds it is exactly
  the poll interval times \<open>1.5 ^ n\<close>, capped at the maximum.
\<close>

theorem backoff_bounded:
  assumes "0 < wc_poll_interval cfg" and "wc_poll_interval cfg \<le> wc_max_backoff cfg"
  shows "wc_poll_interval cfg \<le> backoff_after cfg rounds \<and> backoff_after cfg rounds \<le> wc_max_backoff cfg \<and>
    backoff_after cfg (replicate n Idle) = min (wc_poll_interval cfg * (3 / 2) ^ n) (wc_max_backoff cfg)"
proof -
  have cap: "0 < M \<Longrightarrow> min (min a M * (3 / 2)) M = min (a * (3 / 2)) M" for a M :: rat
    by (auto simp: min_def)
  have step: "wc_poll_interval cfg \<le> next_backoff cfg r b \<and> next_backoff cfg r b \<le> wc_max_backoff cfg"
    if "wc_poll_interval cfg \<le> b" for r b
    using assms that by (cases r) (auto simp: next_backoff_def min_def)
  have "wc_poll_interval cfg \<le> backoff_after cfg rounds \<and> backoff_after cfg rounds \<le> wc_max_backoff cfg"
    by (induction rounds rule: rev_induct) (use assms step in \<open>auto simp: backoff_after_def\<close>)
  moreover have "backoff_after cfg (replicate n Idle) = min (wc_poll_interval cfg * (3 / 2) ^ n) (wc_max_backoff cfg)"
  proof (induction n)
    case (Suc n)
    have "replicate (Suc n) Idle = replicate n Idle @ [Idle]" by (simp add: replicate_append_same)
    then have "backoff_after cfg (replicate (Suc n) Idle) =
        min (min (wc_poll_interval cfg * (3 / 2) ^ n) (wc_max_backoff cfg) * (3 / 2)) (wc_max_backoff cfg)"
      using Suc by (simp add: backoff_after_def next_backoff_def del: replicate.simps)
    also have "\<dots> = min (wc_poll_interval cfg * (3 / 2) ^ Suc n) (wc_max_backoff cfg)"
      using assms cap [of _ "wc_poll_interval cfg * (3 / 2) ^ n"] by simp
    finally show ?case .
  qed (use assms in \<open>simp add: backoff_after_def\<close>)
  ultimately show ?thesis by blast
qed


section \<open>Restarting a degraded worker\<close>

text \<open>
  A worker whose poll raised is degraded but its loop goes on; \<open>start()\<close> refuses only a running or
  starting worker, so it starts a second loop beside the first.
\<close>

lemma degraded_start_adds_loop:
  assumes "poll_once env cfg reg d = (Inl e, d')" and "\<not> ws_stop_requested st"
    and "loop_round env cfg reg (st, d) = (r, st', d'')"
  shows "r = Some Raised \<and> ws_lifecycle st' = LcDegraded \<and>
    ws_loops (fst (worker_start env' cfg (st', rows))) = ws_loops st + 1"
  using assms by (auto simp: loop_round_def worker_start_def degrade_def)

section \<open>Examples\<close>

definition demo_result :: handler_result where
  "demo_result = \<lparr>hr_status = Succeeded, hr_summary = ''done'', hr_http_status = None,
     hr_response_body = None, hr_aggregate_status = None\<rparr>"

definition demo_registry_ok :: handler_registry where
  "demo_registry_ok = \<lparr>hreg_handlers = [(''preset_validate'', \<lambda>_ d. ((Inr demo_result, False), d))],
     hreg_adapter_mode = ''netcraze'', hreg_allow_fake_mutations = False\<rparr>"

definition demo_config :: worker_config where
  "demo_config = \<lparr>wc_worker_id = ''w1'', wc_instance_id = ''i1'', wc_process_id = 7, wc_boot_id = ''b'',
     wc_lease_seconds = 30, wc_poll_interval = 1 / 4, wc_max_backoff = 2\<rparr>"

definition demo_worker_ctx :: "string \<Rightarrow> worker_ctx" where
  "demo_worker_ctx kind = \<lparr>wx_job_id = ''job_cxx'', wx_operation_id = ''op_c'', wx_operation_kind = kind,
     wx_router_id = ''r1'', wx_correlation_id = None, wx_lease_owner = ''w1'', wx_fencing_token = 1\<rparr>"




theorem backoff_bounded_witness:
  "backoff_after demo_config [Idle, Idle, Raised, Idle] \<le> 2 \<and> (1 / 4 :: rat) \<le> 2"
  using backoff_bounded [of demo_config "[Idle, Idle, Raised, Idle]" 0] by (simp add: demo_config_def)

end
