(* ===== verification/Plan_Store.thy ===== *)
theory Plan_Store
  imports Registry_Store
begin

text \<open>
  Observations, desired revisions and change plans of \<open>src/router_control/persistence/store.py\<close>:
  \<open>insert_observation\<close>, \<open>put_desired_revision\<close> with its optimistic \<open>If-Match\<close> check, \<open>create_plan\<close> and
  \<open>confirm_plan\<close>. The tables stand beside those of the job machinery (\<open>pd_base\<close>). Time stamps are whole
  seconds, ordered as their text is. The properties: the desired revisions of a router form one
  chain that ends at its pointer, a stale writer is refused, and a plan is confirmed at most once and
  only while its revision and observation are current.
\<close>

section \<open>Tables\<close>

record observation_row =
  ob_observation_id :: ident
  ob_router_id :: ident
  ob_capability_id :: "ident option"
  ob_identity_fingerprint :: string
  ob_resource_version :: string
  ob_state_digest :: string
  ob_state_snapshot_json :: "string option"
  ob_collection_status :: string
  ob_source :: string
  ob_adapter_version :: string
  ob_observed_at :: int
  ob_valid_until :: int
  ob_created_at :: int

record revision_row =
  rv_revision_id :: ident
  rv_router_id :: ident
  rv_revision_number :: int
  rv_parent_revision_id :: "ident option"
  rv_canonical_digest :: string
  rv_desired_document_json :: "string option"
  rv_based_on_observation_id :: "ident option"
  rv_actor_type :: string
  rv_actor_id :: "string option"
  rv_reason :: "string option"
  rv_created_at :: int

record revision_state_row =
  rst_router_id :: ident
  rst_current_desired_revision_id :: ident
  rst_applied_revision_id :: "ident option"
  rst_last_observation_id :: "ident option"
  rst_updated_at :: int

record plan_row =
  pl_plan_id :: ident
  pl_router_id :: ident
  pl_revision_id :: ident
  pl_observation_id :: ident
  pl_expected_desired_digest :: string
  pl_observed_resource_version :: string
  pl_observed_state_digest :: string
  pl_plan_digest :: string
  pl_risk_class :: string
  pl_requires_backup :: bool
  pl_requires_fail_safe :: bool
  pl_expires_at :: int
  pl_confirmation_state :: string
  pl_confirmed_at :: "int option"
  pl_confirmed_by_actor :: "string option"
  pl_actor_type :: string
  pl_actor_id :: "string option"
  pl_created_at :: int
  pl_session_binding_hmac :: "string option"

record plan_item_row =
  pli_plan_item_id :: ident
  pli_plan_id :: ident
  pli_ordinal :: int
  pli_change_kind :: string
  pli_target_resource_id :: "ident option"
  pli_intent_kind :: "string option"
  pli_intent_json :: "stored_text option"
  pli_ownership_action :: "string option"

record plan_db =
  pd_base :: db
  pd_observations :: "observation_row list"
  pd_revisions :: "revision_row list"
  pd_states :: "revision_state_row list"
  pd_plans :: "plan_row list"
  pd_items :: "plan_item_row list"

definition get_observation :: "plan_db \<Rightarrow> ident \<Rightarrow> observation_row option" where
  "get_observation d oid = row_by ob_observation_id oid (pd_observations d)"

definition get_revision :: "plan_db \<Rightarrow> ident \<Rightarrow> revision_row option" where
  "get_revision d vid = row_by rv_revision_id vid (pd_revisions d)"

definition get_revision_state :: "plan_db \<Rightarrow> ident \<Rightarrow> revision_state_row option" where
  "get_revision_state d rid = row_by rst_router_id rid (pd_states d)"

definition get_plan :: "plan_db \<Rightarrow> ident \<Rightarrow> plan_row option" where
  "get_plan d pid = row_by pl_plan_id pid (pd_plans d)"

definition list_plan_items :: "plan_db \<Rightarrow> ident \<Rightarrow> plan_item_row list" where
  "list_plan_items d pid = sort_key pli_ordinal (filter (\<lambda>r. pli_plan_id r = pid) (pd_items d))"

definition get_desired_revision :: "plan_db \<Rightarrow> ident \<Rightarrow> revision_row option" where
  "get_desired_revision d rid = (case get_revision_state d rid of
     None \<Rightarrow> None
   | Some st \<Rightarrow> get_revision d (rst_current_desired_revision_id st))"

section \<open>Observations\<close>

record observation_request =
  oq_router_id :: ident
  oq_identity_fingerprint :: string
  oq_resource_version :: string
  oq_state_digest :: string
  oq_collection_status :: string
  oq_source :: string
  oq_adapter_version :: string
  oq_ttl_seconds :: int
  oq_observation_id :: "ident option"
  oq_state_snapshot_json :: "string option"

definition insert_observation_row :: "observation_row \<Rightarrow> plan_db \<Rightarrow> plan_db res" where
  "insert_observation_row r d =
     (if get_observation d (ob_observation_id r) \<noteq> None
      then Inl (IntegrityError ''UNIQUE router_observations.observation_id'')
      else if get_router (pd_base d) (ob_router_id r) = None
      then Inl (IntegrityError ''FOREIGN KEY router_observations.router_id'')
      else Inr (d\<lparr>pd_observations := pd_observations d @ [r]\<rparr>))"

text \<open>Capability rows are not kept, so \<open>capability_id\<close> is absent.\<close>

definition insert_observation :: "call_env \<Rightarrow> observation_request \<Rightarrow> plan_db \<Rightarrow> (ident \<times> plan_db) res" where
  "insert_observation env q d =
     (let oid = id_or_new (oq_observation_id q) ''obs'' (uuid env 0); ts = utc_now_iso env in
      rbind (insert_observation_row \<lparr>ob_observation_id = oid, ob_router_id = oq_router_id q,
          ob_capability_id = None, ob_identity_fingerprint = oq_identity_fingerprint q,
          ob_resource_version = oq_resource_version q, ob_state_digest = oq_state_digest q,
          ob_state_snapshot_json = oq_state_snapshot_json q,
          ob_collection_status = oq_collection_status q, ob_source = oq_source q,
          ob_adapter_version = oq_adapter_version q, ob_observed_at = ts,
          ob_valid_until = ts + oq_ttl_seconds q, ob_created_at = ts\<rparr> d) (\<lambda>d.
      Inr (oid, d)))"

section \<open>Desired revisions\<close>

definition etag :: "string \<Rightarrow> string \<Rightarrow> string" where
  "etag i digest = CHR 0x22 # i @ '':'' @ digest @ [CHR 0x22]"

definition etag_for_revision :: "ident \<Rightarrow> string \<Rightarrow> string" where
  "etag_for_revision revision_id canonical_digest = etag revision_id canonical_digest"

definition etag_for_plan :: "ident \<Rightarrow> string \<Rightarrow> string" where
  "etag_for_plan plan_id plan_digest = etag plan_id plan_digest"

record desired_request =
  dq_router_id :: ident
  dq_canonical_digest :: string
  dq_based_on_observation_id :: ident
  dq_if_match :: "string option"
  dq_desired_document_json :: "string option"
  dq_actor_type :: string
  dq_actor_id :: "string option"
  dq_reason :: "string option"
  dq_revision_id :: "ident option"

definition insert_revision :: "revision_row \<Rightarrow> plan_db \<Rightarrow> plan_db res" where
  "insert_revision r d =
     (if get_revision d (rv_revision_id r) \<noteq> None
      then Inl (IntegrityError ''UNIQUE desired_revisions.revision_id'')
      else if row_by (\<lambda>v. (rv_router_id v, rv_revision_number v)) (rv_router_id r, rv_revision_number r)
                (pd_revisions d) \<noteq> None
      then Inl (IntegrityError ''UNIQUE desired_revisions(router_id, revision_number)'')
      else if rv_revision_number r \<le> 0
      then Inl (IntegrityError ''CHECK desired_revisions.revision_number'')
      else if get_router (pd_base d) (rv_router_id r) = None
      then Inl (IntegrityError ''FOREIGN KEY desired_revisions.router_id'')
      else if \<not> fk (\<lambda>k. get_revision d k \<noteq> None) (rv_parent_revision_id r)
      then Inl (IntegrityError ''FOREIGN KEY desired_revisions.parent_revision_id'')
      else if \<not> fk (\<lambda>k. get_observation d k \<noteq> None) (rv_based_on_observation_id r)
      then Inl (IntegrityError ''FOREIGN KEY desired_revisions.based_on_observation_id'')
      else Inr (d\<lparr>pd_revisions := pd_revisions d @ [r]\<rparr>))"

text \<open>The number and the parent of the next revision, after the \<open>If-Match\<close> check.\<close>

definition next_revision :: "desired_request \<Rightarrow> plan_db \<Rightarrow> (int \<times> ident option) res" where
  "next_revision q d = (case get_revision_state d (dq_router_id q) of
     None \<Rightarrow>
       (case dq_if_match q of
          Some m \<Rightarrow> (if m \<notin> {''*'', [CHR 0x22, CHR 0x22], []}
            then Inl (PreconditionFailed ''No current revision; If-Match must be absent or *'')
            else Inr (1, None))
        | None \<Rightarrow> Inr (1, None))
   | Some st \<Rightarrow>
       (case get_revision d (rst_current_desired_revision_id st) of
          None \<Rightarrow> Inl (ConflictError ''Current desired revision missing'')
        | Some current \<Rightarrow>
            (case dq_if_match q of
               None \<Rightarrow> Inl (PreconditionFailed ''If-Match required'')
             | Some m \<Rightarrow>
                 (if py_strip m \<noteq> etag_for_revision (rv_revision_id current) (rv_canonical_digest current)
                  then Inl (PreconditionFailed ''If-Match does not match current desired ETag'')
                  else Inr (rv_revision_number current + 1, Some (rv_revision_id current))))))"

text \<open>The observation a revision is based on: of the router, succeeded and not expired.\<close>

definition check_based_on :: "call_env \<Rightarrow> desired_request \<Rightarrow> plan_db \<Rightarrow> unit res" where
  "check_based_on env q d = (case get_observation d (dq_based_on_observation_id q) of
     None \<Rightarrow> Inl (PreconditionFailed ''based_on_observation_id invalid'')
   | Some obs \<Rightarrow>
       rbind (raise_if (ob_router_id obs \<noteq> dq_router_id q)
         (PreconditionFailed ''based_on_observation_id invalid'')) (\<lambda>_.
       rbind (raise_if (ob_collection_status obs \<noteq> ''Succeeded'')
         (PreconditionFailed ''Observation not Succeeded'')) (\<lambda>_.
       raise_if (ob_valid_until obs < utc_now_iso env) (PreconditionFailed ''Observation expired''))))"

definition point_to :: "int \<Rightarrow> desired_request \<Rightarrow> ident \<Rightarrow> plan_db \<Rightarrow> plan_db" where
  "point_to ts q vid d = (case get_revision_state d (dq_router_id q) of
     None \<Rightarrow> d\<lparr>pd_states := pd_states d @ [\<lparr>rst_router_id = dq_router_id q,
       rst_current_desired_revision_id = vid, rst_applied_revision_id = None,
       rst_last_observation_id = Some (dq_based_on_observation_id q), rst_updated_at = ts\<rparr>]\<rparr>
   | Some _ \<Rightarrow> d\<lparr>pd_states := sql_update (\<lambda>s. rst_router_id s = dq_router_id q)
       (\<lambda>s. s\<lparr>rst_current_desired_revision_id := vid,
          rst_last_observation_id := Some (dq_based_on_observation_id q), rst_updated_at := ts\<rparr>)
       (pd_states d)\<rparr>)"

definition put_desired_revision ::
  "call_env \<Rightarrow> desired_request \<Rightarrow> plan_db \<Rightarrow> ((ident \<times> string \<times> int) \<times> plan_db) res" where
  "put_desired_revision env q d =
     rbind (next_revision q d) (\<lambda>(number, parent).
     rbind (check_based_on env q d) (\<lambda>_.
     let vid = id_or_new (dq_revision_id q) ''rev'' (uuid env 0); ts = utc_now_iso env in
     rbind (insert_revision \<lparr>rv_revision_id = vid, rv_router_id = dq_router_id q,
         rv_revision_number = number, rv_parent_revision_id = parent,
         rv_canonical_digest = dq_canonical_digest q,
         rv_desired_document_json = dq_desired_document_json q,
         rv_based_on_observation_id = Some (dq_based_on_observation_id q),
         rv_actor_type = dq_actor_type q, rv_actor_id = dq_actor_id q, rv_reason = dq_reason q,
         rv_created_at = ts\<rparr> d) (\<lambda>d.
     Inr ((vid, etag_for_revision vid (dq_canonical_digest q), number), point_to ts q vid d))))"

section \<open>Plans\<close>

record plan_request =
  plq_router_id :: ident
  plq_revision_id :: ident
  plq_observation_id :: ident
  plq_if_match :: string
  plq_risk_class :: string
  plq_expires_in_seconds :: int
  plq_actor_type :: string
  plq_actor_id :: "string option"
  plq_items :: "(string option \<times> ident option) list"
  plq_plan_id :: "ident option"

definition insert_plan :: "plan_row \<Rightarrow> plan_db \<Rightarrow> plan_db res" where
  "insert_plan r d =
     (if get_plan d (pl_plan_id r) \<noteq> None
      then Inl (IntegrityError ''UNIQUE change_plans.plan_id'')
      else if get_router (pd_base d) (pl_router_id r) = None
      then Inl (IntegrityError ''FOREIGN KEY change_plans.router_id'')
      else if get_revision d (pl_revision_id r) = None
      then Inl (IntegrityError ''FOREIGN KEY change_plans.revision_id'')
      else if get_observation d (pl_observation_id r) = None
      then Inl (IntegrityError ''FOREIGN KEY change_plans.observation_id'')
      else Inr (d\<lparr>pd_plans := pd_plans d @ [r],
        pd_base := (pd_base d)\<lparr>plan_ids := plan_ids (pd_base d) @ [pl_plan_id r]\<rparr>\<rparr>))"

text \<open>
  Managed resources are not kept, so an item with a target resource violates its foreign key unless
  \<open>known\<close> holds of it.
\<close>

definition insert_plan_item :: "(ident \<Rightarrow> bool) \<Rightarrow> plan_item_row \<Rightarrow> plan_db \<Rightarrow> plan_db res" where
  "insert_plan_item known r d =
     (if row_by pli_plan_item_id (pli_plan_item_id r) (pd_items d) \<noteq> None
      then Inl (IntegrityError ''UNIQUE change_plan_items.plan_item_id'')
      else if row_by (\<lambda>i. (pli_plan_id i, pli_ordinal i)) (pli_plan_id r, pli_ordinal r) (pd_items d) \<noteq> None
      then Inl (IntegrityError ''UNIQUE change_plan_items(plan_id, ordinal)'')
      else if pli_ordinal r < 0
      then Inl (IntegrityError ''CHECK change_plan_items.ordinal'')
      else if get_plan d (pli_plan_id r) = None
      then Inl (IntegrityError ''FOREIGN KEY change_plan_items.plan_id'')
      else if \<not> fk known (pli_target_resource_id r)
      then Inl (IntegrityError ''FOREIGN KEY change_plan_items.target_resource_id'')
      else Inr (d\<lparr>pd_items := pd_items d @ [r]\<rparr>))"

fun insert_plan_items ::
  "call_env \<Rightarrow> (ident \<Rightarrow> bool) \<Rightarrow> ident \<Rightarrow> nat \<Rightarrow> (string option \<times> ident option) list \<Rightarrow> plan_db \<Rightarrow> plan_db res" where
  "insert_plan_items env known pid n [] d = Inr d"
| "insert_plan_items env known pid n ((kind, target) # items) d =
     rbind (insert_plan_item known \<lparr>pli_plan_item_id = new_id ''pli'' (uuid env (Suc n)), pli_plan_id = pid,
        pli_ordinal = int n,
        pli_change_kind = (case kind of None \<Rightarrow> ''ensure-assignment'' | Some k \<Rightarrow> k),
        pli_target_resource_id = target, pli_intent_kind = None, pli_intent_json = None,
        pli_ownership_action = None\<rparr> d)
       (insert_plan_items env known pid (Suc n) items)"

definition draft_plan ::
  "call_env \<Rightarrow> plan_request \<Rightarrow> ident \<Rightarrow> string \<Rightarrow> revision_row \<Rightarrow> observation_row \<Rightarrow> plan_row" where
  "draft_plan env q pid digest rv obs = \<lparr>pl_plan_id = pid, pl_router_id = plq_router_id q,
     pl_revision_id = plq_revision_id q, pl_observation_id = plq_observation_id q,
     pl_expected_desired_digest = rv_canonical_digest rv,
     pl_observed_resource_version = ob_resource_version obs,
     pl_observed_state_digest = ob_state_digest obs, pl_plan_digest = digest,
     pl_risk_class = plq_risk_class q, pl_requires_backup = True, pl_requires_fail_safe = True,
     pl_expires_at = utc_now_iso env + plq_expires_in_seconds q,
     pl_confirmation_state = ''Draft'', pl_confirmed_at = None, pl_confirmed_by_actor = None,
     pl_actor_type = plq_actor_type q, pl_actor_id = plq_actor_id q,
     pl_created_at = utc_now_iso env, pl_session_binding_hmac = None\<rparr>"

text \<open>The revision and the observation a new plan is made from, when it may be made.\<close>

definition plan_inputs :: "call_env \<Rightarrow> plan_request \<Rightarrow> plan_db \<Rightarrow> (revision_row \<times> observation_row) res" where
  "plan_inputs env q d = (case get_revision d (plq_revision_id q) of
     None \<Rightarrow> Inl (NotFoundError ''revision not found'')
   | Some rv \<Rightarrow>
       rbind (raise_if (rv_router_id rv \<noteq> plq_router_id q) (NotFoundError ''revision not found'')) (\<lambda>_.
       rbind (raise_if (py_strip (plq_if_match q) \<noteq>
           etag_for_revision (rv_revision_id rv) (rv_canonical_digest rv))
         (PreconditionFailed ''If-Match desired ETag mismatch'')) (\<lambda>_.
       rbind (raise_if (map_option rst_current_desired_revision_id (get_revision_state d (plq_router_id q))
           \<noteq> Some (plq_revision_id q)) (ConflictError ''revision is not current desired pointer'')) (\<lambda>_.
       case get_observation d (plq_observation_id q) of
         None \<Rightarrow> Inl (PreconditionFailed ''observation invalid'')
       | Some obs \<Rightarrow>
           rbind (raise_if (ob_router_id obs \<noteq> plq_router_id q) (PreconditionFailed ''observation invalid'')) (\<lambda>_.
           rbind (raise_if (ob_collection_status obs \<noteq> ''Succeeded'' \<or> ob_valid_until obs < utc_now_iso env)
             (PreconditionFailed ''observation stale or failed'')) (\<lambda>_.
           Inr (rv, obs)))))))"

definition create_plan ::
  "(string \<Rightarrow> string) \<Rightarrow> (ident \<Rightarrow> bool) \<Rightarrow> call_env \<Rightarrow> plan_request \<Rightarrow> plan_db \<Rightarrow> ((ident \<times> string) \<times> plan_db) res" where
  "create_plan sha known env q d =
     rbind (plan_inputs env q d) (\<lambda>(rv, obs).
     let pid = id_or_new (plq_plan_id q) ''plan'' (uuid env 0);
         digest = ''sha256:'' @ sha (pid @ '':'' @ plq_revision_id q @ '':'' @ plq_observation_id q
            @ '':'' @ rv_canonical_digest rv) in
     rbind (insert_plan (draft_plan env q pid digest rv obs) d) (\<lambda>d.
     rbind (insert_plan_items env known pid 0
         (if plq_items q = [] then [(Some ''ensure-assignment'', None)] else plq_items q) d) (\<lambda>d.
     Inr ((pid, etag_for_plan pid digest), d))))"

text \<open>
  A transaction whose body may write before it raises: \<open>ROLLBACK\<close> on an exception
  (\<open>persistence/connection.py\<close>).
\<close>

definition transaction :: "('d \<Rightarrow> ('e + 'a) \<times> 'd) \<Rightarrow> 'd \<Rightarrow> ('e + 'a) \<times> 'd" where
  "transaction body d = (case body d of (Inl e, _) \<Rightarrow> (Inl e, d) | (Inr x, d') \<Rightarrow> (Inr x, d'))"

definition set_plan :: "ident \<Rightarrow> (plan_row \<Rightarrow> plan_row) \<Rightarrow> plan_db \<Rightarrow> plan_db" where
  "set_plan pid f d = d\<lparr>pd_plans := sql_update (\<lambda>p. pl_plan_id p = pid) f (pd_plans d)\<rparr>"

text \<open>The plan must still be bound to the current revision and to a fresh, unchanged observation.\<close>

definition check_plan_current :: "call_env \<Rightarrow> plan_row \<Rightarrow> plan_db \<Rightarrow> unit res" where
  "check_plan_current env plan d =
     rbind (raise_if (map_option rst_current_desired_revision_id (get_revision_state d (pl_router_id plan))
         \<noteq> Some (pl_revision_id plan)) (ConflictError ''plan stale: desired revision changed'')) (\<lambda>_.
     case get_observation d (pl_observation_id plan) of
       None \<Rightarrow> Inl (PreconditionFailed ''plan stale: observation binding failed'')
     | Some obs \<Rightarrow> raise_if (ob_valid_until obs < utc_now_iso env \<or>
           ob_state_digest obs \<noteq> pl_observed_state_digest plan)
         (PreconditionFailed ''plan stale: observation binding failed''))"

definition confirm_plan_body ::
  "call_env \<Rightarrow> ident \<Rightarrow> string \<Rightarrow> string \<Rightarrow> string \<Rightarrow> plan_db \<Rightarrow> plan_row res \<times> plan_db" where
  "confirm_plan_body env pid plan_digest if_match actor_id d = (case get_plan d pid of
     None \<Rightarrow> (Inl (NotFoundError ''plan not found''), d)
   | Some plan \<Rightarrow>
       if py_strip if_match \<noteq> etag_for_plan pid (pl_plan_digest plan)
       then (Inl (PreconditionFailed ''If-Match plan ETag mismatch''), d)
       else if pl_plan_digest plan \<noteq> plan_digest then (Inl (ConflictError ''plan_digest mismatch''), d)
       else if pl_expires_at plan < utc_now_iso env
       then (Inl (ConflictError ''plan expired''),
             set_plan pid (\<lambda>p. p\<lparr>pl_confirmation_state := ''Expired''\<rparr>) d)
       else if pl_confirmation_state plan \<noteq> ''Draft''
       then (Inl (ConflictError ''plan not in Draft state''), d)
       else case check_plan_current env plan d of
         Inl e \<Rightarrow> (Inl e, d)
       | Inr _ \<Rightarrow>
           (let d' = set_plan pid (\<lambda>p. p\<lparr>pl_confirmation_state := ''Confirmed'',
                  pl_confirmed_at := Some (utc_now_iso env), pl_confirmed_by_actor := Some actor_id\<rparr>) d
            in (Inr (the (get_plan d' pid)), d')))"

definition confirm_plan ::
  "call_env \<Rightarrow> ident \<Rightarrow> string \<Rightarrow> string \<Rightarrow> string \<Rightarrow> plan_db \<Rightarrow> plan_row res \<times> plan_db" where
  "confirm_plan env pid plan_digest if_match actor_id =
     transaction (confirm_plan_body env pid plan_digest if_match actor_id)"


section \<open>The chain of desired revisions\<close>

definition router_revisions :: "plan_db \<Rightarrow> ident \<Rightarrow> revision_row list" where
  "router_revisions d rid = filter (\<lambda>v. rv_router_id v = rid) (pd_revisions d)"

definition chain_ok :: "plan_db \<Rightarrow> ident \<Rightarrow> bool" where
  "chain_ok d rid \<longleftrightarrow> (let vs = router_revisions d rid in
     map rv_revision_number vs = [1..int (length vs)] \<and>
     map rv_parent_revision_id vs = take (length vs) (None # map (Some \<circ> rv_revision_id) vs) \<and>
     map_option rst_current_desired_revision_id (get_revision_state d rid) =
       (if vs = [] then None else Some (rv_revision_id (last vs))))"

definition plans_ok :: "plan_db \<Rightarrow> bool" where
  "plans_ok d \<longleftrightarrow> distinct (map rv_revision_id (pd_revisions d)) \<and> (\<forall>rid. chain_ok d rid) \<and>
     (\<forall>p \<in> set (pd_plans d). pl_confirmation_state p \<in> {''Draft'', ''Confirmed''})"

text \<open>The plan tables as a system; everything else may change the other tables of the database.\<close>

inductive plan_step :: "plan_db \<Rightarrow> plan_db \<Rightarrow> bool" where
  observe: "insert_observation env oq d = Inr (oid, d') \<Longrightarrow> plan_step d d'"
| put: "put_desired_revision env q d = Inr (r, d') \<Longrightarrow> plan_step d d'"
| create: "create_plan sha known env pq d = Inr (r, d') \<Longrightarrow> plan_step d d'"
| confirm: "confirm_plan env pid digest m actor d = (r, d') \<Longrightarrow> plan_step d d'"
| other: "plan_step d (d\<lparr>pd_base := b\<rparr>)"

definition empty_plans :: "db \<Rightarrow> plan_db" where
  "empty_plans b = \<lparr>pd_base = b, pd_observations = [], pd_revisions = [], pd_states = [], pd_plans = [], pd_items = []\<rparr>"

lemma insert_observation_frame:
  "insert_observation env q d = Inr (oid, d') \<Longrightarrow>
   pd_revisions d' = pd_revisions d \<and> pd_states d' = pd_states d \<and> pd_plans d' = pd_plans d"
  by (auto simp: insert_observation_def insert_observation_row_def Let_def result_simps split: if_splits)

lemma plans_ok_cong:
  "pd_revisions d' = pd_revisions d \<Longrightarrow> pd_states d' = pd_states d \<Longrightarrow>
   (\<And>p. p \<in> set (pd_plans d') \<Longrightarrow> pl_confirmation_state p \<in> {''Draft'', ''Confirmed''}) \<Longrightarrow>
   plans_ok d \<Longrightarrow> plans_ok d'"
  by (simp add: plans_ok_def chain_ok_def router_revisions_def get_revision_state_def)

lemma insert_plan_items_frame:
  "insert_plan_items env known pid n items d = Inr d' \<Longrightarrow>
   pd_revisions d' = pd_revisions d \<and> pd_states d' = pd_states d \<and> pd_plans d' = pd_plans d"
  by (induction env known pid n items d rule: insert_plan_items.induct)
    (auto simp: result_simps insert_plan_item_def split: if_splits)

lemma insert_plan_Inr:
  "insert_plan p d = Inr d' \<Longrightarrow> pd_revisions d' = pd_revisions d \<and> pd_states d' = pd_states d \<and>
   pd_plans d' = pd_plans d @ [p]"
  by (auto simp: insert_plan_def split: if_splits)

lemma create_plan_Inr:
  assumes "create_plan sha known env q d = Inr (r, d')"
  shows "pd_revisions d' = pd_revisions d \<and> pd_states d' = pd_states d \<and>
    (\<exists>p. pd_plans d' = pd_plans d @ [p] \<and> pl_confirmation_state p = ''Draft'')"
proof -
  from assms obtain pid digest rv obs d1 items where
    "insert_plan (draft_plan env q pid digest rv obs) d = Inr d1"
    "insert_plan_items env known pid 0 items d1 = Inr d'"
    by (auto simp: create_plan_def Let_def result_simps simp del: insert_plan_items.simps
        split: option.splits if_splits)
  then show ?thesis by (auto simp: draft_plan_def dest!: insert_plan_Inr insert_plan_items_frame)
qed

lemma confirm_plan_cases:
  assumes "confirm_plan env pid digest m actor d = (r, d')"
  obtains (Refused) e where "r = Inl e" "d' = d"
  | (Confirmed) plan where "get_plan d pid = Some plan" "pl_plan_digest plan = digest"
      "py_strip m = etag_for_plan pid digest" "utc_now_iso env \<le> pl_expires_at plan"
      "pl_confirmation_state plan = ''Draft''" "check_plan_current env plan d = Inr ()"
      "d' = set_plan pid (\<lambda>p. p\<lparr>pl_confirmation_state := ''Confirmed'',
        pl_confirmed_at := Some (utc_now_iso env), pl_confirmed_by_actor := Some actor\<rparr>) d"
      "r = Inr (the (get_plan d' pid))"
proof (cases "fst (confirm_plan_body env pid digest m actor d)")
  case (Inl e)
  then show thesis using assms Refused by (auto simp: confirm_plan_def transaction_def split: prod.splits)
next
  case (Inr row)
  then have run: "confirm_plan_body env pid digest m actor d = (r, d')"
    using assms by (auto simp: confirm_plan_def transaction_def split: prod.splits sum.splits)
  with Inr obtain plan where "get_plan d pid = Some plan" "check_plan_current env plan d = Inr ()"
    by (auto simp: confirm_plan_body_def split: option.splits if_splits sum.splits)
  with Inr run show thesis
    by (intro Confirmed [of plan]) (auto simp: confirm_plan_body_def Let_def not_less split: if_splits)
qed

lemma get_state_point_to:
  "get_revision_state (point_to ts q vid d) rid =
     (if rid = dq_router_id q
      then Some (case get_revision_state d rid of
        None \<Rightarrow> \<lparr>rst_router_id = rid, rst_current_desired_revision_id = vid, rst_applied_revision_id = None,
          rst_last_observation_id = Some (dq_based_on_observation_id q), rst_updated_at = ts\<rparr>
      | Some s \<Rightarrow> s\<lparr>rst_current_desired_revision_id := vid,
          rst_last_observation_id := Some (dq_based_on_observation_id q), rst_updated_at := ts\<rparr>)
      else get_revision_state d rid)"
  by (auto simp: point_to_def get_revision_state_def table_simps row_by_sql_update
      dest: row_by_Some_key split: option.splits)

lemma point_to_frame [simp]:
  "pd_revisions (point_to ts q vid d) = pd_revisions d" "pd_plans (point_to ts q vid d) = pd_plans d"
  "pd_observations (point_to ts q vid d) = pd_observations d"
  by (simp_all add: point_to_def split: option.splits)

lemma put_desired_revision_Inr:
  assumes "put_desired_revision env q d = Inr ((vid, et, n), d')"
  obtains v parent where "next_revision q d = Inr (n, parent)" "check_based_on env q d = Inr ()"
    "rv_revision_id v = vid" "rv_router_id v = dq_router_id q" "rv_revision_number v = n"
    "rv_parent_revision_id v = parent" "rv_canonical_digest v = dq_canonical_digest q"
    "vid \<notin> rv_revision_id ` set (pd_revisions d)" "et = etag_for_revision vid (dq_canonical_digest q)"
    "d' = point_to (utc_now_iso env) q vid (d\<lparr>pd_revisions := pd_revisions d @ [v]\<rparr>)"
proof -
  from assms have "\<exists>v parent. next_revision q d = Inr (n, parent) \<and> check_based_on env q d = Inr () \<and>
    rv_revision_id v = vid \<and> rv_router_id v = dq_router_id q \<and> rv_revision_number v = n \<and>
    rv_parent_revision_id v = parent \<and> rv_canonical_digest v = dq_canonical_digest q \<and>
    vid \<notin> rv_revision_id ` set (pd_revisions d) \<and> et = etag_for_revision vid (dq_canonical_digest q) \<and>
    d' = point_to (utc_now_iso env) q vid (d\<lparr>pd_revisions := pd_revisions d @ [v]\<rparr>)"
    by (auto simp: put_desired_revision_def Let_def result_simps insert_revision_def get_revision_def
        row_by_None_iff split: if_splits) (intro exI conjI, simp_all)
  then show thesis using that by blast
qed

lemma chain_ok_current:
  assumes "chain_ok d rid" and "distinct (map rv_revision_id (pd_revisions d))"
  shows "get_desired_revision d rid =
    (if router_revisions d rid = [] then None else Some (last (router_revisions d rid)))"
proof (cases "router_revisions d rid = []")
  case True
  then show ?thesis using assms(1) by (simp add: chain_ok_def get_desired_revision_def Let_def)
next
  case False
  then obtain st where st: "get_revision_state d rid = Some st"
    "rst_current_desired_revision_id st = rv_revision_id (last (router_revisions d rid))"
    using assms(1) by (auto simp: chain_ok_def Let_def)
  have "last (router_revisions d rid) \<in> set (pd_revisions d)"
    using last_in_set [OF False] by (simp add: router_revisions_def)
  then show ?thesis
    using st False row_by_distinct [OF assms(2)] by (simp add: get_desired_revision_def get_revision_def)
qed

text \<open>The number and parent that \<open>next_revision\<close> answers extend the chain.\<close>

lemma next_revision_chain:
  assumes "next_revision q d = Inr (n, parent)" and "plans_ok d"
  shows "n = int (length (router_revisions d (dq_router_id q))) + 1"
    and "parent = (if router_revisions d (dq_router_id q) = [] then None
      else Some (rv_revision_id (last (router_revisions d (dq_router_id q)))))"
proof -
  let ?vs = "router_revisions d (dq_router_id q)"
  have chain: "chain_ok d (dq_router_id q)" and dist: "distinct (map rv_revision_id (pd_revisions d))"
    using assms(2) by (auto simp: plans_ok_def)
  have "?vs = [] \<Longrightarrow> get_revision_state d (dq_router_id q) = None"
    using chain by (simp add: chain_ok_def Let_def)
  moreover have "rv_revision_number (last ?vs) = int (length ?vs)" if "?vs \<noteq> []"
  proof -
    have "rv_revision_number (last ?vs) = last (map rv_revision_number ?vs)"
      using that by (simp add: last_map)
    also have "\<dots> = last [1..int (length ?vs)]" using chain by (simp add: chain_ok_def Let_def)
    also have "\<dots> = int (length ?vs)"
      using that by (subst upto_rec2) (simp_all add: Suc_leI)
    finally show ?thesis .
  qed
  moreover have "?vs \<noteq> [] \<Longrightarrow> \<exists>st. get_revision_state d (dq_router_id q) = Some st \<and>
      get_revision d (rst_current_desired_revision_id st) = Some (last ?vs)"
    using chain_ok_current [OF chain dist]
    by (auto simp: get_desired_revision_def split: option.splits if_splits)
  ultimately show "n = int (length ?vs) + 1" "parent = (if ?vs = [] then None else Some (rv_revision_id (last ?vs)))"
    using assms(1) by (cases "?vs = []"; auto simp: next_revision_def split: option.splits if_splits)+
qed

lemma plans_ok_put:
  assumes "put_desired_revision env q d = Inr ((vid, et, n), d')" and ok: "plans_ok d"
  shows "plans_ok d'"
  using assms(1)
proof (rule put_desired_revision_Inr)
  fix v parent
  let ?d1 = "d\<lparr>pd_revisions := pd_revisions d @ [v]\<rparr>" and ?r = "dq_router_id q"
  assume next_rev: "next_revision q d = Inr (n, parent)"
    and v: "rv_revision_id v = vid" "rv_router_id v = ?r" "rv_revision_number v = n"
      "rv_parent_revision_id v = parent" "vid \<notin> rv_revision_id ` set (pd_revisions d)"
    and d': "d' = point_to (utc_now_iso env) q vid ?d1"
  note chain = next_revision_chain [OF next_rev ok]
  have old: "chain_ok d rid" for rid using ok by (simp add: plans_ok_def)
  have vs: "router_revisions d' rid = router_revisions d rid @ (if rid = ?r then [v] else [])" for rid
    by (simp add: d' router_revisions_def v)
  have st: "map_option rst_current_desired_revision_id (get_revision_state d' rid) =
      (if rid = ?r then Some vid
       else map_option rst_current_desired_revision_id (get_revision_state d rid))" for rid
    by (simp add: d' get_state_point_to split: option.splits) (simp add: get_revision_state_def)
  have "chain_ok d' rid" for rid
  proof (cases "rid = ?r")
    case True
    let ?vs = "router_revisions d rid"
    have "map rv_parent_revision_id (?vs @ [v]) =
        take (length ?vs) (None # map (Some \<circ> rv_revision_id) ?vs) @ [parent]"
      using old [of rid] v by (simp add: chain_ok_def Let_def)
    also have "\<dots> = take (Suc (length ?vs)) (None # map (Some \<circ> rv_revision_id) (?vs @ [v]))"
      using chain(2) True
      by (cases ?vs rule: rev_cases) (simp_all add: take_Cons' del: take_Suc_Cons)
    finally have "map rv_parent_revision_id (?vs @ [v]) = \<dots>" .
    moreover have "map rv_revision_number (?vs @ [v]) = [1..int (length ?vs) + 1]"
      using old [of rid] chain(1) v True by (simp add: chain_ok_def Let_def upto_rec2)
    ultimately show ?thesis using True st [of rid] v by (simp add: chain_ok_def Let_def vs add.commute)
  next
    case False
    then show ?thesis using old [of rid] st [of rid] by (simp add: chain_ok_def Let_def vs)
  qed
  moreover have "distinct (map rv_revision_id (pd_revisions d'))"
    using ok v by (auto simp: plans_ok_def d')
  moreover have "pd_plans d' = pd_plans d" by (simp add: d')
  ultimately show ?thesis using ok by (simp add: plans_ok_def)
qed

lemma plans_ok_step: "plan_step d d' \<Longrightarrow> plans_ok d \<Longrightarrow> plans_ok d'"
proof (induction rule: plan_step.induct)
  case (observe env oq d oid d')
  then show ?case using insert_observation_frame [OF observe(1)]
    by (intro plans_ok_cong [of d' d]) (auto simp: plans_ok_def)
next
  case (put env q d r d')
  then show ?case by (cases r) (auto intro: plans_ok_put)
next
  case (create sha known env pq d r d')
  then show ?case using create_plan_Inr [OF create(1)]
    by (intro plans_ok_cong [of d' d]) (auto simp: plans_ok_def)
next
  case (confirm env pid digest m actor d r d')
  from confirm(1) show ?case
  proof (cases rule: confirm_plan_cases)
    case Refused
    then show ?thesis using confirm by simp
  next
    case (Confirmed plan)
    then show ?thesis using confirm(2)
      by (intro plans_ok_cong [of d' d]) (auto simp: plans_ok_def set_plan_def table_simps)
  qed
next
  case (other d b)
  then show ?case by (intro plans_ok_cong [of "d\<lparr>pd_base := b\<rparr>" d]) (auto simp: plans_ok_def)
qed


interpretation plans: invariant_system "\<lambda>d. \<exists>b. d = empty_plans b" plan_step plans_ok
proof
  fix d :: plan_db
  assume "\<exists>b. d = empty_plans b"
  then show "plans_ok d"
    by (auto simp: plans_ok_def empty_plans_def chain_ok_def router_revisions_def get_revision_state_def)
qed (rule plans_ok_step)

section \<open>Properties\<close>


lemma etag_inject: "CHR '':'' \<notin> set i \<Longrightarrow> CHR '':'' \<notin> set i' \<Longrightarrow> etag i x = etag i' x' \<longleftrightarrow> i = i' \<and> x = x'"
proof -
  assume "CHR '':'' \<notin> set i" "CHR '':'' \<notin> set i'"
  then have "takeWhile (\<lambda>c. c \<noteq> CHR '':'') (i @ CHR '':'' # x) = i"
    "takeWhile (\<lambda>c. c \<noteq> CHR '':'') (i' @ CHR '':'' # x') = i'"
    by (auto simp: takeWhile_append2 takeWhile_tail)
  then show ?thesis by (auto simp: etag_def)
qed



text \<open>
  C24: Expiry is never recorded. \<open>confirm_plan\<close> answers an expired plan with \<open>ConflictError\<close> after writing
  the state \<open>Expired\<close>, but the exception rolls the write back: the database is unchanged, and in no
  reachable state has any plan the state \<open>Expired\<close>.
\<close>

theorem plan_expiry_not_recorded:
  assumes "reach (\<lambda>d. \<exists>b. d = empty_plans b) plan_step d" and "get_plan d pid = Some p"
    and "pl_expires_at p < utc_now_iso env"
  shows "pl_confirmation_state p \<noteq> ''Expired'' \<and>
    confirm_plan env pid (pl_plan_digest p) (etag_for_plan pid (pl_plan_digest p)) actor d =
      (Inl (ConflictError ''plan expired''), d)"
proof -
  have "p \<in> set (pd_plans d)" using assms(2) by (auto simp: get_plan_def dest: row_by_Some_mem)
  then have "pl_confirmation_state p \<noteq> ''Expired''"
    using plans.reach_inv [OF assms(1)] by (auto simp: plans_ok_def)
  moreover have "py_strip (etag i x) = etag i x" for i x
    by (simp add: py_strip_def etag_def py_isspace_def Let_def)
  ultimately show ?thesis using assms(2,3)
    by (simp add: confirm_plan_def transaction_def confirm_plan_body_def etag_for_plan_def)
qed


section \<open>Examples\<close>

definition demo_observation :: observation_request where
  "demo_observation = \<lparr>oq_router_id = ''r1'', oq_identity_fingerprint = ''fp'', oq_resource_version = ''rv'',
     oq_state_digest = ''sd'', oq_collection_status = ''Succeeded'', oq_source = ''fake'',
     oq_adapter_version = ''0.1.0'', oq_ttl_seconds = 100, oq_observation_id = Some ''o1'',
     oq_state_snapshot_json = None\<rparr>"

definition demo_desired :: "ident \<Rightarrow> string option \<Rightarrow> desired_request" where
  "demo_desired vid m = \<lparr>dq_router_id = ''r1'', dq_canonical_digest = ''d'', dq_based_on_observation_id = ''o1'',
     dq_if_match = m, dq_desired_document_json = None, dq_actor_type = ''operator'', dq_actor_id = None,
     dq_reason = None, dq_revision_id = Some vid\<rparr>"


definition demo_plan_request :: plan_request where
  "demo_plan_request = \<lparr>plq_router_id = ''r1'', plq_revision_id = ''v1'', plq_observation_id = ''o1'',
     plq_if_match = etag_for_revision ''v1'' ''d'', plq_risk_class = ''Medium'', plq_expires_in_seconds = 20,
     plq_actor_type = ''operator'', plq_actor_id = None, plq_items = [], plq_plan_id = Some ''p1''\<rparr>"

definition demo_observed :: "ident \<times> plan_db" where
  "demo_observed = projr (insert_observation (demo_env 5 ''c'') demo_observation (empty_plans demo_registry))"

definition demo_desired_v1 :: "(ident \<times> string \<times> int) \<times> plan_db" where
  "demo_desired_v1 = projr (put_desired_revision (demo_env 6 ''d'') (demo_desired ''v1'' None) (snd demo_observed))"

definition demo_planned :: "(ident \<times> string) \<times> plan_db" where
  "demo_planned = projr (create_plan (\<lambda>s. ''h'') (\<lambda>_. False) (demo_env 7 ''e'') demo_plan_request (snd demo_desired_v1))"

lemma demo_observed_eq: "insert_observation (demo_env 5 ''c'') demo_observation (empty_plans demo_registry) = Inr demo_observed"
proof -
  have "\<not> isl (insert_observation (demo_env 5 ''c'') demo_observation (empty_plans demo_registry))" by code_simp
  then show ?thesis by (simp add: demo_observed_def)
qed

lemma demo_desired_v1_eq:
  "put_desired_revision (demo_env 6 ''d'') (demo_desired ''v1'' None) (snd demo_observed) = Inr demo_desired_v1"
proof -
  have "\<not> isl (put_desired_revision (demo_env 6 ''d'') (demo_desired ''v1'' None) (snd demo_observed))" by code_simp
  then show ?thesis by (simp add: demo_desired_v1_def)
qed

lemma demo_planned_eq:
  "create_plan (\<lambda>s. ''h'') (\<lambda>_. False) (demo_env 7 ''e'') demo_plan_request (snd demo_desired_v1) = Inr demo_planned"
proof -
  have "\<not> isl (create_plan (\<lambda>s. ''h'') (\<lambda>_. False) (demo_env 7 ''e'') demo_plan_request (snd demo_desired_v1))"
    by code_simp
  then show ?thesis by (simp add: demo_planned_def)
qed

lemma demo_observed_reach: "reach (\<lambda>d. \<exists>b. d = empty_plans b) plan_step (snd demo_observed)"
proof (rule reach_step)
  show "reach (\<lambda>d. \<exists>b. d = empty_plans b) plan_step (empty_plans demo_registry)" by (auto intro: reach_init)
  show "plan_step (empty_plans demo_registry) (snd demo_observed)"
    by (rule plan_step.observe) (subst demo_observed_eq, subst prod.collapse, rule refl)
qed

lemma demo_desired_reach: "reach (\<lambda>d. \<exists>b. d = empty_plans b) plan_step (snd demo_desired_v1)"
  using demo_observed_reach
  by (rule reach_step) (rule plan_step.put, subst demo_desired_v1_eq, subst prod.collapse, rule refl)

lemma demo_planned_reach: "reach (\<lambda>d. \<exists>b. d = empty_plans b) plan_step (snd demo_planned)"
  using demo_desired_reach
  by (rule reach_step) (rule plan_step.create, subst demo_planned_eq, subst prod.collapse, rule refl)

lemma demo_desired_revision: "map rv_revision_id (router_revisions (snd demo_desired_v1) ''r1'') = [''v1'']"
  by code_simp



definition demo_plan_row :: plan_row where
  "demo_plan_row = the (get_plan (snd demo_planned) ''p1'')"

theorem plan_expiry_not_recorded_witness:
  "confirm_plan (demo_env 50 ''g'') ''p1'' (pl_plan_digest demo_plan_row)
      (etag_for_plan ''p1'' (pl_plan_digest demo_plan_row)) ''bob'' (snd demo_planned) =
     (Inl (ConflictError ''plan expired''), snd demo_planned)"
proof (rule plan_expiry_not_recorded [OF demo_planned_reach, THEN conjunct2])
  have "map_option pl_expires_at (get_plan (snd demo_planned) ''p1'') = Some 27" by code_simp
  then show "get_plan (snd demo_planned) ''p1'' = Some demo_plan_row"
    and "pl_expires_at demo_plan_row < utc_now_iso (demo_env 50 ''g'')"
    by (auto simp: demo_plan_row_def)
qed

end
