(* ===== verification/Verify_Store.thy ===== *)
theory Verify_Store
  imports Plan_Store Effect_Journal Sealed_Apply
begin

text \<open>
  What an apply leaves behind, \<open>src/router_control/persistence/store.py\<close>: the safety session of a
  router (\<open>upsert_router_safety_session\<close>), evidence revisions (\<open>record_evidence_revision\<close>), backup
  metadata, and the bundle that closes the verification of a session-bound plan
  (\<open>finalize_verify_success\<close>: verify report, read-back observation, managed resources, ownership
  events, evidence, effect and safety session in one fenced transaction). The freshness of such a plan
  (\<open>assert_p2_plan_fresh\<close>) is an argument.
\<close>

section \<open>Tables\<close>

record safety_row =
  sf_session_id :: ident
  sf_router_id :: ident
  sf_fail_safe_active :: bool
  sf_reboot_marker :: "string option"
  sf_baseline_revision_id :: "ident option"
  sf_safety_state :: string
  sf_verified_runtime_revision_id :: "ident option"
  sf_startup_saved_revision_id :: "ident option"
  sf_created_at :: int
  sf_updated_at :: int

record evidence_row =
  evd_evidence_id :: ident
  evd_router_id :: ident
  evd_evidence_kind :: string
  evd_revision_id :: "ident option"
  evd_digest :: string
  evd_observed_at :: int
  evd_created_at :: int

record backup_row =
  bk_artifact_id :: ident
  bk_router_id :: ident
  bk_operation_id :: "ident option"
  bk_content_digest :: string
  bk_size_bytes :: int
  bk_identity_fingerprint :: string
  bk_created_at :: int

record report_row =
  vr_report_id :: ident
  vr_plan_id :: ident
  vr_job_id :: ident
  vr_observation_id :: ident
  vr_checks_json :: string
  vr_overall_status :: string
  vr_created_at :: int

record resource_row =
  ms_resource_id :: ident
  ms_router_id :: ident
  ms_resource_kind :: string
  ms_logical_key :: string
  ms_owner :: string
  ms_creating_revision_id :: ident
  ms_lifecycle_status :: string
  ms_last_observation_id :: "ident option"
  ms_created_at :: int
  ms_updated_at :: int

record ownership_row =
  ow_event_id :: ident
  ow_router_id :: ident
  ow_resource_id :: ident
  ow_plan_id :: ident
  ow_job_id :: ident
  ow_action :: string
  ow_before_owner :: "string option"
  ow_after_owner :: "string option"
  ow_created_at :: int

record exec_db =
  xd_plans :: plan_db
  xd_safety :: "safety_row list"
  xd_evidence :: "evidence_row list"
  xd_backups :: "backup_row list"
  xd_reports :: "report_row list"
  xd_resources :: "resource_row list"
  xd_ownership :: "ownership_row list"

abbreviation xd_db :: "exec_db \<Rightarrow> db" where
  "xd_db x \<equiv> pd_base (xd_plans x)"

definition with_db :: "exec_db \<Rightarrow> db \<Rightarrow> exec_db" where
  "with_db x d = x\<lparr>xd_plans := (xd_plans x)\<lparr>pd_base := d\<rparr>\<rparr>"

section \<open>Safety sessions\<close>

definition get_router_safety_session :: "exec_db \<Rightarrow> ident \<Rightarrow> safety_row option" where
  "get_router_safety_session x rid = row_by sf_router_id rid (xd_safety x)"

definition get_router_safety_payload :: "exec_db \<Rightarrow> ident \<Rightarrow> (string \<times> json) list" where
  "get_router_safety_payload x rid = (case get_router_safety_session x rid of
     None \<Rightarrow> [] | Some r \<Rightarrow> decode_safety_payload (sf_reboot_marker r))"

record safety_request =
  sq_router_id :: ident
  sq_safety_state :: string
  sq_fail_safe_active :: bool
  sq_reboot_marker :: "string option"
  sq_baseline_revision_id :: "ident option"
  sq_verified_runtime_revision_id :: "ident option"
  sq_startup_saved_revision_id :: "ident option"
  sq_safety_payload :: "(string \<times> json) list option"

definition safety_default :: "ident \<Rightarrow> string \<Rightarrow> safety_request" where
  "safety_default rid state = \<lparr>sq_router_id = rid, sq_safety_state = state, sq_fail_safe_active = False,
     sq_reboot_marker = None, sq_baseline_revision_id = None, sq_verified_runtime_revision_id = None,
     sq_startup_saved_revision_id = None, sq_safety_payload = None\<rparr>"

text \<open>The foreign keys of a safety session.\<close>

definition safety_refs :: "exec_db \<Rightarrow> ident \<Rightarrow> ident option list \<Rightarrow> unit res" where
  "safety_refs x rid revisions =
     rbind (raise_if (get_router (xd_db x) rid = None)
       (IntegrityError ''FOREIGN KEY router_safety_sessions.router_id'')) (\<lambda>_.
     raise_if (\<not> list_all (fk (\<lambda>v. get_revision (xd_plans x) v \<noteq> None)) revisions)
       (IntegrityError ''FOREIGN KEY router_safety_sessions revisions''))"

definition upsert_router_safety_session ::
  "call_env \<Rightarrow> safety_request \<Rightarrow> exec_db \<Rightarrow> (ident \<times> exec_db) res" where
  "upsert_router_safety_session env q x =
     (let ts = utc_now_iso env; existing = get_router_safety_session x (sq_router_id q);
          marker = merge_safety_payload (map_option (\<lambda>r. str_opt (sf_reboot_marker r)) existing)
            (sq_reboot_marker q) (sq_safety_payload q) in
      rbind (safety_refs x (sq_router_id q) [sq_baseline_revision_id q, sq_verified_runtime_revision_id q,
          sq_startup_saved_revision_id q]) (\<lambda>_.
      case existing of
        Some r \<Rightarrow> Inr (sf_session_id r, x\<lparr>xd_safety := sql_update (\<lambda>s. sf_router_id s = sq_router_id q)
          (\<lambda>s. s\<lparr>sf_safety_state := sq_safety_state q, sf_fail_safe_active := sq_fail_safe_active q,
             sf_reboot_marker := marker, sf_baseline_revision_id := sq_baseline_revision_id q,
             sf_verified_runtime_revision_id := sq_verified_runtime_revision_id q,
             sf_startup_saved_revision_id := sq_startup_saved_revision_id q, sf_updated_at := ts\<rparr>)
          (xd_safety x)\<rparr>)
      | None \<Rightarrow> Inr (new_id ''safe'' (uuid env 0), x\<lparr>xd_safety := xd_safety x @
          [\<lparr>sf_session_id = new_id ''safe'' (uuid env 0), sf_router_id = sq_router_id q,
            sf_fail_safe_active = sq_fail_safe_active q, sf_reboot_marker = marker,
            sf_baseline_revision_id = sq_baseline_revision_id q, sf_safety_state = sq_safety_state q,
            sf_verified_runtime_revision_id = sq_verified_runtime_revision_id q,
            sf_startup_saved_revision_id = sq_startup_saved_revision_id q,
            sf_created_at = ts, sf_updated_at = ts\<rparr>]\<rparr>)))"

section \<open>Evidence and backups\<close>

definition insert_evidence :: "evidence_row \<Rightarrow> exec_db \<Rightarrow> exec_db res" where
  "insert_evidence r x =
     (if row_by evd_evidence_id (evd_evidence_id r) (xd_evidence x) \<noteq> None
      then Inl (IntegrityError ''UNIQUE router_evidence_revisions.evidence_id'')
      else if evd_evidence_kind r \<notin> {''runtime_applied'', ''startup_saved''}
      then Inl (IntegrityError ''CHECK router_evidence_revisions.evidence_kind'')
      else if get_router (xd_db x) (evd_router_id r) = None
      then Inl (IntegrityError ''FOREIGN KEY router_evidence_revisions.router_id'')
      else if \<not> fk (\<lambda>v. get_revision (xd_plans x) v \<noteq> None) (evd_revision_id r)
      then Inl (IntegrityError ''FOREIGN KEY router_evidence_revisions.revision_id'')
      else Inr (x\<lparr>xd_evidence := xd_evidence x @ [r]\<rparr>))"

definition record_evidence_revision ::
  "call_env \<Rightarrow> ident \<Rightarrow> string \<Rightarrow> string \<Rightarrow> ident option \<Rightarrow> exec_db \<Rightarrow> (ident \<times> exec_db) res" where
  "record_evidence_revision env rid kind digest revision x =
     (let eid = new_id ''evd'' (uuid env 0); ts = utc_now_iso env in
      rbind (insert_evidence \<lparr>evd_evidence_id = eid, evd_router_id = rid, evd_evidence_kind = kind,
          evd_revision_id = revision, evd_digest = digest, evd_observed_at = ts, evd_created_at = ts\<rparr> x) (\<lambda>x.
      Inr (eid, x)))"

definition get_backup_artifact :: "exec_db \<Rightarrow> ident \<Rightarrow> backup_row option" where
  "get_backup_artifact x aid = row_by bk_artifact_id aid (xd_backups x)"

section \<open>Closing the verification of a bound plan\<close>

definition get_plan_verify_report :: "exec_db \<Rightarrow> ident \<Rightarrow> ident \<Rightarrow> report_row option" where
  "get_plan_verify_report x pid jid = row_by (\<lambda>r. (vr_plan_id r, vr_job_id r)) (pid, jid) (xd_reports x)"

text \<open>The transition inside an open transaction: no fence of its own, and none when already there.\<close>

definition transition_external_effect_unlocked ::
  "call_env \<Rightarrow> string \<Rightarrow> ident \<Rightarrow> effect_state \<Rightarrow> ident \<Rightarrow> string option \<Rightarrow> db \<Rightarrow> db res" where
  "transition_external_effect_unlocked env u eid target job_id summary d =
     (case get_external_effect d eid of
        None \<Rightarrow> Inl (NotFoundError ''external effect not found'')
      | Some row \<Rightarrow>
          rbind (raise_if (str_opt (e_job_id row) \<noteq> job_id)
            (StaleFenceError ''effect job mismatch for transition'')) (\<lambda>_.
          let current = e_current_state row;
              sel = (\<lambda>e. e_effect_id e = eid \<and> e_current_state e = current) in
          if current = target then Inr d
          else
            rbind (raise_if (\<not> can_transition_effect current target)
              (EffectTransitionError (''invalid effect transition '' @ effect_state_name current
                 @ '' -> '' @ effect_state_name target))) (\<lambda>_.
            rbind (raise_if (sql_rowcount sel (external_effects d) \<noteq> 1)
              (ConflictError ''effect transition lost race'')) (\<lambda>_.
            append_external_effect_event_unlocked env u eid (Some current) target ''worker'' None summary
              (d\<lparr>external_effects := sql_update sel (\<lambda>e. e\<lparr>e_current_state := target,
                  e_updated_at := utc_now_iso env\<rparr>) (external_effects d)\<rparr>)))))"

record verify_request =
  vq_plan_id :: ident
  vq_job_id :: ident
  vq_lease_owner :: string
  vq_effect_id :: "ident option"
  vq_identity_fingerprint :: string
  vq_resource_version :: string
  vq_state_digest :: string
  vq_verify_digest :: string
  vq_checks_json :: string
  vq_revision_id :: ident
  vq_router_id :: ident

definition upsert_resource :: "resource_row \<Rightarrow> exec_db \<Rightarrow> exec_db res" where
  "upsert_resource r x =
     (let key = (\<lambda>m. (ms_router_id m, ms_resource_kind m, ms_logical_key m)) in
      if get_router (xd_db x) (ms_router_id r) = None
      then Inl (IntegrityError ''FOREIGN KEY managed_resources.router_id'')
      else if get_revision (xd_plans x) (ms_creating_revision_id r) = None
      then Inl (IntegrityError ''FOREIGN KEY managed_resources.creating_revision_id'')
      else if row_by key (key r) (xd_resources x) \<noteq> None
      then Inr (x\<lparr>xd_resources := sql_update (\<lambda>m. key m = key r)
        (\<lambda>m. m\<lparr>ms_owner := ms_owner r, ms_lifecycle_status := ms_lifecycle_status r,
           ms_last_observation_id := ms_last_observation_id r, ms_updated_at := ms_updated_at r\<rparr>)
        (xd_resources x)\<rparr>)
      else if row_by ms_resource_id (ms_resource_id r) (xd_resources x) \<noteq> None
      then Inl (IntegrityError ''UNIQUE managed_resources.resource_id'')
      else Inr (x\<lparr>xd_resources := xd_resources x @ [r]\<rparr>))"

text \<open>
  One item of the plan: the managed resource is created or taken over, and its ownership event is
  written once per plan, resource and action.
\<close>

definition apply_ownership_item ::
  "call_env \<Rightarrow> nat \<Rightarrow> verify_request \<Rightarrow> ident \<Rightarrow> plan_item_row \<Rightarrow> exec_db \<Rightarrow> exec_db res" where
  "apply_ownership_item env n q obs_id item x = (case pli_ownership_action item of
     None \<Rightarrow> Inr x
   | Some action \<Rightarrow>
       if action \<notin> {''Create'', ''Adopt'', ''Update'', ''Retire''} then Inr x
       else
         rbind (if truthy_text (pli_intent_json item) then json_loads (the (pli_intent_json item)) else Inr (JObj [])) (\<lambda>intent.
         rbind (json_get intent ''zone_id'' (JStr (''ordinal-'' @ write_int (pli_ordinal item)))) (\<lambda>zone.
         let kind = (if truthy_str (pli_intent_kind item) then the (pli_intent_kind item) else pli_change_kind item);
             logical_key = py_str zone;
             existing = row_by (\<lambda>m. (ms_router_id m, ms_resource_kind m, ms_logical_key m))
               (vq_router_id q, kind, logical_key) (xd_resources x);
             resource_id = (case existing of
                 Some m \<Rightarrow> ms_resource_id m
               | None \<Rightarrow> if truthy_str (pli_target_resource_id item) then the (pli_target_resource_id item)
                   else new_id ''res'' (uuid env (5 + 2 * n)));
             before_owner = map_option ms_owner existing;
             after_owner = (if action = ''Retire'' then None else Some ''router-control'');
             ts = utc_now_iso env in
         rbind (upsert_resource \<lparr>ms_resource_id = resource_id, ms_router_id = vq_router_id q,
             ms_resource_kind = kind, ms_logical_key = logical_key,
             ms_owner = (if truthy_str after_owner then the after_owner
               else if truthy_str before_owner then the before_owner else ''router-control''),
             ms_creating_revision_id = vq_revision_id q,
             ms_lifecycle_status = (if action = ''Retire'' then ''Retired'' else ''Present''),
             ms_last_observation_id = Some obs_id, ms_created_at = ts, ms_updated_at = ts\<rparr> x) (\<lambda>x.
         if row_by (\<lambda>w. (ow_plan_id w, ow_resource_id w, ow_action w)) (vq_plan_id q, resource_id, action)
              (xd_ownership x) \<noteq> None
         then Inr x
         else rbind (raise_if (row_by ow_event_id (new_id ''own'' (uuid env (6 + 2 * n))) (xd_ownership x) \<noteq> None)
             (IntegrityError ''UNIQUE managed_resource_ownership_events.event_id'')) (\<lambda>_.
           Inr (x\<lparr>xd_ownership := xd_ownership x @ [\<lparr>ow_event_id = new_id ''own'' (uuid env (6 + 2 * n)),
             ow_router_id = vq_router_id q, ow_resource_id = resource_id, ow_plan_id = vq_plan_id q,
             ow_job_id = vq_job_id q, ow_action = action, ow_before_owner = before_owner,
             ow_after_owner = after_owner, ow_created_at = ts\<rparr>]\<rparr>))))))"

fun apply_ownership ::
  "call_env \<Rightarrow> nat \<Rightarrow> verify_request \<Rightarrow> ident \<Rightarrow> plan_item_row list \<Rightarrow> exec_db \<Rightarrow> exec_db res" where
  "apply_ownership env n q obs_id [] x = Inr x"
| "apply_ownership env n q obs_id (item # items) x =
     rbind (apply_ownership_item env n q obs_id item x) (apply_ownership env (Suc n) q obs_id items)"

definition insert_report :: "report_row \<Rightarrow> exec_db \<Rightarrow> exec_db res" where
  "insert_report r x =
     (if row_by vr_report_id (vr_report_id r) (xd_reports x) \<noteq> None
      then Inl (IntegrityError ''UNIQUE plan_verify_reports.report_id'')
      else if get_plan_verify_report x (vr_plan_id r) (vr_job_id r) \<noteq> None
      then Inl (IntegrityError ''UNIQUE plan_verify_reports(plan_id, job_id)'')
      else if get_plan (xd_plans x) (vr_plan_id r) = None
      then Inl (IntegrityError ''FOREIGN KEY plan_verify_reports.plan_id'')
      else if get_job (xd_db x) (vr_job_id r) = None
      then Inl (IntegrityError ''FOREIGN KEY plan_verify_reports.job_id'')
      else if get_observation (xd_plans x) (vr_observation_id r) = None
      then Inl (IntegrityError ''FOREIGN KEY plan_verify_reports.observation_id'')
      else if vr_overall_status r \<notin> {''pass'', ''fail'', ''drifted''}
      then Inl (IntegrityError ''CHECK plan_verify_reports.overall_status'')
      else Inr (x\<lparr>xd_reports := xd_reports x @ [r]\<rparr>))"

text \<open>
  The effect must be acknowledged, and nothing later, before the success bundle is written; the
  effect id may be absent or empty.
\<close>

definition verify_effect_ready :: "verify_request \<Rightarrow> db \<Rightarrow> ident res" where
  "verify_effect_ready q d =
     (if \<not> truthy_str (vq_effect_id q)
      then Inl (ConflictError ''effect required for verify-success finalization'')
      else case get_external_effect d (the (vq_effect_id q)) of
        None \<Rightarrow> Inl (NotFoundError ''external effect not found'')
      | Some fx \<Rightarrow>
          (if e_current_state fx \<noteq> Eff_Acknowledged
           then Inl (ConflictError (''effect not ready for verify finalize: '' @ effect_state_name (e_current_state fx)))
           else Inr (the (vq_effect_id q))))"

definition verify_safety :: "call_env \<Rightarrow> verify_request \<Rightarrow> exec_db \<Rightarrow> exec_db res" where
  "verify_safety env q x = (let ts = utc_now_iso env in
     rbind (safety_refs x (vq_router_id q) [Some (vq_revision_id q)]) (\<lambda>_.
     case get_router_safety_session x (vq_router_id q) of
       Some _ \<Rightarrow> Inr (x\<lparr>xd_safety := sql_update (\<lambda>s. sf_router_id s = vq_router_id q)
         (\<lambda>s. s\<lparr>sf_safety_state := ''Ready'', sf_verified_runtime_revision_id := Some (vq_revision_id q),
            sf_updated_at := ts\<rparr>) (xd_safety x)\<rparr>)
     | None \<Rightarrow> Inr (x\<lparr>xd_safety := xd_safety x @ [\<lparr>sf_session_id = new_id ''safety'' (uuid env 3),
         sf_router_id = vq_router_id q, sf_fail_safe_active = False, sf_reboot_marker = None,
         sf_baseline_revision_id = Some (vq_revision_id q), sf_safety_state = ''Ready'',
         sf_verified_runtime_revision_id = Some (vq_revision_id q), sf_startup_saved_revision_id = None,
         sf_created_at = ts, sf_updated_at = ts\<rparr>]\<rparr>)))"

text \<open>The writes of a verification that found no drift; the result is the read-back observation.\<close>

definition verify_writes :: "call_env \<Rightarrow> verify_request \<Rightarrow> exec_db \<Rightarrow> (ident \<times> exec_db) res" where
  "verify_writes env q x =
     (let obs_id = new_id ''obs'' (uuid env 0); ts = utc_now_iso env in
      rbind (verify_effect_ready q (xd_db x)) (\<lambda>eid.
      rbind (insert_observation_row \<lparr>ob_observation_id = obs_id, ob_router_id = vq_router_id q,
          ob_capability_id = None, ob_identity_fingerprint = vq_identity_fingerprint q,
          ob_resource_version = vq_resource_version q, ob_state_digest = vq_state_digest q,
          ob_state_snapshot_json = None, ob_collection_status = ''Succeeded'', ob_source = ''readback'',
          ob_adapter_version = ''0.1.0'', ob_observed_at = ts, ob_valid_until = ts,
          ob_created_at = ts\<rparr> (xd_plans x)) (\<lambda>plans.
      rbind (apply_ownership env 0 q obs_id (list_plan_items plans (vq_plan_id q)) (x\<lparr>xd_plans := plans\<rparr>)) (\<lambda>x.
      rbind (insert_evidence \<lparr>evd_evidence_id = new_id ''evd'' (uuid env 1), evd_router_id = vq_router_id q,
          evd_evidence_kind = ''runtime_applied'', evd_revision_id = Some (vq_revision_id q),
          evd_digest = vq_verify_digest q, evd_observed_at = ts, evd_created_at = ts\<rparr> x) (\<lambda>x.
      rbind (transition_external_effect_unlocked env (uuid env 2) eid Eff_ObservedApplied (vq_job_id q)
          (Some ''verify observed applied'') (xd_db x)) (\<lambda>d.
      rbind (verify_safety env q (with_db x d)) (\<lambda>x.
      Inr (obs_id, x))))))))"

definition finalize_verify_success ::
  "(call_env \<Rightarrow> exec_db \<Rightarrow> ident \<Rightarrow> unit res) \<Rightarrow> call_env \<Rightarrow> verify_request \<Rightarrow> exec_db \<Rightarrow> (string \<times> exec_db) res" where
  "finalize_verify_success fresh env q x =
     (case get_plan_verify_report x (vq_plan_id q) (vq_job_id q) of
        Some r \<Rightarrow> Inr (vr_overall_status r, x)
      | None \<Rightarrow>
          rbind (assert_fenced_effect_write env (xd_db x) (vq_router_id q) (vq_job_id q) (vq_lease_owner q)) (\<lambda>_.
          case get_plan (xd_plans x) (vq_plan_id q) of
            None \<Rightarrow> Inl (NotFoundError ''plan not found'')
          | Some plan \<Rightarrow>
              rbind (raise_if (pl_confirmation_state plan \<noteq> ''Confirmed'') (ConflictError ''plan not confirmed'')) (\<lambda>_.
              rbind (fresh env x (vq_plan_id q)) (\<lambda>_.
              let drifted = (map_option rst_current_desired_revision_id
                    (get_revision_state (xd_plans x) (vq_router_id q)) \<noteq> Some (pl_revision_id plan));
                  overall = (if drifted then ''drifted'' else ''pass'') in
              rbind (if drifted then Inr (pl_observation_id plan, x) else verify_writes env q x) (\<lambda>(obs_id, x).
              rbind (insert_report \<lparr>vr_report_id = new_id ''pvr'' (uuid env 4), vr_plan_id = vq_plan_id q,
                  vr_job_id = vq_job_id q, vr_observation_id = obs_id, vr_checks_json = vq_checks_json q,
                  vr_overall_status = overall, vr_created_at = utc_now_iso env\<rparr> x) (\<lambda>x.
              Inr (overall, x)))))))"

end
