(* ===== verification/Mutation_Executor.thy ===== *)
theory Mutation_Executor
  imports Worker Verify_Store
begin

text \<open>
  The checkpointed mutation executor, \<open>application/mutation_executor.py\<close>, and the job handler that runs
  it (\<open>fake_simulate\<close> in \<open>application/worker_handlers.py\<close>). An apply is a chain of steps; each is
  checkpointed before and after, and only the step \<open>apply\<close> touches the router, once, under a journaled
  effect. Resume and compensation are shorter chains.

  A computation of the executor changes the state and may end with an exception; what it wrote before
  stays. The router adapter and the backup publisher are arguments (\<open>adapter\<close>), each call an arbitrary
  change of the shared state, so that it also stands for everything other processes do meanwhile; in
  addition \<open>ex_interfere\<close> changes the shared state before every store call. \<open>sh_applied\<close> records the
  calls of \<open>apply_plan\<close>. The clock of a store call is that of its own tick, so that it also covers the
  earlier reading some calls are given. Sleeping does not change the state; \<open>ex_float\<close> is \<open>float\<close> on a
  text. The test barriers and the content of published backups are left out.
\<close>

section \<open>Data\<close>

datatype step_kind =
    Sk_Preflight | Sk_IdentityCheck | Sk_Observe | Sk_Backup | Sk_PlanPreconditions | Sk_Confirm
  | Sk_BeginFailSafe | Sk_Apply | Sk_ReadBack | Sk_Verify | Sk_Save | Sk_Compensate

definition step_kind_name :: "step_kind \<Rightarrow> string" where
  "step_kind_name k = (case k of
     Sk_Preflight \<Rightarrow> ''preflight'' | Sk_IdentityCheck \<Rightarrow> ''identity-check'' | Sk_Observe \<Rightarrow> ''observe''
   | Sk_Backup \<Rightarrow> ''backup'' | Sk_PlanPreconditions \<Rightarrow> ''plan-preconditions'' | Sk_Confirm \<Rightarrow> ''Confirm''
   | Sk_BeginFailSafe \<Rightarrow> ''begin-fail-safe-configuration'' | Sk_Apply \<Rightarrow> ''apply''
   | Sk_ReadBack \<Rightarrow> ''read-back'' | Sk_Verify \<Rightarrow> ''verify'' | Sk_Save \<Rightarrow> ''save''
   | Sk_Compensate \<Rightarrow> ''compensate'')"

text \<open>
  Exceptions: the domain errors the executor treats apart, the other domain errors with their class
  and message, and any other exception by its class.
\<close>

datatype exec_exc =
    XRecovery string | XUnknown string | XForbidden string | XLeaseLost string
  | XDomain string string | XOther string

definition exc_name :: "exec_exc \<Rightarrow> string" where
  "exc_name e = (case e of XRecovery _ \<Rightarrow> ''RecoveryRequired'' | XUnknown _ \<Rightarrow> ''UnknownExternalOutcome''
     | XForbidden _ \<Rightarrow> ''MutationForbidden'' | XLeaseLost _ \<Rightarrow> ''LeaseLostError''
     | XDomain c _ \<Rightarrow> c | XOther c \<Rightarrow> c)"

definition exc_message :: "exec_exc \<Rightarrow> string" where
  "exc_message e = (case e of XRecovery m \<Rightarrow> m | XUnknown m \<Rightarrow> m | XForbidden m \<Rightarrow> m | XLeaseLost m \<Rightarrow> m
     | XDomain _ m \<Rightarrow> m | XOther c \<Rightarrow> c)"

definition domain_exc :: "domain_error \<Rightarrow> exec_exc" where
  "domain_exc e = (case e of
     IdentityMismatch m \<Rightarrow> XDomain ''IdentityMismatch'' m
   | CapabilityUnknown m \<Rightarrow> XDomain ''CapabilityUnknown'' m
   | CapabilityExpired m \<Rightarrow> XDomain ''CapabilityExpired'' m
   | CapabilityUnsupported m \<Rightarrow> XDomain ''CapabilityUnsupported'' m
   | StaleObservation m \<Rightarrow> XDomain ''StaleObservation'' m
   | UnmanagedConflict m \<Rightarrow> XDomain ''UnmanagedConflict'' m
   | PlanExpired m \<Rightarrow> XDomain ''PlanExpired'' m
   | PlanUnconfirmed m \<Rightarrow> XDomain ''PlanUnconfirmed'' m
   | IllegalCommissioningTransition \<Rightarrow> XOther ''IllegalCommissioningTransition''
   | DomainValueError m \<Rightarrow> XOther ''ValueError'')"

definition store_exc :: "store_error \<Rightarrow> exec_exc" where
  "store_exc e = XOther (error_type_name e)"

record backup_artifact =
  ba_artifact_id :: ident
  ba_router_id :: ident
  ba_operation_id :: ident
  ba_content_digest :: string
  ba_storage_locator_digest :: string
  ba_identity_fingerprint_digest :: string
  ba_created_at :: py_datetime

definition make_backup_artifact :: "backup_artifact \<Rightarrow> domain_error + backup_artifact" where
  "make_backup_artifact b =
     rbind (validate_digest (ba_content_digest b) ''content_digest'') (\<lambda>_.
     rbind (validate_digest (ba_storage_locator_digest b) ''storage_locator_digest'') (\<lambda>_.
     rbind (validate_digest (ba_identity_fingerprint_digest b) ''identity_fingerprint_digest'') (\<lambda>_.
     rbind (ensure_utc (ba_created_at b) ''created_at'') (\<lambda>_. Inr b))))"

record read_back_result =
  rb_plan_id :: ident
  rb_state_digest :: string
  rb_resource_version :: string
  rb_identity_fingerprint_digest :: string
  rb_outcome_known :: bool

record apply_result =
  ar_plan_id :: ident
  ar_outcome_digest :: string
  ar_continued :: bool
  ar_continuation_token :: "string option"

record provisioning_bundle =
  pb_router_id :: ident
  pb_expected_identity :: router_identity
  pb_desired_revision :: desired_revision
  pb_plan :: change_plan
  pb_managed_resources :: "managed_resource list"
  pb_operation_id :: ident
  pb_confirmed :: bool
  pb_conflicting_unmanaged_locators :: "string list"

record step_ctx =
  sc_backup :: "backup_artifact option"
  sc_fail_safe_began :: bool
  sc_apply_dispatched :: bool
  sc_read_back :: "read_back_result option"
  sc_effect_id :: "ident option"
  sc_aggregate_status :: "string option"
  sc_boot_marker :: "string option"

definition new_step_ctx :: step_ctx where
  "new_step_ctx = \<lparr>sc_backup = None, sc_fail_safe_began = False, sc_apply_dispatched = False,
     sc_read_back = None, sc_effect_id = None, sc_aggregate_status = None, sc_boot_marker = None\<rparr>"

section \<open>Computations\<close>

record shared =
  sh_store :: exec_db
  sh_lease_lost :: bool
  sh_applied :: "(ident \<times> ident) list"

record xstate =
  xs_shared :: shared
  xs_step :: step_ctx
  xs_tick :: nat

type_synonym 'a exec = "xstate \<Rightarrow> (exec_exc + 'a) \<times> xstate"
type_synonym 'a port = "shared \<Rightarrow> (exec_exc + 'a) \<times> shared"

definition eret :: "'a \<Rightarrow> 'a exec" where
  "eret x s = (Inr x, s)"

definition eraise :: "exec_exc \<Rightarrow> 'a exec" where
  "eraise e s = (Inl e, s)"

definition ebind :: "'a exec \<Rightarrow> ('a \<Rightarrow> 'b exec) \<Rightarrow> 'b exec" where
  "ebind m f s = (case m s of (Inl e, s') \<Rightarrow> (Inl e, s') | (Inr x, s') \<Rightarrow> f x s')"

text \<open>\<open>try: m; except ...\<close>: the outcome of \<open>m\<close> as a value.\<close>

definition eattempt :: "'a exec \<Rightarrow> (exec_exc + 'a) exec" where
  "eattempt m s = (case m s of (r, s') \<Rightarrow> (Inr r, s'))"

definition elift :: "exec_exc + 'a \<Rightarrow> 'a exec" where
  "elift r s = (r, s)"

definition edomain :: "domain_error + 'a \<Rightarrow> 'a exec" where
  "edomain r = elift (map_sum domain_exc id r)"

definition get_step :: "step_ctx exec" where
  "get_step s = (Inr (xs_step s), s)"

definition set_step :: "(step_ctx \<Rightarrow> step_ctx) \<Rightarrow> unit exec" where
  "set_step f s = (Inr (), s\<lparr>xs_step := f (xs_step s)\<rparr>)"

record adapter =
  ad_state_identity :: "router_identity option"
  ad_check_identity :: "router_identity \<Rightarrow> (bool \<times> string) port"
  ad_observe :: "ident \<Rightarrow> router_observation port"
  ad_get_capabilities :: "ident \<Rightarrow> router_capability port"
  ad_create_backup :: "ident \<Rightarrow> ident \<Rightarrow> backup_artifact port"
  ad_begin_fail_safe :: "ident \<Rightarrow> unit port"
  ad_apply_plan :: "change_plan \<Rightarrow> apply_result port"
  ad_poll_apply_continuation :: "(ident \<Rightarrow> ident \<Rightarrow> string \<Rightarrow> apply_result port) option"
  ad_read_back :: "ident \<Rightarrow> ident \<Rightarrow> read_back_result port"
  ad_verify_postconditions :: "change_plan \<Rightarrow> read_back_result \<Rightarrow> (bool \<times> string) port"
  ad_save_configuration :: "ident \<Rightarrow> string port"
  ad_compensate :: "ident \<Rightarrow> backup_artifact \<Rightarrow> unit port"
  ad_publish :: "backup_artifact \<Rightarrow> ident \<Rightarrow> ident \<Rightarrow> string \<Rightarrow> ident port"

record executor =
  ex_adapter :: adapter
  ex_env :: "nat \<Rightarrow> call_env"
  ex_tie :: "boot_row \<Rightarrow> int"
  ex_fresh :: "call_env \<Rightarrow> exec_db \<Rightarrow> ident \<Rightarrow> unit res"
  ex_interfere :: "nat \<Rightarrow> shared \<Rightarrow> shared"
  ex_float :: "string \<Rightarrow> rat option"
  ex_crash_after_step :: "step_kind option"
  ex_crash_after_checkpoint :: bool
  ex_crash_after_dispatching :: bool

text \<open>A store call: it commits, or raises and changes nothing itself.\<close>

definition sh_call ::
  "executor \<Rightarrow> (store_error \<Rightarrow> exec_exc) \<Rightarrow> (call_env \<Rightarrow> exec_db \<Rightarrow> ('a \<times> exec_db) res) \<Rightarrow> 'a exec" where
  "sh_call ex conv f s =
     (let sh = ex_interfere ex (xs_tick s) (xs_shared s); s' = s\<lparr>xs_shared := sh, xs_tick := Suc (xs_tick s)\<rparr> in
      case f (ex_env ex (xs_tick s)) (sh_store sh) of
        Inl e \<Rightarrow> (Inl (conv e), s')
      | Inr (x, db) \<Rightarrow> (Inr x, s'\<lparr>xs_shared := sh\<lparr>sh_store := db\<rparr>\<rparr>))"

definition sh_read :: "executor \<Rightarrow> (exec_db \<Rightarrow> 'a) \<Rightarrow> 'a exec" where
  "sh_read ex f = sh_call ex store_exc (\<lambda>env x. Inr (f x, x))"

definition on_db :: "(call_env \<Rightarrow> db \<Rightarrow> ('a \<times> db) res) \<Rightarrow> call_env \<Rightarrow> exec_db \<Rightarrow> ('a \<times> exec_db) res" where
  "on_db f env x = map_sum id (\<lambda>(r, d). (r, with_db x d)) (f env (xd_db x))"

definition no_result :: "('s res) \<Rightarrow> (unit \<times> 's) res" where
  "no_result r = map_sum id (\<lambda>s. ((), s)) r"

definition port_call :: "'a port \<Rightarrow> 'a exec" where
  "port_call p s = (case p (xs_shared s) of (r, sh) \<Rightarrow> (r, s\<lparr>xs_shared := sh\<rparr>))"

text \<open>\<open>clock.now()\<close>.\<close>

definition utc_datetime :: "int \<Rightarrow> py_datetime" where
  "utc_datetime t = \<lparr>dt_instant = t, dt_tz = Aware (Some 0)\<rparr>"

definition clock_now :: "executor \<Rightarrow> py_datetime exec" where
  "clock_now ex s = (Inr (utc_datetime (wall_now (ex_env ex (xs_tick s)))), s)"

text \<open>A stored time stamp as a \<open>datetime\<close> (\<open>_parse_ts\<close>).\<close>

definition parse_ts :: "int \<Rightarrow> py_datetime" where
  "parse_ts t = utc_datetime (t * 1000000)"

definition upsert_safety :: "executor \<Rightarrow> safety_request \<Rightarrow> unit exec" where
  "upsert_safety ex q = ebind (sh_call ex store_exc (\<lambda>env. upsert_router_safety_session env q)) (\<lambda>_. eret ())"

section \<open>Checkpoints and guards\<close>

definition ensure_lease :: "executor \<Rightarrow> unit exec" where
  "ensure_lease ex s = (let sh = ex_interfere ex (xs_tick s) (xs_shared s) in
     (if sh_lease_lost sh then Inl (XLeaseLost ''lease lost; aborting handler progress'') else Inr (),
      s\<lparr>xs_shared := sh, xs_tick := Suc (xs_tick s)\<rparr>))"

definition cancel_requested :: "executor \<Rightarrow> worker_ctx \<Rightarrow> bool exec" where
  "cancel_requested ex ctx = sh_read ex (\<lambda>x. is_cancel_requested (xd_db x) (wx_job_id ctx))"

definition checkpoint_exc :: "store_error \<Rightarrow> exec_exc" where
  "checkpoint_exc e = (case e of StaleFenceError _ \<Rightarrow> XLeaseLost ''stale fence on checkpoint'' | _ \<Rightarrow> store_exc e)"

definition checkpoint ::
  "executor \<Rightarrow> worker_ctx \<Rightarrow> step_kind \<Rightarrow> string \<Rightarrow> bool \<Rightarrow> ident option \<Rightarrow> string option \<Rightarrow> unit exec" where
  "checkpoint ex ctx kind status apply_dispatched backup_id error =
     sh_call ex checkpoint_exc (on_db (\<lambda>env d. no_result
       (record_job_progress env (wx_job_id ctx) (wx_lease_owner ctx) (wx_fencing_token ctx)
         \<lparr>pr_status = None, pr_step = Some (step_kind_name kind, status),
          pr_checkpoint_json = Some (Json (sort_keys (JObj (checkpoint_payload (step_kind_name kind)
            (if status = ''Succeeded'' then Some (step_kind_name kind) else None) backup_id
            apply_dispatched False None)))),
          pr_error_redacted = error\<rparr> d)))"

definition assert_mutation_allowed :: "executor \<Rightarrow> ident \<Rightarrow> unit exec" where
  "assert_mutation_allowed ex rid =
     ebind (sh_read ex (\<lambda>x. get_router_safety_session x rid)) (\<lambda>row. case row of
       Some r \<Rightarrow> if sf_safety_state r = ''Blocked'' then eraise (XRecovery ''router safety session blocked'') else eret ()
     | None \<Rightarrow> eret ())"

definition uncertain_states :: "effect_state list" where
  "uncertain_states = [Eff_Dispatching, Eff_Acknowledged, Eff_Unknown, Eff_ObservedPartial]"

definition post_dispatch_uncertain :: "executor \<Rightarrow> step_ctx \<Rightarrow> bool exec" where
  "post_dispatch_uncertain ex c =
     (if sc_apply_dispatched c then eret True
      else if \<not> truthy_str (sc_effect_id c) then eret False
      else ebind (sh_read ex (\<lambda>x. get_external_effect (xd_db x) (the (sc_effect_id c)))) (\<lambda>row.
        eret (case row of None \<Rightarrow> False | Some e \<Rightarrow> e_current_state e \<in> set uncertain_states)))"

definition transition_effect :: "executor \<Rightarrow> worker_ctx \<Rightarrow> ident \<Rightarrow> effect_state \<Rightarrow> string \<Rightarrow> unit exec" where
  "transition_effect ex ctx eid to_state summary = sh_call ex store_exc (on_db (\<lambda>env d. no_result
     (transition_external_effect env \<lparr>tr_effect_id = eid, tr_to_state = effect_state_name to_state,
        tr_job_id = wx_job_id ctx, tr_lease_owner = wx_lease_owner ctx, tr_actor_type = ''worker'',
        tr_actor_id = None, tr_summary_redacted = Some summary\<rparr> d)))"

definition mark_effect_unknown :: "executor \<Rightarrow> worker_ctx \<Rightarrow> ident option \<Rightarrow> unit exec" where
  "mark_effect_unknown ex ctx effect_id =
     ebind (if \<not> truthy_str effect_id then eret ()
       else ebind (sh_read ex (\<lambda>x. get_external_effect (xd_db x) (the effect_id))) (\<lambda>row. case row of
           Some e \<Rightarrow> if e_current_state e \<in> {Eff_Dispatching, Eff_Acknowledged}
             then transition_effect ex ctx (the effect_id) Eff_Unknown ''uncertain external outcome'' else eret ()
         | None \<Rightarrow> eret ())) (\<lambda>_.
     upsert_safety ex ((safety_default (wx_router_id ctx) ''Blocked'')\<lparr>sq_safety_payload :=
       Some [(''fail_safe_status'', JStr ''blocked''), (''expected_reboot_outage'', JBool True)]\<rparr>))"

section \<open>The single dispatch of a plan\<close>

definition max_apply_continuations :: nat where
  "max_apply_continuations = 8"

definition apply_continued :: "apply_result \<Rightarrow> bool" where
  "apply_continued r = (ar_continued r \<or> truthy_str (ar_continuation_token r))"

definition upsert_continuation :: "executor \<Rightarrow> worker_ctx \<Rightarrow> ident \<Rightarrow> string \<Rightarrow> string \<Rightarrow> unit exec" where
  "upsert_continuation ex ctx eid key state =
     ebind (sh_call ex store_exc (on_db (\<lambda>env. upsert_effect_continuation env
       \<lparr>cq_effect_id = eid, cq_continuation_key = key, cq_state = state,
        cq_job_id = wx_job_id ctx, cq_lease_owner = wx_lease_owner ctx\<rparr>))) (\<lambda>_. eret ())"

definition note_token :: "executor \<Rightarrow> worker_ctx \<Rightarrow> ident \<Rightarrow> apply_result \<Rightarrow> unit exec" where
  "note_token ex ctx eid r =
     (if truthy_str (ar_continuation_token r)
      then upsert_continuation ex ctx eid (the (ar_continuation_token r)) ''Pending'' else eret ())"

text \<open>\<open>except UnknownExternalOutcome: mark; raise\<close> and \<open>except Exception: mark; raise\<close>.\<close>

definition marking ::
  "executor \<Rightarrow> worker_ctx \<Rightarrow> ident \<Rightarrow> (exec_exc \<Rightarrow> bool) \<Rightarrow> 'a exec \<Rightarrow> 'a exec" where
  "marking ex ctx eid caught m = ebind (eattempt m) (\<lambda>r. case r of
     Inr x \<Rightarrow> eret x
   | Inl e \<Rightarrow> if caught e then ebind (mark_effect_unknown ex ctx (Some eid)) (\<lambda>_. eraise e) else eraise e)"

definition is_unknown :: "exec_exc \<Rightarrow> bool" where
  "is_unknown e = (case e of XUnknown _ \<Rightarrow> True | _ \<Rightarrow> False)"

text \<open>The poll loop; the number counts the polls that are still allowed.\<close>

fun poll_continuations ::
  "executor \<Rightarrow> worker_ctx \<Rightarrow> provisioning_bundle \<Rightarrow> ident \<Rightarrow> nat \<Rightarrow> apply_result \<Rightarrow> apply_result exec" where
  "poll_continuations ex ctx request eid 0 r =
     (if \<not> apply_continued r then eret r
      else eraise (XRecovery (''apply continuation exceeded bound ('' @ write_nat max_apply_continuations @ '')'')))"
| "poll_continuations ex ctx request eid (Suc n) r =
     (if \<not> apply_continued r then eret r
      else if \<not> truthy_str (ar_continuation_token r) then eraise (XUnknown ''continuation without token'')
      else case ad_poll_apply_continuation (ex_adapter ex) of
        None \<Rightarrow> eraise (XForbidden ''continuation required but adapter lacks poll -- live deny'')
      | Some poller \<Rightarrow>
          ebind (marking ex ctx eid is_unknown (port_call (poller (pb_router_id request)
            (cp_plan_id (pb_plan request)) (the (ar_continuation_token r))))) (\<lambda>r.
          ebind (note_token ex ctx eid r) (\<lambda>_. poll_continuations ex ctx request eid n r)))"

definition poll_apply_continuations ::
  "executor \<Rightarrow> worker_ctx \<Rightarrow> provisioning_bundle \<Rightarrow> ident \<Rightarrow> apply_result \<Rightarrow> apply_result exec" where
  "poll_apply_continuations ex ctx request eid = poll_continuations ex ctx request eid (max_apply_continuations - 1)"

definition effect_key :: "provisioning_bundle \<Rightarrow> string" where
  "effect_key request = ''apply:'' @ cp_plan_id (pb_plan request)"

text \<open>The call of \<open>apply_plan\<close>, recorded before the router answers.\<close>

definition call_apply :: "executor \<Rightarrow> worker_ctx \<Rightarrow> provisioning_bundle \<Rightarrow> apply_result exec" where
  "call_apply ex ctx request = port_call (\<lambda>sh. ad_apply_plan (ex_adapter ex) (pb_plan request)
     (sh\<lparr>sh_applied := (wx_router_id ctx, cp_plan_id (pb_plan request)) # sh_applied sh\<rparr>))"

definition boot_known :: "executor \<Rightarrow> worker_ctx \<Rightarrow> unit exec" where
  "boot_known ex ctx = sh_call ex store_exc (\<lambda>env x. map_sum id (\<lambda>_. ((), x))
     (assert_router_boot_known (ex_tie ex) (xd_db x) (wx_router_id ctx)))"

definition dispatch_apply_once :: "executor \<Rightarrow> worker_ctx \<Rightarrow> provisioning_bundle \<Rightarrow> unit exec" where
  "dispatch_apply_once ex ctx request =
     ebind (assert_mutation_allowed ex (wx_router_id ctx)) (\<lambda>_.
     ebind (boot_known ex ctx) (\<lambda>_.
     ebind (sh_call ex store_exc (on_db (\<lambda>env. create_external_effect env
       \<lparr>fx_router_id = wx_router_id ctx, fx_effect_key = effect_key request, fx_job_id = wx_job_id ctx,
        fx_lease_owner = wx_lease_owner ctx, fx_operation_id = Some (wx_operation_id ctx),
        fx_effect_id = None\<rparr>))) (\<lambda>eid.
     ebind (set_step (\<lambda>c. c\<lparr>sc_effect_id := Some eid\<rparr>)) (\<lambda>_.
     ebind (transition_effect ex ctx eid Eff_Dispatching ''dispatching apply'') (\<lambda>_.
     ebind (if ex_crash_after_dispatching ex then eraise (XOther ''RuntimeError'') else eret ()) (\<lambda>_.
     ebind (marking ex ctx eid (\<lambda>_. True) (call_apply ex ctx request)) (\<lambda>r.
     ebind (transition_effect ex ctx eid Eff_Acknowledged ''apply acknowledged'') (\<lambda>_.
     ebind (note_token ex ctx eid r) (\<lambda>_.
     ebind (poll_apply_continuations ex ctx request eid r) (\<lambda>r.
     if ar_continuation_token r = None \<and> \<not> apply_continued r
     then upsert_continuation ex ctx eid (''final:'' @ cp_plan_id (pb_plan request)) ''Complete''
     else eret ()))))))))))"

section \<open>One step\<close>

text \<open>\<open>strftime("%Y-%m-%dT%H:%M:%SZ")\<close> of an instant in microseconds (proleptic Gregorian calendar).\<close>

definition pad :: "nat \<Rightarrow> int \<Rightarrow> string" where
  "pad w n = (let ds = write_int n in replicate (w - length ds) CHR ''0'' @ ds)"

definition civil :: "int \<Rightarrow> int \<times> int \<times> int" where
  "civil days =
     (let z = days + 719468; doe = z mod 146097;
          yoe = (doe - doe div 1460 + doe div 36524 - doe div 146096) div 365;
          doy = doe - (365 * yoe + yoe div 4 - yoe div 100); mp = (5 * doy + 2) div 153;
          m = (if mp < 10 then mp + 3 else mp - 9)
      in (yoe + (z div 146097) * 400 + (if m \<le> 2 then 1 else 0), m, doy - (153 * mp + 2) div 5 + 1))"

definition iso_timestamp :: "int \<Rightarrow> string" where
  "iso_timestamp us = (let t = us div 1000000; (y, m, d) = civil (t div 86400); s = t mod 86400 in
     pad 4 y @ ''-'' @ pad 2 m @ ''-'' @ pad 2 d @ ''T'' @ pad 2 (s div 3600) @ '':'' @ pad 2 (s div 60 mod 60)
       @ '':'' @ pad 2 (s mod 60) @ ''Z'')"

definition json_opt :: "string option \<Rightarrow> json" where
  "json_opt v = (case v of None \<Rightarrow> JNull | Some x \<Rightarrow> JStr x)"

definition safety_payload_for_step ::
  "step_ctx \<Rightarrow> provisioning_bundle \<Rightarrow> worker_ctx \<Rightarrow> ident option \<Rightarrow> string option \<Rightarrow> string option
   \<Rightarrow> (string \<times> json) list" where
  "safety_payload_for_step c request ctx backup_ref fail_safe_status fail_safe_deadline =
     [(''baseline_observation'', json_opt (sc_boot_marker c)), (''expected_reboot_outage'', JBool False)]
     @ (if truthy_str backup_ref then [(''backup_artifact_ref'', json_opt backup_ref)]
        else case sc_backup c of
          Some b \<Rightarrow> [(''backup_artifact_ref'', JStr (ba_artifact_id b))] | None \<Rightarrow> [])
     @ (case fail_safe_status of
          Some st \<Rightarrow> (''fail_safe_status'', JStr st) #
            (if truthy_str fail_safe_deadline then [(''fail_safe_deadline'', json_opt fail_safe_deadline)] else [])
        | None \<Rightarrow> [(''fail_safe_status'', JStr (if sc_fail_safe_began c then ''active'' else ''inactive''))])
     @ [(''authorization_ref'', JStr (wx_operation_id ctx)),
        (''baseline_revision_id'', JStr (dr_revision_id (pb_desired_revision request)))]"

text \<open>The safety session that the steps write, with the markers of the step context.\<close>

definition step_safety ::
  "worker_ctx \<Rightarrow> provisioning_bundle \<Rightarrow> step_ctx \<Rightarrow> string \<Rightarrow> bool \<Rightarrow> safety_request" where
  "step_safety ctx request c state fail_safe = (safety_default (wx_router_id ctx) state)\<lparr>
     sq_fail_safe_active := fail_safe, sq_reboot_marker := sc_boot_marker c,
     sq_baseline_revision_id := Some (dr_revision_id (pb_desired_revision request))\<rparr>"

definition identity_step :: "executor \<Rightarrow> provisioning_bundle \<Rightarrow> unit exec" where
  "identity_step ex request =
     ebind (port_call (ad_check_identity (ex_adapter ex) (pb_expected_identity request))) (\<lambda>(matched, observed).
     if \<not> matched then eraise (XDomain ''IdentityMismatch'' ''identity mismatch'')
     else edomain (assert_identity_match (pb_expected_identity request) observed))"

definition observe_step :: "executor \<Rightarrow> provisioning_bundle \<Rightarrow> py_datetime \<Rightarrow> unit exec" where
  "observe_step ex request now =
     ebind (port_call (ad_observe (ex_adapter ex) (pb_router_id request))) (\<lambda>obs.
     ebind (edomain (assert_observation_fresh obs now)) (\<lambda>_.
     ebind (edomain (assert_observation_matches_plan obs (pb_plan request))) (\<lambda>_.
     ebind (edomain (assert_identity_match (pb_expected_identity request)
       (ro_identity_fingerprint_digest obs))) (\<lambda>_.
     ebind (port_call (ad_get_capabilities (ex_adapter ex) (pb_router_id request))) (\<lambda>cap.
     edomain (assert_capability_allows_write cap now))))))"

definition backup_step :: "executor \<Rightarrow> worker_ctx \<Rightarrow> provisioning_bundle \<Rightarrow> unit exec" where
  "backup_step ex ctx request =
     ebind (port_call (ad_create_backup (ex_adapter ex) (pb_router_id request) (pb_operation_id request))) (\<lambda>b.
     ebind (set_step (\<lambda>c. c\<lparr>sc_backup := Some b\<rparr>)) (\<lambda>_.
     ebind get_step (\<lambda>c.
     upsert_safety ex ((step_safety ctx request c ''Ready'' (sc_fail_safe_began c))\<lparr>sq_safety_payload :=
       Some (safety_payload_for_step c request ctx None (Some ''inactive'') None)\<rparr>))))"

definition preconditions_step :: "provisioning_bundle \<Rightarrow> py_datetime \<Rightarrow> unit exec" where
  "preconditions_step request now =
     ebind (edomain (assert_plan_valid (pb_plan request) now)) (\<lambda>_.
     ebind (if pb_confirmed request then eret ()
       else eraise (XDomain ''PlanUnconfirmed'' ''Confirm gate not satisfied'')) (\<lambda>_.
     edomain (assert_no_unmanaged_conflict (pb_managed_resources request)
       (pb_conflicting_unmanaged_locators request) (pb_plan request))))"

definition fail_safe_step :: "executor \<Rightarrow> worker_ctx \<Rightarrow> provisioning_bundle \<Rightarrow> py_datetime \<Rightarrow> unit exec" where
  "fail_safe_step ex ctx request now =
     ebind (port_call (ad_begin_fail_safe (ex_adapter ex) (pb_router_id request))) (\<lambda>_.
     ebind (set_step (\<lambda>c. c\<lparr>sc_fail_safe_began := True\<rparr>)) (\<lambda>_.
     ebind get_step (\<lambda>c.
     upsert_safety ex ((step_safety ctx request c ''Ready'' True)\<lparr>sq_safety_payload :=
       Some (safety_payload_for_step c request ctx None (Some ''active'')
         (Some (iso_timestamp (dt_instant now + 1800000000))))\<rparr>))))"

definition read_back :: "executor \<Rightarrow> provisioning_bundle \<Rightarrow> read_back_result exec" where
  "read_back ex request =
     port_call (ad_read_back (ex_adapter ex) (pb_router_id request) (cp_plan_id (pb_plan request)))"

definition read_back_step :: "executor \<Rightarrow> worker_ctx \<Rightarrow> provisioning_bundle \<Rightarrow> unit exec" where
  "read_back_step ex ctx request =
     ebind (read_back ex request) (\<lambda>rb.
     if \<not> rb_outcome_known rb then eraise (XUnknown ''unknown external outcome'')
     else
       ebind (set_step (\<lambda>c. c\<lparr>sc_read_back := Some rb\<rparr>)) (\<lambda>_.
       ebind get_step (\<lambda>c.
       if truthy_str (sc_effect_id c)
       then transition_effect ex ctx (the (sc_effect_id c)) Eff_ObservedApplied ''read-back observed applied''
       else eret ())))"

definition record_evidence ::
  "executor \<Rightarrow> worker_ctx \<Rightarrow> provisioning_bundle \<Rightarrow> string \<Rightarrow> string \<Rightarrow> unit exec" where
  "record_evidence ex ctx request kind digest =
     ebind (sh_call ex store_exc (\<lambda>env. record_evidence_revision env (wx_router_id ctx) kind digest
       (Some (cp_revision_id (pb_plan request))))) (\<lambda>_. eret ())"

definition set_drifted :: "bool \<Rightarrow> unit exec" where
  "set_drifted drifted =
     (if drifted then set_step (\<lambda>c. c\<lparr>sc_aggregate_status := Some ''Drifted''\<rparr>) else eret ())"

definition verify_checks :: "bool \<Rightarrow> bool \<Rightarrow> string" where
  "verify_checks met drifted = dumps (JObj [(''postconditions_met'', JBool met),
     (''identity_match'', JBool True), (''drifted'', JBool drifted)])"

text \<open>What a verified step writes for a plan without a session binding.\<close>

definition verify_unbound ::
  "executor \<Rightarrow> worker_ctx \<Rightarrow> provisioning_bundle \<Rightarrow> string \<Rightarrow> bool \<Rightarrow> unit exec" where
  "verify_unbound ex ctx request digest drifted =
     ebind (set_drifted drifted) (\<lambda>_.
     ebind (record_evidence ex ctx request ''runtime_applied'' digest) (\<lambda>_.
     ebind get_step (\<lambda>c.
     ebind (upsert_safety ex ((step_safety ctx request c ''Ready'' (sc_fail_safe_began c))\<lparr>
       sq_verified_runtime_revision_id := Some (cp_revision_id (pb_plan request))\<rparr>)) (\<lambda>_.
     if truthy_str (sc_effect_id c)
     then ebind (sh_read ex (\<lambda>x. get_external_effect (xd_db x) (the (sc_effect_id c)))) (\<lambda>row. case row of
        Some e \<Rightarrow> if e_current_state e \<noteq> Eff_ObservedApplied
          then transition_effect ex ctx (the (sc_effect_id c)) Eff_ObservedApplied ''verify observed applied''
          else eret ()
      | None \<Rightarrow> eret ())
     else eret ()))))"

definition verify_bound ::
  "executor \<Rightarrow> worker_ctx \<Rightarrow> provisioning_bundle \<Rightarrow> read_back_result \<Rightarrow> string \<Rightarrow> string \<Rightarrow> unit exec" where
  "verify_bound ex ctx request rb digest checks =
     ebind get_step (\<lambda>c.
     ebind (sh_call ex store_exc (\<lambda>env. finalize_verify_success (ex_fresh ex) env
       \<lparr>vq_plan_id = cp_plan_id (pb_plan request), vq_job_id = wx_job_id ctx, vq_lease_owner = wx_lease_owner ctx,
        vq_effect_id = sc_effect_id c, vq_identity_fingerprint = rb_identity_fingerprint_digest rb,
        vq_resource_version = rb_resource_version rb, vq_state_digest = rb_state_digest rb,
        vq_verify_digest = digest, vq_checks_json = checks,
        vq_revision_id = cp_revision_id (pb_plan request), vq_router_id = wx_router_id ctx\<rparr>)) (\<lambda>overall.
     set_drifted (overall = ''drifted'')))"

definition verify_step :: "executor \<Rightarrow> worker_ctx \<Rightarrow> provisioning_bundle \<Rightarrow> unit exec" where
  "verify_step ex ctx request =
     ebind get_step (\<lambda>c.
     ebind (case sc_read_back c of Some rb \<Rightarrow> eret rb | None \<Rightarrow> read_back ex request) (\<lambda>rb.
     ebind (port_call (ad_verify_postconditions (ex_adapter ex) (pb_plan request) rb)) (\<lambda>(met, digest).
     if \<not> met
     then ebind (upsert_safety ex ((step_safety ctx request c ''Blocked'' (sc_fail_safe_began c))\<lparr>sq_safety_payload :=
            Some (safety_payload_for_step c request ctx None None None)\<rparr>)) (\<lambda>_.
          eraise (XRecovery ''verification failed -- recovery compensate path required''))
     else
       ebind (edomain (assert_identity_match (pb_expected_identity request)
         (rb_identity_fingerprint_digest rb))) (\<lambda>_.
       ebind (sh_read ex (\<lambda>x. get_plan (xd_plans x) (cp_plan_id (pb_plan request)))) (\<lambda>plan.
       ebind (sh_read ex (\<lambda>x. get_desired_revision (xd_plans x) (wx_router_id ctx))) (\<lambda>current.
       let drifted = (case current of None \<Rightarrow> False
             | Some rv \<Rightarrow> rv_revision_id rv \<noteq> cp_revision_id (pb_plan request)) in
       if plan \<noteq> None \<and> truthy_str (pl_session_binding_hmac (the plan))
       then verify_bound ex ctx request rb digest (verify_checks met drifted)
       else verify_unbound ex ctx request digest drifted))))))"

definition save_step :: "executor \<Rightarrow> worker_ctx \<Rightarrow> provisioning_bundle \<Rightarrow> unit exec" where
  "save_step ex ctx request =
     ebind (port_call (ad_save_configuration (ex_adapter ex) (pb_router_id request))) (\<lambda>digest.
     ebind (record_evidence ex ctx request ''startup_saved'' digest) (\<lambda>_.
     ebind get_step (\<lambda>c.
     upsert_safety ex ((step_safety ctx request c ''Ready'' False)\<lparr>
       sq_verified_runtime_revision_id := Some (cp_revision_id (pb_plan request)),
       sq_startup_saved_revision_id := Some (cp_revision_id (pb_plan request))\<rparr>))))"

definition compensate_step :: "executor \<Rightarrow> worker_ctx \<Rightarrow> provisioning_bundle \<Rightarrow> unit exec" where
  "compensate_step ex ctx request =
     ebind get_step (\<lambda>c. case sc_backup c of
       None \<Rightarrow> eraise (XDomain ''DomainError'' ''no backup for compensate'')
     | Some b \<Rightarrow>
         ebind (boot_known ex ctx) (\<lambda>_.
         ebind (read_back ex request) (\<lambda>baseline.
         ebind (port_call (ad_compensate (ex_adapter ex) (pb_router_id request) b)) (\<lambda>_.
         ebind (read_back ex request) (\<lambda>restored.
         if \<not> rb_outcome_known restored then eraise (XUnknown ''compensate outcome unknown'')
         else if rb_state_digest baseline = rb_state_digest restored
         then eraise (XRecovery ''compensate did not restore baseline'')
         else eret ())))))"

definition adapter_step :: "executor \<Rightarrow> worker_ctx \<Rightarrow> step_kind \<Rightarrow> provisioning_bundle \<Rightarrow> unit exec" where
  "adapter_step ex ctx kind request = ebind (clock_now ex) (\<lambda>now. case kind of
     Sk_Preflight \<Rightarrow>
       if pb_router_id request \<noteq> ri_router_id (pb_expected_identity request)
       then eraise (XDomain ''IdentityMismatch'' ''router_id mismatch'')
       else edomain (assert_desired_matches_plan (pb_desired_revision request) (pb_plan request))
   | Sk_IdentityCheck \<Rightarrow> identity_step ex request
   | Sk_Observe \<Rightarrow> observe_step ex request now
   | Sk_Backup \<Rightarrow> backup_step ex ctx request
   | Sk_PlanPreconditions \<Rightarrow> preconditions_step request now
   | Sk_Confirm \<Rightarrow> eret ()
   | Sk_BeginFailSafe \<Rightarrow> fail_safe_step ex ctx request now
   | Sk_Apply \<Rightarrow> dispatch_apply_once ex ctx request
   | Sk_ReadBack \<Rightarrow> read_back_step ex ctx request
   | Sk_Verify \<Rightarrow> verify_step ex ctx request
   | Sk_Save \<Rightarrow> save_step ex ctx request
   | Sk_Compensate \<Rightarrow> compensate_step ex ctx request)"

section \<open>Running a step\<close>

type_synonym outcome = "job_status \<times> string \<times> json option"

definition recovery_body :: "worker_ctx \<Rightarrow> step_kind \<Rightarrow> string option \<Rightarrow> json" where
  "recovery_body ctx kind error = JObj ([(''operation_id'', JStr (wx_operation_id ctx)),
     (''job_id'', JStr (wx_job_id ctx)), (''status'', JStr ''RecoveryRequired''),
     (''step'', JStr (step_kind_name kind))]
     @ (case error of None \<Rightarrow> [] | Some e \<Rightarrow> [(''error'', JStr e)]))"

definition needs_recovery ::
  "executor \<Rightarrow> worker_ctx \<Rightarrow> step_kind \<Rightarrow> bool \<Rightarrow> ident option \<Rightarrow> string \<Rightarrow> string \<Rightarrow> bool \<Rightarrow> outcome exec" where
  "needs_recovery ex ctx kind dispatched backup_id name summary with_error =
     ebind (checkpoint ex ctx kind ''RecoveryRequired'' dispatched backup_id (Some name)) (\<lambda>_.
     eret (RecoveryRequired, summary, Some (recovery_body ctx kind (if with_error then Some name else None))))"

text \<open>\<open>except DomainError\<close>: a failure only when nothing was sent to the router.\<close>

definition domain_failed ::
  "executor \<Rightarrow> worker_ctx \<Rightarrow> step_kind \<Rightarrow> ident option \<Rightarrow> exec_exc \<Rightarrow> outcome exec" where
  "domain_failed ex ctx kind backup_id e = ebind get_step (\<lambda>c.
     ebind (post_dispatch_uncertain ex c) (\<lambda>uncertain.
     if uncertain
     then ebind (if truthy_str (sc_effect_id c) then mark_effect_unknown ex ctx (sc_effect_id c) else eret ()) (\<lambda>_.
       needs_recovery ex ctx kind True backup_id (exc_name e) (exc_message e) True)
     else
       ebind (checkpoint ex ctx kind ''Failed'' (sc_apply_dispatched c) backup_id (Some (exc_name e))) (\<lambda>_.
       eret (Failed, exc_message e,
         Some (JObj [(''error'', JStr (exc_name e)), (''step'', JStr (step_kind_name kind))])))))"

definition step_failed ::
  "executor \<Rightarrow> worker_ctx \<Rightarrow> step_kind \<Rightarrow> ident option \<Rightarrow> exec_exc \<Rightarrow> outcome exec" where
  "step_failed ex ctx kind backup_id e = ebind get_step (\<lambda>c.
     let dispatched = sc_apply_dispatched c; has_effect = truthy_str (sc_effect_id c);
         mark = mark_effect_unknown ex ctx (sc_effect_id c); name = exc_name e in
     case e of
       XRecovery m \<Rightarrow> needs_recovery ex ctx kind dispatched backup_id name m False
     | XUnknown m \<Rightarrow>
         ebind (if has_effect \<or> dispatched then mark else eret ()) (\<lambda>_.
         needs_recovery ex ctx kind (dispatched \<or> has_effect) backup_id name m False)
     | XOther cls \<Rightarrow>
         ebind (if has_effect then mark else eret ()) (\<lambda>_.
         if dispatched \<or> has_effect
         then needs_recovery ex ctx kind True backup_id name cls True
         else ebind (checkpoint ex ctx kind ''Failed'' False backup_id (Some name)) (\<lambda>_.
           eret (Failed, cls, Some (JObj [(''error'', JStr name)]))))
     | _ \<Rightarrow> domain_failed ex ctx kind backup_id e)"

definition step_done :: "executor \<Rightarrow> worker_ctx \<Rightarrow> step_kind \<Rightarrow> ident option \<Rightarrow> outcome exec" where
  "step_done ex ctx kind backup_id =
     ebind (if kind = Sk_Apply then set_step (\<lambda>c. c\<lparr>sc_apply_dispatched := True\<rparr>) else eret ()) (\<lambda>_.
     ebind get_step (\<lambda>c.
     ebind (checkpoint ex ctx kind ''Succeeded'' (sc_apply_dispatched c) backup_id None) (\<lambda>_.
     eret (Succeeded, step_kind_name kind, None))))"

definition run_checkpointed_step ::
  "executor \<Rightarrow> worker_ctx \<Rightarrow> step_kind \<Rightarrow> provisioning_bundle \<Rightarrow> outcome exec" where
  "run_checkpointed_step ex ctx kind request = ebind get_step (\<lambda>c.
     let backup_id = map_option ba_artifact_id (sc_backup c) in
     ebind (checkpoint ex ctx kind ''Running'' (sc_apply_dispatched c) backup_id None) (\<lambda>_.
     ebind (ensure_lease ex) (\<lambda>_.
     ebind (eattempt (if ex_crash_after_step ex = Some kind \<or> ex_crash_after_checkpoint ex
         then eraise (XOther ''RuntimeError'') else adapter_step ex ctx kind request)) (\<lambda>r. case r of
       Inl e \<Rightarrow> step_failed ex ctx kind backup_id e
     | Inr _ \<Rightarrow> step_done ex ctx kind backup_id))))"

section \<open>The chain of an apply\<close>

definition apply_chain :: "step_kind list" where
  "apply_chain = [Sk_Preflight, Sk_IdentityCheck, Sk_Observe, Sk_Backup, Sk_PlanPreconditions, Sk_Confirm,
     Sk_BeginFailSafe, Sk_Apply, Sk_ReadBack, Sk_Verify, Sk_Save]"

definition steps_after :: "step_kind option \<Rightarrow> step_kind list" where
  "steps_after start_after = (case start_after of
     None \<Rightarrow> apply_chain | Some k \<Rightarrow> tl (dropWhile (\<lambda>x. x \<noteq> k) apply_chain))"

text \<open>After a backup was made: it is published and named in the safety session; an exception fails the apply.\<close>

definition publish_backup ::
  "executor \<Rightarrow> worker_ctx \<Rightarrow> provisioning_bundle \<Rightarrow> backup_artifact \<Rightarrow> ident exec" where
  "publish_backup ex ctx request b =
     ebind (port_call (ad_publish (ex_adapter ex) b (pb_router_id request) (pb_operation_id request)
       (ba_identity_fingerprint_digest b))) (\<lambda>ref.
     ebind get_step (\<lambda>c.
     ebind (upsert_safety ex ((step_safety ctx request c ''Ready'' (sc_fail_safe_began c))\<lparr>sq_safety_payload :=
       Some (safety_payload_for_step c request ctx (Some ref) None None)\<rparr>)) (\<lambda>_.
     eret ref)))"

definition backup_published ::
  "executor \<Rightarrow> worker_ctx \<Rightarrow> provisioning_bundle \<Rightarrow> ident option \<Rightarrow> step_kind \<Rightarrow> (exec_exc + ident option) exec" where
  "backup_published ex ctx request backup_ref kind = ebind get_step (\<lambda>c.
     if kind = Sk_Backup \<and> sc_backup c \<noteq> None
     then ebind (eattempt (publish_backup ex ctx request (the (sc_backup c)))) (\<lambda>r. eret (map_sum id Some r))
     else eret (Inr backup_ref))"

definition cancelled_outcome :: "worker_ctx \<Rightarrow> step_kind \<Rightarrow> bool \<Rightarrow> outcome" where
  "cancelled_outcome ctx kind dispatched =
     (if dispatched
      then (RecoveryRequired, ''cancel after partial apply requires verify/compensate'',
            Some (recovery_body ctx kind None))
      else (Cancelled, ''cancelled at safe boundary'', None))"

definition succeeded_outcome ::
  "worker_ctx \<Rightarrow> provisioning_bundle \<Rightarrow> ident option \<Rightarrow> step_ctx \<Rightarrow> outcome" where
  "succeeded_outcome ctx request backup_ref c = (Succeeded, ''fake apply lifecycle converged'',
     Some (JObj [(''operation_id'', JStr (wx_operation_id ctx)), (''job_id'', JStr (wx_job_id ctx)),
       (''status'', JStr ''Succeeded''), (''plan_id'', JStr (cp_plan_id (pb_plan request))),
       (''backup_artifact_id'', json_opt backup_ref),
       (''aggregate_status'', JStr (if truthy_str (sc_aggregate_status c)
          then the (sc_aggregate_status c) else ''Converged''))]))"

fun run_chain ::
  "executor \<Rightarrow> worker_ctx \<Rightarrow> provisioning_bundle \<Rightarrow> ident option \<Rightarrow> step_kind list \<Rightarrow> outcome exec" where
  "run_chain ex ctx request backup_ref [] =
     ebind get_step (\<lambda>c. eret (succeeded_outcome ctx request backup_ref c))"
| "run_chain ex ctx request backup_ref (kind # kinds) =
     ebind (cancel_requested ex ctx) (\<lambda>cancel.
     ebind get_step (\<lambda>c.
     if cancel then eret (cancelled_outcome ctx kind (sc_apply_dispatched c))
     else
       ebind (run_checkpointed_step ex ctx kind request) (\<lambda>(status, summary, body).
       if status \<noteq> Succeeded then eret (status, summary, body)
       else
         ebind (backup_published ex ctx request backup_ref kind) (\<lambda>r. case r of
           Inl e \<Rightarrow> eret (Failed, exc_name e, Some (JObj [(''error'', JStr (exc_name e))]))
         | Inr ref \<Rightarrow> run_chain ex ctx request ref kinds))))"

definition execute_steps ::
  "executor \<Rightarrow> worker_ctx \<Rightarrow> provisioning_bundle \<Rightarrow> step_kind option \<Rightarrow> string option \<Rightarrow> outcome exec" where
  "execute_steps ex ctx request start_after boot_marker =
     ebind (set_step (\<lambda>_. new_step_ctx\<lparr>sc_boot_marker := boot_marker,
       sc_apply_dispatched := (start_after \<noteq> None)\<rparr>)) (\<lambda>_.
     run_chain ex ctx request None (steps_after start_after))"

section \<open>The request of a plan\<close>

definition make_id :: "string \<Rightarrow> domain_error + ident" where
  "make_id v = validate_non_empty v ''id''"

definition confirmation_state_of :: "string \<Rightarrow> domain_error + plan_confirmation_state" where
  "confirmation_state_of st =
     (if st = ''Pending'' then Inr Plan_Pending else if st = ''Confirmed'' then Inr Plan_Confirmed
      else if st = ''Expired'' then Inr Plan_Expired
      else Inl (DomainValueError (st @ '' is not a valid PlanConfirmationState'')))"

fun rmap :: "('a \<Rightarrow> 'e + 'b) \<Rightarrow> 'a list \<Rightarrow> 'e + 'b list" where
  "rmap f [] = Inr []"
| "rmap f (x # xs) = rbind (f x) (\<lambda>y. rbind (rmap f xs) (\<lambda>ys. Inr (y # ys)))"

definition request_item :: "plan_item_row \<Rightarrow> domain_error + change_plan_item" where
  "request_item r =
     rbind (make_id (if truthy_str (pli_target_resource_id r) then the (pli_target_resource_id r)
       else pli_plan_item_id r)) (\<lambda>sid.
     make_change_plan_item sid (pli_change_kind r) ''digest:intent:001'' None None None)"

definition request_items :: "plan_item_row list \<Rightarrow> domain_error + change_plan_item list" where
  "request_items rows =
     (if rows = []
      then rbind (make_change_plan_item ''resource-fake-001'' ''ensure-managed-assignment''
        ''digest:intent:001'' None None None) (\<lambda>it. Inr [it])
      else rmap request_item rows)"

definition request_plan ::
  "ident \<Rightarrow> ident \<Rightarrow> plan_row \<Rightarrow> change_plan_item list \<Rightarrow> domain_error + change_plan" where
  "request_plan plan_id router_id row items =
     rbind (make_id plan_id) (\<lambda>pid. rbind (make_id router_id) (\<lambda>rid.
     rbind (make_id (pl_revision_id row)) (\<lambda>vid. rbind (make_id (pl_observation_id row)) (\<lambda>oid.
     rbind (confirmation_state_of (pl_confirmation_state row)) (\<lambda>st.
     make_change_plan \<lparr>cp_plan_id = pid, cp_router_id = rid, cp_revision_id = vid, cp_observation_id = oid,
       cp_expected_desired_digest = pl_expected_desired_digest row,
       cp_observed_resource_version = pl_observed_resource_version row, cp_items = items,
       cp_confirmation_state = st, cp_expires_at = parse_ts (pl_expires_at row),
       cp_created_at = parse_ts (pl_created_at row),
       cp_actor = (if truthy_str (pl_confirmed_by_actor row) then the (pl_confirmed_by_actor row) else ''operator''),
       cp_deployment_revision_id = None, cp_session_binding_hmac = None, cp_plan_version = 1,
       cp_adopt_acknowledged = False, cp_execution_target = None\<rparr>)))))"

definition request_desired :: "ident \<Rightarrow> revision_row \<Rightarrow> domain_error + desired_revision" where
  "request_desired router_id rv =
     rbind (make_id (rv_revision_id rv)) (\<lambda>vid.
     rbind (make_id (str_opt (rv_based_on_observation_id rv))) (\<lambda>oid.
     make_desired_revision vid router_id (rv_revision_number rv) (rv_canonical_digest rv) oid
       (parse_ts (rv_created_at rv)) None))"

definition adapter_identity :: "executor \<Rightarrow> router_row \<Rightarrow> ident \<Rightarrow> domain_error + router_identity" where
  "adapter_identity ex router router_id = (case ad_state_identity (ex_adapter ex) of
     Some i \<Rightarrow> Inr i
   | None \<Rightarrow> rbind (make_id router_id) (\<lambda>rid.
       make_router_identity rid (r_vendor router) (r_model router) (r_identity_fingerprint router)))"

definition request_managed :: "ident \<Rightarrow> plan_row \<Rightarrow> change_plan_item \<Rightarrow> domain_error + managed_resource" where
  "request_managed router_id row it =
     make_managed_resource (pi_resource_id it) router_id ''tunnel-assignment'' ''recovery-test'' ''router-control''
       (pl_revision_id row) ''digest:locator:managed-001'' Res_Present (pl_observation_id row)"

definition make_request ::
  "executor \<Rightarrow> worker_ctx \<Rightarrow> ident \<Rightarrow> plan_row \<Rightarrow> router_row \<Rightarrow> revision_row \<Rightarrow> plan_item_row list
   \<Rightarrow> domain_error + provisioning_bundle" where
  "make_request ex ctx plan_id row router rv item_rows =
     rbind (request_items item_rows) (\<lambda>items.
     rbind (request_plan plan_id (wx_router_id ctx) row items) (\<lambda>plan.
     rbind (request_desired (wx_router_id ctx) rv) (\<lambda>desired.
     rbind (adapter_identity ex router (wx_router_id ctx)) (\<lambda>identity.
     rbind (rmap (request_managed (wx_router_id ctx) row) items) (\<lambda>managed.
     rbind (make_id (wx_operation_id ctx)) (\<lambda>op.
     Inr \<lparr>pb_router_id = wx_router_id ctx, pb_expected_identity = identity, pb_desired_revision = desired,
       pb_plan = plan, pb_managed_resources = managed, pb_operation_id = op,
       pb_confirmed = (pl_confirmation_state row = ''Confirmed''), pb_conflicting_unmanaged_locators = []\<rparr>))))))"

definition build_request :: "executor \<Rightarrow> worker_ctx \<Rightarrow> ident \<Rightarrow> provisioning_bundle option exec" where
  "build_request ex ctx plan_id =
     ebind (sh_read ex (\<lambda>x. get_plan (xd_plans x) plan_id)) (\<lambda>plan. case plan of None \<Rightarrow> eret None | Some row \<Rightarrow>
     ebind (sh_read ex (\<lambda>x. get_router (xd_db x) (wx_router_id ctx))) (\<lambda>router. case router of None \<Rightarrow> eret None | Some r \<Rightarrow>
     ebind (sh_read ex (\<lambda>x. get_desired_revision (xd_plans x) (wx_router_id ctx))) (\<lambda>rev. case rev of None \<Rightarrow> eret None | Some rv \<Rightarrow>
     ebind (sh_read ex (\<lambda>x. list_plan_items (xd_plans x) plan_id)) (\<lambda>item_rows.
     ebind (edomain (make_request ex ctx plan_id row r rv item_rows)) (\<lambda>request.
     eret (Some request))))))"

section \<open>Apply, resume, compensate\<close>

definition payload_str :: "(string \<times> json) list \<Rightarrow> string \<Rightarrow> string" where
  "payload_str payload k = (case map_of payload k of
     None \<Rightarrow> [] | Some v \<Rightarrow> if json_truthy v then py_str v else [])"

definition resolve_plan_id :: "executor \<Rightarrow> worker_ctx \<Rightarrow> (string \<times> json) list \<Rightarrow> ident exec" where
  "resolve_plan_id ex ctx payload =
     (if payload_str payload ''plan_id'' \<noteq> [] then eret (payload_str payload ''plan_id'')
      else ebind (sh_read ex (\<lambda>x. get_operation (xd_db x) (wx_operation_id ctx))) (\<lambda>op. eret (case op of
        Some r \<Rightarrow> if truthy_str (o_plan_id r) then the (o_plan_id r) else [] | None \<Rightarrow> [])))"

text \<open>The scan over the checkpoints, newest first; one that does not parse is skipped.\<close>

fun scan_backup_ref :: "step_row list \<Rightarrow> ident res" where
  "scan_backup_ref [] = Inr []"
| "scan_backup_ref (s # ss) =
     (if \<not> truthy_text (s_checkpoint_json s) then scan_backup_ref ss
      else case json_loads (the (s_checkpoint_json s)) of
        Inl _ \<Rightarrow> scan_backup_ref ss
      | Inr data \<Rightarrow> rbind (json_get data ''backup_artifact_id'' JNull) (\<lambda>v.
          if json_truthy v \<and> py_str v \<noteq> [] then Inr (py_str v) else scan_backup_ref ss))"

definition resolve_backup_artifact_id ::
  "executor \<Rightarrow> worker_ctx \<Rightarrow> (string \<times> json) list \<Rightarrow> ident exec" where
  "resolve_backup_artifact_id ex ctx payload =
     (if payload_str payload ''backup_artifact_id'' \<noteq> [] then eret (payload_str payload ''backup_artifact_id'')
      else ebind (sh_read ex (\<lambda>x. list_job_steps (xd_db x) (wx_job_id ctx))) (\<lambda>steps.
        elift (map_sum store_exc id (scan_backup_ref (rev steps)))))"

definition initialize_safety_and_boot ::
  "executor \<Rightarrow> worker_ctx \<Rightarrow> provisioning_bundle \<Rightarrow> unit exec" where
  "initialize_safety_and_boot ex ctx request =
     ebind (sh_read ex (\<lambda>x. get_router_safety_session x (wx_router_id ctx))) (\<lambda>existing.
     if existing \<noteq> None \<and> sf_safety_state (the existing) = ''Blocked'' then eret ()
     else
       let boot_marker = ''boot:simulated:'' @ wx_job_id ctx in
       ebind (sh_call ex store_exc (on_db (\<lambda>env. record_router_boot_observation env (wx_router_id ctx)
         (''boot-'' @ wx_job_id ctx) True (Some boot_marker)))) (\<lambda>_.
       upsert_safety ex ((safety_default (wx_router_id ctx) ''Ready'')\<lparr>sq_reboot_marker := Some boot_marker,
         sq_baseline_revision_id := Some (dr_revision_id (pb_desired_revision request)),
         sq_safety_payload := Some [(''baseline_observation'', JStr boot_marker),
           (''fail_safe_status'', JStr ''inactive''), (''expected_reboot_outage'', JBool False),
           (''authorization_ref'', JStr (wx_operation_id ctx))]\<rparr>)))"

definition failed_outcome :: "string \<Rightarrow> (string \<times> json) list \<Rightarrow> outcome" where
  "failed_outcome summary body = (Failed, summary, Some (JObj body))"

text \<open>\<open>status, summary, body = step; if status != "Succeeded": return\<close>.\<close>

definition then_step :: "outcome exec \<Rightarrow> outcome exec \<Rightarrow> outcome exec" where
  "then_step m k = ebind m (\<lambda>r. if fst r \<noteq> Succeeded then eret r else k)"

definition execute_resume :: "executor \<Rightarrow> worker_ctx \<Rightarrow> (string \<times> json) list \<Rightarrow> outcome exec" where
  "execute_resume ex ctx payload =
     ebind (resolve_plan_id ex ctx payload) (\<lambda>plan_id.
     ebind (if plan_id \<noteq> [] then build_request ex ctx plan_id else eret None) (\<lambda>request. case request of
       None \<Rightarrow> eret (failed_outcome ''resume plan binding failed'' [(''error'', JStr ''PlanNotFound'')])
     | Some request \<Rightarrow>
         ebind (set_step (\<lambda>_. new_step_ctx\<lparr>sc_apply_dispatched := True\<rparr>)) (\<lambda>_.
         then_step (run_checkpointed_step ex ctx Sk_IdentityCheck request)
           (then_step (run_checkpointed_step ex ctx Sk_ReadBack request)
             (execute_steps ex ctx request (Some Sk_ReadBack) None)))))"

definition stub_time :: "int \<Rightarrow> py_datetime" where
  "stub_time d = utc_datetime ((20656 * 86400 + 43200 + d * 86400) * 1000000)"

definition stub_desired :: "ident \<Rightarrow> desired_revision" where
  "stub_desired router_id = \<lparr>dr_revision_id = ''revision-stub'', dr_router_id = router_id, dr_revision_number = 1,
     dr_desired_digest = ''digest:desired:stub'', dr_based_on_observation_id = ''observation-stub'',
     dr_created_at = stub_time 0, dr_deployment_revision_id = None\<rparr>"

definition stub_plan :: "ident \<Rightarrow> change_plan" where
  "stub_plan router_id = \<lparr>cp_plan_id = ''plan-stub'', cp_router_id = router_id, cp_revision_id = ''revision-stub'',
     cp_observation_id = ''observation-stub'', cp_expected_desired_digest = ''digest:desired:stub'',
     cp_observed_resource_version = ''digest:rv:stub'',
     cp_items = [\<lparr>pi_resource_id = ''resource-stub'', pi_intent_kind = ''ensure-managed-assignment'',
       pi_intent_digest = ''digest:intent:stub'', pi_intent_json = None, pi_ownership_action = None,
       pi_family_cert_snapshot_json = None\<rparr>],
     cp_confirmation_state = Plan_Confirmed, cp_expires_at = stub_time 1, cp_created_at = stub_time 0,
     cp_actor = ''operator'', cp_deployment_revision_id = None, cp_session_binding_hmac = None,
     cp_plan_version = 1, cp_adopt_acknowledged = False, cp_execution_target = None\<rparr>"

definition compensate_request ::
  "executor \<Rightarrow> worker_ctx \<Rightarrow> router_row \<Rightarrow> domain_error + provisioning_bundle" where
  "compensate_request ex ctx router =
     rbind (adapter_identity ex router (wx_router_id ctx)) (\<lambda>identity.
     rbind (make_id (wx_router_id ctx)) (\<lambda>rid.
     rbind (make_id (wx_operation_id ctx)) (\<lambda>op.
     Inr \<lparr>pb_router_id = rid, pb_expected_identity = identity, pb_desired_revision = stub_desired rid,
       pb_plan = stub_plan rid, pb_managed_resources = [], pb_operation_id = op, pb_confirmed = True,
       pb_conflicting_unmanaged_locators = []\<rparr>)))"

definition stored_backup :: "worker_ctx \<Rightarrow> ident \<Rightarrow> backup_row \<Rightarrow> domain_error + backup_artifact" where
  "stored_backup ctx artifact_id row =
     rbind (make_id artifact_id) (\<lambda>aid.
     rbind (make_id (if truthy_str (bk_operation_id row) then the (bk_operation_id row) else wx_operation_id ctx)) (\<lambda>op.
     make_backup_artifact \<lparr>ba_artifact_id = aid, ba_router_id = wx_router_id ctx, ba_operation_id = op,
       ba_content_digest = bk_content_digest row, ba_storage_locator_digest = ''digest:locator:redacted'',
       ba_identity_fingerprint_digest = bk_identity_fingerprint row, ba_created_at = parse_ts (bk_created_at row)\<rparr>))"

definition compensate_stored ::
  "executor \<Rightarrow> worker_ctx \<Rightarrow> provisioning_bundle \<Rightarrow> ident \<Rightarrow> outcome exec" where
  "compensate_stored ex ctx request artifact_id =
     ebind (sh_read ex (\<lambda>x. get_backup_artifact x artifact_id)) (\<lambda>row. case row of
       None \<Rightarrow> eret (failed_outcome ''backup artifact missing'' [(''error'', JStr ''BackupNotFound'')])
     | Some row \<Rightarrow>
         ebind (edomain (stored_backup ctx artifact_id row)) (\<lambda>b.
         ebind (set_step (\<lambda>c. c\<lparr>sc_backup := Some b\<rparr>)) (\<lambda>_.
         ebind (run_checkpointed_step ex ctx Sk_Compensate request) (\<lambda>r.
         eret (if fst r = RecoveryRequired then r
           else failed_outcome ''compensated after partial apply''
             [(''status'', JStr ''Failed''), (''compensated'', JBool True)])))))"

definition execute_compensate :: "executor \<Rightarrow> worker_ctx \<Rightarrow> (string \<times> json) list \<Rightarrow> outcome exec" where
  "execute_compensate ex ctx payload =
     ebind (resolve_backup_artifact_id ex ctx payload) (\<lambda>artifact_id.
     if artifact_id = []
     then eret (failed_outcome ''no backup artifact for compensate'' [(''error'', JStr ''NoBackupArtifact'')])
     else
       ebind (sh_read ex (\<lambda>x. get_router (xd_db x) (wx_router_id ctx))) (\<lambda>router. case router of
         None \<Rightarrow> eret (failed_outcome ''router not found'' [(''error'', JStr ''NotFound'')])
       | Some r \<Rightarrow>
           ebind (edomain (compensate_request ex ctx r)) (\<lambda>request.
           ebind (set_step (\<lambda>_. new_step_ctx\<lparr>sc_apply_dispatched := True\<rparr>)) (\<lambda>_.
           then_step (run_checkpointed_step ex ctx Sk_IdentityCheck request)
             (compensate_stored ex ctx request artifact_id)))))"

text \<open>\<open>float(simulate_ms) > 0\<close>; JSON numbers with a fraction are not values of the model.\<close>

definition positive_float :: "executor \<Rightarrow> json \<Rightarrow> exec_exc + bool" where
  "positive_float ex v = (case v of
     JInt n \<Rightarrow> Inr (n > 0)
   | JBool b \<Rightarrow> Inr b
   | JStr s \<Rightarrow> (case ex_float ex s of None \<Rightarrow> Inl (XOther ''ValueError'') | Some q \<Rightarrow> Inr (q > 0))
   | _ \<Rightarrow> Inl (XOther ''TypeError''))"

definition execute_plan :: "executor \<Rightarrow> worker_ctx \<Rightarrow> ident \<Rightarrow> outcome exec" where
  "execute_plan ex ctx plan_id =
     ebind (build_request ex ctx plan_id) (\<lambda>request. case request of
       None \<Rightarrow> eret (failed_outcome ''plan binding failed''
         [(''error'', JStr ''PlanNotFound''), (''plan_id'', JStr plan_id)])
     | Some request \<Rightarrow>
         ebind (initialize_safety_and_boot ex ctx request) (\<lambda>_.
         ebind (assert_mutation_allowed ex (wx_router_id ctx)) (\<lambda>_.
         execute_steps ex ctx request None (Some (''boot:simulated:'' @ wx_job_id ctx)))))"

definition execute_apply ::
  "executor \<Rightarrow> worker_ctx \<Rightarrow> (string \<times> json) list \<Rightarrow> string option \<Rightarrow> outcome exec" where
  "execute_apply ex ctx payload recovery_state =
     ebind (elift (positive_float ex (case map_of payload ''simulate_ms'' of None \<Rightarrow> JInt 0 | Some v \<Rightarrow> v))) (\<lambda>sleep.
     ebind (if sleep then ensure_lease ex else eret ()) (\<lambda>_.
     ebind (cancel_requested ex ctx) (\<lambda>cancel.
     if cancel then eret (Cancelled, ''cancelled before apply'', None)
     else
       let action = payload_str payload ''recovery_action'' in
       if recovery_state = Some ''resume_after_readback'' \<or> action = ''resume''
       then execute_resume ex ctx payload
       else if recovery_state = Some ''compensate'' \<or> action = ''compensate''
       then execute_compensate ex ctx payload
       else
         ebind (resolve_plan_id ex ctx payload) (\<lambda>plan_id.
         if plan_id = []
         then eret (Succeeded, ''fake apply simulation completed (no plan binding)'',
           Some (JObj [(''operation_id'', JStr (wx_operation_id ctx)), (''job_id'', JStr (wx_job_id ctx)),
             (''simulated'', JBool True), (''status'', JStr ''Succeeded'')]))
         else execute_plan ex ctx plan_id))))"

section \<open>The job handler\<close>

definition executed_result :: "outcome \<Rightarrow> handler_result" where
  "executed_result r = (case r of (status, summary, body) \<Rightarrow>
     \<lparr>hr_status = status, hr_summary = summary,
      hr_http_status = (if status = Succeeded then Some 200 else if status = Cancelled then None else Some 422),
      hr_response_body = body,
      hr_aggregate_status = (case body of
         Some (JObj kvs) \<Rightarrow> (case map_of kvs ''aggregate_status'' of
             Some v \<Rightarrow> if json_truthy v then Some (py_str v) else None | None \<Rightarrow> None)
       | _ \<Rightarrow> None)\<rparr>)"

definition raised_result :: "bool \<Rightarrow> exec_exc \<Rightarrow> handler_result" where
  "raised_result apply_dispatched e = (case e of
     XLeaseLost _ \<Rightarrow> \<lparr>hr_status = Failed, hr_summary = ''lease lost during handler'', hr_http_status = None,
       hr_response_body = None, hr_aggregate_status = None\<rparr>
   | XRecovery m \<Rightarrow> \<lparr>hr_status = RecoveryRequired, hr_summary = take 200 m, hr_http_status = Some 422,
       hr_response_body = Some (recovery_error_body ''RecoveryRequired''), hr_aggregate_status = None\<rparr>
   | XForbidden m \<Rightarrow> \<lparr>hr_status = Failed, hr_summary = take 200 m, hr_http_status = Some 403,
       hr_response_body = Some (JObj [(''error'', JStr ''MutationForbidden''), (''message'', JStr (take 120 m))]),
       hr_aggregate_status = None\<rparr>
   | _ \<Rightarrow>
       (if apply_dispatched
        then \<lparr>hr_status = RecoveryRequired, hr_summary = exc_name e @ '': post-dispatch handler error'',
          hr_http_status = Some 422, hr_response_body = Some (recovery_error_body (exc_name e)),
          hr_aggregate_status = None\<rparr>
        else \<lparr>hr_status = Failed, hr_summary = exc_name e @ '': handler error'', hr_http_status = Some 500,
          hr_response_body = Some (error_body (exc_name e)), hr_aggregate_status = None\<rparr>))"

definition unclassified :: "exec_exc \<Rightarrow> bool" where
  "unclassified e = (case e of XLeaseLost _ \<Rightarrow> True | XRecovery _ \<Rightarrow> True | XForbidden _ \<Rightarrow> True | _ \<Rightarrow> False)"

text \<open>\<open>fake_simulate\<close> when an executor is configured.\<close>

definition fake_simulate :: "executor \<Rightarrow> worker_ctx \<Rightarrow> handler_result exec" where
  "fake_simulate ex ctx =
     ebind (ensure_lease ex) (\<lambda>_.
     ebind (cancel_requested ex ctx) (\<lambda>cancel.
     if cancel then eret \<lparr>hr_status = Cancelled, hr_summary = ''cancelled before simulate'', hr_http_status = None,
       hr_response_body = None, hr_aggregate_status = None\<rparr>
     else
       ebind (sh_call ex store_exc (\<lambda>env x. map_sum id (\<lambda>p. (p, x))
         (get_job_dispatch_payload (xd_db x) (wx_job_id ctx)))) (\<lambda>p.
       let payload = (case p of Some j \<Rightarrow> if json_truthy j then j else JObj [] | None \<Rightarrow> JObj []) in
       ebind (sh_read ex (\<lambda>x. get_job (xd_db x) (wx_job_id ctx))) (\<lambda>job.
       let recovery_state = (case job of
             Some j \<Rightarrow> if truthy_str (j_recovery_state j) then j_recovery_state j else None | None \<Rightarrow> None) in
       ebind (eattempt (case payload of
           JObj kvs \<Rightarrow> execute_apply ex ctx kvs recovery_state
         | _ \<Rightarrow> eraise (XOther ''AttributeError''))) (\<lambda>r. case r of
         Inr x \<Rightarrow> eret (executed_result x)
       | Inl e \<Rightarrow>
           if unclassified e then eret (raised_result False e)
           else ebind (sh_read ex (\<lambda>x. rc_apply_dispatched
               (classify_job_steps (xd_db x) (wx_job_id ctx) ''Running''))) (\<lambda>dispatched.
             eret (raised_result dispatched e)))))))"

end
