(* ===== verification/Executor_Safety.thy ===== *)
theory Executor_Safety
  imports Mutation_Executor
begin

text \<open>
  What the mutation executor guarantees. A run is split into what it does to the shared state, as a
  preorder on states that every part of it obeys (locale \<open>step_relation\<close>, interpreted on each
  preorder), and what its outcome says. The router adapter, the backup publisher and everything
  other processes do are arbitrary, as long as they leave the effects of this router and its applies
  alone (\<open>calm\<close>), which the exclusion of mutation jobs per router gives. The properties: a plan is
  applied to a router at most once over all runs, only after every gate was passed, never by resume
  or compensation, and never by a run that reports \<open>Failed\<close> or \<open>Cancelled\<close>.
\<close>

section \<open>Preorders that a computation obeys\<close>

definition obeys :: "(xstate \<Rightarrow> xstate \<Rightarrow> bool) \<Rightarrow> 'a exec \<Rightarrow> bool" where
  "obeys R m \<longleftrightarrow> (\<forall>s. R s (snd (m s)))"

named_theorems obey_rules \<open>what each construct of a computation obeys\<close>

lemma obeysD: "obeys R m \<Longrightarrow> m s = (r, s') \<Longrightarrow> R s s'"
  by (metis obeys_def snd_conv)

lemma obeysI: "(\<And>s r s'. m s = (r, s') \<Longrightarrow> R s s') \<Longrightarrow> obeys R m"
  by (metis obeys_def prod.collapse)

lemma obeys_mono: "obeys R m \<Longrightarrow> (\<And>a b. R a b \<Longrightarrow> R' a b) \<Longrightarrow> obeys R' m"
  by (simp add: obeys_def)

locale step_relation =
  fixes R :: "xstate \<Rightarrow> xstate \<Rightarrow> bool"
  assumes R_refl: "R s s" and R_trans: "R a b \<Longrightarrow> R b c \<Longrightarrow> R a c"
begin

lemma ret [obey_rules]: "obeys R (eret x)"
  by (simp add: obeys_def eret_def R_refl)

lemma raise [obey_rules]: "obeys R (eraise e)"
  by (simp add: obeys_def eraise_def R_refl)

lemma lift [obey_rules]: "obeys R (elift r)"
  by (simp add: obeys_def elift_def R_refl)

lemma domain [obey_rules]: "obeys R (edomain r)"
  unfolding edomain_def by (rule lift)

lemma get [obey_rules]: "obeys R get_step"
  by (simp add: obeys_def get_step_def R_refl)

lemma now [obey_rules]: "obeys R (clock_now ex)"
  by (simp add: obeys_def clock_now_def R_refl)

lemma bind [obey_rules]:
  assumes "obeys R m" and "\<And>x. obeys R (f x)"
  shows "obeys R (ebind m f)"
proof (rule obeysI)
  fix s r s'
  assume run: "ebind m f s = (r, s')"
  obtain q s1 where m: "m s = (q, s1)" by fastforce
  show "R s s'"
  proof (cases q)
    case (Inl e)
    then show ?thesis using run m obeysD [OF assms(1) m] by (simp add: ebind_def)
  next
    case (Inr x)
    then have "f x s1 = (r, s')" using run m by (simp add: ebind_def)
    then show ?thesis using R_trans obeysD [OF assms(1) m] obeysD [OF assms(2)] by blast
  qed
qed

lemma attempt [obey_rules]: "obeys R m \<Longrightarrow> obeys R (eattempt m)"
  by (auto intro!: obeysI dest: obeysD simp: eattempt_def split: prod.splits)

lemma if_rule [obey_rules]:
  "(b \<Longrightarrow> obeys R m) \<Longrightarrow> (\<not> b \<Longrightarrow> obeys R n) \<Longrightarrow> obeys R (if b then m else n)"
  by simp

lemma option_rule [obey_rules]:
  "(x = None \<Longrightarrow> obeys R m) \<Longrightarrow> (\<And>y. x = Some y \<Longrightarrow> obeys R (f y)) \<Longrightarrow>
   obeys R (case x of None \<Rightarrow> m | Some y \<Rightarrow> f y)"
  by (simp split: option.split)

lemma sum_rule [obey_rules]:
  "(\<And>y. x = Inl y \<Longrightarrow> obeys R (f y)) \<Longrightarrow> (\<And>y. x = Inr y \<Longrightarrow> obeys R (g y)) \<Longrightarrow>
   obeys R (case x of Inl y \<Rightarrow> f y | Inr y \<Rightarrow> g y)"
  by (simp split: sum.split)

lemma prod_rule [obey_rules]: "(\<And>y z. obeys R (f y z)) \<Longrightarrow> obeys R (case x of (y, z) \<Rightarrow> f y z)"
  by (simp split: prod.split)

lemma let_rule [obey_rules]: "obeys R (f x) \<Longrightarrow> obeys R (let y = x in f y)"
  by simp

end

section \<open>What a run may move\<close>

definition applied_on :: "ident \<Rightarrow> shared \<Rightarrow> (ident \<times> ident) list" where
  "applied_on r sh = filter (\<lambda>a. fst a = r) (sh_applied sh)"

definition effect_keys :: "ident \<Rightarrow> db \<Rightarrow> string set" where
  "effect_keys r d = e_effect_key ` {e \<in> set (external_effects d). e_router_id e = r}"

text \<open>
  The rely condition: the applies and the effects of the router stay, keys of its effects and
  recorded steps of jobs are only added.
\<close>

definition unmoved :: "ident \<Rightarrow> shared \<Rightarrow> shared \<Rightarrow> bool" where
  "unmoved r a b \<longleftrightarrow> applied_on r b = applied_on r a \<and>
     (\<forall>eid e. get_external_effect (xd_db (sh_store a)) eid = Some e \<and> e_router_id e = r \<longrightarrow>
        get_external_effect (xd_db (sh_store b)) eid = Some e) \<and>
     effect_keys r (xd_db (sh_store a)) \<subseteq> effect_keys r (xd_db (sh_store b)) \<and>
     set (job_steps (xd_db (sh_store a))) \<subseteq> set (job_steps (xd_db (sh_store b)))"

text \<open>What every step but the dispatch guarantees: nothing is applied.\<close>

definition quiet_run :: "ident \<Rightarrow> shared \<Rightarrow> shared \<Rightarrow> bool" where
  "quiet_run r a b \<longleftrightarrow> applied_on r b = applied_on r a \<and>
     effect_keys r (xd_db (sh_store a)) \<subseteq> effect_keys r (xd_db (sh_store b)) \<and>
     set (job_steps (xd_db (sh_store a))) \<subseteq> set (job_steps (xd_db (sh_store b)))"

text \<open>Each plan was applied at most once, under a journaled effect.\<close>

definition applied_once :: "ident \<Rightarrow> shared \<Rightarrow> bool" where
  "applied_once r sh \<longleftrightarrow> distinct (applied_on r sh) \<and>
     (\<forall>p. (r, p) \<in> set (applied_on r sh) \<longrightarrow> ''apply:'' @ p \<in> effect_keys r (xd_db (sh_store sh)))"

lemma unmoved_quiet: "unmoved r a b \<Longrightarrow> quiet_run r a b"
  by (simp add: unmoved_def quiet_run_def)

lemma quiet_once: "quiet_run r a b \<Longrightarrow> applied_once r a \<Longrightarrow> applied_once r b"
  by (auto simp: quiet_run_def applied_once_def)

abbreviation on_shared :: "(shared \<Rightarrow> shared \<Rightarrow> bool) \<Rightarrow> xstate \<Rightarrow> xstate \<Rightarrow> bool" where
  "on_shared R a b \<equiv> R (xs_shared a) (xs_shared b)"

abbreviation keeps_once :: "ident \<Rightarrow> xstate \<Rightarrow> xstate \<Rightarrow> bool" where
  "keeps_once r a b \<equiv> applied_once r (xs_shared a) \<longrightarrow> applied_once r (xs_shared b)"

interpretation um: step_relation "on_shared (unmoved r)" for r
  by unfold_locales (auto simp: unmoved_def)

interpretation qt: step_relation "on_shared (quiet_run r)" for r
  by unfold_locales (auto simp: quiet_run_def)

interpretation on: step_relation "keeps_once r" for r
  by unfold_locales auto

lemma quiet_obeys: "obeys (on_shared (unmoved r)) m \<Longrightarrow> obeys (on_shared (quiet_run r)) m"
  by (erule obeys_mono) (rule unmoved_quiet)

lemma once_obeys: "obeys (on_shared (quiet_run r)) m \<Longrightarrow> obeys (keeps_once r) m"
  by (erule obeys_mono) (blast intro: quiet_once)

section \<open>The environment of a run\<close>

definition port_calm :: "ident \<Rightarrow> 'a port \<Rightarrow> bool" where
  "port_calm r p \<longleftrightarrow> (\<forall>sh. unmoved r sh (snd (p sh)))"

definition adapter_calm :: "ident \<Rightarrow> adapter \<Rightarrow> bool" where
  "adapter_calm r a \<longleftrightarrow> (\<forall>i. port_calm r (ad_check_identity a i)) \<and> (\<forall>i. port_calm r (ad_observe a i)) \<and>
     (\<forall>i. port_calm r (ad_get_capabilities a i)) \<and> (\<forall>i j. port_calm r (ad_create_backup a i j)) \<and>
     (\<forall>i. port_calm r (ad_begin_fail_safe a i)) \<and> (\<forall>p. port_calm r (ad_apply_plan a p)) \<and>
     (\<forall>f i j t. ad_poll_apply_continuation a = Some f \<longrightarrow> port_calm r (f i j t)) \<and>
     (\<forall>i j. port_calm r (ad_read_back a i j)) \<and> (\<forall>p b. port_calm r (ad_verify_postconditions a p b)) \<and>
     (\<forall>i. port_calm r (ad_save_configuration a i)) \<and> (\<forall>i b. port_calm r (ad_compensate a i b)) \<and>
     (\<forall>b i j f. port_calm r (ad_publish a b i j f))"

definition calm :: "ident \<Rightarrow> executor \<Rightarrow> bool" where
  "calm r ex \<longleftrightarrow> adapter_calm r (ex_adapter ex) \<and> (\<forall>n sh. unmoved r sh (ex_interfere ex n sh))"

lemma port_obeys:
  "port_calm r p \<Longrightarrow> obeys (on_shared (unmoved r)) (port_call p)"
  by (simp add: obeys_def port_calm_def port_call_def split: prod.splits) (metis snd_conv)

lemma set_step_obeys:
  "obeys (on_shared (unmoved r)) (set_step f)" "obeys (on_shared (quiet_run r)) (set_step f)"
  "obeys (keeps_once r) (set_step f)"
  by (simp_all add: obeys_def set_step_def um.R_refl qt.R_refl)

text \<open>A store call obeys a relation when interference does and the call does.\<close>

lemma sh_call_cases:
  assumes "sh_call ex conv f s = (res, s')"
  obtains sh where "sh = ex_interfere ex (xs_tick s) (xs_shared s)" "xs_step s' = xs_step s"
    "(\<exists>e. f (ex_env ex (xs_tick s)) (sh_store sh) = Inl e \<and> res = Inl (conv e) \<and> xs_shared s' = sh) \<or>
     (\<exists>x db. f (ex_env ex (xs_tick s)) (sh_store sh) = Inr (x, db) \<and> res = Inr x \<and>
        xs_shared s' = sh\<lparr>sh_store := db\<rparr>)"
  using assms by (auto simp: sh_call_def Let_def split: sum.splits intro!: that)

lemma sh_call_unmoved:
  assumes "calm r ex" and "\<And>env x y x'. f env x = Inr (y, x') \<Longrightarrow>
    external_effects (xd_db x') = external_effects (xd_db x) \<and> set (job_steps (xd_db x)) \<subseteq> set (job_steps (xd_db x'))"
  shows "obeys (on_shared (unmoved r)) (sh_call ex conv f)"
proof (rule obeysI)
  fix s res s'
  assume "sh_call ex conv f s = (res, s')"
  then show "unmoved r (xs_shared s) (xs_shared s')"
  proof (cases rule: sh_call_cases)
    case (1 sh)
    then have "unmoved r (xs_shared s) sh" using assms(1) by (simp add: calm_def)
    moreover have "unmoved r sh (xs_shared s')"
      using 1(3)
    proof (elim disjE exE conjE)
      fix x db
      assume "f (ex_env ex (xs_tick s)) (sh_store sh) = Inr (x, db)" "xs_shared s' = sh\<lparr>sh_store := db\<rparr>"
      then show ?thesis using assms(2) [of "ex_env ex (xs_tick s)" "sh_store sh" x db]
        by (simp add: unmoved_def applied_on_def get_external_effect_def effect_keys_def)
    qed (simp add: unmoved_def)
    ultimately show ?thesis using um.R_trans [of r s "s\<lparr>xs_shared := sh\<rparr>" s'] by simp
  qed
qed

text \<open>Calls that leave the effects alone.\<close>

lemma on_db_Inr:
  "on_db f env x = Inr (y, x') \<longleftrightarrow> (\<exists>d. f env (xd_db x) = Inr (y, d) \<and> x' = with_db x d)"
  by (auto simp: on_db_def result_simps)

lemma no_result_Inr: "no_result r = Inr (y, d) \<longleftrightarrow> r = Inr d"
  by (auto simp: no_result_def result_simps)

lemma xd_db_with_db [simp]: "xd_db (with_db x d) = d"
  by (simp add: with_db_def)

lemma upsert_safety_frame:
  "upsert_router_safety_session env q x = Inr (y, x') \<Longrightarrow> xd_plans x' = xd_plans x"
  by (auto simp: upsert_router_safety_session_def Let_def result_simps split: option.splits)

lemma record_evidence_frame:
  "record_evidence_revision env rid k dig vid x = Inr (y, x') \<Longrightarrow> xd_plans x' = xd_plans x"
  by (auto simp: record_evidence_revision_def insert_evidence_def Let_def result_simps split: if_splits)

lemma record_boot_frame:
  "record_router_boot_observation env rid b k mk d = Inr (y, d') \<Longrightarrow>
   external_effects d' = external_effects d \<and> job_steps d' = job_steps d"
  by (auto simp: record_router_boot_observation_def Let_def result_simps split: if_splits)

lemma upsert_continuation_frame:
  "upsert_effect_continuation env q d = Inr (y, d') \<Longrightarrow>
   external_effects d' = external_effects d \<and> job_steps d' = job_steps d"
  by (auto simp: upsert_effect_continuation_def insert_continuation_def Let_def result_simps
      split: option.splits if_splits)

lemma progress_add_step_Inr:
  "progress_add_step env x p d = Inr d' \<Longrightarrow>
   (case pr_step p of None \<Rightarrow> d' = d
    | Some (k, st) \<Rightarrow> \<exists>n. d' = d\<lparr>job_steps := job_steps d @ [progress_step env x p k st n]\<rparr>)"
  by (auto simp: progress_add_step_def insert_step_def Let_def split: option.splits if_splits)

lemma progress_set_status_Inr:
  "progress_set_status env x w t p d = Inr d' \<Longrightarrow>
   external_effects d' = external_effects d \<and> job_steps d' = job_steps d"
  by (auto simp: progress_set_status_def result_simps split: option.splits if_splits)

lemma progress_step_fields [simp]:
  "s_job_id (progress_step env x p k st n) = x" "s_step_kind (progress_step env x p k st n) = k"
  "s_status (progress_step env x p k st n) = st"
  by (simp_all add: progress_step_def Let_def)

lemma job_progress_frame:
  assumes "record_job_progress env x w t p d = Inr d'"
  shows "external_effects d' = external_effects d \<and> set (job_steps d) \<subseteq> set (job_steps d') \<and>
    (\<forall>k st. pr_step p = Some (k, st) \<longrightarrow>
       (\<exists>s \<in> set (job_steps d'). s_job_id s = x \<and> s_step_kind s = k \<and> s_status s = st))"
proof -
  obtain d1 where "progress_set_status env x w t p d = Inr d1" "progress_add_step env x p d1 = Inr d'"
    using assms by (auto simp: record_job_progress_def result_simps split: option.splits if_splits)
  then show ?thesis
    by (auto dest!: progress_set_status_Inr progress_add_step_Inr split: option.splits)
qed

lemma sh_read_unmoved [obey_rules]: "calm r ex \<Longrightarrow> obeys (on_shared (unmoved r)) (sh_read ex f)"
  unfolding sh_read_def by (rule sh_call_unmoved) auto

lemma ensure_lease_unmoved [obey_rules]: "calm r ex \<Longrightarrow> obeys (on_shared (unmoved r)) (ensure_lease ex)"
  by (simp add: obeys_def ensure_lease_def calm_def Let_def)

lemma upsert_safety_unmoved [obey_rules]:
  "calm r ex \<Longrightarrow> obeys (on_shared (unmoved r)) (upsert_safety ex q)"
  unfolding upsert_safety_def
  by (intro obey_rules um.bind sh_call_unmoved) (auto dest!: upsert_safety_frame)

lemma checkpoint_unmoved [obey_rules]:
  "calm r ex \<Longrightarrow> obeys (on_shared (unmoved r)) (checkpoint ex ctx k st ad b e)"
  unfolding checkpoint_def
  by (rule sh_call_unmoved) (auto simp: on_db_Inr no_result_Inr dest!: job_progress_frame)

lemma boot_known_unmoved [obey_rules]:
  "calm r ex \<Longrightarrow> obeys (on_shared (unmoved r)) (boot_known ex ctx)"
  unfolding boot_known_def by (rule sh_call_unmoved) (auto simp: result_simps)

lemma upsert_continuation_unmoved [obey_rules]:
  "calm r ex \<Longrightarrow> obeys (on_shared (unmoved r)) (upsert_continuation ex ctx eid k st)"
  unfolding upsert_continuation_def
  by (intro obey_rules um.bind sh_call_unmoved) (auto simp: on_db_Inr dest!: upsert_continuation_frame)

lemma record_evidence_unmoved [obey_rules]:
  "calm r ex \<Longrightarrow> obeys (on_shared (unmoved r)) (record_evidence ex ctx request k dig)"
  unfolding record_evidence_def
  by (intro obey_rules um.bind sh_call_unmoved) (auto dest!: record_evidence_frame)

lemma cancel_requested_unmoved [obey_rules]:
  "calm r ex \<Longrightarrow> obeys (on_shared (unmoved r)) (cancel_requested ex ctx)"
  unfolding cancel_requested_def by (rule obey_rules)

lemma assert_mutation_allowed_unmoved [obey_rules]:
  "calm r ex \<Longrightarrow> obeys (on_shared (unmoved r)) (assert_mutation_allowed ex rid)"
  unfolding assert_mutation_allowed_def by (intro obey_rules)

lemma note_token_unmoved [obey_rules]:
  "calm r ex \<Longrightarrow> obeys (on_shared (unmoved r)) (note_token ex ctx eid res)"
  unfolding note_token_def by (intro obey_rules)

lemma post_dispatch_uncertain_unmoved [obey_rules]:
  "calm r ex \<Longrightarrow> obeys (on_shared (unmoved r)) (post_dispatch_uncertain ex c)"
  unfolding post_dispatch_uncertain_def by (intro obey_rules)

section \<open>Steps that apply nothing\<close>

lemma sh_call_quiet:
  assumes "calm r ex" and "\<And>env x y x'. f env x = Inr (y, x') \<Longrightarrow>
    effect_keys r (xd_db x') = effect_keys r (xd_db x) \<and> job_steps (xd_db x') = job_steps (xd_db x)"
  shows "obeys (on_shared (quiet_run r)) (sh_call ex conv f)"
proof (rule obeysI)
  fix s res s'
  assume "sh_call ex conv f s = (res, s')"
  then show "quiet_run r (xs_shared s) (xs_shared s')"
  proof (cases rule: sh_call_cases)
    case (1 sh)
    then have "quiet_run r (xs_shared s) sh" using assms(1) by (simp add: calm_def unmoved_quiet)
    moreover have "quiet_run r sh (xs_shared s')"
      using 1(3)
    proof (elim disjE exE conjE)
      fix x db
      assume "f (ex_env ex (xs_tick s)) (sh_store sh) = Inr (x, db)" "xs_shared s' = sh\<lparr>sh_store := db\<rparr>"
      then show ?thesis using assms(2) [of "ex_env ex (xs_tick s)" "sh_store sh" x db]
        by (simp add: quiet_run_def applied_on_def)
    qed (simp add: quiet_run_def)
    ultimately show ?thesis using qt.R_trans [of r s "s\<lparr>xs_shared := sh\<rparr>" s'] by simp
  qed
qed

lemma effect_keys_eqI:
  assumes "map (\<lambda>e. (e_router_id e, e_effect_key e)) (external_effects d') =
    map (\<lambda>e. (e_router_id e, e_effect_key e)) (external_effects d)"
  shows "effect_keys r d' = effect_keys r d"
proof -
  have "effect_keys r d = snd ` {a \<in> set (map (\<lambda>e. (e_router_id e, e_effect_key e)) (external_effects d)). fst a = r}"
    for d by (force simp: effect_keys_def)
  then show ?thesis by (simp only: assms)
qed

lemma effect_keys_update:
  "(\<And>e. e_router_id (f e) = e_router_id e \<and> e_effect_key (f e) = e_effect_key e) \<Longrightarrow>
   effect_keys r (d\<lparr>external_effects := sql_update P f (external_effects d)\<rparr>) = effect_keys r d"
  by (rule effect_keys_eqI) (simp add: sql_update_def)

lemma effect_keys_cong [simp]:
  "effect_keys r (d\<lparr>external_effect_events := v\<rparr>) = effect_keys r d"
  "effect_keys r (d\<lparr>external_effects := es, external_effect_events := v\<rparr>) =
     effect_keys r (d\<lparr>external_effects := es\<rparr>)"
  by (simp_all add: effect_keys_def)

lemma transition_frame:
  "transition_external_effect env q d = Inr d' \<Longrightarrow>
   effect_keys r d' = effect_keys r d \<and> job_steps d' = job_steps d"
  by (erule transition_external_effect_Inr) (simp add: effect_keys_update)

lemma transition_unlocked_frame:
  "transition_external_effect_unlocked env u eid target job sm d = Inr d' \<Longrightarrow>
   effect_keys r d' = effect_keys r d \<and> job_steps d' = job_steps d"
  by (auto simp: transition_external_effect_unlocked_def append_external_effect_event_unlocked_def Let_def
      result_simps effect_keys_update dest!: insert_effect_event_Inr split: option.splits if_splits)

lemma upsert_resource_frame: "upsert_resource m x = Inr x' \<Longrightarrow> xd_plans x' = xd_plans x"
  by (auto simp: upsert_resource_def Let_def split: if_splits)

definition keeps_plans :: "exec_db \<Rightarrow> exec_db res \<Rightarrow> bool" where
  "keeps_plans x m \<longleftrightarrow> (case m of Inl _ \<Rightarrow> True | Inr x' \<Rightarrow> xd_plans x' = xd_plans x)"

lemma keeps_plans_rules:
  "xd_plans x' = xd_plans x \<Longrightarrow> keeps_plans x (Inr x')"
  "(\<And>y. keeps_plans x (f y)) \<Longrightarrow> keeps_plans x (rbind m f)"
  "(\<And>y. keeps_plans x (f y)) \<Longrightarrow> keeps_plans x (let y = v in f y)"
  "(b \<Longrightarrow> keeps_plans x m1) \<Longrightarrow> (\<not> b \<Longrightarrow> keeps_plans x m2) \<Longrightarrow> keeps_plans x (if b then m1 else m2)"
  "keeps_plans x m1 \<Longrightarrow> (\<And>y. keeps_plans x (g y)) \<Longrightarrow> keeps_plans x (case u of None \<Rightarrow> m1 | Some y \<Rightarrow> g y)"
  by (simp add: keeps_plans_def, cases m, simp add: keeps_plans_def, simp_all split: option.split)

lemma keeps_plans_upsert:
  "(\<And>x1. xd_plans x1 = xd_plans x \<Longrightarrow> keeps_plans x (f x1)) \<Longrightarrow> keeps_plans x (rbind (upsert_resource m x) f)"
  by (cases "upsert_resource m x") (simp add: keeps_plans_def, simp add: upsert_resource_frame)

lemma apply_ownership_item_frame:
  "apply_ownership_item env n q oid item x = Inr x' \<Longrightarrow> xd_plans x' = xd_plans x"
proof -
  have "keeps_plans x (apply_ownership_item env n q oid item x)"
    unfolding apply_ownership_item_def by (intro keeps_plans_upsert keeps_plans_rules) simp_all
  then show "apply_ownership_item env n q oid item x = Inr x' \<Longrightarrow> xd_plans x' = xd_plans x"
    by (simp add: keeps_plans_def)
qed

lemma apply_ownership_frame:
  "apply_ownership env n q oid items x = Inr x' \<Longrightarrow> xd_plans x' = xd_plans x"
  by (induction env n q oid items x rule: apply_ownership.induct)
    (auto simp: result_simps dest!: apply_ownership_item_frame)

lemma insert_observation_row_frame: "insert_observation_row ob d = Inr d' \<Longrightarrow> pd_base d' = pd_base d"
  by (auto simp: insert_observation_row_def split: if_splits)

lemma insert_evidence_frame: "insert_evidence v x = Inr x' \<Longrightarrow> xd_plans x' = xd_plans x"
  by (auto simp: insert_evidence_def split: if_splits)

lemma insert_report_frame: "insert_report v x = Inr x' \<Longrightarrow> xd_plans x' = xd_plans x"
  by (auto simp: insert_report_def split: if_splits)

lemma verify_safety_frame: "verify_safety env q x = Inr x' \<Longrightarrow> xd_plans x' = xd_plans x"
  by (auto simp: verify_safety_def Let_def result_simps split: option.splits)

lemma verify_writes_frame:
  assumes "verify_writes env q x = Inr (oid, x')"
  shows "effect_keys r (xd_db x') = effect_keys r (xd_db x) \<and> job_steps (xd_db x') = job_steps (xd_db x)"
proof -
  from assms obtain eid ob plans oid1 x1 ev x2 d x3 where
    "insert_observation_row ob (xd_plans x) = Inr plans"
    "apply_ownership env 0 q oid1 (list_plan_items plans (vq_plan_id q)) (x\<lparr>xd_plans := plans\<rparr>) = Inr x1"
    "insert_evidence ev x1 = Inr x2"
    "transition_external_effect_unlocked env (uuid env 2) eid Eff_ObservedApplied (vq_job_id q)
       (Some ''verify observed applied'') (xd_db x2) = Inr d"
    "verify_safety env q (with_db x2 d) = Inr x3" "x' = x3"
    unfolding verify_writes_def Let_def rbind_eq_Inr by (elim exE conjE) (erule that, assumption+, simp)
  then show ?thesis
    using transition_unlocked_frame [of env "uuid env 2" eid Eff_ObservedApplied "vq_job_id q"
        "Some ''verify observed applied''" "xd_db x2" d r]
    by (auto dest!: insert_observation_row_frame apply_ownership_frame insert_evidence_frame verify_safety_frame)
qed

lemma finalize_frame:
  assumes "finalize_verify_success fresh env q x = Inr (overall, x')"
  shows "effect_keys r (xd_db x') = effect_keys r (xd_db x) \<and> job_steps (xd_db x') = job_steps (xd_db x)"
proof (cases "get_plan_verify_report x (vq_plan_id q) (vq_job_id q)")
  case None
  then obtain plan where plan: "get_plan (xd_plans x) (vq_plan_id q) = Some plan"
    using assms by (cases "get_plan (xd_plans x) (vq_plan_id q)")
      (simp_all add: finalize_verify_success_def result_simps)
  obtain x1 v where x1: "x1 = x \<or> (\<exists>oid. verify_writes env q x = Inr (oid, x1))"
    and "insert_report v x1 = Inr x'"
    using assms None plan unfolding finalize_verify_success_def Let_def
    by (simp only: option.case rbind_eq_Inr case_prod_beta)
      (elim exE conjE, rule that [rotated], simp, force split: if_splits)
  then have "xd_plans x' = xd_plans x1" by (simp add: insert_report_frame)
  with x1 show ?thesis by (auto dest: verify_writes_frame [where r = r])
next
  case (Some v)
  then show ?thesis using assms by (simp add: finalize_verify_success_def)
qed

lemma transition_effect_quiet [obey_rules]:
  "calm r ex \<Longrightarrow> obeys (on_shared (quiet_run r)) (transition_effect ex ctx eid st sm)"
  unfolding transition_effect_def
  by (rule sh_call_quiet) (auto simp: on_db_Inr no_result_Inr dest: transition_frame [where r = r])

lemmas unmoved_quiet_rules = sh_read_unmoved ensure_lease_unmoved upsert_safety_unmoved checkpoint_unmoved
  boot_known_unmoved upsert_continuation_unmoved record_evidence_unmoved cancel_requested_unmoved
  assert_mutation_allowed_unmoved note_token_unmoved post_dispatch_uncertain_unmoved

lemmas [obey_rules] = unmoved_quiet_rules [THEN quiet_obeys] set_step_obeys

lemma port_quiet [obey_rules]: "port_calm r p \<Longrightarrow> obeys (on_shared (quiet_run r)) (port_call p)"
  by (rule quiet_obeys, rule port_obeys)

lemma calm_ports [obey_rules]:
  assumes "calm r ex"
  shows "port_calm r (ad_check_identity (ex_adapter ex) i)" "port_calm r (ad_observe (ex_adapter ex) j)"
    "port_calm r (ad_get_capabilities (ex_adapter ex) j)" "port_calm r (ad_create_backup (ex_adapter ex) j k)"
    "port_calm r (ad_begin_fail_safe (ex_adapter ex) j)" "port_calm r (ad_read_back (ex_adapter ex) j k)"
    "port_calm r (ad_verify_postconditions (ex_adapter ex) p b)"
    "port_calm r (ad_save_configuration (ex_adapter ex) j)" "port_calm r (ad_compensate (ex_adapter ex) j bk)"
    "port_calm r (ad_publish (ex_adapter ex) bk j k f)"
  using assms by (simp_all add: calm_def adapter_calm_def)

lemma mark_effect_unknown_quiet [obey_rules]:
  "calm r ex \<Longrightarrow> obeys (on_shared (quiet_run r)) (mark_effect_unknown ex ctx eid)"
  unfolding mark_effect_unknown_def by (intro obey_rules qt.bind)

lemma read_back_quiet [obey_rules]: "calm r ex \<Longrightarrow> obeys (on_shared (quiet_run r)) (read_back ex request)"
  unfolding read_back_def by (intro obey_rules)

lemma verify_bound_quiet [obey_rules]:
  "calm r ex \<Longrightarrow> obeys (on_shared (quiet_run r)) (verify_bound ex ctx request rb dig ck)"
  unfolding verify_bound_def set_drifted_def
  by (intro obey_rules sh_call_quiet) (auto dest: finalize_frame [where r = r])

lemma verify_unbound_quiet [obey_rules]:
  "calm r ex \<Longrightarrow> obeys (on_shared (quiet_run r)) (verify_unbound ex ctx request dig dr)"
  unfolding verify_unbound_def set_drifted_def by (intro obey_rules)

lemma identity_step_quiet [obey_rules]: "calm r ex \<Longrightarrow> obeys (on_shared (quiet_run r)) (identity_step ex request)"
  unfolding identity_step_def by (intro obey_rules)

lemma observe_step_quiet [obey_rules]: "calm r ex \<Longrightarrow> obeys (on_shared (quiet_run r)) (observe_step ex request now)"
  unfolding observe_step_def by (intro obey_rules)

lemma backup_step_quiet [obey_rules]: "calm r ex \<Longrightarrow> obeys (on_shared (quiet_run r)) (backup_step ex ctx request)"
  unfolding backup_step_def by (intro obey_rules)

lemma fail_safe_step_quiet [obey_rules]: "calm r ex \<Longrightarrow> obeys (on_shared (quiet_run r)) (fail_safe_step ex ctx request now)"
  unfolding fail_safe_step_def by (intro obey_rules)

lemma read_back_step_quiet [obey_rules]: "calm r ex \<Longrightarrow> obeys (on_shared (quiet_run r)) (read_back_step ex ctx request)"
  unfolding read_back_step_def by (intro obey_rules)

lemma verify_step_quiet [obey_rules]: "calm r ex \<Longrightarrow> obeys (on_shared (quiet_run r)) (verify_step ex ctx request)"
  unfolding verify_step_def by (intro obey_rules)

lemma save_step_quiet [obey_rules]: "calm r ex \<Longrightarrow> obeys (on_shared (quiet_run r)) (save_step ex ctx request)"
  unfolding save_step_def by (intro obey_rules)

lemma compensate_step_quiet [obey_rules]: "calm r ex \<Longrightarrow> obeys (on_shared (quiet_run r)) (compensate_step ex ctx request)"
  unfolding compensate_step_def by (intro obey_rules)

lemma preconditions_step_quiet [obey_rules]: "obeys (on_shared (quiet_run r)) (preconditions_step request now)"
  unfolding preconditions_step_def by (intro obey_rules)

lemma adapter_step_quiet:
  assumes "calm r ex" and "kind \<noteq> Sk_Apply"
  shows "obeys (on_shared (quiet_run r)) (adapter_step ex ctx kind request)"
  unfolding adapter_step_def
proof (rule qt.bind [OF qt.now])
  fix now
  show "obeys (on_shared (quiet_run r)) (case kind of
     Sk_Preflight \<Rightarrow>
       if pb_router_id request \<noteq> ri_router_id (pb_expected_identity request)
       then eraise (XDomain ''IdentityMismatch'' ''router_id mismatch'')
       else edomain (assert_desired_matches_plan (pb_desired_revision request) (pb_plan request))
   | Sk_IdentityCheck \<Rightarrow> identity_step ex request
   | Sk_Observe \<Rightarrow> observe_step ex request now
   | Sk_Backup \<Rightarrow> backup_step ex ctx request
   | Sk_PlanPreconditions \<Rightarrow> preconditions_step request now
   | Sk_Confirm \<Rightarrow> eret ()
   | Sk_BeginFailSafe \<Rightarrow> fail_safe_step ex ctx request now
   | Sk_Apply \<Rightarrow> dispatch_apply_once ex ctx request
   | Sk_ReadBack \<Rightarrow> read_back_step ex ctx request
   | Sk_Verify \<Rightarrow> verify_step ex ctx request
   | Sk_Save \<Rightarrow> save_step ex ctx request
   | Sk_Compensate \<Rightarrow> compensate_step ex ctx request)"
    using assms by (cases kind) (simp_all only: step_kind.case, (intro obey_rules | simp)+)
qed

section \<open>The dispatch\<close>

text \<open>The effect of a dispatched plan is in doubt until it is observed.\<close>

definition in_doubt :: "ident \<Rightarrow> ident \<Rightarrow> shared \<Rightarrow> bool" where
  "in_doubt r eid sh \<longleftrightarrow> (\<exists>e. get_external_effect (xd_db (sh_store sh)) eid = Some e \<and> e_router_id e = r \<and>
     e_current_state e \<in> set uncertain_states)"

definition settling :: "ident \<Rightarrow> ident \<Rightarrow> xstate \<Rightarrow> xstate \<Rightarrow> bool" where
  "settling r eid a b \<longleftrightarrow> quiet_run r (xs_shared a) (xs_shared b) \<and>
     (in_doubt r eid (xs_shared a) \<longrightarrow> in_doubt r eid (xs_shared b)) \<and> xs_step b = xs_step a"

interpretation sg: step_relation "settling r eid" for r eid
  by unfold_locales (auto simp: settling_def quiet_run_def)

lemma unmoved_doubt: "unmoved r a b \<Longrightarrow> in_doubt r eid a \<Longrightarrow> in_doubt r eid b"
  by (auto simp: unmoved_def in_doubt_def)

lemma sh_call_step: "sh_call ex conv f s = (res, s') \<Longrightarrow> xs_step s' = xs_step s"
  by (erule sh_call_cases)

lemma settlingI:
  assumes "obeys (on_shared (unmoved r)) m" and "\<And>s res s'. m s = (res, s') \<Longrightarrow> xs_step s' = xs_step s"
  shows "obeys (settling r eid) m"
proof (rule obeysI)
  fix s res s'
  assume run: "m s = (res, s')"
  then have "unmoved r (xs_shared s) (xs_shared s')" using obeysD [OF assms(1)] by simp
  then show "settling r eid s s'"
    using assms(2) [OF run] unmoved_doubt unmoved_quiet by (auto simp: settling_def)
qed

lemma sh_call_settling:
  "calm r ex \<Longrightarrow> (\<And>env x y x'. f env x = Inr (y, x') \<Longrightarrow> external_effects (xd_db x') = external_effects (xd_db x) \<and>
     set (job_steps (xd_db x)) \<subseteq> set (job_steps (xd_db x'))) \<Longrightarrow> obeys (settling r eid) (sh_call ex conv f)"
  by (rule settlingI, rule sh_call_unmoved) (auto dest: sh_call_step)

lemma sh_read_settling [obey_rules]: "calm r ex \<Longrightarrow> obeys (settling r eid) (sh_read ex f)"
  unfolding sh_read_def by (rule sh_call_settling) auto

lemma port_settling [obey_rules]: "port_calm r p \<Longrightarrow> obeys (settling r eid) (port_call p)"
  by (rule settlingI, rule port_obeys) (auto simp: port_call_def split: prod.splits)

lemma upsert_safety_settling [obey_rules]: "calm r ex \<Longrightarrow> obeys (settling r eid) (upsert_safety ex q)"
  unfolding upsert_safety_def
  by (intro sg.bind sg.ret sh_call_settling) (auto dest!: upsert_safety_frame)

lemma upsert_continuation_settling [obey_rules]:
  "calm r ex \<Longrightarrow> obeys (settling r eid) (upsert_continuation ex ctx x k st)"
  unfolding upsert_continuation_def
  by (intro sg.bind sg.ret sh_call_settling) (auto simp: on_db_Inr dest!: upsert_continuation_frame)

lemma note_token_settling [obey_rules]:
  "calm r ex \<Longrightarrow> obeys (settling r eid) (note_token ex ctx x res)"
  unfolding note_token_def by (intro obey_rules)

text \<open>A transition to an uncertain state puts the effect in doubt, and keeps one there.\<close>

lemma transition_get_effect:
  assumes "transition_external_effect env q d = Inr d'" and "get_external_effect d eid = Some e"
    and "effect_state_of (tr_to_state q) = Inr st"
  shows "\<exists>e'. get_external_effect d' eid = Some e' \<and> e_router_id e' = e_router_id e \<and>
    (if tr_effect_id q = eid then e_current_state e' = st else e' = e)"
  using assms(1)
proof (rule transition_external_effect_Inr)
  fix row target v
  assume row: "get_external_effect d (tr_effect_id q) = Some row" "effect_state_of (tr_to_state q) = Inr target"
    and d': "d' = d\<lparr>external_effects := sql_update
         (\<lambda>e. e_effect_id e = tr_effect_id q \<and> e_current_state e = e_current_state row)
         (\<lambda>e. e\<lparr>e_current_state := target, e_updated_at := utc_now_iso env\<rparr>) (external_effects d),
        external_effect_events := external_effect_events d @ [v]\<rparr>"
  have "e_effect_id e = eid" using assms(2) by (auto simp: get_external_effect_def dest: row_by_Some_key)
  then show ?thesis
    using row assms(2,3) by (auto simp: d' get_external_effect_def row_by_sql_update)
qed

lemma transition_effect_doubt:
  assumes "calm r ex" and "st \<in> set uncertain_states"
    and "transition_effect ex ctx eid st sm s = (res, s')"
    and e: "get_external_effect (xd_db (sh_store (xs_shared s))) eid = Some e" "e_router_id e = r"
    and "in_doubt r eid (xs_shared s) \<or> res = Inr ()"
  shows "in_doubt r eid (xs_shared s')"
  using assms(3) unfolding transition_effect_def
proof (cases rule: sh_call_cases)
  case (1 sh)
  have um: "unmoved r (xs_shared s) sh" using 1 assms(1) by (simp add: calm_def)
  then have get: "get_external_effect (xd_db (sh_store sh)) eid = Some e" using e by (simp add: unmoved_def)
  from 1(3) show ?thesis
  proof (elim disjE exE conjE)
    fix x db
    assume "on_db (\<lambda>env d. no_result (transition_external_effect env \<lparr>tr_effect_id = eid,
        tr_to_state = effect_state_name st, tr_job_id = wx_job_id ctx, tr_lease_owner = wx_lease_owner ctx,
        tr_actor_type = ''worker'', tr_actor_id = None, tr_summary_redacted = Some sm\<rparr> d))
        (ex_env ex (xs_tick s)) (sh_store sh) = Inr (x, db)" "xs_shared s' = sh\<lparr>sh_store := db\<rparr>"
    then show ?thesis
      using get e(2) assms(2)
      by (auto simp: on_db_Inr no_result_Inr in_doubt_def dest: transition_get_effect)
  next
    fix err
    assume "res = Inl (store_exc err)" "xs_shared s' = sh"
    then show ?thesis using assms(6) unmoved_doubt [OF um] by simp
  qed
qed

lemma transition_effect_settling [obey_rules]:
  assumes "calm r ex" and "st \<in> set uncertain_states"
  shows "obeys (settling r eid) (transition_effect ex ctx eid st sm)"
proof (rule obeysI)
  fix s res s'
  assume run: "transition_effect ex ctx eid st sm s = (res, s')"
  then have "in_doubt r eid (xs_shared s) \<longrightarrow> in_doubt r eid (xs_shared s')"
    using transition_effect_doubt [OF assms run] by (auto simp: in_doubt_def)
  then show "settling r eid s s'"
    using obeysD [OF transition_effect_quiet [OF assms(1)] run] run
    by (auto simp: settling_def transition_effect_def dest: sh_call_step)
qed

lemma mark_effect_unknown_settling [obey_rules]:
  "calm r ex \<Longrightarrow> obeys (settling r eid) (mark_effect_unknown ex ctx (Some eid))"
  unfolding mark_effect_unknown_def option.sel
  by (intro obey_rules) (simp_all add: uncertain_states_def)

lemma marking_settling [obey_rules]:
  "calm r ex \<Longrightarrow> obeys (settling r eid) m \<Longrightarrow> obeys (settling r eid) (marking ex ctx eid caught m)"
  unfolding marking_def by (intro obey_rules)

lemma poll_settling [obey_rules]:
  assumes "calm r ex"
  shows "obeys (settling r eid) (poll_continuations ex ctx request eid n res)"
proof (induction n arbitrary: res)
  case 0
  then show ?case by (simp add: obey_rules)
next
  case (Suc n)
  have "port_calm r (f i j t)" if "ad_poll_apply_continuation (ex_adapter ex) = Some f" for f i j t
    using assms that by (simp add: calm_def adapter_calm_def)
  then show ?case unfolding poll_continuations.simps by (intro obey_rules assms Suc.IH) auto
qed

lemma ebind_cases:
  assumes "ebind m f s = (res, s')"
  obtains (Raise) e where "m s = (Inl e, s')" "res = Inl e"
  | (Step) x s1 where "m s = (Inr x, s1)" "f x s1 = (res, s')"
  using assms by (auto simp: ebind_def split: prod.splits sum.splits)

text \<open>
  What the dispatch leaves behind once the router was called: the plan is recorded as applied, for
  the first time, under an effect that is in doubt.
\<close>

definition dispatched :: "ident \<Rightarrow> ident \<Rightarrow> xstate \<Rightarrow> xstate \<Rightarrow> bool" where
  "dispatched r p a b \<longleftrightarrow> applied_on r (xs_shared b) = (r, p) # applied_on r (xs_shared a) \<and>
     effect_keys r (xd_db (sh_store (xs_shared a))) \<subseteq> effect_keys r (xd_db (sh_store (xs_shared b))) \<and>
     set (job_steps (xd_db (sh_store (xs_shared a)))) \<subseteq> set (job_steps (xd_db (sh_store (xs_shared b)))) \<and>
     ''apply:'' @ p \<notin> effect_keys r (xd_db (sh_store (xs_shared a))) \<and>
     ''apply:'' @ p \<in> effect_keys r (xd_db (sh_store (xs_shared b))) \<and>
     (\<exists>eid. sc_effect_id (xs_step b) = Some eid \<and> eid \<noteq> [] \<and> in_doubt r eid (xs_shared b))"

lemma create_effect_frame:
  assumes "create_external_effect env q d = Inr (eid, d')" and "fx_effect_id q = None"
  shows "job_steps d' = job_steps d \<and> effect_keys r d \<subseteq> effect_keys r d' \<and>
    fx_effect_key q \<notin> effect_keys (fx_router_id q) d \<and> fx_effect_key q \<in> effect_keys (fx_router_id q) d' \<and>
    eid \<noteq> [] \<and> (\<exists>e. get_external_effect d' eid = Some e \<and> e_router_id e = fx_router_id q) \<and>
    external_effects d' \<noteq> []"
proof -
  from assms obtain e d1 where e: "insert_effect e d = Inr d1" "e_effect_id e = eid"
    "e_router_id e = fx_router_id q" "e_effect_key e = fx_effect_key q" "eid = new_id ''fx'' (uuid env 0)"
    and d': "external_effects d' = external_effects d1" "job_steps d' = job_steps d1"
    by (auto simp: create_external_effect_def append_external_effect_event_unlocked_def id_or_new_def Let_def
        result_simps dest!: insert_effect_event_Inr)
  have d1: "d1 = d\<lparr>external_effects := external_effects d @ [e]\<rparr>" "eid \<notin> e_effect_id ` set (external_effects d)"
    using insert_effect_Inr [OF e(1)] e(2) by auto
  have "fx_effect_key q \<notin> effect_keys (fx_router_id q) d"
    using e by (auto simp: insert_effect_def get_external_effect_by_key_def row_by_None_iff effect_keys_def
        image_iff split: if_splits)
  moreover have "get_external_effect d' eid = Some e"
    using d1 d' e(2) by (simp add: get_external_effect_def row_by_append row_by_None_iff split: option.split)
      (metis row_by_None_iff option.distinct(1))
  ultimately show ?thesis
    using d1(1) d' e by (auto simp: effect_keys_def new_id_def image_iff)
qed

lemma call_apply_shape:
  "call_apply ex ctx request s = port_call (ad_apply_plan (ex_adapter ex) (pb_plan request))
     (s\<lparr>xs_shared := (xs_shared s)\<lparr>sh_applied := (wx_router_id ctx, cp_plan_id (pb_plan request))
        # sh_applied (xs_shared s)\<rparr>\<rparr>)"
  by (simp add: call_apply_def port_call_def)

text \<open>Everything from the call of the router on.\<close>

definition after_dispatching :: "executor \<Rightarrow> worker_ctx \<Rightarrow> provisioning_bundle \<Rightarrow> ident \<Rightarrow> apply_result exec \<Rightarrow> unit exec" where
  "after_dispatching ex ctx request eid call =
     ebind (marking ex ctx eid (\<lambda>_. True) call) (\<lambda>r.
     ebind (transition_effect ex ctx eid Eff_Acknowledged ''apply acknowledged'') (\<lambda>_.
     ebind (note_token ex ctx eid r) (\<lambda>_.
     ebind (poll_apply_continuations ex ctx request eid r) (\<lambda>r.
     if ar_continuation_token r = None \<and> \<not> apply_continued r
     then upsert_continuation ex ctx eid (''final:'' @ cp_plan_id (pb_plan request)) ''Complete''
     else eret ()))))"

lemma after_dispatching_settling:
  "calm r ex \<Longrightarrow> obeys (settling r eid) call \<Longrightarrow> obeys (settling r eid) (after_dispatching ex ctx request eid call)"
  unfolding after_dispatching_def poll_apply_continuations_def
  by (intro obey_rules) (simp_all add: uncertain_states_def)

lemma after_dispatching_applies:
  assumes "calm r ex" and "wx_router_id ctx = r" and "in_doubt r eid (xs_shared s)"
    and "sc_effect_id (xs_step s) = Some eid" and "eid \<noteq> []"
    and "after_dispatching ex ctx request eid (call_apply ex ctx request) s = (res, s')"
  shows "applied_on r (xs_shared s') = (r, cp_plan_id (pb_plan request)) # applied_on r (xs_shared s) \<and>
    effect_keys r (xd_db (sh_store (xs_shared s))) \<subseteq> effect_keys r (xd_db (sh_store (xs_shared s'))) \<and>
    set (job_steps (xd_db (sh_store (xs_shared s)))) \<subseteq> set (job_steps (xd_db (sh_store (xs_shared s')))) \<and>
    in_doubt r eid (xs_shared s') \<and> xs_step s' = xs_step s"
proof -
  let ?s = "s\<lparr>xs_shared := (xs_shared s)\<lparr>sh_applied := (r, cp_plan_id (pb_plan request)) # sh_applied (xs_shared s)\<rparr>\<rparr>"
  let ?call = "port_call (ad_apply_plan (ex_adapter ex) (pb_plan request))"
  have "after_dispatching ex ctx request eid ?call ?s = (res, s')"
    using assms(6) by (simp add: after_dispatching_def marking_def ebind_def eattempt_def call_apply_shape assms(2))
  moreover have "obeys (settling r eid) ?call"
    using assms(1) by (intro obey_rules) (simp add: calm_def adapter_calm_def)
  ultimately have "settling r eid ?s s'"
    using obeysD [OF after_dispatching_settling [OF assms(1)]] by blast
  moreover have "in_doubt r eid (xs_shared ?s)" using assms(3) by (simp add: in_doubt_def)
  ultimately show ?thesis by (simp add: settling_def quiet_run_def applied_on_def)
qed

lemma quiet_trans: "quiet_run r a b \<Longrightarrow> quiet_run r b c \<Longrightarrow> quiet_run r a c"
  by (auto simp: quiet_run_def)

lemma quietD: "obeys (on_shared (quiet_run r)) m \<Longrightarrow> m s = (res, s') \<Longrightarrow> quiet_run r (xs_shared s) (xs_shared s')"
  by (drule obeysD) auto

definition create_effect :: "executor \<Rightarrow> worker_ctx \<Rightarrow> provisioning_bundle \<Rightarrow> ident exec" where
  "create_effect ex ctx request = sh_call ex store_exc (on_db (\<lambda>env. create_external_effect env
     \<lparr>fx_router_id = wx_router_id ctx, fx_effect_key = effect_key request, fx_job_id = wx_job_id ctx,
      fx_lease_owner = wx_lease_owner ctx, fx_operation_id = Some (wx_operation_id ctx), fx_effect_id = None\<rparr>))"

lemma dispatch_apply_once_eq:
  "dispatch_apply_once ex ctx request =
     ebind (assert_mutation_allowed ex (wx_router_id ctx)) (\<lambda>_.
     ebind (boot_known ex ctx) (\<lambda>_.
     ebind (create_effect ex ctx request) (\<lambda>eid.
     ebind (set_step (\<lambda>c. c\<lparr>sc_effect_id := Some eid\<rparr>)) (\<lambda>_.
     ebind (transition_effect ex ctx eid Eff_Dispatching ''dispatching apply'') (\<lambda>_.
     ebind (if ex_crash_after_dispatching ex then eraise (XOther ''RuntimeError'') else eret ()) (\<lambda>_.
     after_dispatching ex ctx request eid (call_apply ex ctx request)))))))"
  by (simp add: dispatch_apply_once_def create_effect_def after_dispatching_def)

lemma create_effect_run:
  assumes "calm r ex" and "wx_router_id ctx = r" and "create_effect ex ctx request s = (res, s')"
  shows "quiet_run r (xs_shared s) (xs_shared s') \<and> xs_step s' = xs_step s \<and>
    (\<forall>eid. res = Inr eid \<longrightarrow> eid \<noteq> [] \<and> effect_key request \<notin> effect_keys r (xd_db (sh_store (xs_shared s))) \<and>
       effect_key request \<in> effect_keys r (xd_db (sh_store (xs_shared s'))) \<and>
       (\<exists>e. get_external_effect (xd_db (sh_store (xs_shared s'))) eid = Some e \<and> e_router_id e = r))"
  using assms(3) unfolding create_effect_def
proof (cases rule: sh_call_cases)
  case (1 sh)
  have um: "quiet_run r (xs_shared s) sh" using 1 assms(1) by (simp add: calm_def unmoved_quiet)
  from 1(3) show ?thesis
  proof (elim disjE exE conjE)
    fix eid x
    assume "on_db (\<lambda>env. create_external_effect env \<lparr>fx_router_id = wx_router_id ctx,
        fx_effect_key = effect_key request, fx_job_id = wx_job_id ctx, fx_lease_owner = wx_lease_owner ctx,
        fx_operation_id = Some (wx_operation_id ctx), fx_effect_id = None\<rparr>)
        (ex_env ex (xs_tick s)) (sh_store sh) = Inr (eid, x)" "res = Inr eid" "xs_shared s' = sh\<lparr>sh_store := x\<rparr>"
    then show ?thesis
      using um 1(2) assms(2)
      by (auto simp: on_db_Inr quiet_run_def applied_on_def dest!: create_effect_frame)
  next
    fix e
    assume "res = Inl (store_exc e)" "xs_shared s' = sh"
    then show ?thesis using um 1(2) by simp
  qed
qed

text \<open>Either the router was not called, or the plan was dispatched as it should be.\<close>

definition dispatch_outcome :: "ident \<Rightarrow> ident \<Rightarrow> xstate \<Rightarrow> xstate \<Rightarrow> bool" where
  "dispatch_outcome r p a b \<longleftrightarrow> quiet_run r (xs_shared a) (xs_shared b) \<or> dispatched r p a b"

lemma dispatch_outcome_after_quiet:
  "quiet_run r (xs_shared a) (xs_shared b) \<Longrightarrow> dispatch_outcome r p b c \<Longrightarrow> dispatch_outcome r p a c"
  by (auto simp: dispatch_outcome_def dispatched_def quiet_run_def)

lemma dispatch_outcome_bind:
  assumes "obeys (on_shared (quiet_run r)) m"
    and "\<And>x s1. m s = (Inr x, s1) \<Longrightarrow> f x s1 = (res, s') \<Longrightarrow> dispatch_outcome r p s1 s'"
    and "ebind m f s = (res, s')"
  shows "dispatch_outcome r p s s'"
  using assms(3)
proof (cases rule: ebind_cases)
  case Raise
  then show ?thesis using quietD [OF assms(1)] by (simp add: dispatch_outcome_def)
next
  case (Step x s1)
  then show ?thesis using quietD [OF assms(1)] assms(2) by (blast intro: dispatch_outcome_after_quiet)
qed

lemma dispatch_created:
  assumes ok: "calm r ex" and rid: "wx_router_id ctx = r" and eid: "eid \<noteq> []"
    and effect: "get_external_effect (xd_db (sh_store (xs_shared s))) eid = Some e" "e_router_id e = r"
    and run: "ebind (transition_effect ex ctx eid Eff_Dispatching ''dispatching apply'') (\<lambda>_.
       ebind (if ex_crash_after_dispatching ex then eraise (XOther ''RuntimeError'') else eret ()) (\<lambda>_.
       after_dispatching ex ctx request eid (call_apply ex ctx request))) s = (res, s')"
    and step: "sc_effect_id (xs_step s) = Some eid"
  shows "quiet_run r (xs_shared s) (xs_shared s') \<or>
    (applied_on r (xs_shared s') = (r, cp_plan_id (pb_plan request)) # applied_on r (xs_shared s) \<and>
     effect_keys r (xd_db (sh_store (xs_shared s))) \<subseteq> effect_keys r (xd_db (sh_store (xs_shared s'))) \<and>
     set (job_steps (xd_db (sh_store (xs_shared s)))) \<subseteq> set (job_steps (xd_db (sh_store (xs_shared s')))) \<and>
     in_doubt r eid (xs_shared s') \<and> sc_effect_id (xs_step s') = Some eid)"
  using run
proof (cases rule: ebind_cases)
  case Raise
  then show ?thesis using quietD [OF transition_effect_quiet [OF ok]] by blast
next
  case (Step u s1)
  have "in_doubt r eid (xs_shared s1)"
    using transition_effect_doubt [OF ok _ Step(1) effect] by (simp add: uncertain_states_def)
  moreover have "xs_step s1 = xs_step s" using Step(1) by (auto simp: transition_effect_def dest: sh_call_step)
  moreover have "quiet_run r (xs_shared s) (xs_shared s1)" by (rule quietD [OF transition_effect_quiet [OF ok] Step(1)])
  ultimately show ?thesis
    using Step(2) step after_dispatching_applies [OF ok rid _ _ eid, of s1 request res s']
    by (auto simp: ebind_def eraise_def eret_def quiet_run_def split: if_splits)
qed

lemma dispatch_apply_once_outcome:
  assumes ok: "calm r ex" and rid: "wx_router_id ctx = r" and run: "dispatch_apply_once ex ctx request s = (res, s')"
  shows "dispatch_outcome r (cp_plan_id (pb_plan request)) s s'"
  using run unfolding dispatch_apply_once_eq
proof (rule dispatch_outcome_bind [OF quiet_obeys [OF assert_mutation_allowed_unmoved [OF ok]], rotated],
    elim dispatch_outcome_bind [OF quiet_obeys [OF boot_known_unmoved [OF ok]], rotated])
  fix u s1 v s2
  assume "ebind (create_effect ex ctx request) (\<lambda>eid.
     ebind (set_step (\<lambda>c. c\<lparr>sc_effect_id := Some eid\<rparr>)) (\<lambda>_.
     ebind (transition_effect ex ctx eid Eff_Dispatching ''dispatching apply'') (\<lambda>_.
     ebind (if ex_crash_after_dispatching ex then eraise (XOther ''RuntimeError'') else eret ()) (\<lambda>_.
     after_dispatching ex ctx request eid (call_apply ex ctx request))))) s2 = (res, s')"
  then show "dispatch_outcome r (cp_plan_id (pb_plan request)) s2 s'"
  proof (cases rule: ebind_cases)
    case Raise
    then show ?thesis using create_effect_run [OF ok rid] by (auto simp: dispatch_outcome_def)
  next
    case (Step eid s3)
    note created = create_effect_run [OF ok rid Step(1)]
    define s4 where "s4 = s3\<lparr>xs_step := (xs_step s3)\<lparr>sc_effect_id := Some eid\<rparr>\<rparr>"
    from created obtain e where e: "get_external_effect (xd_db (sh_store (xs_shared s4))) eid = Some e"
      "e_router_id e = r" "eid \<noteq> []" by (auto simp: s4_def)
    have "quiet_run r (xs_shared s4) (xs_shared s') \<or> dispatched r (cp_plan_id (pb_plan request)) s2 s'"
      using Step(2) dispatch_created [OF ok rid e(3,1,2), of request res s'] created e(3)
      by (auto simp: ebind_def set_step_def s4_def [symmetric] dispatched_def quiet_run_def effect_key_def)
        (auto simp: s4_def)
    then show ?thesis using created by (auto simp: dispatch_outcome_def s4_def intro: quiet_trans)
  qed
qed

section \<open>Whole runs\<close>

text \<open>
  A preorder that everything respects which applies nothing on the router: the chain of an apply,
  resume and compensation respect it as soon as their steps do.
\<close>

locale run_relation =
  fixes R :: "xstate \<Rightarrow> xstate \<Rightarrow> bool" and r :: ident
  assumes R_of_quiet: "quiet_run r (xs_shared a) (xs_shared b) \<Longrightarrow> R a b"
    and R_composes: "R a b \<Longrightarrow> R b c \<Longrightarrow> R a c"

sublocale run_relation \<subseteq> step_relation R
  by unfold_locales (auto intro: R_of_quiet R_composes simp: quiet_run_def)

context run_relation begin

lemma quiet: "obeys (on_shared (quiet_run r)) m \<Longrightarrow> obeys R m"
  by (erule obeys_mono) (rule R_of_quiet)

lemma calls [obey_rules]:
  assumes "calm r ex"
  shows "obeys R (sh_read ex f)" "obeys R (ensure_lease ex)" "obeys R (upsert_safety ex q)"
    "obeys R (checkpoint ex ctx k st ad b e)" "obeys R (cancel_requested ex ctx)"
    "obeys R (assert_mutation_allowed ex rid)" "obeys R (post_dispatch_uncertain ex c)"
    "obeys R (mark_effect_unknown ex ctx eid)" "obeys R (set_step g)"
  using assms by (intro quiet obey_rules; assumption)+

lemma step_failed [obey_rules]: "calm r ex \<Longrightarrow> obeys R (step_failed ex ctx kind b e)"
  unfolding step_failed_def domain_failed_def needs_recovery_def Let_def by (cases e) (simp_all, (intro obey_rules; assumption)+)

lemma run_step [obey_rules]:
  "calm r ex \<Longrightarrow> obeys R (adapter_step ex ctx kind request) \<Longrightarrow> obeys R (run_checkpointed_step ex ctx kind request)"
  unfolding run_checkpointed_step_def step_done_def Let_def by (intro obey_rules)

lemma quiet_step:
  "calm r ex \<Longrightarrow> kind \<noteq> Sk_Apply \<Longrightarrow> obeys R (adapter_step ex ctx kind request)"
  by (intro quiet adapter_step_quiet)

lemma publish [obey_rules]: "calm r ex \<Longrightarrow> obeys R (publish_backup ex ctx request b)"
  unfolding publish_backup_def by (rule quiet) (intro obey_rules)

lemma published [obey_rules]: "calm r ex \<Longrightarrow> obeys R (backup_published ex ctx request ref k)"
  unfolding backup_published_def by (intro obey_rules)

lemma run_chain:
  assumes "calm r ex" and "\<And>k. k \<in> set kinds \<Longrightarrow> obeys R (adapter_step ex ctx k request)"
  shows "obeys R (run_chain ex ctx request ref kinds)"
  using assms(2)
proof (induction kinds arbitrary: ref)
  case (Cons k kinds)
  then show ?case
    unfolding run_chain.simps by (intro obey_rules assms(1) Cons.IH) auto
qed (auto intro: obey_rules)

lemma execute_steps:
  assumes "calm r ex" and "\<And>k. k \<in> set (steps_after start) \<Longrightarrow> obeys R (adapter_step ex ctx k request)"
  shows "obeys R (execute_steps ex ctx request start bm)"
  unfolding execute_steps_def by (intro bind run_chain assms calls(9) [OF assms(1)])

lemma initialize [obey_rules]: "calm r ex \<Longrightarrow> obeys R (initialize_safety_and_boot ex ctx request)"
  unfolding initialize_safety_and_boot_def Let_def
  by (intro obey_rules quiet [OF quiet_obeys] sh_call_unmoved) (auto simp: on_db_Inr dest!: record_boot_frame)

lemma build_request [obey_rules]: "calm r ex \<Longrightarrow> obeys R (build_request ex ctx pid)"
  unfolding build_request_def by (intro obey_rules)

lemma resolve [obey_rules]:
  "calm r ex \<Longrightarrow> obeys R (resolve_plan_id ex ctx payload)"
  "calm r ex \<Longrightarrow> obeys R (resolve_backup_artifact_id ex ctx payload)"
  unfolding resolve_plan_id_def resolve_backup_artifact_id_def by (intro obey_rules; assumption)+

lemma execute_resume [obey_rules]: "calm r ex \<Longrightarrow> obeys R (execute_resume ex ctx payload)"
  unfolding execute_resume_def then_step_def
  by (intro obey_rules execute_steps quiet_step) (auto simp: steps_after_def apply_chain_def)

lemma execute_compensate [obey_rules]: "calm r ex \<Longrightarrow> obeys R (execute_compensate ex ctx payload)"
  unfolding execute_compensate_def compensate_stored_def then_step_def by (intro obey_rules quiet_step) simp_all

lemma execute_apply:
  assumes "calm r ex" and "\<And>request. obeys R (adapter_step ex ctx Sk_Apply request)"
  shows "obeys R (execute_apply ex ctx payload recovery_state)"
proof -
  have "obeys R (adapter_step ex ctx k request)" for k request
    by (cases "k = Sk_Apply") (simp_all add: assms quiet_step)
  then show ?thesis
    unfolding execute_apply_def execute_plan_def Let_def by (intro obey_rules execute_steps assms(1)) simp_all
qed

lemma fake_simulate:
  assumes "calm r ex" and "\<And>request. obeys R (adapter_step ex ctx Sk_Apply request)"
  shows "obeys R (fake_simulate ex ctx)"
proof -
  have "obeys R (sh_call ex store_exc (\<lambda>env x. map_sum id (\<lambda>p. (p, x))
      (get_job_dispatch_payload (xd_db x) (wx_job_id ctx))))"
    by (intro quiet quiet_obeys sh_call_unmoved assms(1)) (auto simp: result_simps)
  moreover have "obeys R (case payload of JObj kvs \<Rightarrow> execute_apply ex ctx kvs st | _ \<Rightarrow> eraise (XOther ''AttributeError''))"
    for payload st
    by (cases payload) (simp_all add: execute_apply assms raise)
  ultimately show ?thesis
    unfolding fake_simulate_def Let_def by (intro obey_rules assms(1))
qed

end

interpretation qr: run_relation "on_shared (quiet_run r)" r for r
  by unfold_locales (auto simp: quiet_run_def)

interpretation ro: run_relation "keeps_once r" r for r
  by unfold_locales (auto intro: quiet_once)

lemma dispatch_outcome_once: "dispatch_outcome r p a b \<Longrightarrow> keeps_once r a b"
  by (auto simp: dispatch_outcome_def dispatched_def applied_once_def dest: quiet_once)

lemma apply_step_once:
  "calm (wx_router_id ctx) ex \<Longrightarrow> obeys (keeps_once (wx_router_id ctx)) (adapter_step ex ctx Sk_Apply request)"
  unfolding adapter_step_def
  by (intro on.bind on.now, simp, rule obeysI, erule dispatch_outcome_once [OF dispatch_apply_once_outcome], simp_all)

section \<open>What an outcome says\<close>

text \<open>The mark that the dispatch sets in the step context stays.\<close>

abbreviation keeps_mark :: "xstate \<Rightarrow> xstate \<Rightarrow> bool" where
  "keeps_mark a b \<equiv> sc_apply_dispatched (xs_step a) \<longrightarrow> sc_apply_dispatched (xs_step b)"

interpretation mk: step_relation keeps_mark
  by unfold_locales auto

lemma sh_call_mark [obey_rules]: "obeys keeps_mark (sh_call ex conv f)"
  by (rule obeysI) (simp add: sh_call_step)

lemma port_mark [obey_rules]: "obeys keeps_mark (port_call p)"
  by (auto intro!: obeysI simp: port_call_def split: prod.splits)

lemma ensure_lease_mark [obey_rules]: "obeys keeps_mark (ensure_lease ex)"
  by (auto intro!: obeysI simp: ensure_lease_def Let_def)

lemma mark_calls [obey_rules]:
  "obeys keeps_mark (sh_read ex g)" "obeys keeps_mark (upsert_safety ex q)"
  "obeys keeps_mark (transition_effect ex ctx eid st sm)" "obeys keeps_mark (record_evidence ex ctx request k dig)"
  "obeys keeps_mark (boot_known ex ctx)"
  unfolding sh_read_def upsert_safety_def transition_effect_def record_evidence_def boot_known_def
  by (intro mk.bind mk.ret sh_call_mark)+

lemma mark_set_step [obey_rules]:
  "(\<And>c. sc_apply_dispatched c \<Longrightarrow> sc_apply_dispatched (f c)) \<Longrightarrow> obeys keeps_mark (set_step f)"
  by (simp add: obeys_def set_step_def)

lemma continuation_mark [obey_rules]:
  "obeys keeps_mark (upsert_continuation ex ctx eid k st)" "obeys keeps_mark (note_token ex ctx eid res)"
  "obeys keeps_mark (mark_effect_unknown ex ctx fx)" "obeys keeps_mark (assert_mutation_allowed ex rid)"
  unfolding upsert_continuation_def note_token_def mark_effect_unknown_def assert_mutation_allowed_def
  by (intro obey_rules)+

lemma marking_mark [obey_rules]: "obeys keeps_mark m \<Longrightarrow> obeys keeps_mark (marking ex ctx eid caught m)"
  unfolding marking_def by (intro obey_rules)

lemma poll_mark [obey_rules]: "obeys keeps_mark (poll_continuations ex ctx request eid n res)"
proof (induction n arbitrary: res)
  case 0
  then show ?case by (simp add: mk.ret mk.raise)
next
  case (Suc n)
  then show ?case unfolding poll_continuations.simps by (intro obey_rules Suc.IH)
qed

lemma dispatch_mark: "obeys keeps_mark (dispatch_apply_once ex ctx request)"
  unfolding dispatch_apply_once_eq create_effect_def after_dispatching_def call_apply_def poll_apply_continuations_def
  by (intro obey_rules) simp

lemma adapter_step_mark: "obeys keeps_mark (adapter_step ex ctx kind request)"
proof -
  have "obeys keeps_mark (identity_step ex request)" "obeys keeps_mark (observe_step ex request now)"
    "obeys keeps_mark (backup_step ex ctx request)" "obeys keeps_mark (preconditions_step request now)"
    "obeys keeps_mark (fail_safe_step ex ctx request now)" "obeys keeps_mark (read_back_step ex ctx request)"
    "obeys keeps_mark (verify_step ex ctx request)" "obeys keeps_mark (save_step ex ctx request)"
    "obeys keeps_mark (compensate_step ex ctx request)" for now
    unfolding identity_step_def observe_step_def backup_step_def preconditions_step_def fail_safe_step_def
      read_back_step_def verify_step_def save_step_def compensate_step_def read_back_def verify_bound_def
      verify_unbound_def set_drifted_def Let_def
    by (intro obey_rules; simp)+
  then show ?thesis
    unfolding adapter_step_def
    by (intro mk.bind mk.now) (cases kind; simp add: mk.raise mk.domain mk.ret dispatch_mark)
qed

text \<open>The apply was started and its start is recorded, or nothing was applied.\<close>

definition start_recorded :: "ident \<Rightarrow> shared \<Rightarrow> bool" where
  "start_recorded job sh \<longleftrightarrow> rc_apply_dispatched (classify_job_steps (xd_db (sh_store sh)) job ''Running'')"

definition on_record :: "worker_ctx \<Rightarrow> (ident \<times> ident) list \<Rightarrow> xstate \<Rightarrow> bool" where
  "on_record ctx A s \<longleftrightarrow> applied_on (wx_router_id ctx) (xs_shared s) = A \<or>
     start_recorded (wx_job_id ctx) (xs_shared s) \<and> sc_apply_dispatched (xs_step s)"

definition honest :: "worker_ctx \<Rightarrow> (ident \<times> ident) list \<Rightarrow> exec_exc + outcome \<Rightarrow> xstate \<Rightarrow> bool" where
  "honest ctx A res s \<longleftrightarrow> applied_on (wx_router_id ctx) (xs_shared s) = A \<or>
     start_recorded (wx_job_id ctx) (xs_shared s) \<and>
     (\<forall>st x. res = Inr (st, x) \<longrightarrow> st \<notin> {Failed, Cancelled})"

lemma start_recorded_mono: "quiet_run r a b \<Longrightarrow> start_recorded job a \<Longrightarrow> start_recorded job b"
  by (auto simp: start_recorded_def quiet_run_def classify_job_steps_iff)

lemma checkpoint_records:
  assumes "checkpoint ex ctx Sk_Apply ''Running'' ad b e s = (Inr u, s')"
  shows "start_recorded (wx_job_id ctx) (xs_shared s')"
  using assms unfolding checkpoint_def
  by (rule sh_call_cases)
    (auto simp: on_db_Inr no_result_Inr start_recorded_def classify_job_steps_iff step_kind_name_def step_went_def
      dest!: job_progress_frame)

text \<open>A dispatched plan, or one whose effect is in doubt, is never reported as failed.\<close>

definition risky :: "ident \<Rightarrow> xstate \<Rightarrow> bool" where
  "risky r s \<longleftrightarrow> sc_apply_dispatched (xs_step s) \<or>
     (\<exists>eid. sc_effect_id (xs_step s) = Some eid \<and> eid \<noteq> [] \<and> in_doubt r eid (xs_shared s))"

definition only_recovery :: "outcome exec \<Rightarrow> xstate \<Rightarrow> bool" where
  "only_recovery m s \<longleftrightarrow> (\<forall>st x s'. m s = (Inr (st, x), s') \<longrightarrow> st = RecoveryRequired)"

lemma only_recovery_bind:
  "(\<And>x s1. m s = (Inr x, s1) \<Longrightarrow> only_recovery (f x) s1) \<Longrightarrow> only_recovery (ebind m f) s"
  unfolding only_recovery_def by (auto elim!: ebind_cases)

lemma needs_recovery_only: "only_recovery (needs_recovery ex ctx kind d b n m w) s"
  unfolding needs_recovery_def by (rule only_recovery_bind) (simp add: only_recovery_def eret_def)

lemma risky_uncertain:
  assumes "calm r ex" and "risky r s" and "post_dispatch_uncertain ex (xs_step s) s = (Inr u, s')"
  shows u
proof (cases "sc_apply_dispatched (xs_step s)")
  case False
  then obtain eid where eid: "sc_effect_id (xs_step s) = Some eid" "eid \<noteq> []" "in_doubt r eid (xs_shared s)"
    using assms(2) by (auto simp: risky_def)
  have "in_doubt r eid (ex_interfere ex (xs_tick s) (xs_shared s))"
    using unmoved_doubt [of r "xs_shared s"] eid(3) assms(1) by (simp add: calm_def)
  then show ?thesis
    using assms(3) False eid(1,2)
    by (auto simp: post_dispatch_uncertain_def truthy_str_def sh_read_def sh_call_def ebind_def eret_def
        in_doubt_def Let_def)
qed (use assms(3) in \<open>simp add: post_dispatch_uncertain_def eret_def\<close>)

lemma domain_failed_risky:
  assumes "calm r ex" and "risky r s"
  shows "only_recovery (domain_failed ex ctx kind b e) s"
  unfolding domain_failed_def
proof (intro only_recovery_bind)
  fix c s1 u s2
  assume "get_step s = (Inr c, s1)" "post_dispatch_uncertain ex c s1 = (Inr u, s2)"
  then have u by (auto simp: get_step_def intro: risky_uncertain [OF assms])
  then show "only_recovery (if u
     then ebind (if truthy_str (sc_effect_id c) then mark_effect_unknown ex ctx (sc_effect_id c) else eret ()) (\<lambda>_.
       needs_recovery ex ctx kind True b (exc_name e) (exc_message e) True)
     else
       ebind (checkpoint ex ctx kind ''Failed'' (sc_apply_dispatched c) b (Some (exc_name e))) (\<lambda>_.
       eret (Failed, exc_message e,
         Some (JObj [(''error'', JStr (exc_name e)), (''step'', JStr (step_kind_name kind))])))) s2"
    by (simp add: only_recovery_bind needs_recovery_only)
qed

lemma step_failed_risky:
  assumes "calm r ex" and "risky r s"
  shows "only_recovery (step_failed ex ctx kind b e) s"
proof -
  have "sc_apply_dispatched (xs_step s) \<or> truthy_str (sc_effect_id (xs_step s))"
    using assms(2) by (auto simp: risky_def truthy_str_def)
  then show ?thesis
    unfolding step_failed_def Let_def
    by (intro only_recovery_bind, cases e)
      (auto simp: get_step_def domain_failed_risky [OF assms] intro!: only_recovery_bind needs_recovery_only)
qed

lemma get_step_bind [simp]: "ebind get_step f s = f (xs_step s) s"
  by (simp add: ebind_def get_step_def)

lemma quiet_applied: "quiet_run r a b \<Longrightarrow> applied_on r b = applied_on r a"
  by (simp add: quiet_run_def)

lemma on_record_quiet:
  "quiet_run (wx_router_id ctx) (xs_shared a) (xs_shared b) \<Longrightarrow> keeps_mark a b \<Longrightarrow> on_record ctx A a \<Longrightarrow> on_record ctx A b"
  by (auto simp: on_record_def quiet_applied dest: start_recorded_mono)

lemma eattempt_run: "eattempt m s = (Inr r, s') \<longleftrightarrow> m s = (r, s')"
  by (auto simp: eattempt_def split: prod.splits)

text \<open>After the body of a step: it is on record, or it is recorded as started and in doubt.\<close>

definition settled_step :: "worker_ctx \<Rightarrow> (ident \<times> ident) list \<Rightarrow> xstate \<Rightarrow> bool" where
  "settled_step ctx A s \<longleftrightarrow> applied_on (wx_router_id ctx) (xs_shared s) = A \<or>
     start_recorded (wx_job_id ctx) (xs_shared s) \<and> risky (wx_router_id ctx) s"

lemma on_record_settled: "on_record ctx A s \<Longrightarrow> settled_step ctx A s"
  by (auto simp: on_record_def settled_step_def risky_def)

lemma step_body_settled:
  assumes ok: "calm (wx_router_id ctx) ex" and "on_record ctx A s"
    and recorded: "kind = Sk_Apply \<Longrightarrow> start_recorded (wx_job_id ctx) (xs_shared s)"
    and run: "(if crash then eraise (XOther ''RuntimeError'') else adapter_step ex ctx kind request) s = (r, s')"
  shows "settled_step ctx A s' \<and> (kind \<noteq> Sk_Apply \<longrightarrow> on_record ctx A s') \<and>
    (kind = Sk_Apply \<longrightarrow> applied_on (wx_router_id ctx) (xs_shared s') = A \<or> start_recorded (wx_job_id ctx) (xs_shared s'))"
proof (cases "crash \<or> kind \<noteq> Sk_Apply")
  case True
  let ?m = "if crash then eraise (XOther ''RuntimeError'') else adapter_step ex ctx kind request"
  have "obeys (on_shared (quiet_run (wx_router_id ctx))) ?m" "obeys keeps_mark ?m"
    using True adapter_step_quiet [OF ok] adapter_step_mark by (auto intro: qt.raise mk.raise)
  then have "quiet_run (wx_router_id ctx) (xs_shared s) (xs_shared s')" "keeps_mark s s'"
    using run by (blast dest: obeysD quietD)+
  then show ?thesis using assms(2) recorded on_record_quiet on_record_settled start_recorded_mono by metis
next
  case False
  then have "dispatch_apply_once ex ctx request s = (r, s')"
    using run by (simp add: adapter_step_def ebind_def clock_now_def)
  then have outcome: "dispatch_outcome (wx_router_id ctx) (cp_plan_id (pb_plan request)) s s'"
    by (rule dispatch_apply_once_outcome [OF ok refl])
  then have grow: "start_recorded (wx_job_id ctx) (xs_shared s')"
    using recorded False
    by (auto simp: dispatch_outcome_def quiet_run_def dispatched_def start_recorded_def classify_job_steps_iff)
  have "keeps_mark s s'" using obeysD [OF dispatch_mark] \<open>dispatch_apply_once ex ctx request s = (r, s')\<close> by blast
  then show ?thesis
    using outcome grow False assms(2)
    by (auto simp: dispatch_outcome_def quiet_applied dispatched_def settled_step_def risky_def on_record_def)
qed

lemma step_failed_honest:
  assumes ok: "calm (wx_router_id ctx) ex" and "settled_step ctx A s"
    and run: "step_failed ex ctx kind b e s = (res, s')"
  shows "honest ctx A res s'"
proof -
  have q: "quiet_run (wx_router_id ctx) (xs_shared s) (xs_shared s')"
    using quietD [OF qr.step_failed [OF ok] run] .
  show ?thesis
  proof (cases "applied_on (wx_router_id ctx) (xs_shared s) = A")
    case False
    then have "start_recorded (wx_job_id ctx) (xs_shared s)" "risky (wx_router_id ctx) s"
      using assms(2) by (auto simp: settled_step_def)
    then show ?thesis
      using start_recorded_mono [OF q] step_failed_risky [OF ok] run
      by (fastforce simp: honest_def only_recovery_def)
  qed (simp add: honest_def quiet_applied [OF q])
qed

text \<open>Calls that apply nothing keep the record.\<close>

abbreviation keeps_record :: "worker_ctx \<Rightarrow> (ident \<times> ident) list \<Rightarrow> xstate \<Rightarrow> xstate \<Rightarrow> bool" where
  "keeps_record ctx A a b \<equiv> on_record ctx A a \<longrightarrow> on_record ctx A b"

interpretation kr: step_relation "keeps_record ctx A" for ctx A
  by unfold_locales auto

lemma record_obeys:
  "obeys (on_shared (quiet_run (wx_router_id ctx))) m \<Longrightarrow> obeys keeps_mark m \<Longrightarrow> obeys (keeps_record ctx A) m"
  by (rule obeysI) (blast dest: obeysD intro: on_record_quiet)

lemma checkpoint_mark [obey_rules]: "obeys keeps_mark (checkpoint ex ctx k st ad b e)"
  unfolding checkpoint_def by (rule sh_call_mark)

lemma record_calls [obey_rules]:
  assumes "calm (wx_router_id ctx) ex"
  shows "obeys (keeps_record ctx A) (checkpoint ex ctx k st ad b e)" "obeys (keeps_record ctx A) (ensure_lease ex)"
    "obeys (keeps_record ctx A) (sh_read ex g)" "obeys (keeps_record ctx A) (upsert_safety ex q)"
  using assms by (intro record_obeys obey_rules; assumption)+

lemma recordD: "obeys (keeps_record ctx A) m \<Longrightarrow> m s = (r, s') \<Longrightarrow> on_record ctx A s \<Longrightarrow> on_record ctx A s'"
  by (drule obeysD) auto

lemma on_record_honest:
  "on_record ctx A s \<Longrightarrow> honest ctx A (Inl e) s" "on_record ctx A s \<Longrightarrow> st \<notin> {Failed, Cancelled} \<Longrightarrow> honest ctx A (Inr (st, x)) s"
  by (auto simp: on_record_def honest_def)

definition unsuccessful :: "outcome exec \<Rightarrow> bool" where
  "unsuccessful m \<longleftrightarrow> (\<forall>s x s'. m s = (Inr x, s') \<longrightarrow> fst x \<noteq> Succeeded)"

lemma unsuccessfulD: "unsuccessful m \<Longrightarrow> m s = (Inr (Succeeded, x), s') \<Longrightarrow> False"
  unfolding unsuccessful_def by (metis fst_conv)

lemma unsuccessful_rules:
  "(\<And>x. unsuccessful (f x)) \<Longrightarrow> unsuccessful (ebind n f)"
  "st \<noteq> Succeeded \<Longrightarrow> unsuccessful (eret (st, y))"
  "unsuccessful m1 \<Longrightarrow> unsuccessful m2 \<Longrightarrow> unsuccessful (if c then m1 else m2)"
  unfolding unsuccessful_def by (blast elim: ebind_cases, simp_all add: eret_def)

lemma step_failed_not_succeeded: "unsuccessful (step_failed ex ctx kind b e)"
  unfolding step_failed_def domain_failed_def needs_recovery_def Let_def
  by (cases e; simp only: exec_exc.case; intro unsuccessful_rules; simp)

text \<open>A step keeps the record, and success after the dispatch carries its mark.\<close>

lemma run_step_succeeded:
  assumes ok: "calm (wx_router_id ctx) ex" and "settled_step ctx A s" and "kind \<noteq> Sk_Apply \<Longrightarrow> on_record ctx A s"
    and run: "step_done ex ctx kind b s = (res, s')"
  shows "on_record ctx A s' \<and> honest ctx A res s'"
proof -
  let ?s = "if kind = Sk_Apply then s\<lparr>xs_step := (xs_step s)\<lparr>sc_apply_dispatched := True\<rparr>\<rparr> else s"
  have "on_record ctx A ?s" using assms(2,3) by (auto simp: on_record_def settled_step_def)
  moreover have "ebind (checkpoint ex ctx kind ''Succeeded'' (sc_apply_dispatched (xs_step ?s)) b None) (\<lambda>_.
      eret (Succeeded, step_kind_name kind, None)) ?s = (res, s')"
    using run by (auto simp: step_done_def ebind_def set_step_def eret_def get_step_def split: if_splits)
  ultimately show ?thesis
    by (elim ebind_cases) (auto simp: eret_def dest: recordD [OF record_calls(1) [OF ok]] intro: on_record_honest)
qed

lemma run_step_honest:
  assumes ok: "calm (wx_router_id ctx) ex" and rec: "on_record ctx A s"
    and run: "run_checkpointed_step ex ctx kind request s = (res, s')"
  shows "honest ctx A res s' \<and> (\<forall>x. res = Inr (Succeeded, x) \<longrightarrow> on_record ctx A s')"
  using run unfolding run_checkpointed_step_def Let_def get_step_bind
proof (cases rule: ebind_cases)
  case Raise
  then show ?thesis using rec by (auto dest: recordD [OF record_calls(1) [OF ok]] intro: on_record_honest)
next
  case (Step u s1)
  note r1 = recordD [OF record_calls(1) [OF ok] Step(1) rec]
  have started: "start_recorded (wx_job_id ctx) (xs_shared s1)" if "kind = Sk_Apply"
    using Step(1) that by (auto intro: checkpoint_records)
  from Step(2) show ?thesis
  proof (cases rule: ebind_cases)
    case Raise
    then show ?thesis using r1 by (auto dest: recordD [OF record_calls(2) [OF ok]] intro: on_record_honest)
  next
    case (Step u s2)
    note r2 = recordD [OF record_calls(2) [OF ok] Step(1) r1]
    have started2: "start_recorded (wx_job_id ctx) (xs_shared s2)" if "kind = Sk_Apply"
      using start_recorded_mono [OF quietD [OF quiet_obeys [OF ensure_lease_unmoved [OF ok]] Step(1)]] started that by blast
    from Step(2) show ?thesis
    proof (cases rule: ebind_cases)
      case (Step r s3)
      note body = step_body_settled [OF ok r2 started2 Step(1) [unfolded eattempt_run]]
      show ?thesis
      proof (cases r)
        case (Inl e)
        then have failed: "step_failed ex ctx kind (map_option ba_artifact_id (sc_backup (xs_step s))) e s3 = (res, s')"
          using Step(2) by simp
        then show ?thesis
          using body step_failed_honest [OF ok _ failed] unsuccessfulD [OF step_failed_not_succeeded] by blast
      next
        case (Inr x)
        then have "step_done ex ctx kind (map_option ba_artifact_id (sc_backup (xs_step s))) s3 = (res, s')"
          using Step(2) by simp
        with body run_step_succeeded [OF ok] show ?thesis by blast
      qed
    qed (simp add: eattempt_def split: prod.splits)
  qed
qed

text \<open>No backup is made after the dispatch.\<close>

fun backup_first :: "step_kind list \<Rightarrow> bool" where
  "backup_first [] = True"
| "backup_first (k # ks) = ((k = Sk_Apply \<longrightarrow> Sk_Backup \<notin> set ks) \<and> backup_first ks)"

definition may_back_up :: "worker_ctx \<Rightarrow> (ident \<times> ident) list \<Rightarrow> step_kind list \<Rightarrow> xstate \<Rightarrow> bool" where
  "may_back_up ctx A kinds s \<longleftrightarrow> Sk_Backup \<in> set kinds \<longrightarrow> applied_on (wx_router_id ctx) (xs_shared s) = A"

lemma published_mark: "obeys keeps_mark (backup_published ex ctx request ref k)"
  unfolding backup_published_def publish_backup_def by (intro obey_rules)

lemma published_failed: "backup_published ex ctx request ref k s = (Inr (Inl e), s') \<Longrightarrow> k = Sk_Backup"
  by (auto simp: backup_published_def eret_def split: if_splits)

lemma may_back_up_quiet:
  "quiet_run (wx_router_id ctx) (xs_shared a) (xs_shared b) \<Longrightarrow> may_back_up ctx A ks a \<Longrightarrow> may_back_up ctx A ks b"
  by (simp add: may_back_up_def quiet_applied)

lemma may_back_up_step:
  assumes "calm (wx_router_id ctx) ex" and "may_back_up ctx A (k # ks) s" and "backup_first (k # ks)"
    and "run_checkpointed_step ex ctx k request s = (res, s')"
  shows "may_back_up ctx A ks s' \<and> (k = Sk_Backup \<longrightarrow> applied_on (wx_router_id ctx) (xs_shared s') = A)"
proof (cases "k = Sk_Apply")
  case True
  then show ?thesis using assms(3) by (simp add: may_back_up_def)
next
  case False
  then have "quiet_run (wx_router_id ctx) (xs_shared s) (xs_shared s')"
    using quietD [OF qr.run_step [OF assms(1) adapter_step_quiet [OF assms(1) False]] assms(4)] by simp
  then show ?thesis using assms(2) by (auto simp: may_back_up_def quiet_applied)
qed

lemma cancelled_honest: "on_record ctx A s \<Longrightarrow> honest ctx A (Inr (cancelled_outcome ctx k (sc_apply_dispatched (xs_step s)))) s"
  by (auto simp: cancelled_outcome_def on_record_def honest_def)

lemma chain_rest_honest:
  assumes ok: "calm (wx_router_id ctx) ex" and rec: "on_record ctx A s" and mb: "may_back_up ctx A kinds s"
    and failed: "k = Sk_Backup \<longrightarrow> applied_on (wx_router_id ctx) (xs_shared s) = A"
    and run: "ebind (backup_published ex ctx request ref k) (\<lambda>r. case r of
         Inl e \<Rightarrow> eret (Failed, exc_name e, Some (JObj [(''error'', JStr (exc_name e))]))
       | Inr ref \<Rightarrow> run_chain ex ctx request ref kinds) s = (res, s')"
    and rest: "\<And>ref s. run_chain ex ctx request ref kinds s = (res, s') \<Longrightarrow> on_record ctx A s \<Longrightarrow>
      may_back_up ctx A kinds s \<Longrightarrow> honest ctx A res s'"
  shows "honest ctx A res s'"
proof -
  have obeys: "obeys (keeps_record ctx A) (backup_published ex ctx request ref k)"
    by (intro record_obeys qr.published ok published_mark)
  from run show ?thesis
  proof (cases rule: ebind_cases)
    case Raise
    then show ?thesis using recordD [OF obeys _ rec] on_record_honest by blast
  next
    case (Step r s1)
    note rec1 = recordD [OF obeys Step(1) rec] and q = quietD [OF qr.published [OF ok] Step(1)]
    show ?thesis
    proof (cases r)
      case (Inl e)
      then have "k = Sk_Backup" using Step(1) published_failed by blast
      then show ?thesis using failed quiet_applied [OF q] Step(2) Inl by (simp add: eret_def honest_def)
    next
      case (Inr x)
      then show ?thesis using Step(2) rest [OF _ rec1 may_back_up_quiet [OF q mb]] by simp
    qed
  qed
qed

lemma run_chain_honest:
  assumes ok: "calm (wx_router_id ctx) ex"
  shows "run_chain ex ctx request ref kinds s = (res, s') \<Longrightarrow> on_record ctx A s \<Longrightarrow> backup_first kinds \<Longrightarrow>
    may_back_up ctx A kinds s \<Longrightarrow> honest ctx A res s'"
proof (induction kinds arbitrary: ref s)
  case Nil
  then show ?case by (auto simp: eret_def succeeded_outcome_def intro: on_record_honest)
next
  case (Cons k kinds)
  note cancel = quietD [OF quiet_obeys [OF cancel_requested_unmoved [OF ok]]]
  have cancel_rec: "obeys (keeps_record ctx A) (cancel_requested ex ctx)"
    unfolding cancel_requested_def by (rule record_calls [OF ok])
  from Cons.prems(1) [unfolded run_chain.simps] show ?case
  proof (cases rule: ebind_cases)
    case Raise
    then show ?thesis using Cons.prems(2) recordD [OF cancel_rec] on_record_honest by metis
  next
    case (Step stop s1)
    note rec = recordD [OF cancel_rec Step(1) Cons.prems(2)] and mb = may_back_up_quiet [OF cancel [OF Step(1)] Cons.prems(4)]
    show ?thesis
    proof (cases stop)
      case True
      then show ?thesis using Step(2) cancelled_honest [OF rec] by (auto simp: eret_def)
    next
      case False
      from Step(2) False have "ebind (run_checkpointed_step ex ctx k request) (\<lambda>(status, summary, body).
          if status \<noteq> Succeeded then eret (status, summary, body)
          else ebind (backup_published ex ctx request ref k) (\<lambda>r. case r of
              Inl e \<Rightarrow> eret (Failed, exc_name e, Some (JObj [(''error'', JStr (exc_name e))]))
            | Inr ref \<Rightarrow> run_chain ex ctx request ref kinds)) s1 = (res, s')" by simp
      then show ?thesis
      proof (cases rule: ebind_cases)
        case Raise
        then show ?thesis using run_step_honest [OF ok rec] by blast
      next
        case (Step r1 s2)
        note ran = run_step_honest [OF ok rec Step(1)] and bup = may_back_up_step [OF ok mb Cons.prems(3) Step(1)]
        show ?thesis
        proof (cases "fst r1 = Succeeded")
          case True
          then have rec2: "on_record ctx A s2" using ran by (cases r1) auto
          from Step(2) True have "ebind (backup_published ex ctx request ref k) (\<lambda>r. case r of
              Inl e \<Rightarrow> eret (Failed, exc_name e, Some (JObj [(''error'', JStr (exc_name e))]))
            | Inr ref \<Rightarrow> run_chain ex ctx request ref kinds) s2 = (res, s')" by (cases r1) auto
          then show ?thesis by (rule chain_rest_honest [OF ok rec2 bup [THEN conjunct1] bup [THEN conjunct2]])
            (use Cons.IH Cons.prems(3) in auto)
        qed (use Step(2) ran in \<open>cases r1; auto simp: eret_def\<close>)
      qed
    qed
  qed
qed

definition honest_run :: "worker_ctx \<Rightarrow> outcome exec \<Rightarrow> bool" where
  "honest_run ctx m \<longleftrightarrow> (\<forall>s res s'. m s = (res, s') \<longrightarrow> honest ctx (applied_on (wx_router_id ctx) (xs_shared s)) res s')"

lemma honest_bind:
  assumes "obeys (on_shared (quiet_run (wx_router_id ctx))) m" and "\<And>x. honest_run ctx (f x)"
  shows "honest_run ctx (ebind m f)"
  unfolding honest_run_def
proof (intro allI impI)
  fix s res s'
  assume "ebind m f s = (res, s')"
  then show "honest ctx (applied_on (wx_router_id ctx) (xs_shared s)) res s'"
  proof (cases rule: ebind_cases)
    case Raise
    then show ?thesis using quietD [OF assms(1)] by (simp add: honest_def quiet_applied)
  next
    case (Step x s1)
    then have "honest ctx (applied_on (wx_router_id ctx) (xs_shared s1)) res s'"
      using assms(2) by (simp add: honest_run_def)
    then show ?thesis using quiet_applied [OF quietD [OF assms(1) Step(1)]] by simp
  qed
qed

lemma honest_quiet: "obeys (on_shared (quiet_run (wx_router_id ctx))) m \<Longrightarrow> honest_run ctx m"
  unfolding honest_run_def honest_def using quiet_applied quietD by blast

lemma honest_if: "honest_run ctx m1 \<Longrightarrow> honest_run ctx m2 \<Longrightarrow> honest_run ctx (if c then m1 else m2)"
  by simp

lemma honest_option:
  "honest_run ctx m1 \<Longrightarrow> (\<And>y. honest_run ctx (g y)) \<Longrightarrow> honest_run ctx (case x of None \<Rightarrow> m1 | Some y \<Rightarrow> g y)"
  by (simp split: option.split)

lemma execute_steps_honest:
  assumes ok: "calm (wx_router_id ctx) ex"
  shows "honest_run ctx (execute_steps ex ctx request None bm)"
  unfolding honest_run_def
proof (intro allI impI)
  fix s res s'
  assume "execute_steps ex ctx request None bm s = (res, s')"
  then have "run_chain ex ctx request None (steps_after None)
      (s\<lparr>xs_step := new_step_ctx\<lparr>sc_boot_marker := bm, sc_apply_dispatched := False\<rparr>\<rparr>) = (res, s')"
    by (simp add: execute_steps_def ebind_def set_step_def)
  then show "honest ctx (applied_on (wx_router_id ctx) (xs_shared s)) res s'"
    by (rule run_chain_honest [OF ok])
      (simp_all add: on_record_def may_back_up_def steps_after_def apply_chain_def)
qed

lemma execute_apply_honest:
  assumes ok: "calm (wx_router_id ctx) ex"
  shows "honest_run ctx (execute_apply ex ctx payload rs)"
  unfolding execute_apply_def execute_plan_def Let_def
  by (intro honest_bind honest_if honest_option execute_steps_honest ok qr.execute_resume qr.execute_compensate
      qr.initialize qr.calls qr.build_request qr.resolve qt.lift qt.ret qt.if_rule
      honest_quiet [OF qt.ret] honest_quiet [OF qr.execute_resume] honest_quiet [OF qr.execute_compensate])

end
