(* ===== verification/Executor_Gates.thy ===== *)
theory Executor_Gates
  imports Executor_Safety
begin

text \<open>
  What must have been seen before a plan is sent to the router: the gates of the steps of
  \<open>_execute_steps\<close> in front of \<open>APPLY\<close>, and that every run of the executor obeys them.
\<close>

section \<open>The gates\<close>

definition wall_at :: "executor \<Rightarrow> nat \<Rightarrow> int" where
  "wall_at ex n = wall_now (ex_env ex n)"

definition confirmed_in_time :: "executor \<Rightarrow> provisioning_bundle \<Rightarrow> bool" where
  "confirmed_in_time ex request \<longleftrightarrow> pb_confirmed request \<and>
     cp_confirmation_state (pb_plan request) = Plan_Confirmed \<and>
     (\<exists>n. wall_at ex n \<le> dt_instant (cp_expires_at (pb_plan request)))"

definition identity_seen :: "executor \<Rightarrow> provisioning_bundle \<Rightarrow> bool" where
  "identity_seen ex request \<longleftrightarrow> (\<exists>sh sh'. ad_check_identity (ex_adapter ex) (pb_expected_identity request) sh =
     (Inr (True, ri_fingerprint_digest (pb_expected_identity request)), sh'))"

definition observed_as_planned :: "executor \<Rightarrow> provisioning_bundle \<Rightarrow> bool" where
  "observed_as_planned ex request \<longleftrightarrow> (\<exists>sh sh' obs n. ad_observe (ex_adapter ex) (pb_router_id request) sh = (Inr obs, sh') \<and>
     ro_collection_status obs = Obs_Succeeded \<and> wall_at ex n \<le> dt_instant (ro_valid_until obs) \<and>
     ro_observation_id obs = cp_observation_id (pb_plan request) \<and>
     ro_resource_version obs = cp_observed_resource_version (pb_plan request) \<and>
     ro_identity_fingerprint_digest obs = ri_fingerprint_digest (pb_expected_identity request))"

definition write_certified :: "executor \<Rightarrow> provisioning_bundle \<Rightarrow> bool" where
  "write_certified ex request \<longleftrightarrow> (\<exists>sh sh' cap n. ad_get_capabilities (ex_adapter ex) (pb_router_id request) sh = (Inr cap, sh') \<and>
     rc_certification_status cap = Cert_WriteCertified \<and> wall_at ex n \<le> dt_instant (rc_valid_until cap))"

definition backed_up :: "executor \<Rightarrow> provisioning_bundle \<Rightarrow> bool" where
  "backed_up ex request \<longleftrightarrow>
     (\<exists>sh sh' b. ad_create_backup (ex_adapter ex) (pb_router_id request) (pb_operation_id request) sh = (Inr b, sh')) \<and>
     (\<exists>sh sh'. ad_begin_fail_safe (ex_adapter ex) (pb_router_id request) sh = (Inr (), sh'))"

definition plan_targets_own :: "provisioning_bundle \<Rightarrow> bool" where
  "plan_targets_own request \<longleftrightarrow>
     dr_revision_id (pb_desired_revision request) = cp_revision_id (pb_plan request) \<and>
     dr_desired_digest (pb_desired_revision request) = cp_expected_desired_digest (pb_plan request) \<and>
     pi_resource_id ` set (cp_items (pb_plan request)) \<subseteq> mr_resource_id ` set (pb_managed_resources request)"

definition gates_open :: "executor \<Rightarrow> provisioning_bundle \<Rightarrow> bool" where
  "gates_open ex request \<longleftrightarrow> confirmed_in_time ex request \<and> identity_seen ex request \<and>
     observed_as_planned ex request \<and> write_certified ex request \<and> backed_up ex request \<and> plan_targets_own request"

section \<open>What a step that passed has seen\<close>

definition passed :: "executor \<Rightarrow> worker_ctx \<Rightarrow> provisioning_bundle \<Rightarrow> step_kind \<Rightarrow> bool" where
  "passed ex ctx request k \<longleftrightarrow> (\<exists>s s'. adapter_step ex ctx k request s = (Inr (), s'))"

lemma ebind_InrE:
  assumes "ebind m f s = (Inr y, s')"
  obtains x s1 where "m s = (Inr x, s1)" "f x s1 = (Inr y, s')"
  using assms by (cases rule: ebind_cases) auto

lemma port_call_InrE:
  assumes "port_call p s = (Inr x, s')"
  obtains sh where "p (xs_shared s) = (Inr x, sh)"
  using assms by (auto simp: port_call_def split: prod.splits)

lemma edomain_Inr: "edomain r s = (Inr x, s') \<longleftrightarrow> r = Inr x \<and> s' = s"
  by (cases r) (auto simp: edomain_def elift_def)

lemma adapter_step_simps:
  "adapter_step ex ctx k request s = (let now = utc_datetime (wall_at ex (xs_tick s)) in case k of
     Sk_Preflight \<Rightarrow>
       if pb_router_id request \<noteq> ri_router_id (pb_expected_identity request)
       then eraise (XDomain ''IdentityMismatch'' ''router_id mismatch'')
       else edomain (assert_desired_matches_plan (pb_desired_revision request) (pb_plan request))
   | Sk_IdentityCheck \<Rightarrow> identity_step ex request
   | Sk_Observe \<Rightarrow> observe_step ex request now
   | Sk_Backup \<Rightarrow> backup_step ex ctx request
   | Sk_PlanPreconditions \<Rightarrow> preconditions_step request now
   | Sk_Confirm \<Rightarrow> eret ()
   | Sk_BeginFailSafe \<Rightarrow> fail_safe_step ex ctx request now
   | Sk_Apply \<Rightarrow> dispatch_apply_once ex ctx request
   | Sk_ReadBack \<Rightarrow> read_back_step ex ctx request
   | Sk_Verify \<Rightarrow> verify_step ex ctx request
   | Sk_Save \<Rightarrow> save_step ex ctx request
   | Sk_Compensate \<Rightarrow> compensate_step ex ctx request) s"
  by (simp add: adapter_step_def ebind_def clock_now_def wall_at_def Let_def)

lemma assertions_pass:
  "assert_identity_match i d = Inr u \<longleftrightarrow> d = ri_fingerprint_digest i"
  "assert_desired_matches_plan v p = Inr u \<longleftrightarrow> dr_revision_id v = cp_revision_id p \<and> dr_desired_digest v = cp_expected_desired_digest p"
  "assert_observation_matches_plan ob p = Inr u \<longleftrightarrow> ro_observation_id ob = cp_observation_id p \<and> ro_resource_version ob = cp_observed_resource_version p"
  "assert_observation_fresh ob t = Inr u \<longleftrightarrow> ro_collection_status ob = Obs_Succeeded \<and> dt_instant t \<le> dt_instant (ro_valid_until ob)"
  "assert_plan_valid p t = Inr u \<longleftrightarrow> cp_confirmation_state p = Plan_Confirmed \<and> dt_instant t \<le> dt_instant (cp_expires_at p)"
  "assert_capability_allows_write cap t = Inr u \<longleftrightarrow>
     rc_certification_status cap = Cert_WriteCertified \<and> dt_instant t \<le> dt_instant (rc_valid_until cap)"
  by (cases "rc_certification_status cap"; cases "cp_confirmation_state p";
      auto simp: assert_identity_match_def assert_desired_matches_plan_def assert_observation_matches_plan_def
        assert_observation_fresh_def assert_plan_valid_def assert_capability_allows_write_def dt_after_def)+

lemma instant_utc [simp]: "dt_instant (utc_datetime t) = t"
  by (simp add: utc_datetime_def)

lemma passed_preflight: "passed ex ctx request Sk_Preflight \<Longrightarrow>
    dr_revision_id (pb_desired_revision request) = cp_revision_id (pb_plan request) \<and>
    dr_desired_digest (pb_desired_revision request) = cp_expected_desired_digest (pb_plan request)"
  by (auto simp: passed_def adapter_step_simps eraise_def edomain_Inr assertions_pass split: if_splits)

lemma passed_identity: "passed ex ctx request Sk_IdentityCheck \<Longrightarrow> identity_seen ex request"
  unfolding passed_def adapter_step_simps identity_step_def identity_seen_def Let_def step_kind.case
  by (elim exE ebind_InrE port_call_InrE) (simp add: eraise_def edomain_Inr assertions_pass split: prod.splits if_splits, blast)

lemma passed_observe:
  assumes "passed ex ctx request Sk_Observe"
  shows "observed_as_planned ex request" "write_certified ex request"
proof -
  from assms obtain s s' where "observe_step ex request (utc_datetime (wall_at ex (xs_tick s))) s = (Inr (), s')"
    by (auto simp: passed_def adapter_step_simps)
  then have "observed_as_planned ex request \<and> write_certified ex request"
    unfolding observe_step_def observed_as_planned_def write_certified_def
    by (elim ebind_InrE port_call_InrE) (simp add: edomain_Inr assertions_pass, metis instant_utc)
  then show "observed_as_planned ex request" "write_certified ex request" by blast+
qed

lemma passed_backup: "passed ex ctx request Sk_Backup \<Longrightarrow>
    \<exists>sh sh' b. ad_create_backup (ex_adapter ex) (pb_router_id request) (pb_operation_id request) sh = (Inr b, sh')"
  unfolding passed_def adapter_step_simps backup_step_def Let_def step_kind.case
  by (elim exE ebind_InrE port_call_InrE) blast

lemma passed_fail_safe: "passed ex ctx request Sk_BeginFailSafe \<Longrightarrow>
    \<exists>sh sh'. ad_begin_fail_safe (ex_adapter ex) (pb_router_id request) sh = (Inr (), sh')"
  unfolding passed_def adapter_step_simps fail_safe_step_def Let_def step_kind.case
  by (elim exE ebind_InrE port_call_InrE) (simp, blast)

lemma passed_preconditions:
  assumes "passed ex ctx request Sk_PlanPreconditions"
  shows "confirmed_in_time ex request"
    and "pi_resource_id ` set (cp_items (pb_plan request)) \<subseteq> mr_resource_id ` set (pb_managed_resources request)"
proof -
  from assms obtain s s' where "preconditions_step request (utc_datetime (wall_at ex (xs_tick s))) s = (Inr (), s')"
    by (auto simp: passed_def adapter_step_simps)
  then have "confirmed_in_time ex request \<and>
      pi_resource_id ` set (cp_items (pb_plan request)) \<subseteq> mr_resource_id ` set (pb_managed_resources request)"
    unfolding preconditions_step_def confirmed_in_time_def
    by (elim ebind_InrE) (auto simp: edomain_Inr assertions_pass eraise_def assert_no_unmanaged_conflict_def
        check_locators_eq check_plan_items_eq result_simps split: if_splits)
  then show "confirmed_in_time ex request"
    "pi_resource_id ` set (cp_items (pb_plan request)) \<subseteq> mr_resource_id ` set (pb_managed_resources request)" by blast+
qed

definition gate_steps :: "step_kind set" where
  "gate_steps = {Sk_Preflight, Sk_IdentityCheck, Sk_Observe, Sk_Backup, Sk_PlanPreconditions, Sk_BeginFailSafe}"

lemma all_passed:
  assumes "\<And>k. k \<in> gate_steps \<Longrightarrow> passed ex ctx request k"
  shows "gates_open ex request"
proof -
  note p = assms [unfolded gate_steps_def]
  have "passed ex ctx request Sk_Preflight" "passed ex ctx request Sk_IdentityCheck" "passed ex ctx request Sk_Observe"
    "passed ex ctx request Sk_Backup" "passed ex ctx request Sk_PlanPreconditions" "passed ex ctx request Sk_BeginFailSafe"
    by (rule p, simp)+
  show ?thesis
    unfolding gates_open_def backed_up_def plan_targets_own_def
    using passed_preflight [OF \<open>passed ex ctx request Sk_Preflight\<close>] passed_identity [OF \<open>passed ex ctx request Sk_IdentityCheck\<close>]
      passed_observe [OF \<open>passed ex ctx request Sk_Observe\<close>] passed_backup [OF \<open>passed ex ctx request Sk_Backup\<close>]
      passed_preconditions [OF \<open>passed ex ctx request Sk_PlanPreconditions\<close>]
      passed_fail_safe [OF \<open>passed ex ctx request Sk_BeginFailSafe\<close>] by blast
qed

section \<open>Runs obey the gates\<close>

text \<open>What a run adds to the applied plans of its router: plans whose gates were open.\<close>

definition built :: "executor \<Rightarrow> worker_ctx \<Rightarrow> provisioning_bundle \<Rightarrow> bool" where
  "built ex ctx q \<longleftrightarrow> (\<exists>s s'. build_request ex ctx (cp_plan_id (pb_plan q)) s = (Inr (Some q), s'))"

definition gated :: "executor \<Rightarrow> worker_ctx \<Rightarrow> xstate \<Rightarrow> xstate \<Rightarrow> bool" where
  "gated ex ctx a b \<longleftrightarrow> (\<exists>qs. (\<forall>q \<in> set qs. built ex ctx q \<and> gates_open ex q) \<and>
     applied_on (wx_router_id ctx) (xs_shared b) =
       map (\<lambda>q. (wx_router_id ctx, cp_plan_id (pb_plan q))) qs @ applied_on (wx_router_id ctx) (xs_shared a))"

interpretation ga: run_relation "gated ex ctx" "wx_router_id ctx" for ex ctx
proof unfold_locales
  fix a b c
  show "quiet_run (wx_router_id ctx) (xs_shared a) (xs_shared b) \<Longrightarrow> gated ex ctx a b"
    by (auto simp: gated_def quiet_run_def intro: exI [of _ "[]"])
  assume "gated ex ctx a b" and "gated ex ctx b c"
  then obtain qs ps where "\<forall>q \<in> set qs. built ex ctx q \<and> gates_open ex q" "\<forall>q \<in> set ps. built ex ctx q \<and> gates_open ex q"
    "applied_on (wx_router_id ctx) (xs_shared b) =
      map (\<lambda>q. (wx_router_id ctx, cp_plan_id (pb_plan q))) qs @ applied_on (wx_router_id ctx) (xs_shared a)"
    "applied_on (wx_router_id ctx) (xs_shared c) =
      map (\<lambda>q. (wx_router_id ctx, cp_plan_id (pb_plan q))) ps @ applied_on (wx_router_id ctx) (xs_shared b)"
    unfolding gated_def by blast
  then show "gated ex ctx a c" unfolding gated_def by (intro exI [of _ "ps @ qs"]) auto
qed

lemma apply_step_gated:
  assumes ok: "calm (wx_router_id ctx) ex" and "built ex ctx request" and "gates_open ex request"
  shows "obeys (gated ex ctx) (adapter_step ex ctx k request)"
proof (cases "k = Sk_Apply")
  case True
  have "gated ex ctx s s'" if "dispatch_apply_once ex ctx request s = (res, s')" for s s' res
    using dispatch_apply_once_outcome [OF ok refl that] assms(2,3)
    by (auto simp: dispatch_outcome_def dispatched_def gated_def quiet_run_def
        intro: exI [of _ "[]"] exI [of _ "[request]"])
  then show ?thesis using True by (auto intro!: obeysI simp: adapter_step_simps)
qed (intro ga.quiet_step ok)

lemma open_chain_gated:
  "calm (wx_router_id ctx) ex \<Longrightarrow> built ex ctx request \<Longrightarrow> gates_open ex request \<Longrightarrow>
   obeys (gated ex ctx) (run_chain ex ctx request ref kinds)"
  by (intro ga.run_chain apply_step_gated)

text \<open>A step that succeeded has passed.\<close>

lemma run_step_passed:
  assumes "run_checkpointed_step ex ctx k request s = (Inr (Succeeded, x), s')"
  shows "passed ex ctx request k"
  using assms unfolding run_checkpointed_step_def Let_def get_step_bind
  by (elim ebind_InrE)
    (auto simp: passed_def eattempt_def eraise_def split: prod.splits sum.splits if_splits
      dest!: unsuccessfulD [OF step_failed_not_succeeded])

lemma chain_gated:
  assumes ok: "calm (wx_router_id ctx) ex" and built: "built ex ctx request" and "Sk_Apply \<notin> set pre"
    and "\<And>k. k \<in> gate_steps \<Longrightarrow> k \<notin> set pre \<Longrightarrow> passed ex ctx request k"
  shows "obeys (gated ex ctx) (run_chain ex ctx request ref (pre @ post))"
  using assms(3,4)
proof (induction pre arbitrary: ref)
  case Nil
  then have "gates_open ex request" by (intro all_passed [of ex ctx]) auto
  then show ?case using open_chain_gated [OF ok built] by simp
next
  case (Cons k pre)
  let ?R = "gated ex ctx"
  have step: "obeys ?R (run_checkpointed_step ex ctx k request)"
    using Cons.prems(1) by (intro ga.run_step ga.quiet_step ok) auto
  have "obeys ?R (ebind (run_checkpointed_step ex ctx k request) (\<lambda>(status, summary, body).
       if status \<noteq> Succeeded then eret (status, summary, body)
       else ebind (backup_published ex ctx request ref k) (\<lambda>r. case r of
           Inl e \<Rightarrow> eret (Failed, exc_name e, Some (JObj [(''error'', JStr (exc_name e))]))
         | Inr ref \<Rightarrow> run_chain ex ctx request ref (pre @ post))))"
  proof (rule obeysI)
    fix s res s'
    assume "ebind (run_checkpointed_step ex ctx k request) (\<lambda>(status, summary, body).
       if status \<noteq> Succeeded then eret (status, summary, body)
       else ebind (backup_published ex ctx request ref k) (\<lambda>r. case r of
           Inl e \<Rightarrow> eret (Failed, exc_name e, Some (JObj [(''error'', JStr (exc_name e))]))
         | Inr ref \<Rightarrow> run_chain ex ctx request ref (pre @ post))) s = (res, s')"
    then show "?R s s'"
    proof (cases rule: ebind_cases)
      case Raise
      then show ?thesis using obeysD [OF step] by blast
    next
      case (Step y s1)
      note first = obeysD [OF step Step(1)]
      show ?thesis
      proof (cases "fst y = Succeeded")
        case True
        then have "passed ex ctx request k" using Step(1) run_step_passed by (metis prod.collapse)
        then have rest: "obeys ?R (run_chain ex ctx request ref (pre @ post))" for ref
          using Cons.prems by (intro Cons.IH) auto
        have "obeys ?R (ebind (backup_published ex ctx request ref k) (\<lambda>r. case r of
            Inl e \<Rightarrow> eret (Failed, exc_name e, Some (JObj [(''error'', JStr (exc_name e))]))
          | Inr ref \<Rightarrow> run_chain ex ctx request ref (pre @ post)))"
          by (intro ga.bind ga.published ga.sum_rule ga.ret rest ok)
        then show ?thesis using Step(2) True ga.R_trans [OF first] by (cases y) (auto dest: obeysD)
      qed (use Step(2) first in \<open>cases y; simp add: eret_def\<close>)
    qed
  qed
  then show ?case
    unfolding run_chain.simps append_Cons
    by (intro ga.bind [OF ga.calls(5) [OF ok]] ga.bind [OF ga.get] ga.if_rule ga.ret)
qed

lemma execute_steps_gated:
  assumes ok: "calm (wx_router_id ctx) ex" and "built ex ctx request"
  shows "obeys (gated ex ctx) (execute_steps ex ctx request None bm)"
proof -
  let ?pre = "[Sk_Preflight, Sk_IdentityCheck, Sk_Observe, Sk_Backup, Sk_PlanPreconditions, Sk_Confirm, Sk_BeginFailSafe]"
  have "obeys (gated ex ctx)
      (run_chain ex ctx request ref (?pre @ [Sk_Apply, Sk_ReadBack, Sk_Verify, Sk_Save]))" for ref
    by (rule chain_gated [OF ok assms(2)]) (auto simp: gate_steps_def)
  moreover have "steps_after None = ?pre @ [Sk_Apply, Sk_ReadBack, Sk_Verify, Sk_Save]"
    by (simp add: steps_after_def apply_chain_def)
  ultimately show ?thesis
    unfolding execute_steps_def by (intro ga.bind [OF ga.quiet [OF set_step_obeys(2)]]) (simp only:)
qed

text \<open>A continuation of what a computation returned.\<close>

lemma gated_bind_result:
  assumes "obeys (gated ex ctx) m" and "\<And>s x s'. m s = (Inr x, s') \<Longrightarrow> obeys (gated ex ctx) (f x)"
  shows "obeys (gated ex ctx) (ebind m f)"
proof (rule obeysI)
  fix s r s'
  assume "ebind m f s = (r, s')"
  then show "gated ex ctx s s'"
    by (cases rule: ebind_cases) (use obeysD [OF assms(1)] obeysD [OF assms(2)] ga.R_trans in blast)+
qed

text \<open>The request that is built is the one of the plan.\<close>

lemma build_request_built:
  assumes "build_request ex ctx pid s = (Inr (Some q), s')"
  shows "built ex ctx q"
proof -
  have "cp_plan_id (pb_plan q) = pid"
    using assms unfolding build_request_def
    by (elim ebind_InrE) (auto simp: eret_def edomain_Inr make_request_def request_plan_def make_id_def result_simps
        make_change_plan_def validate_non_empty_def split: option.splits if_splits elim!: ebind_InrE)
  then show ?thesis using assms by (auto simp: built_def)
qed

lemma execute_plan_gated:
  assumes ok: "calm (wx_router_id ctx) ex"
  shows "obeys (gated ex ctx) (execute_plan ex ctx pid)"
  unfolding execute_plan_def
proof (rule gated_bind_result)
  fix s x s'
  assume b: "build_request ex ctx pid s = (Inr x, s')"
  show "obeys (gated ex ctx) (case x of None \<Rightarrow> eret (failed_outcome ''plan binding failed''
         [(''error'', JStr ''PlanNotFound''), (''plan_id'', JStr pid)])
     | Some request \<Rightarrow>
         ebind (initialize_safety_and_boot ex ctx request) (\<lambda>_.
         ebind (assert_mutation_allowed ex (wx_router_id ctx)) (\<lambda>_.
         execute_steps ex ctx request None (Some (''boot:simulated:'' @ wx_job_id ctx)))))"
  proof (cases x)
    case (Some q)
    then show ?thesis
      using execute_steps_gated [OF ok build_request_built] b by (simp, intro ga.bind obey_rules ok) blast
  qed (simp add: ga.ret)
qed (intro obey_rules ok)

lemma execute_apply_gated:
  assumes ok: "calm (wx_router_id ctx) ex"
  shows "obeys (gated ex ctx) (execute_apply ex ctx payload rs)"
  unfolding execute_apply_def Let_def
  by (intro execute_plan_gated ok obey_rules)

lemma fake_simulate_gated:
  assumes ok: "calm (wx_router_id ctx) ex"
  shows "obeys (gated ex ctx) (fake_simulate ex ctx)"
proof -
  have "obeys (gated ex ctx) (sh_call ex store_exc (\<lambda>env x. map_sum id (\<lambda>p. (p, x))
      (get_job_dispatch_payload (xd_db x) (wx_job_id ctx))))"
    by (intro ga.quiet quiet_obeys sh_call_unmoved ok) (auto simp: result_simps)
  moreover have "obeys (gated ex ctx)
      (case payload of JObj kvs \<Rightarrow> execute_apply ex ctx kvs st | _ \<Rightarrow> eraise (XOther ''AttributeError''))" for payload st
    by (cases payload) (simp_all add: execute_apply_gated ok ga.raise)
  ultimately show ?thesis
    unfolding fake_simulate_def Let_def by (intro obey_rules ok)
qed

end
