(* ===== verification/Executor_Demo.thy ===== *)
theory Executor_Demo
  imports Executor_Gates
begin

text \<open>
  A small concrete case for the properties of the executor: one router with a running job, a
  confirmed plan \<open>p1\<close> on revision \<open>v1\<close>, and a router adapter whose answers are fixed.
\<close>

section \<open>The case\<close>

definition demo_time :: "int \<Rightarrow> py_datetime" where
  "demo_time t = utc_datetime (t * 1000000)"

definition demo_seen :: router_observation where
  "demo_seen = \<lparr>ro_observation_id = ''o1'', ro_router_id = ''r1'', ro_identity_fingerprint_digest = ''fp'',
     ro_capability_id = ''c1'', ro_state_digest = ''st'', ro_resource_version = ''rv'', ro_observed_at = demo_time 5,
     ro_valid_until = demo_time 90, ro_collection_status = Obs_Succeeded, ro_source = ''fake''\<rparr>"

definition demo_capability :: router_capability where
  "demo_capability = \<lparr>rc_capability_id = ''c1'', rc_router_id = ''r1'', rc_firmware_digest = ''fw'',
     rc_certification_status = Cert_WriteCertified, rc_observed_at = demo_time 5, rc_valid_until = demo_time 90,
     rc_source = ''fake''\<rparr>"

definition demo_backup :: backup_artifact where
  "demo_backup = \<lparr>ba_artifact_id = ''b1'', ba_router_id = ''r1'', ba_operation_id = ''op1'',
     ba_content_digest = ''bd'', ba_storage_locator_digest = ''bl'', ba_identity_fingerprint_digest = ''fp'',
     ba_created_at = demo_time 20\<rparr>"

definition says :: "'a \<Rightarrow> 'a port" where
  "says x sh = (Inr x, sh)"

text \<open>A router that answers as a plan needs, until \<open>apply_plan\<close> answers \<open>a\<close>.\<close>

definition demo_adapter :: "exec_exc + apply_result \<Rightarrow> adapter" where
  "demo_adapter a = \<lparr>ad_state_identity = None, ad_check_identity = (\<lambda>_. says (True, ''fp'')),
     ad_observe = (\<lambda>_. says demo_seen), ad_get_capabilities = (\<lambda>_. says demo_capability),
     ad_create_backup = (\<lambda>_ _. says demo_backup), ad_begin_fail_safe = (\<lambda>_. says ()),
     ad_apply_plan = (\<lambda>_ sh. (a, sh)), ad_poll_apply_continuation = None,
     ad_read_back = (\<lambda>_ p. says \<lparr>rb_plan_id = p, rb_state_digest = ''st2'', rb_resource_version = ''rv2'',
       rb_identity_fingerprint_digest = ''fp'', rb_outcome_known = True\<rparr>),
     ad_verify_postconditions = (\<lambda>_ _. says (True, ''vd'')), ad_save_configuration = (\<lambda>_. says ''sd''),
     ad_compensate = (\<lambda>_ _. says ()), ad_publish = (\<lambda>b _ _ _. says (ba_artifact_id b))\<rparr>"

definition demo_executor :: "exec_exc + apply_result \<Rightarrow> executor" where
  "demo_executor a = \<lparr>ex_adapter = demo_adapter a, ex_env = (\<lambda>n. demo_env 20 (write_int (int n))), ex_tie = (\<lambda>_. 0),
     ex_fresh = (\<lambda>_ _ _. Inr ()), ex_interfere = (\<lambda>_ sh. sh), ex_float = (\<lambda>_. None),
     ex_crash_after_step = None, ex_crash_after_checkpoint = False, ex_crash_after_dispatching = False\<rparr>"

definition demo_job :: "bool \<Rightarrow> job_row" where
  "demo_job cancel = \<lparr>j_job_id = ''j1'', j_operation_id = ''op1'', j_router_id = ''r1'', j_attempt = 1, j_status = Running,
     j_lease_owner = Some ''w1'', j_lease_until_epoch = Some 60, j_heartbeat_at = Some 10, j_fencing_token = 1,
     j_recovery_state = None, j_cancel_requested = cancel, j_terminal_outcome = None, j_created_at = 8,
     j_updated_at = 10, j_started_at = Some 10, j_finished_at = None\<rparr>"

definition demo_base :: "bool \<Rightarrow> db" where
  "demo_base cancel = empty_db\<lparr>routers := [\<lparr>r_router_id = ''r1'', r_site_id = ''s1'', r_display_name = ''booth'',
       r_vendor = ''Netcraze'', r_model = ''NC-1812'', r_hardware_revision = None, r_identity_fingerprint = ''fp'',
       r_identity_claims_json = None, r_credential_ref_id = None, r_lifecycle_status = ''Active'', r_created_at = 2,
       r_updated_at = 2\<rparr>],
     plan_ids := [''p1''],
     operations := [\<lparr>o_operation_id = ''op1'', o_router_id = ''r1'', o_plan_id = Some ''p1'',
       o_operation_kind = ''apply_plan'', o_aggregate_status = ''Running'', o_actor_type = ''user'', o_actor_id = None,
       o_idempotency_record_id = ''i1'', o_correlation_id = None, o_created_at = 8, o_updated_at = 8,
       o_terminal_at = None\<rparr>],
     jobs := [demo_job cancel],
     router_execution_fences := [\<lparr>f_fence_id = ''fence1'', f_router_id = ''r1'', f_fence_token = 1,
       f_lease_owner = ''w1'', f_mutex_holder_id = ''m1'', f_lease_until_epoch = 60, f_active_job_id = Some ''j1'',
       f_created_at = 10, f_updated_at = 10\<rparr>]\<rparr>"

definition demo_plans :: "string option \<Rightarrow> db \<Rightarrow> plan_db" where
  "demo_plans binding d = \<lparr>pd_base = d,
     pd_observations = [\<lparr>ob_observation_id = ''o1'', ob_router_id = ''r1'', ob_capability_id = None,
       ob_identity_fingerprint = ''fp'', ob_resource_version = ''rv'', ob_state_digest = ''st'',
       ob_state_snapshot_json = None, ob_collection_status = ''Succeeded'', ob_source = ''fake'',
       ob_adapter_version = ''1'', ob_observed_at = 5, ob_valid_until = 90, ob_created_at = 5\<rparr>],
     pd_revisions = [\<lparr>rv_revision_id = ''v1'', rv_router_id = ''r1'', rv_revision_number = 1,
       rv_parent_revision_id = None, rv_canonical_digest = ''dd'', rv_desired_document_json = None,
       rv_based_on_observation_id = Some ''o1'', rv_actor_type = ''user'', rv_actor_id = None, rv_reason = None,
       rv_created_at = 6\<rparr>],
     pd_states = [\<lparr>rst_router_id = ''r1'', rst_current_desired_revision_id = ''v1'', rst_applied_revision_id = None,
       rst_last_observation_id = Some ''o1'', rst_updated_at = 6\<rparr>],
     pd_plans = [\<lparr>pl_plan_id = ''p1'', pl_router_id = ''r1'', pl_revision_id = ''v1'', pl_observation_id = ''o1'',
       pl_expected_desired_digest = ''dd'', pl_observed_resource_version = ''rv'', pl_observed_state_digest = ''st'',
       pl_plan_digest = ''pd'', pl_risk_class = ''low'', pl_requires_backup = True, pl_requires_fail_safe = True,
       pl_expires_at = 50, pl_confirmation_state = ''Confirmed'', pl_confirmed_at = Some 8,
       pl_confirmed_by_actor = Some ''bob'', pl_actor_type = ''user'', pl_actor_id = None, pl_created_at = 7,
       pl_session_binding_hmac = binding\<rparr>],
     pd_items = []\<rparr>"

definition demo_shared :: "string option \<Rightarrow> bool \<Rightarrow> shared" where
  "demo_shared binding cancel = \<lparr>sh_store = \<lparr>xd_plans = demo_plans binding (demo_base cancel), xd_safety = [],
     xd_evidence = [], xd_backups = [], xd_reports = [], xd_resources = [], xd_ownership = []\<rparr>,
     sh_lease_lost = False, sh_applied = []\<rparr>"

definition demo_start :: "shared \<Rightarrow> xstate" where
  "demo_start sh = \<lparr>xs_shared = sh, xs_step = new_step_ctx, xs_tick = 0\<rparr>"

definition demo_ctx :: worker_ctx where
  "demo_ctx = \<lparr>wx_job_id = ''j1'', wx_operation_id = ''op1'', wx_operation_kind = ''apply_plan'', wx_router_id = ''r1'',
     wx_correlation_id = None, wx_lease_owner = ''w1'', wx_fencing_token = 1\<rparr>"

definition demo_applied :: "exec_exc + apply_result" where
  "demo_applied = Inr \<lparr>ar_plan_id = ''p1'', ar_outcome_digest = ''od'', ar_continued = False, ar_continuation_token = None\<rparr>"

lemma demo_ctx_router: "wx_router_id demo_ctx = ''r1''"
  by (simp add: demo_ctx_def)

section \<open>The environment is calm\<close>

lemma unmoved_refl [simp]: "unmoved r sh sh"
  by (simp add: unmoved_def)

lemma says_calm [simp]: "port_calm r (says x)"
  by (simp add: port_calm_def says_def)

lemma demo_calm: "calm r (demo_executor a)"
  by (simp add: calm_def adapter_calm_def demo_executor_def demo_adapter_def port_calm_def says_def)

end
