(* ===== verification/Executor_Properties.thy ===== *)
theory Executor_Properties
  imports Executor_Demo
begin

text \<open>
  The properties of the mutation executor: a plan is applied to a router at most once over all runs,
  only after every gate was passed, never by resume or compensation, and never by a run that reports
  \<open>Failed\<close> or \<open>Cancelled\<close> while it holds its lease; what the executor cannot do for a plan that is
  bound to a session.
\<close>

section \<open>All runs on a router\<close>

text \<open>
  The shared state under any sequence of runs of the handler on router \<open>r\<close>, by any workers, and
  anything that leaves the applies and effects of the router alone.
\<close>

inductive router_step :: "ident \<Rightarrow> shared \<Rightarrow> shared \<Rightarrow> bool" for r where
  run: "calm r ex \<Longrightarrow> wx_router_id ctx = r \<Longrightarrow>
    fake_simulate ex ctx \<lparr>xs_shared = a, xs_step = c, xs_tick = n\<rparr> = (res, s') \<Longrightarrow> router_step r a (xs_shared s')"
| elsewhere: "unmoved r a b \<Longrightarrow> router_step r a b"

lemma router_step_once: "router_step r a b \<Longrightarrow> applied_once r a \<Longrightarrow> applied_once r b"
proof (induction rule: router_step.induct)
  case (run ex ctx a c n res s')
  have "obeys (keeps_once r) (fake_simulate ex ctx)"
    using ro.fake_simulate [OF run(1)] apply_step_once [of ctx ex] run(1,2) by simp
  from obeysD [OF this run(3)] run(4) show ?case by simp
next
  case (elsewhere a b)
  then show ?case by (blast intro: quiet_once unmoved_quiet)
qed

interpretation runs: invariant_system "\<lambda>sh. sh_applied sh = []" "router_step r" "applied_once r" for r
proof
  fix sh :: shared
  assume "sh_applied sh = []"
  then show "applied_once r sh" by (simp add: applied_once_def applied_on_def)
qed (rule router_step_once)

lemma count_applied_on: "count_list (filter (\<lambda>a. fst a = r) xs) (r, p) = count_list xs (r, p)"
  by (induction xs) auto

lemma distinct_count_list_one: "distinct xs \<Longrightarrow> count_list xs x \<le> Suc 0"
  by (induction xs) (auto simp: count_list_0_iff)

section \<open>Exceptions that leave a run\<close>

text \<open>\<open>MutationForbidden\<close> is raised inside a step only, so that it never leaves the executor.\<close>

definition is_forbidden :: "exec_exc \<Rightarrow> bool" where
  "is_forbidden e = (case e of XForbidden _ \<Rightarrow> True | _ \<Rightarrow> False)"

lemma is_forbidden_simps [simp]:
  "\<not> is_forbidden (XRecovery m)" "\<not> is_forbidden (XUnknown m)" "is_forbidden (XForbidden m)"
  "\<not> is_forbidden (XLeaseLost m)" "\<not> is_forbidden (XDomain c m)" "\<not> is_forbidden (XOther c)"
  "\<not> is_forbidden (domain_exc d)"
  by (simp_all add: is_forbidden_def domain_exc_def split: domain_error.split)

definition not_forbidden :: "'a exec \<Rightarrow> bool" where
  "not_forbidden m \<longleftrightarrow> (\<forall>s e s'. m s = (Inl e, s') \<longrightarrow> \<not> is_forbidden e)"

lemma not_forbidden_rules:
  "not_forbidden (eret x)" "not_forbidden get_step" "not_forbidden (set_step f)" "not_forbidden (eattempt m)"
  "\<not> is_forbidden e \<Longrightarrow> not_forbidden (eraise e)" "not_forbidden (edomain d)" "not_forbidden (ensure_lease ex)"
  "not_forbidden (clock_now ex)"
  by (auto simp: not_forbidden_def eret_def get_step_def set_step_def eattempt_def eraise_def edomain_def elift_def
      ensure_lease_def clock_now_def Let_def result_simps split: prod.splits if_splits)

lemma not_forbidden_bind:
  assumes "not_forbidden m" and "\<And>x. not_forbidden (f x)"
  shows "not_forbidden (ebind m f)"
  unfolding not_forbidden_def
proof (intro allI impI)
  fix s e s'
  assume "ebind m f s = (Inl e, s')"
  then show "\<not> is_forbidden e"
    by (cases rule: ebind_cases) (use assms in \<open>simp_all add: not_forbidden_def, blast+\<close>)
qed

lemma not_forbidden_cases:
  "not_forbidden m1 \<Longrightarrow> not_forbidden m2 \<Longrightarrow> not_forbidden (if b then m1 else m2)"
  "not_forbidden m1 \<Longrightarrow> (\<And>y. not_forbidden (g y)) \<Longrightarrow> not_forbidden (case u of None \<Rightarrow> m1 | Some y \<Rightarrow> g y)"
  "(\<And>y. not_forbidden (h y)) \<Longrightarrow> (\<And>y. not_forbidden (g y)) \<Longrightarrow>
     not_forbidden (case w of Inl y \<Rightarrow> h y | Inr y \<Rightarrow> g y)"
  "(\<And>y z. not_forbidden (k y z)) \<Longrightarrow> not_forbidden (case q of (y, z) \<Rightarrow> k y z)"
  by (auto split: option.split sum.split prod.split)

lemma not_forbidden_call:
  assumes "\<And>e. \<not> is_forbidden (conv e)"
  shows "not_forbidden (sh_call ex conv f)"
  using assms by (auto simp: not_forbidden_def elim!: sh_call_cases)

lemma not_forbidden_store: "not_forbidden (sh_call ex store_exc f)" "not_forbidden (sh_call ex checkpoint_exc f)"
  by (rule not_forbidden_call; simp add: store_exc_def checkpoint_exc_def is_forbidden_def split: store_error.split)+

lemmas not_forbidden_intros = not_forbidden_bind not_forbidden_rules not_forbidden_cases not_forbidden_store

lemma not_forbidden_calls:
  "not_forbidden (sh_read ex g)" "not_forbidden (upsert_safety ex q)" "not_forbidden (checkpoint ex ctx k st ad b e)"
  "not_forbidden (cancel_requested ex ctx)" "not_forbidden (assert_mutation_allowed ex rid)"
  "not_forbidden (mark_effect_unknown ex ctx fx)" "not_forbidden (post_dispatch_uncertain ex c)"
  unfolding sh_read_def upsert_safety_def checkpoint_def cancel_requested_def assert_mutation_allowed_def
    mark_effect_unknown_def post_dispatch_uncertain_def transition_effect_def
  by (intro not_forbidden_intros; simp)+

lemma not_forbidden_step: "not_forbidden (run_checkpointed_step ex ctx k request)"
proof -
  have "not_forbidden (domain_failed ex ctx k b e)" for b e
    unfolding domain_failed_def needs_recovery_def by (intro not_forbidden_intros not_forbidden_calls)
  then have "not_forbidden (step_failed ex ctx k b e)" for b e
    unfolding step_failed_def needs_recovery_def Let_def
    by (cases e; simp only: exec_exc.case; intro not_forbidden_intros not_forbidden_calls; assumption?)
  then show ?thesis
    unfolding run_checkpointed_step_def step_done_def Let_def by (intro not_forbidden_intros not_forbidden_calls)
qed

lemma not_forbidden_chain: "not_forbidden (run_chain ex ctx request ref kinds)"
proof (induction kinds arbitrary: ref)
  case Nil
  then show ?case unfolding run_chain.simps by (intro not_forbidden_intros)
next
  case (Cons k kinds)
  have "not_forbidden (backup_published ex ctx request ref k)" for ref
    unfolding backup_published_def by (intro not_forbidden_intros)
  then show ?case
    unfolding run_chain.simps by (intro not_forbidden_intros not_forbidden_calls not_forbidden_step Cons.IH)
qed

lemma not_forbidden_apply: "not_forbidden (execute_apply ex ctx payload rs)"
proof -
  have "not_forbidden (execute_steps ex ctx request st bm)" for request st bm
    unfolding execute_steps_def by (intro not_forbidden_intros not_forbidden_chain)
  moreover have "not_forbidden (build_request ex ctx pid)" for pid
    unfolding build_request_def by (intro not_forbidden_intros not_forbidden_calls)
  moreover have "not_forbidden (elift (map_sum store_exc id v))" for v :: "ident res"
    by (auto simp: not_forbidden_def is_forbidden_def elift_def store_exc_def result_simps)
  moreover have "not_forbidden (elift (positive_float ex v))" for v
    by (auto simp: not_forbidden_def is_forbidden_def elift_def positive_float_def split: json.splits option.splits)
  moreover have "not_forbidden (initialize_safety_and_boot ex ctx request)" for request
    unfolding initialize_safety_and_boot_def Let_def by (intro not_forbidden_intros not_forbidden_calls)
  ultimately show ?thesis
    unfolding execute_apply_def execute_plan_def execute_resume_def execute_compensate_def compensate_stored_def
      resolve_plan_id_def resolve_backup_artifact_id_def then_step_def Let_def
    by (intro not_forbidden_intros not_forbidden_calls not_forbidden_step)
qed

section \<open>Answers of the handler\<close>

definition honest_answer :: "worker_ctx \<Rightarrow> handler_result exec \<Rightarrow> bool" where
  "honest_answer ctx m \<longleftrightarrow> (\<forall>s hr s'. m s = (Inr hr, s') \<longrightarrow> hr_status hr \<in> {Failed, Cancelled} \<longrightarrow>
     hr_summary hr \<noteq> ''lease lost during handler'' \<longrightarrow>
     applied_on (wx_router_id ctx) (xs_shared s') = applied_on (wx_router_id ctx) (xs_shared s))"

lemma honest_answer_quiet: "obeys (on_shared (quiet_run (wx_router_id ctx))) m \<Longrightarrow> honest_answer ctx m"
  unfolding honest_answer_def using quiet_applied quietD by blast

lemma honest_answer_bind:
  assumes "obeys (on_shared (quiet_run (wx_router_id ctx))) m" and "\<And>x. honest_answer ctx (f x)"
  shows "honest_answer ctx (ebind m f)"
  unfolding honest_answer_def
proof (intro allI impI)
  fix s hr s'
  assume "ebind m f s = (Inr hr, s')" and hr: "hr_status hr \<in> {Failed, Cancelled}" "hr_summary hr \<noteq> ''lease lost during handler''"
  then show "applied_on (wx_router_id ctx) (xs_shared s') = applied_on (wx_router_id ctx) (xs_shared s)"
  proof (cases rule: ebind_cases)
    case (Step x s1)
    then show ?thesis
      using quiet_applied [OF quietD [OF assms(1) Step(1)]] assms(2) [of x] hr unfolding honest_answer_def by metis
  qed simp
qed

lemma honest_answer_if: "honest_answer ctx m1 \<Longrightarrow> honest_answer ctx m2 \<Longrightarrow> honest_answer ctx (if b then m1 else m2)"
  by simp

lemma raised_result_recovery:
  "\<not> is_forbidden e \<Longrightarrow> hr_summary (raised_result True e) \<noteq> ''lease lost during handler'' \<Longrightarrow>
   hr_status (raised_result True e) \<notin> {Failed, Cancelled}"
  by (simp add: raised_result_def split: exec_exc.splits)

text \<open>What follows the executor in the handler.\<close>

definition answer :: "executor \<Rightarrow> worker_ctx \<Rightarrow> exec_exc + outcome \<Rightarrow> handler_result exec" where
  "answer ex ctx r = (case r of
     Inr x \<Rightarrow> eret (executed_result x)
   | Inl e \<Rightarrow>
       if unclassified e then eret (raised_result False e)
       else ebind (sh_read ex (\<lambda>x. rc_apply_dispatched
           (classify_job_steps (xd_db x) (wx_job_id ctx) ''Running''))) (\<lambda>dispatched.
         eret (raised_result dispatched e)))"

lemma answer_honest:
  assumes ok: "calm (wx_router_id ctx) ex" and honest: "honest ctx A r s"
    and e: "\<And>e. r = Inl e \<Longrightarrow> \<not> is_forbidden e" and run: "answer ex ctx r s = (Inr hr, s')"
    and hr: "hr_status hr \<in> {Failed, Cancelled}" "hr_summary hr \<noteq> ''lease lost during handler''"
  shows "applied_on (wx_router_id ctx) (xs_shared s') = A"
proof (cases r)
  case (Inr x)
  then show ?thesis
    using run honest hr(1) by (cases x) (auto simp: answer_def eret_def executed_result_def honest_def)
next
  case (Inl e0)
  show ?thesis
  proof (cases "unclassified e0")
    case True
    then show ?thesis
      using run Inl hr e [OF Inl]
      by (auto simp: answer_def eret_def unclassified_def raised_result_def split: exec_exc.splits)
  next
    case False
    then obtain d s1 where d: "sh_read ex (\<lambda>x. rc_apply_dispatched (classify_job_steps (xd_db x) (wx_job_id ctx) ''Running'')) s
        = (Inr d, s1)" and hr': "hr = raised_result d e0" "s' = s1"
      using run Inl by (auto simp: answer_def eret_def elim!: ebind_cases)
    have q: "unmoved (wx_router_id ctx) (xs_shared s) (xs_shared s1)"
      using obeysD [OF sh_read_unmoved [OF ok] d] by simp
    have "d = start_recorded (wx_job_id ctx) (xs_shared s1)"
      using d by (auto simp: sh_read_def sh_call_def Let_def start_recorded_def)
    then have "start_recorded (wx_job_id ctx) (xs_shared s) \<Longrightarrow> d"
      using start_recorded_mono [OF unmoved_quiet [OF q]] by simp
    then have "\<not> start_recorded (wx_job_id ctx) (xs_shared s)"
      using raised_result_recovery [OF e [OF Inl]] hr hr' by auto
    then show ?thesis using honest hr' quiet_applied [OF unmoved_quiet [OF q]] by (simp add: honest_def)
  qed
qed

lemma attempt_answer_honest:
  assumes ok: "calm (wx_router_id ctx) ex" and "honest_run ctx m" and "not_forbidden m"
  shows "honest_answer ctx (ebind (eattempt m) (answer ex ctx))"
  unfolding honest_answer_def
proof (intro allI impI)
  fix s hr s'
  assume run: "ebind (eattempt m) (answer ex ctx) s = (Inr hr, s')"
    and hr: "hr_status hr \<in> {Failed, Cancelled}" "hr_summary hr \<noteq> ''lease lost during handler''"
  obtain r s1 where m: "m s = (r, s1)" by fastforce
  then have "answer ex ctx r s1 = (Inr hr, s')" using run by (simp add: ebind_def eattempt_def)
  moreover have "honest ctx (applied_on (wx_router_id ctx) (xs_shared s)) r s1"
    using assms(2) m by (simp add: honest_run_def)
  moreover have "\<And>e. r = Inl e \<Longrightarrow> \<not> is_forbidden e" using assms(3) m unfolding not_forbidden_def by blast
  ultimately show "applied_on (wx_router_id ctx) (xs_shared s') = applied_on (wx_router_id ctx) (xs_shared s)"
    using answer_honest [OF ok] hr by blast
qed

lemma fake_simulate_honest:
  assumes ok: "calm (wx_router_id ctx) ex"
  shows "honest_answer ctx (fake_simulate ex ctx)"
proof -
  have body: "honest_answer ctx (ebind (eattempt (case payload of
      JObj kvs \<Rightarrow> execute_apply ex ctx kvs st | _ \<Rightarrow> eraise (XOther ''AttributeError''))) (answer ex ctx))" for payload st
  proof (rule attempt_answer_honest [OF ok])
    show "honest_run ctx (case payload of JObj kvs \<Rightarrow> execute_apply ex ctx kvs st | _ \<Rightarrow> eraise (XOther ''AttributeError''))"
      by (cases payload) (simp_all add: execute_apply_honest [OF ok] honest_quiet qt.raise)
    show "not_forbidden (case payload of JObj kvs \<Rightarrow> execute_apply ex ctx kvs st | _ \<Rightarrow> eraise (XOther ''AttributeError''))"
      by (cases payload) (simp_all add: not_forbidden_apply not_forbidden_rules)
  qed
  have "obeys (on_shared (quiet_run (wx_router_id ctx))) (sh_call ex store_exc (\<lambda>env x. map_sum id (\<lambda>p. (p, x))
      (get_job_dispatch_payload (xd_db x) (wx_job_id ctx))))"
    by (intro quiet_obeys sh_call_unmoved ok) (auto simp: result_simps)
  with body show ?thesis
    unfolding fake_simulate_def Let_def answer_def [symmetric]
    by (intro body honest_answer_bind honest_answer_if honest_answer_quiet [OF qt.ret] qr.calls ok; assumption?)
qed

section \<open>Read-back and polling\<close>

text \<open>The transition of the effect after a read-back.\<close>

lemma observed_after_transition:
  assumes "transition_effect ex ctx eid st sm s = (Inr (), s')"
    and "get_external_effect (xd_db (sh_store (xs_shared s'))) eid = Some e"
  shows "e_current_state e = st"
  using assms(1) unfolding transition_effect_def
proof (cases rule: sh_call_cases)
  case (1 sh)
  then obtain d' where run: "transition_external_effect (ex_env ex (xs_tick s)) \<lparr>tr_effect_id = eid,
      tr_to_state = effect_state_name st, tr_job_id = wx_job_id ctx, tr_lease_owner = wx_lease_owner ctx,
      tr_actor_type = ''worker'', tr_actor_id = None, tr_summary_redacted = Some sm\<rparr> (xd_db (sh_store sh)) = Inr d'"
    and s': "xd_db (sh_store (xs_shared s')) = d'"
    by (auto simp: on_db_Inr no_result_Inr)
  from run obtain e0 where "get_external_effect (xd_db (sh_store sh)) eid = Some e0"
    by (auto simp: transition_external_effect_def result_simps split: option.splits)
  from transition_get_effect [OF run this] s' assms(2) show ?thesis by simp
qed

text \<open>The calls of the router by the poll loop, counted by a measure of the shared state.\<close>

interpretation po: step_relation "\<lambda>a b. f (xs_shared b) \<le> f (xs_shared a)" for f :: "shared \<Rightarrow> nat"
  by unfold_locales simp_all

lemma po_call:
  assumes "\<And>sh x. f (sh\<lparr>sh_store := x\<rparr>) = f sh" and "\<And>n sh. f (ex_interfere ex n sh) = f sh"
  shows "obeys (\<lambda>a b. (f (xs_shared b) :: nat) \<le> f (xs_shared a)) (sh_call ex conv g)"
  by (rule obeysI) (auto simp: assms elim!: sh_call_cases)

lemma po_calls:
  assumes "\<And>sh x. f (sh\<lparr>sh_store := x\<rparr>) = f sh" and "\<And>n sh. f (ex_interfere ex n sh) = f sh"
  shows "obeys (\<lambda>a b. (f (xs_shared b) :: nat) \<le> f (xs_shared a)) (mark_effect_unknown ex ctx fx)"
    and "obeys (\<lambda>a b. (f (xs_shared b) :: nat) \<le> f (xs_shared a)) (note_token ex ctx eid a')"
  unfolding mark_effect_unknown_def note_token_def upsert_continuation_def transition_effect_def upsert_safety_def sh_read_def
  by (intro po_call obey_rules assms)+

lemma grow_bind:
  assumes "obeys (\<lambda>a b. f (xs_shared b) \<le> f (xs_shared a) + (i :: nat)) m"
    and "\<And>x. obeys (\<lambda>a b. f (xs_shared b) \<le> f (xs_shared a) + j) (g x)"
  shows "obeys (\<lambda>a b. f (xs_shared b) \<le> f (xs_shared a) + (i + j)) (ebind m g)"
proof (rule obeysI)
  fix s r s'
  assume "ebind m g s = (r, s')"
  then show "f (xs_shared s') \<le> f (xs_shared s) + (i + j)"
    by (cases rule: ebind_cases) (use obeysD [OF assms(1)] obeysD [OF assms(2)] in \<open>fastforce\<close>)+
qed

lemma polls_grow:
  fixes f :: "shared \<Rightarrow> nat"
  assumes store: "\<And>sh x. f (sh\<lparr>sh_store := x\<rparr>) = f sh" and interfere: "\<And>n sh. f (ex_interfere ex n sh) = f sh"
    and poll: "\<And>poller rid pid tok sh. ad_poll_apply_continuation (ex_adapter ex) = Some poller \<Longrightarrow>
      f (snd (poller rid pid tok sh)) \<le> Suc (f sh)"
  shows "obeys (\<lambda>a b. f (xs_shared b) \<le> f (xs_shared a) + n) (poll_continuations ex ctx request eid n a)"
proof (induction n arbitrary: a)
  case 0
  show ?case by (auto intro!: obeysI simp: eret_def eraise_def split: if_splits)
next
  case (Suc n)
  let ?still = "\<lambda>s s'. f (xs_shared s') \<le> f (xs_shared s)"
  have grows: "obeys ?still m \<Longrightarrow> obeys (\<lambda>s s'. f (xs_shared s') \<le> f (xs_shared s) + k) m" for m :: "'x exec" and k
    by (erule obeys_mono) simp
  have one: "obeys (\<lambda>s s'. f (xs_shared s') \<le> f (xs_shared s) + 1) (port_call (poller rid pid tok))"
    if "ad_poll_apply_continuation (ex_adapter ex) = Some poller" for poller rid pid tok
  proof (rule obeysI)
    fix s r s'
    assume "port_call (poller rid pid tok) s = (r, s')"
    then have "xs_shared s' = snd (poller rid pid tok (xs_shared s))" by (auto simp: port_call_def split: prod.splits)
    then show "f (xs_shared s') \<le> f (xs_shared s) + 1" using poll [OF that] by simp
  qed
  have "obeys (\<lambda>s s'. f (xs_shared s') \<le> f (xs_shared s) + (1 + 0)) (marking ex ctx eid is_unknown (port_call (poller rid pid tok)))"
    if "ad_poll_apply_continuation (ex_adapter ex) = Some poller" for poller rid pid tok
    unfolding marking_def
  proof (rule grow_bind)
    show "obeys (\<lambda>s s'. f (xs_shared s') \<le> f (xs_shared s) + 1) (eattempt (port_call (poller rid pid tok)))"
      by (rule obeysI) (auto simp: eattempt_def dest: obeysD [OF one [OF that]] split: prod.splits)
    show "obeys (\<lambda>s s'. f (xs_shared s') \<le> f (xs_shared s) + 0) (case x of Inr x \<Rightarrow> eret x
      | Inl e \<Rightarrow> if is_unknown e then ebind (mark_effect_unknown ex ctx (Some eid)) (\<lambda>_. eraise e) else eraise e)" for x
      by (rule grows) (intro po.sum_rule po.if_rule po.bind po.ret po.raise po_calls store interfere)
  qed
  then have "obeys (\<lambda>s s'. f (xs_shared s') \<le> f (xs_shared s) + ((1 + 0) + (0 + n))) (ebind
      (marking ex ctx eid is_unknown (port_call (poller rid pid tok)))
      (\<lambda>b. ebind (note_token ex ctx eid b) (\<lambda>_. poll_continuations ex ctx request eid n b)))"
    if "ad_poll_apply_continuation (ex_adapter ex) = Some poller" for poller rid pid tok
    using that by (intro grow_bind grows [OF po_calls(2)] store interfere Suc.IH)
  moreover have "obeys (\<lambda>s s'. f (xs_shared s') \<le> f (xs_shared s) + Suc n) (eret a)"
    "\<And>e. obeys (\<lambda>s s'. f (xs_shared s') \<le> f (xs_shared s) + Suc n) (eraise e :: apply_result exec)"
    by (auto intro!: obeysI simp: eret_def eraise_def)
  ultimately show ?case by (simp split: option.split)
qed

lemma poll_result:
  "poll_continuations ex ctx request eid n a s = (Inr b, s') \<Longrightarrow> \<not> apply_continued b"
proof (induction n arbitrary: a s)
  case 0
  then show ?case by (auto simp: eret_def eraise_def split: if_splits)
next
  case (Suc n)
  then show ?case by (auto simp: eret_def eraise_def split: if_splits option.splits elim!: ebind_InrE)
qed

section \<open>Properties of all runs\<close>

text \<open>
  C3: At most one dispatch per plan. Over any sequence of runs of the handler on a router, by any
  workers, with any answers of the router, crashes between steps and repeated attempts, resumes and
  compensations, \<open>apply_plan\<close> is called at most once for a plan, and a plan for which it was called
  has its journaled effect \<open>apply:<plan>\<close>.
\<close>

theorem plan_applied_at_most_once:
  assumes "reach (\<lambda>sh. sh_applied sh = []) (router_step r) sh"
  shows "count_list (sh_applied sh) (r, p) \<le> 1 \<and>
    ((r, p) \<in> set (sh_applied sh) \<longrightarrow>
       (\<exists>e \<in> set (external_effects (xd_db (sh_store sh))). e_router_id e = r \<and> e_effect_key e = ''apply:'' @ p))"
proof -
  have once: "applied_once r sh" by (rule runs.reach_inv [OF assms])
  then have count: "count_list (applied_on r sh) (r, p) \<le> 1"
    by (simp add: applied_once_def distinct_count_list_one)
  have "(r, p) \<in> set (sh_applied sh) \<Longrightarrow> ''apply:'' @ p \<in> effect_keys r (xd_db (sh_store sh))"
    using once by (simp add: applied_once_def applied_on_def)
  then have "(r, p) \<in> set (sh_applied sh) \<longrightarrow>
      (\<exists>e \<in> set (external_effects (xd_db (sh_store sh))). e_router_id e = r \<and> e_effect_key e = ''apply:'' @ p)"
    unfolding effect_keys_def by force
  with count show ?thesis by (simp add: applied_on_def count_applied_on)
qed

theorem plan_applied_at_most_once_witness:
  "count_list (sh_applied (xs_shared (snd (fake_simulate (demo_executor demo_applied) demo_ctx
     (demo_start (demo_shared None False)))))) (''r1'', ''p1'') \<le> 1"
proof (rule plan_applied_at_most_once [THEN conjunct1])
  show "reach (\<lambda>sh. sh_applied sh = []) (router_step ''r1'') (xs_shared (snd (fake_simulate
      (demo_executor demo_applied) demo_ctx (demo_start (demo_shared None False)))))"
  proof (rule reach_step)
    show "reach (\<lambda>sh. sh_applied sh = []) (router_step ''r1'') (demo_shared None False)"
      by (rule reach_init) (simp add: demo_shared_def)
    show "router_step ''r1'' (demo_shared None False) (xs_shared (snd (fake_simulate
        (demo_executor demo_applied) demo_ctx (demo_start (demo_shared None False)))))"
      unfolding demo_start_def
      by (rule router_step.run [where ctx = demo_ctx, OF demo_calm _ prod.collapse [symmetric]]) (simp add: demo_ctx_def)
  qed
qed

text \<open>
  C5: A failure is honest. When the handler answers \<open>Failed\<close> or \<open>Cancelled\<close> and has not lost its
  lease, \<open>apply_plan\<close> was not called in the run: whatever the router, the publisher or the store
  raised after the call, the answer is \<open>RecoveryRequired\<close>.
\<close>

theorem failed_run_applied_nothing:
  assumes "calm (wx_router_id ctx) ex" and "fake_simulate ex ctx s = (Inr hr, s')"
    and "hr_status hr \<in> {Failed, Cancelled}" and "hr_summary hr \<noteq> ''lease lost during handler''"
  shows "applied_on (wx_router_id ctx) (xs_shared s') = applied_on (wx_router_id ctx) (xs_shared s)"
  using fake_simulate_honest [OF assms(1)] assms(2-4) unfolding honest_answer_def by blast

theorem failed_run_applied_nothing_witness:
  "applied_on ''r1'' (xs_shared (snd (fake_simulate (demo_executor demo_applied) demo_ctx
     (demo_start (demo_shared None True))))) = []"
proof -
  let ?run = "fake_simulate (demo_executor demo_applied) demo_ctx (demo_start (demo_shared None True))"
  have run: "fst ?run = Inr \<lparr>hr_status = Cancelled, hr_summary = ''cancelled before simulate'', hr_http_status = None,
      hr_response_body = None, hr_aggregate_status = None\<rparr>" by code_simp
  have "applied_on (wx_router_id demo_ctx) (xs_shared (snd ?run)) =
      applied_on (wx_router_id demo_ctx) (xs_shared (demo_start (demo_shared None True)))"
    by (rule failed_run_applied_nothing [where ex = "demo_executor demo_applied", OF demo_calm])
      (subst run [symmetric], simp_all)
  then show ?thesis by (simp add: demo_ctx_def demo_start_def demo_shared_def applied_on_def)
qed

text \<open>
  C18: Recovery never applies. Neither resuming an interrupted apply after its read-back nor
  compensating it calls \<open>apply_plan\<close>.
\<close>

theorem recovery_applies_nothing:
  assumes "calm (wx_router_id ctx) ex"
    and "execute_resume ex ctx payload s = (res, s') \<or> execute_compensate ex ctx payload s = (res, s')"
  shows "applied_on (wx_router_id ctx) (xs_shared s') = applied_on (wx_router_id ctx) (xs_shared s)"
  using assms(2) quiet_applied [OF quietD [OF qr.execute_resume [OF assms(1)]]]
    quiet_applied [OF quietD [OF qr.execute_compensate [OF assms(1)]]] by blast

theorem recovery_applies_nothing_witness:
  "applied_on ''r1'' (xs_shared (snd (execute_resume (demo_executor demo_applied) demo_ctx [(''plan_id'', JStr ''p1'')]
     (demo_start (demo_shared None False))))) = []"
proof -
  let ?run = "execute_resume (demo_executor demo_applied) demo_ctx [(''plan_id'', JStr ''p1'')] (demo_start (demo_shared None False))"
  have "applied_on (wx_router_id demo_ctx) (xs_shared (snd ?run)) =
      applied_on (wx_router_id demo_ctx) (xs_shared (demo_start (demo_shared None False)))"
    by (rule recovery_applies_nothing [OF demo_calm disjI1 [OF prod.collapse [symmetric]]])
  then show ?thesis by (simp add: demo_ctx_def demo_start_def demo_shared_def applied_on_def)
qed



section \<open>Plans that are bound to a session\<close>

text \<open>
  C23: A plan that is bound to a session is never finalised as passed after its read-back. The step
  \<open>READ_BACK\<close> moves the effect of the run to \<open>ObservedApplied\<close>, while the finalisation that
  \<open>VERIFY\<close> calls for such a plan demands \<open>Acknowledged\<close>, so that it fails for every such plan
  that has not drifted and has no report yet.
\<close>

theorem bound_plan_never_finalized:
  assumes "calm r ex" and "read_back_step ex ctx request s = (Inr (), s1)"
    and "sc_effect_id (xs_step s) = Some eid" and "eid \<noteq> []"
    and "get_external_effect (xd_db (sh_store (xs_shared s1))) eid = Some e" and "e_router_id e = r"
    and "unmoved r (xs_shared s1) sh" and "vq_effect_id q = Some eid"
    and "get_plan_verify_report (sh_store sh) (vq_plan_id q) (vq_job_id q) = None"
  shows "finalize_verify_success fresh env q (sh_store sh) \<noteq> Inr (''pass'', x)"
proof
  assume fin: "finalize_verify_success fresh env q (sh_store sh) = Inr (''pass'', x)"
  obtain rb s0 where rb: "read_back ex request s = (Inr rb, s0)"
    and moved: "transition_effect ex ctx eid Eff_ObservedApplied ''read-back observed applied''
      (s0\<lparr>xs_step := (xs_step s0)\<lparr>sc_read_back := Some rb\<rparr>\<rparr>) = (Inr (), s1)"
    using assms(2-4) unfolding read_back_step_def
    by (elim ebind_InrE) (auto simp: set_step_def read_back_def port_call_def eraise_def ebind_def truthy_str_def get_step_def
      split: prod.splits if_splits)
  have "e_current_state e = Eff_ObservedApplied"
    using observed_after_transition [OF moved assms(5)] .
  then have "get_external_effect (xd_db (sh_store sh)) eid = Some e" using assms(5-7) by (simp add: unmoved_def)
  with fin assms(4,8,9) \<open>e_current_state e = Eff_ObservedApplied\<close> show False
    by (auto simp: finalize_verify_success_def verify_writes_def verify_effect_ready_def Let_def result_simps
        split: option.splits if_splits)
qed

definition demo_acknowledged :: xstate where
  "demo_acknowledged = (demo_start (demo_shared (Some ''hm'') False))\<lparr>
     xs_step := new_step_ctx\<lparr>sc_effect_id := Some ''fx1''\<rparr>,
     xs_shared := (demo_shared (Some ''hm'') False)\<lparr>sh_store := with_db (sh_store (demo_shared (Some ''hm'') False))
       ((demo_base False)\<lparr>external_effects := [\<lparr>e_effect_id = ''fx1'', e_router_id = ''r1'', e_operation_id = Some ''op1'',
         e_job_id = Some ''j1'', e_effect_key = ''apply:p1'', e_current_state = Eff_Acknowledged, e_created_at = 11,
         e_updated_at = 12\<rparr>]\<rparr>)\<rparr>\<rparr>"

definition demo_request :: provisioning_bundle where
  "demo_request = \<lparr>pb_router_id = ''r1'',
     pb_expected_identity = \<lparr>ri_router_id = ''r1'', ri_vendor = ''Netcraze'', ri_model = ''NC-1812'', ri_fingerprint_digest = ''fp''\<rparr>,
     pb_desired_revision = stub_desired ''r1'', pb_plan = (stub_plan ''r1'')\<lparr>cp_plan_id := ''p1''\<rparr>,
     pb_managed_resources = [], pb_operation_id = ''op1'', pb_confirmed = True, pb_conflicting_unmanaged_locators = []\<rparr>"

definition demo_read_back :: "(exec_exc + unit) \<times> xstate" where
  "demo_read_back = read_back_step (demo_executor demo_applied) demo_ctx demo_request demo_acknowledged"

definition demo_finalize :: verify_request where
  "demo_finalize = \<lparr>vq_plan_id = ''p1'', vq_job_id = ''j1'', vq_lease_owner = ''w1'', vq_effect_id = Some ''fx1'',
     vq_identity_fingerprint = ''fp'', vq_resource_version = ''rv2'', vq_state_digest = ''st2'', vq_verify_digest = ''vd'',
     vq_checks_json = ''{}'', vq_revision_id = ''v1'', vq_router_id = ''r1''\<rparr>"

theorem bound_plan_never_finalized_witness:
  "finalize_verify_success (\<lambda>_ _ _. Inr ()) (demo_env 30 ''z'') demo_finalize (sh_store (xs_shared (snd demo_read_back)))
     \<noteq> Inr (''pass'', sh_store (xs_shared (snd demo_read_back)))"
proof -
  have fst: "fst demo_read_back = Inr ()" by code_simp
  have "map_option e_router_id (get_external_effect (xd_db (sh_store (xs_shared (snd demo_read_back)))) ''fx1'') = Some ''r1''"
    by code_simp
  then obtain e where e: "get_external_effect (xd_db (sh_store (xs_shared (snd demo_read_back)))) ''fx1'' = Some e"
    "e_router_id e = ''r1''" by blast
  have none: "get_plan_verify_report (sh_store (xs_shared (snd demo_read_back))) ''p1'' ''j1'' = None" by code_simp
  show ?thesis
  proof (rule bound_plan_never_finalized [OF demo_calm])
    show "read_back_step (demo_executor demo_applied) demo_ctx demo_request demo_acknowledged = (Inr (), snd demo_read_back)"
      using fst by (simp add: demo_read_back_def prod_eq_iff)
  qed (use e none in \<open>simp_all add: demo_acknowledged_def demo_finalize_def\<close>)
qed

section \<open>Polling\<close>

text \<open>
  C22: The poll loop ends. However the router answers, the continuation of an apply is polled at most seven
  times, and the loop returns only an answer that is not continued. (\<open>f\<close> measures the state by the
  polls of the router: no store call and no interference changes it, a poll adds at most one.)
\<close>

theorem polls_bounded:
  assumes "\<And>sh x. f (sh\<lparr>sh_store := x\<rparr>) = f sh" and "\<And>n sh. f (ex_interfere ex n sh) = f sh"
    and "\<And>poller rid pid tok sh. ad_poll_apply_continuation (ex_adapter ex) = Some poller \<Longrightarrow>
      f (snd (poller rid pid tok sh)) \<le> Suc (f sh)"
    and "poll_apply_continuations ex ctx request eid a s = (res, s')"
  shows "f (xs_shared s') \<le> f (xs_shared s) + 7 \<and> (\<forall>b. res = Inr b \<longrightarrow> \<not> apply_continued b)"
proof
  have "obeys (\<lambda>s s'. f (xs_shared s') \<le> f (xs_shared s) + 7) (poll_continuations ex ctx request eid 7 a)"
    by (rule polls_grow [where f = f and ex = ex]) (use assms(1-3) in simp_all)
  then show "f (xs_shared s') \<le> f (xs_shared s) + 7"
    using assms(4) by (auto simp: poll_apply_continuations_def max_apply_continuations_def dest: obeysD)
  show "\<forall>b. res = Inr b \<longrightarrow> \<not> apply_continued b"
    using poll_result assms(4) unfolding poll_apply_continuations_def by blast
qed

definition endless :: apply_result where
  "endless = \<lparr>ar_plan_id = ''p1'', ar_outcome_digest = ''od'', ar_continued = True, ar_continuation_token = Some ''t''\<rparr>"

definition endless_executor :: executor where
  "endless_executor = (demo_executor (Inr endless))\<lparr>ex_adapter := (demo_adapter (Inr endless))\<lparr>
     ad_poll_apply_continuation := Some (\<lambda>rid pid tok sh. (Inr endless, sh\<lparr>sh_applied := (rid, tok) # sh_applied sh\<rparr>))\<rparr>\<rparr>"

theorem polls_bounded_witness:
  "length (sh_applied (xs_shared (snd (poll_apply_continuations endless_executor demo_ctx demo_request ''fx1'' endless
     demo_acknowledged)))) \<le> 7"
proof -
  have "length (sh_applied (xs_shared (snd (poll_apply_continuations endless_executor demo_ctx demo_request ''fx1'' endless
      demo_acknowledged)))) \<le> length (sh_applied (xs_shared demo_acknowledged)) + 7"
    by (rule polls_bounded [where f = "\<lambda>sh. length (sh_applied sh)" and ex = endless_executor, THEN conjunct1,
          OF _ _ _ prod.collapse [symmetric]])
      (auto simp: endless_executor_def demo_executor_def)
  then show ?thesis by (simp add: demo_acknowledged_def demo_shared_def)
qed

end
