(* ===== verification/Spec2Isabelle.thy ===== *)
theory Spec2Isabelle
  imports Queue_Protocol Effect_Journal Recovery_Store Sealed_Trail Worker_Refinement Executor_Properties
begin

text \<open>
  Verification of the durable core of the router control plane: the part of \<open>src/router_control\<close> that
  decides which worker may touch which router, what is written down before and after a router is
  touched, and what may be done again after a crash.

  \<^bold>\<open>The program.\<close> All durable state is one SQLite database behind \<open>PersistenceStore\<close>
  (\<open>persistence/store.py\<close>); every public method is one \<open>BEGIN IMMEDIATE\<close> transaction. API calls queue a
  job with its operation and idempotency record; a \<open>DurableWorker\<close> (\<open>application/worker.py\<close>) claims the
  oldest claimable job under a lease, takes the execution fence of the router, runs the handler of
  the job's kind under a heartbeat and completes the job. Recovery passes close jobs whose lease has
  expired. External effects on a router are journaled, applies leave a trail of operations, and
  everything written is redacted and bounded first.

  \<^bold>\<open>How code becomes definitions.\<close> A table is a list of records in insertion order, with the key,
  foreign-key and CHECK constraints of \<open>persistence/migrations.py\<close> as the failing branches of its
  insert (\<open>Store_Schema\<close>); a transaction is a function \<open>db \<Rightarrow> store_error + 'a \<times> db\<close>, so that a raise leaves
  the database alone. Clock readings and fresh identifiers come in through \<open>call_env\<close>. Texts that the
  code writes and reads back are character lists, and \<open>json.dumps\<close> and \<open>json.loads\<close> are modelled on them.
  Python integers are \<open>int\<close>, seconds of sleeps and back-offs are exact rationals.

  \<^bold>\<open>Theories.\<close>
  \<^item> \<open>RC_Prelude\<close>: results, SQL updates and look-ups on lists, JSON values, Python string helpers,
    the locales \<open>invariant_system\<close> and \<open>life_cycle\<close> for transition systems.
  \<^item> \<open>Domain_Model\<close>, \<open>Domain_Policies\<close>: \<open>domain/enums.py\<close>, \<open>domain/commissioning.py\<close> (state machine),
    \<open>domain/entities.py\<close>, \<open>domain/ids.py\<close>, \<open>domain/policies.py\<close>; \<open>life_cycle\<close> is interpreted on the effect and
    the commissioning states.
  \<^item> \<open>Store_Schema\<close>, \<open>Registry_Store\<close>: rows, constraints, lease guards; \<open>create_site\<close>, \<open>enroll_router\<close>.
  \<^item> \<open>Fence_Store\<close>: the execution fences, and the refinement of an abstract lease table (locale
    \<open>lease_table\<close>).
  \<^item> \<open>Operation_Store\<close>: \<open>create_operation_bundle\<close> with idempotent replay (locale \<open>idempotent_command\<close>,
    which \<open>Recovery_Store\<close> interprets for recovery requests too).
  \<^item> \<open>Job_Store\<close>, \<open>Job_Invariants\<close>, \<open>Queue_Protocol\<close>: claim, heartbeat, progress, completion,
    cancellation, lease recovery and resume; what each keeps; the system of all interleavings of
    workers, API callers and recovery passes (\<open>sys_step\<close>).
  \<^item> \<open>Effect_Journal\<close>: the event-sourced journal of external effects.
  \<^item> \<open>Recovery_Store\<close>: recovery requests, boot observations, \<open>application/recovery.py\<close>'s classification.
  \<^item> \<open>Json_Text\<close>: printer and reader of JSON, with the round trip.
  \<^item> \<open>Sanitize\<close>: recursive redaction and terminal clean-up of \<open>adapters/netcraze/sanitize.py\<close> (locale
    \<open>redaction\<close>, interpreted on both walks).
  \<^item> \<open>Trail_Documents\<close>: safety payloads and the bounded documents of the trail.
  \<^item> \<open>Sealed_Apply\<close>, \<open>Sealed_Trail\<close>: \<open>sealed_apply_runs\<close> with its operations, the handle of an apply, the
    sleep that renews its lease; what the trail guarantees over all interleavings.
  \<^item> \<open>Worker\<close>, \<open>Worker_Refinement\<close>: the worker's own code, and its refinement of \<open>Queue_Protocol\<close>.
  \<^item> \<open>Plan_Store\<close>: observations, desired revisions under \<open>If-Match\<close>, plans and their confirmation.
  \<^item> \<open>Verify_Store\<close>: safety sessions, evidence, and the bundle that closes a verification.
  \<^item> \<open>Mutation_Executor\<close>: \<open>application/mutation_executor.py\<close>, the checkpointed chain of an apply, its single
    dispatch, resume and compensation, and the handler \<open>fake_simulate\<close> that runs it.
  \<^item> \<open>Executor_Safety\<close>: relations that every run obeys (locales \<open>step_relation\<close> and \<open>run_relation\<close>, the
    latter a \<open>sublocale\<close> of the former), for any router and any interference by other processes that
    leaves the effects of the router alone (\<open>calm\<close>). \<open>Executor_Gates\<close>: what the steps before the
    dispatch have seen. \<open>Executor_Demo\<close>: a concrete router and plan. \<open>Executor_Properties\<close>: the results.

  \<^bold>\<open>What is shown.\<close> Exclusion and fencing: at most one active mutation job per router, stale workers
  are shut out, fences are exclusive, every worker poll is a run of the protocol. Durability: no job
  with a dispatched step is queued again or reported as failed, the trail and the journal only grow
  and agree with their summaries, closed jobs and final effects never change. Idempotency: a key
  binds one digest, replays return the stored answer. Applies: a plan is sent to its router at most once
  over all runs, only through open gates, never by recovery, and a run that reports a failure sent
  nothing. Revisions: they form one chain, and a stale writer is refused. Queue order: the paged claim is first in, first
  out. Documents: round trips, bounds, redaction. Errors: which exception each failure raises.

  \<^bold>\<open>Termination.\<close> \<open>claim_scan\<close> has a measure (rows behind the cursor, then the one rescan); the reader
  of JSON has fuel \<open>2 * length + 2\<close>, which \<open>parse_fuel\<close> proves enough for every text; \<open>trim_document\<close>
  shrinks the document, \<open>strip_erase\<close> the line, and \<open>sleep_loop\<close> the rest of the sleep by at least one
  second per round; an apply is polled at most seven times. The worker's main loop is modelled by its rounds.

  \<^bold>\<open>Parameters.\<close> The digest function, the scrubbing of single evidence values, the redaction of device
  acknowledgements, the order of boot observations of the same second, the handlers of jobs, the
  freshness of deployment plans and everything the router does (the record \<open>adapter\<close> of the executor)
  are arguments of the definitions that use them.

  \<^bold>\<open>Not modelled.\<close> SQLite being busy and losing a process in the middle of a transaction (a
  transaction happens or does not); operating system mutexes and threads (a handler, its heartbeat and
  all other processes are one arbitrary state change while it runs); the commissioning store and
  service, the plans of the deployment model, credentials, artifacts, presets and their intents; the
  planners and apply services of the single router features; the adapters beyond redaction, which
  are router I/O; the HTTP host, the migration runner and the scripts.

  \<^bold>\<open>Plan.\<close> Next are the zone invariants of preset documents, the plans of the deployment model with their
  freshness, the two-phase commissioning assessment, artifact staging and standing preferences.
\<close>

end
